(* ===== verification/Prelude.thy ===== *)
theory Prelude
  imports Main "HOL-Library.Word" "HOL-Library.Monad_Syntax"
begin

text \<open>
  Shared vocabulary of the development: the machine integers of the 32-bit ARM
  build (\<open>u8\<close>, \<open>u16\<close>, \<open>u32\<close>, \<open>u64\<close>), a byte addressed memory with
  little-endian loads and stores, the error numbers of
  \<open>include/amlnf_dev.h\<close> and of the kernel, and the generic rules that the
  component theories use.

  A routine of the driver is a function from a state to
  \<open>('a \<times> state) option\<close>: \<open>None\<close> stands for a call that does not come back
  (a \<open>BUG()\<close> trap or a wait loop that never ends), \<open>Some (r, s)\<close> for a call
  that returns \<open>r\<close> in the state \<open>s\<close>.
\<close>

unbundle bit_operations_syntax

named_theorems wp_rules \<open>rules that step a framed run through one construct\<close>

named_theorems mem_simps \<open>loads after stores\<close>

named_theorems c_consts \<open>values of the C constants\<close>

type_synonym u8 = "8 word"

type_synonym u16 = "16 word"

type_synonym u32 = "32 word"

type_synonym u64 = "64 word"

type_synonym ptr = nat

type_synonym memory = "nat \<Rightarrow> u8"

section \<open>Error numbers\<close>

abbreviation (input) NULL :: ptr where "NULL \<equiv> 0"

definition NAND_SUCCESS :: int where [c_consts]: "NAND_SUCCESS = 0"

definition NAND_CMD_FAILURE :: int where [c_consts]: "NAND_CMD_FAILURE = 1"

definition NAND_BUSY_FAILURE :: int where [c_consts]: "NAND_BUSY_FAILURE = 2"

definition NAND_ID_FAILURE :: int where [c_consts]: "NAND_ID_FAILURE = 3"

definition NAND_DMA_FAILURE :: int where [c_consts]: "NAND_DMA_FAILURE = 4"

definition NAND_ECC_FAILURE :: int where [c_consts]: "NAND_ECC_FAILURE = 5"

definition NAND_MALLOC_FAILURE :: int where [c_consts]: "NAND_MALLOC_FAILURE = 7"

definition NAND_ARGUMENT_FAILURE :: int where [c_consts]: "NAND_ARGUMENT_FAILURE = 8"

definition NAND_STATUS_FAILURE :: int where [c_consts]: "NAND_STATUS_FAILURE = 9"

definition NAND_WP_FAILURE :: int where [c_consts]: "NAND_WP_FAILURE = 10"

definition NAND_SELECT_CHIP_FAILURE :: int where [c_consts]: "NAND_SELECT_CHIP_FAILURE = 12"

definition NAND_ERASE_FAILED :: int where [c_consts]: "NAND_ERASE_FAILED = 13"

definition NAND_WRITE_FAILED :: int where [c_consts]: "NAND_WRITE_FAILED = 14"

definition NAND_FAILED :: int where [c_consts]: "NAND_FAILED = 15"

definition NAND_READ_FAILED :: int where [c_consts]: "NAND_READ_FAILED = 16"

definition NAND_BAD_BLCOK_FAILURE :: int where [c_consts]: "NAND_BAD_BLCOK_FAILURE = 17"

definition NAND_SHIPPED_BAD_FAILURE :: int where [c_consts]: "NAND_SHIPPED_BAD_FAILURE = 18"

definition EPERM :: int where [c_consts]: "EPERM = 1"

definition EIO :: int where [c_consts]: "EIO = 5"

definition ENXIO :: int where [c_consts]: "ENXIO = 6"

definition ENOMEM :: int where [c_consts]: "ENOMEM = 12"

definition EFAULT :: int where [c_consts]: "EFAULT = 14"

definition EBUSY :: int where [c_consts]: "EBUSY = 16"

definition ENODEV :: int where [c_consts]: "ENODEV = 19"

definition EINVAL :: int where [c_consts]: "EINVAL = 22"

definition EROFS :: int where [c_consts]: "EROFS = 30"

definition EBADMSG :: int where [c_consts]: "EBADMSG = 74"

definition EUCLEAN :: int where [c_consts]: "EUCLEAN = 117"

section \<open>Memory\<close>

definition ld16 :: "memory \<Rightarrow> ptr \<Rightarrow> u16" where
  "ld16 m a = ucast (m a) OR push_bit 8 (ucast (m (a + 1)))"

definition st16 :: "ptr \<Rightarrow> u16 \<Rightarrow> memory \<Rightarrow> memory" where
  "st16 a v m = m(a := ucast v, a + 1 := ucast (drop_bit 8 v))"

definition ld32 :: "memory \<Rightarrow> ptr \<Rightarrow> u32" where
  "ld32 m a = ucast (m a) OR push_bit 8 (ucast (m (a + 1)))
     OR push_bit 16 (ucast (m (a + 2))) OR push_bit 24 (ucast (m (a + 3)))"

definition st32 :: "ptr \<Rightarrow> u32 \<Rightarrow> memory \<Rightarrow> memory" where
  "st32 a v m = m(a := ucast v, a + 1 := ucast (drop_bit 8 v),
     a + 2 := ucast (drop_bit 16 v), a + 3 := ucast (drop_bit 24 v))"

definition memcpy :: "ptr \<Rightarrow> ptr \<Rightarrow> nat \<Rightarrow> memory \<Rightarrow> memory" where
  "memcpy d s n m = (\<lambda>a. if d \<le> a \<and> a < d + n then m (s + (a - d)) else m a)"

definition memset :: "ptr \<Rightarrow> u8 \<Rightarrow> nat \<Rightarrow> memory \<Rightarrow> memory" where
  "memset d v n m = (\<lambda>a. if d \<le> a \<and> a < d + n then v else m a)"

definition mem_bytes :: "memory \<Rightarrow> ptr \<Rightarrow> nat \<Rightarrow> u8 list" where
  "mem_bytes m a n = map (\<lambda>i. m (a + i)) [0..<n]"

lemma ld16_st16 [simp, mem_simps]: "ld16 (st16 a v m) a = v"
  unfolding ld16_def st16_def
  by (rule bit_word_eqI) (auto simp: bit_simps)

lemma ld16_st16_other [mem_simps]:
  "b + 2 \<le> a \<or> a + 2 \<le> b \<Longrightarrow> ld16 (st16 a v m) b = ld16 m b"
  by (auto simp: ld16_def st16_def)

lemma bit_ld32:
  "bit (ld32 m a) n \<longleftrightarrow>
     n < 8 \<and> bit (m a) n \<or> 8 \<le> n \<and> n < 16 \<and> bit (m (a + 1)) (n - 8) \<or>
     16 \<le> n \<and> n < 24 \<and> bit (m (a + 2)) (n - 16) \<or>
     24 \<le> n \<and> n < 32 \<and> bit (m (a + 3)) (n - 24)"
  unfolding ld32_def by (auto simp: bit_simps dest: bit_imp_le_length)

lemma ld32_st32 [simp, mem_simps]: "ld32 (st32 a v m) a = v"
proof (rule bit_word_eqI)
  fix n
  assume "n < LENGTH(32)"
  then consider "n < 8" | "8 \<le> n" "n < 16" | "16 \<le> n" "n < 24" | "24 \<le> n" "n < 32"
    by force
  then show "bit (ld32 (st32 a v m) a) n = bit v n"
    by cases (auto simp: bit_ld32 st32_def bit_simps)
qed

lemma ld32_st32_other [mem_simps]:
  "b + 4 \<le> a \<or> a + 4 \<le> b \<Longrightarrow> ld32 (st32 a v m) b = ld32 m b"
  by (auto simp: ld32_def st32_def)

lemma ld32_byte0: "ucast (ld32 m a) = m a"
  by (rule bit_word_eqI) (simp add: bit_ld32 bit_simps)

lemma ld32_byte1: "ucast (drop_bit 8 (ld32 m a)) = m (a + 1)"
  by (rule bit_word_eqI) (simp add: bit_ld32 bit_simps)

lemma length_mem_bytes [simp]: "length (mem_bytes m a n) = n"
  by (simp add: mem_bytes_def)

lemma memset_in [simp, mem_simps]: "d \<le> a \<Longrightarrow> a < d + n \<Longrightarrow> memset d v n m a = v"
  by (simp add: memset_def)

lemma memset_out [simp, mem_simps]: "a < d \<or> d + n \<le> a \<Longrightarrow> memset d v n m a = m a"
  by (auto simp: memset_def)

lemma memcpy_in [simp, mem_simps]:
  "d \<le> a \<Longrightarrow> a < d + n \<Longrightarrow> memcpy d s n m a = m (s + (a - d))"
  by (simp add: memcpy_def)

lemma memcpy_out [simp, mem_simps]: "a < d \<or> d + n \<le> a \<Longrightarrow> memcpy d s n m a = m a"
  by (auto simp: memcpy_def)

section \<open>Words\<close>

definition has :: "'a::len word \<Rightarrow> 'a word \<Rightarrow> bool" where
  "has w f \<longleftrightarrow> w AND f \<noteq> 0"

fun ffs_from :: "nat \<Rightarrow> nat \<Rightarrow> u32 \<Rightarrow> nat" where
  "ffs_from 0 i w = 0"
| "ffs_from (Suc k) i w = (if bit w i then i + 1 else ffs_from k (i + 1) w)"

definition ffs :: "u32 \<Rightarrow> nat" where
  "ffs w = ffs_from 32 0 w"

lemma unat_ucast_up [simp]:
  fixes w :: "'a::len word"
  assumes "LENGTH('a) \<le> LENGTH('b::len)"
  shows "unat (ucast w :: 'b word) = unat w"
proof -
  have "unat w < 2 ^ LENGTH('a)"
    by (rule unsigned_less)
  also have "(2 :: nat) ^ LENGTH('a) \<le> 2 ^ LENGTH('b)"
    using assms by (rule power_increasing) simp
  finally show ?thesis
    by (simp add: unsigned_ucast_eq take_bit_nat_eq_self_iff)
qed

lemma unat_of_nat_small [simp]: "n < 2 ^ LENGTH('a) \<Longrightarrow> unat (of_nat n :: 'a::len word) = n"
  by (simp add: unsigned_of_nat take_bit_nat_eq_self_iff)

lemma unat_trunc: "unat w < 2 ^ LENGTH('b) \<Longrightarrow> unat (ucast (w :: 'a::len word) :: 'b::len word) = unat w"
  by (simp add: unsigned_ucast_eq take_bit_nat_eq_self_iff)

lemma unat_of_nat_mult:
  fixes w :: "'a::len word"
  assumes "m * unat w < 2 ^ LENGTH('a)"
  shows "unat (of_nat m * w) = m * unat w"
  using assms by (simp add: unat_word_ariths unsigned_of_nat take_bit_eq_mod mod_mult_left_eq)

lemma ffs_from_power: "i \<le> j \<Longrightarrow> j < i + k \<Longrightarrow> j < 32 \<Longrightarrow> ffs_from k i (2 ^ j) = j + 1"
  by (induction k arbitrary: i) (auto simp: bit_exp_iff le_Suc_eq not_less_eq_eq Suc_le_eq)

lemma ffs_power: "j < 32 \<Longrightarrow> ffs (2 ^ j) = j + 1"
  by (simp add: ffs_def ffs_from_power)

section \<open>Runs\<close>

text \<open>
  A run is framed by a relation \<open>R\<close> when every state it can return in is
  related to the state \<open>s\<close> it is observed from.
\<close>

definition framed :: "('s \<Rightarrow> 's \<Rightarrow> bool) \<Rightarrow> 's \<Rightarrow> ('a \<times> 's) option \<Rightarrow> bool" where
  "framed R s x \<longleftrightarrow> (\<forall>r t. x = Some (r, t) \<longrightarrow> R s t)"

lemma framed_None [wp_rules]: "framed R s None"
  by (simp add: framed_def)

lemma framed_Some [wp_rules]: "R s t \<Longrightarrow> framed R s (Some (r, t))"
  by (simp add: framed_def)

lemma framed_bind [wp_rules]:
  assumes "framed R s x" "\<And>r t. R s t \<Longrightarrow> framed R s (f (r, t))"
  shows "framed R s (x \<bind> f)"
  using assms by (auto simp: framed_def bind_eq_Some_conv)

lemma framed_if [wp_rules]:
  assumes "b \<Longrightarrow> framed R s x" "\<not> b \<Longrightarrow> framed R s y"
  shows "framed R s (if b then x else y)"
  using assms by simp

lemma framedD: "framed R s x \<Longrightarrow> x = Some (r, t) \<Longrightarrow> R s t"
  by (simp add: framed_def)

locale frame =
  fixes R :: "'s \<Rightarrow> 's \<Rightarrow> bool"
  assumes refl: "R s s"
    and trans: "R s t \<Longrightarrow> R t u \<Longrightarrow> R s u"
begin

lemma framed_call: "R s t \<Longrightarrow> framed R t x \<Longrightarrow> framed R s x"
  using trans by (fastforce simp: framed_def)

lemma framed_same: "framed R s (Some (r, s))"
  using refl by (simp add: framed_def)

end

end
