(* ===== verification/Guard.thy ===== *)
theory Guard
  imports Prelude
begin

text \<open>
  \<open>nfc_map.c\<close>: the module parameters that guard the flash, the selection of
  the partitions that get an FTL, the counter of refused writes and the mapping
  of the controller registers and clocks at probe time.  The platform services
  (\<open>ioremap\<close>, \<open>devm_clk_get\<close>, \<open>clk_prepare_enable\<close>) are a parameter of type
  \<open>platform\<close>.
\<close>

section \<open>Write guard and partition selection\<close>

datatype klog = WarnRefused string u32 u32 | WarnSilent

record amlnf_guard =
  amlnf_readonly :: int
  amlnf_allow_markbad :: int
  amlnf_allow_meta :: int
  amlnf_use_cache :: int
  amlnf_parts :: string
  amlnf_refused :: u32
  klog :: "klog list"

definition guard_init :: amlnf_guard where
  "guard_init = \<lparr>amlnf_readonly = 1, amlnf_allow_markbad = 0, amlnf_allow_meta = 0,
     amlnf_use_cache = 0, amlnf_parts = ''nfcache'', amlnf_refused = 0, klog = []\<rparr>"

lemma dropWhile_shorter: "p \<noteq> [] \<Longrightarrow> length (dropWhile P p) - Suc 0 < length p"
  using length_dropWhile_le [of P p] by (cases p) auto

function part_scan :: "string \<Rightarrow> string \<Rightarrow> bool" where
  "part_scan name p =
     (if p = [] then False
      else let comma = dropWhile (\<lambda>c. c \<noteq> CHR '','') p;
               n = length (takeWhile (\<lambda>c. c \<noteq> CHR '','') p)
           in if n = length name \<and> take n p = take n name then True
              else if comma = [] then False
              else part_scan name (tl comma))"
  by pat_completeness auto
termination
  by (relation "measure (\<lambda>(name, p). length p)") (auto simp: dropWhile_shorter)

declare part_scan.simps [simp del]

definition amlnf_part_enabled :: "amlnf_guard \<Rightarrow> string option \<Rightarrow> bool" where
  "amlnf_part_enabled g name =
     (case name of None \<Rightarrow> False
      | Some nm \<Rightarrow> if amlnf_parts g = ''all'' then True else part_scan nm (amlnf_parts g))"

definition amlnf_refuse_write :: "string \<Rightarrow> u32 \<Rightarrow> amlnf_guard \<Rightarrow> amlnf_guard" where
  "amlnf_refuse_write what page g =
     (let n = amlnf_refused g + 1;
          g = g\<lparr>amlnf_refused := n\<rparr>
      in if sint n \<le> 8 then g\<lparr>klog := klog g @ [WarnRefused what page n]\<rparr>
         else if sint n = 9 then g\<lparr>klog := klog g @ [WarnSilent]\<rparr>
         else g)"

definition amlnf_refused_count :: "amlnf_guard \<Rightarrow> int" where
  "amlnf_refused_count g = sint (amlnf_refused g)"

section \<open>Mapping the registers and the clocks\<close>

datatype kptr = KNull | KErr int | KPtr nat

datatype clk_ev = ClkGet string | ClkEnable kptr | ClkSetRate kptr nat | ClkDisable kptr

record platform =
  pf_resource :: "nat option"
  pf_ioremap :: "nat \<Rightarrow> ptr"
  pf_of_node :: bool
  pf_of_iomap :: ptr
  pf_clk_get :: "clk_ev list \<Rightarrow> string \<Rightarrow> kptr"
  pf_clk_enable :: "clk_ev list \<Rightarrow> kptr \<Rightarrow> int"

record nfc_map =
  IO_NAND_BASE :: ptr
  amlnf_core_clk :: kptr
  amlnf_device_clk :: kptr
  clk_log :: "clk_ev list"

definition clk_get :: "platform \<Rightarrow> string \<Rightarrow> nfc_map \<Rightarrow> kptr \<times> nfc_map" where
  "clk_get pf nm s =
     (let l = ClkGet nm # clk_log s in (pf_clk_get pf l nm, s\<lparr>clk_log := l\<rparr>))"

definition clk_enable :: "platform \<Rightarrow> kptr \<Rightarrow> nfc_map \<Rightarrow> int \<times> nfc_map" where
  "clk_enable pf c s =
     (let l = ClkEnable c # clk_log s in (pf_clk_enable pf l c, s\<lparr>clk_log := l\<rparr>))"

definition map_regs :: "platform \<Rightarrow> nfc_map \<Rightarrow> int \<times> nfc_map" where
  "map_regs pf s =
     (if IO_NAND_BASE s \<noteq> NULL then (0, s)
      else let base = (case pf_resource pf of Some start \<Rightarrow> pf_ioremap pf start
                       | None \<Rightarrow> if pf_of_node pf then pf_of_iomap pf else NULL);
               s = s\<lparr>IO_NAND_BASE := base\<rparr>
           in if base = NULL then (- ENOMEM, s) else (0, s))"

definition map_clks :: "platform \<Rightarrow> nfc_map \<Rightarrow> int \<times> nfc_map" where
  "map_clks pf s =
     (if amlnf_core_clk s \<noteq> KNull then (0, s)
      else let (c, s) = clk_get pf ''core'' s; s = s\<lparr>amlnf_core_clk := c\<rparr>
           in case c of KErr e \<Rightarrow> (e, s)
              | _ \<Rightarrow> (let (d, s) = clk_get pf ''device'' s; s = s\<lparr>amlnf_device_clk := d\<rparr>
                     in case d of KErr e \<Rightarrow> (e, s)
                        | _ \<Rightarrow> (let (ret, s) = clk_enable pf c s
                               in if ret \<noteq> 0 then (ret, s)
                                  else let s = s\<lparr>clk_log := ClkSetRate d 200000000 # clk_log s\<rparr>;
                                           (ret, s) = clk_enable pf d s
                                       in if ret \<noteq> 0
                                          then (ret, s\<lparr>clk_log := ClkDisable c # clk_log s\<rparr>)
                                          else (0, s))))"

definition amlnf_map_nfc :: "platform \<Rightarrow> nfc_map \<Rightarrow> int \<times> nfc_map" where
  "amlnf_map_nfc pf s =
     (let (ret, s) = map_regs pf s in if ret \<noteq> 0 then (ret, s) else map_clks pf s)"

section \<open>Which partitions are enabled\<close>

definition csv_member :: "string \<Rightarrow> string \<Rightarrow> bool" where
  "csv_member name p \<longleftrightarrow> CHR '','' \<notin> set name \<and>
     (\<exists>pre post. p = pre @ name @ post \<and> (pre = [] \<or> last pre = CHR '','')
        \<and> (post = [] \<or> hd post = CHR '',''))"

lemma csv_head:
  assumes "p = tok @ rest" "CHR '','' \<notin> set tok" "rest = [] \<or> hd rest = CHR '',''"
  shows "takeWhile (\<lambda>c. c \<noteq> CHR '','') p = tok" "dropWhile (\<lambda>c. c \<noteq> CHR '','') p = rest"
  using assms by (cases rest; force simp: takeWhile_append dropWhile_append)+

lemma csv_prefix:
  assumes "tok @ rest = pre @ post" "CHR '','' \<notin> set tok" "pre \<noteq> []" "last pre = CHR '',''"
  shows "\<exists>pre'. pre = tok @ pre' \<and> pre' \<noteq> [] \<and> rest = pre' @ post \<and> last pre' = CHR '',''"
proof -
  have "CHR '','' \<in> set pre"
    using assms(3,4) last_in_set by metis
  then obtain pre' where "pre = tok @ pre'" "rest = pre' @ post"
    using assms(1,2) by (auto simp: append_eq_append_conv2)
  moreover have "pre' \<noteq> []"
    using \<open>CHR '','' \<in> set pre\<close> assms(2) calculation(1) by auto
  ultimately show ?thesis
    using assms(4) by auto
qed

lemma csv_member_later:
  assumes "csv_member name (tl rest)" "rest \<noteq> []" "hd rest = CHR '',''"
  shows "csv_member name (tok @ rest)"
proof -
  obtain pre post where e: "tl rest = pre @ name @ post" "pre = [] \<or> last pre = CHR '',''" "post = [] \<or> hd post = CHR '',''"
    and nm: "CHR '','' \<notin> set name"
    using assms(1) by (auto simp: csv_member_def)
  have "tok @ rest = (tok @ CHR '','' # pre) @ name @ post"
    using assms(2,3) e(1) by (cases rest) auto
  moreover have "last (tok @ CHR '','' # pre) = CHR '',''"
    using e(2) by auto
  ultimately show ?thesis
    using nm e(3) unfolding csv_member_def by blast
qed

lemma csv_member_step:
  assumes p: "p = tok @ rest" and tok: "CHR '','' \<notin> set tok"
    and rest: "rest = [] \<or> hd rest = CHR '',''" and nm: "CHR '','' \<notin> set name"
  shows "csv_member name p \<longleftrightarrow> tok = name \<or> rest \<noteq> [] \<and> csv_member name (tl rest)"
proof
  assume "csv_member name p"
  then obtain pre post where e: "p = pre @ name @ post" and
    pre: "pre = [] \<or> last pre = CHR '',''" and post: "post = [] \<or> hd post = CHR '',''"
    by (auto simp: csv_member_def)
  show "tok = name \<or> rest \<noteq> [] \<and> csv_member name (tl rest)"
  proof (cases "pre = []")
    case True
    then show ?thesis
      using csv_head(1) [OF p tok rest] csv_head(1) [of p name post] e nm post by simp
  next
    case False
    then obtain pre' where "pre' \<noteq> []" "rest = pre' @ name @ post" "last pre' = CHR '',''"
      using csv_prefix [of tok rest pre "name @ post"] p e tok pre by auto
    then have "tl rest = tl pre' @ name @ post" "tl pre' = [] \<or> last (tl pre') = CHR '',''" "rest \<noteq> []"
      using last_tl [of pre'] by auto
    then show ?thesis
      using nm post by (auto simp: csv_member_def)
  qed
next
  assume "tok = name \<or> rest \<noteq> [] \<and> csv_member name (tl rest)"
  moreover have "csv_member name (name @ rest)"
    using nm rest unfolding csv_member_def by (metis append_Nil)
  ultimately show "csv_member name p"
    using p rest csv_member_later [of name rest tok] by auto
qed

lemma part_scan_csv:
  assumes "name \<noteq> []" "CHR '','' \<notin> set name"
  shows "part_scan name p \<longleftrightarrow> csv_member name p"
  using assms
proof (induction name p rule: part_scan.induct)
  case (1 name p)
  let ?tok = "takeWhile (\<lambda>c. c \<noteq> CHR '','') p" and ?rest = "dropWhile (\<lambda>c. c \<noteq> CHR '','') p"
  show ?case
  proof (cases "p = []")
    case True
    then show ?thesis
      using 1 by (simp add: part_scan.simps csv_member_def)
  next
    case False
    have tok: "CHR '','' \<notin> set ?tok"
      by (auto dest: set_takeWhileD)
    have rest: "?rest = [] \<or> hd ?rest = CHR '',''"
      using hd_dropWhile [of "\<lambda>c. c \<noteq> CHR '',''" p] by blast
    have eq: "length ?tok = length name \<and> take (length ?tok) p = take (length ?tok) name \<longleftrightarrow> ?tok = name"
      by (metis order_refl take_all_iff takeWhile_eq_take)
    show ?thesis
      using csv_member_step [OF takeWhile_dropWhile_id [symmetric] tok rest 1(3)]
        1(1) [OF False refl refl] 1(2,3) False eq
      by (subst part_scan.simps) (auto simp: Let_def)
  qed
qed

text \<open>
  A partition with a non-empty name that holds no comma gets an FTL exactly
  when the \<open>parts\<close> parameter is \<open>all\<close> or lists the name as one of its comma
  separated entries; without a name it never does.
\<close>

theorem part_enabled_iff:
  assumes "name \<noteq> []" "CHR '','' \<notin> set name"
  shows "(amlnf_part_enabled g (Some name) \<longleftrightarrow> amlnf_parts g = ''all'' \<or> csv_member name (amlnf_parts g))
    \<and> \<not> amlnf_part_enabled g None"
  using part_scan_csv [OF assms] by (auto simp: amlnf_part_enabled_def)

theorem part_enabled_iff_witness:
  "amlnf_part_enabled guard_init (Some ''nfcache'') \<and> \<not> amlnf_part_enabled guard_init (Some ''nfcode'')
   \<and> csv_member ''nfcache'' (amlnf_parts guard_init) \<and> \<not> csv_member ''nfcode'' (amlnf_parts guard_init)"
proof -
  have "amlnf_part_enabled guard_init (Some ''nfcache'')" "\<not> amlnf_part_enabled guard_init (Some ''nfcode'')"
    by (simp_all add: amlnf_part_enabled_def guard_init_def part_scan.simps)
  then show ?thesis
    using part_enabled_iff [of "''nfcache''" guard_init] part_enabled_iff [of "''nfcode''" guard_init]
    by (simp add: guard_init_def)
qed

section \<open>The refusal counter\<close>

definition refuse_all :: "(string \<times> u32) list \<Rightarrow> amlnf_guard \<Rightarrow> amlnf_guard" where
  "refuse_all ws g = foldl (\<lambda>g (what, page). amlnf_refuse_write what page g) g ws"

lemma refuse_write_params [simp]:
  "amlnf_readonly (amlnf_refuse_write w p g) = amlnf_readonly g"
  "amlnf_allow_markbad (amlnf_refuse_write w p g) = amlnf_allow_markbad g"
  "amlnf_allow_meta (amlnf_refuse_write w p g) = amlnf_allow_meta g"
  "amlnf_use_cache (amlnf_refuse_write w p g) = amlnf_use_cache g"
  "amlnf_parts (amlnf_refuse_write w p g) = amlnf_parts g"
  "amlnf_refused (amlnf_refuse_write w p g) = amlnf_refused g + 1"
  by (simp_all add: amlnf_refuse_write_def Let_def)

lemma sint_of_nat_small: "n < 2 ^ 31 \<Longrightarrow> sint (of_nat n :: u32) = int n"
  by (simp add: signed_of_nat signed_take_bit_int_eq_self)

lemma refuse_all_count:
  assumes "length ws < 2 ^ 31"
  shows "amlnf_refused (refuse_all ws guard_init) = of_nat (length ws)
    \<and> length (klog (refuse_all ws guard_init)) = min (length ws) 9"
  using assms
proof (induction ws rule: rev_induct)
  case Nil
  then show ?case
    by (simp add: refuse_all_def guard_init_def)
next
  case (snoc w ws)
  then have n: "sint (amlnf_refused (refuse_all ws guard_init) + 1) = int (length ws) + 1"
    using sint_of_nat_small [of "Suc (length ws)"] by (simp add: add.commute)
  show ?case
    using snoc n by (cases w) (auto simp: refuse_all_def amlnf_refuse_write_def Let_def)
qed

text \<open>
  The counter of refused writes counts every refusal, and however many
  there are (below the range of the counter) the kernel log gets at most nine
  lines: one for each of the first eight and one that announces silence.
\<close>

theorem refused_count_and_log:
  assumes "length ws < 2 ^ 31"
  shows "amlnf_refused_count (refuse_all ws guard_init) = int (length ws)
    \<and> length (klog (refuse_all ws guard_init)) = min (length ws) 9"
  using refuse_all_count [OF assms] sint_of_nat_small [OF assms] by (simp add: amlnf_refused_count_def)

theorem refused_count_and_log_witness:
  "amlnf_refused_count (refuse_all (replicate 12 (''write'', 7)) guard_init) = 12
   \<and> length (klog (refuse_all (replicate 12 (''write'', 7)) guard_init)) = 9"
  using refused_count_and_log [of "replicate 12 (''write'', 7)"] by simp

section \<open>Mapping the controller\<close>

lemma map_clks_ok:
  assumes "map_clks pf s = (0, t)" "amlnf_core_clk s = KNull" "clk_log s = []"
    "\<And>l nm. pf_clk_get pf l nm \<noteq> KErr 0"
  shows "ClkEnable (amlnf_core_clk t) \<in> set (clk_log t) \<and> ClkEnable (amlnf_device_clk t) \<in> set (clk_log t)
    \<and> (\<forall>c. ClkDisable c \<notin> set (clk_log t))"
  using assms
  by (auto simp: map_clks_def clk_get_def clk_enable_def Let_def split: if_splits kptr.splits)

text \<open>
  A first probe that reports success has mapped the registers and enabled
  both clocks, and has disabled none.
\<close>

theorem map_nfc_success:
  assumes "amlnf_map_nfc pf s = (0, t)" "amlnf_core_clk s = KNull" "clk_log s = []"
    and err: "\<And>l nm. pf_clk_get pf l nm \<noteq> KErr 0"
  shows "IO_NAND_BASE t \<noteq> NULL \<and> ClkEnable (amlnf_core_clk t) \<in> set (clk_log t)
    \<and> ClkEnable (amlnf_device_clk t) \<in> set (clk_log t) \<and> (\<forall>c. ClkDisable c \<notin> set (clk_log t))"
proof -
  obtain ret s1 where m: "map_regs pf s = (ret, s1)"
    by (cases "map_regs pf s")
  then have r: "ret = 0 \<and> map_clks pf s1 = (0, t)"
    using assms(1) by (auto simp: amlnf_map_nfc_def split: if_splits)
  then have s1: "IO_NAND_BASE s1 \<noteq> NULL" "amlnf_core_clk s1 = KNull" "clk_log s1 = []"
    using m assms(2,3) by (auto simp: map_regs_def Let_def ENOMEM_def split: if_splits)
  have "IO_NAND_BASE t = IO_NAND_BASE s1"
    using r by (auto simp: map_clks_def clk_get_def clk_enable_def Let_def split: if_splits kptr.splits)
  then show ?thesis
    using map_clks_ok [OF conjunct2 [OF r] s1(2,3) err] s1(1) by simp
qed

definition demo_platform :: platform where
  "demo_platform = \<lparr>pf_resource = Some 3223869440, pf_ioremap = (\<lambda>a. a), pf_of_node = True, pf_of_iomap = 1,
     pf_clk_get = (\<lambda>l nm. if nm = ''core'' then KPtr 1 else KPtr 2),
     pf_clk_enable = (\<lambda>l c. 0)\<rparr>"

definition fresh_map :: nfc_map where
  "fresh_map = \<lparr>IO_NAND_BASE = 0, amlnf_core_clk = KNull, amlnf_device_clk = KNull, clk_log = []\<rparr>"

theorem map_nfc_success_witness:
  "fst (amlnf_map_nfc demo_platform fresh_map) = 0
   \<and> IO_NAND_BASE (snd (amlnf_map_nfc demo_platform fresh_map)) \<noteq> NULL
   \<and> ClkEnable (KPtr 1) \<in> set (clk_log (snd (amlnf_map_nfc demo_platform fresh_map)))"
proof -
  let ?t = "snd (amlnf_map_nfc demo_platform fresh_map)"
  have 1: "amlnf_map_nfc demo_platform fresh_map = (0, ?t)" and c: "amlnf_core_clk ?t = KPtr 1"
    by (simp_all add: amlnf_map_nfc_def map_regs_def map_clks_def clk_get_def clk_enable_def
        demo_platform_def fresh_map_def)
  have "amlnf_core_clk fresh_map = KNull" "clk_log fresh_map = []"
    "\<And>l nm. pf_clk_get demo_platform l nm \<noteq> KErr 0"
    by (simp_all add: fresh_map_def demo_platform_def)
  from map_nfc_success [OF 1 this] show ?thesis
    using 1 c by (metis fst_conv)
qed

text \<open>
  A clock that cannot be obtained leaves an error pointer in
  \<open>amlnf_core_clk\<close>, which the next probe takes for a clock it already holds: the
  retry reports success without having asked for, or enabled, any clock.
\<close>

theorem map_nfc_retry_skips_clocks:
  assumes "amlnf_map_nfc pf s = (e, t)" "amlnf_core_clk t = KErr e" "IO_NAND_BASE t \<noteq> NULL"
  shows "amlnf_map_nfc pf t = (0, t)"
  using assms by (simp add: amlnf_map_nfc_def map_regs_def map_clks_def)

definition defer_platform :: platform where
  "defer_platform = demo_platform\<lparr>pf_clk_get := (\<lambda>l nm. KErr (- 517))\<rparr>"

theorem map_nfc_retry_skips_clocks_witness:
  "fst (amlnf_map_nfc defer_platform fresh_map) = - 517
   \<and> fst (amlnf_map_nfc defer_platform (snd (amlnf_map_nfc defer_platform fresh_map))) = 0"
proof -
  let ?t = "snd (amlnf_map_nfc defer_platform fresh_map)"
  have 1: "amlnf_map_nfc defer_platform fresh_map = (- 517, ?t)" "amlnf_core_clk ?t = KErr (- 517)"
    "IO_NAND_BASE ?t \<noteq> NULL"
    by (simp_all add: amlnf_map_nfc_def map_regs_def map_clks_def clk_get_def clk_enable_def
        defer_platform_def demo_platform_def fresh_map_def)
  show ?thesis
    using map_nfc_retry_skips_clocks [OF 1] 1(1) by (metis fst_conv)
qed

end
