(* ===== verification/Nand.thy ===== *)
theory Nand
  imports Guard
begin

text \<open>
  The data the physical layer works on: the structures of
  \<open>include/phynand.h\<close> and \<open>include/amlnf_ctrl.h\<close>, the constants of the flash
  commands, and the bus to the flash controller.

  The controller hardware is a parameter of type \<open>nfc\<close>.  Every register access
  is an event; the value a register read returns and the memory a DMA transfer
  leaves are functions of the sequence of events so far, so that an \<open>nfc\<close>
  stands for an arbitrary (deterministic) device.  The state keeps the events,
  newest first, in \<open>bus\<close>.
\<close>

section \<open>Constants\<close>

abbreviation (input) "MAX_CHIP_NUM \<equiv> (4 :: nat)"

abbreviation (input) "MAX_BLK_NUM \<equiv> (8192 :: nat)"

abbreviation (input) "RESERVED_BLOCK_CNT \<equiv> (48 :: nat)"

abbreviation (input) "FULL_BLK \<equiv> (0 :: u8)"

abbreviation (input) "FULL_PAGE \<equiv> (1 :: u8)"

abbreviation (input) "PER_INFO_BYTE \<equiv> (8 :: nat)"

abbreviation (input) "BYTES_OF_USER_PER_PAGE \<equiv> (16 :: nat)"

definition NAND_BLOCK_GOOD :: u16 where [c_consts]: "NAND_BLOCK_GOOD = 0"

definition NAND_BLOCK_USED_BAD :: u16 where [c_consts]: "NAND_BLOCK_USED_BAD = 1"

definition NAND_BLOCK_FACTORY_BAD :: u16 where [c_consts]: "NAND_BLOCK_FACTORY_BAD = 2"

definition DEV_SLC_MODE :: u32 where [c_consts]: "DEV_SLC_MODE = 1"

definition DEV_SERIAL_CHIP_MODE :: u32 where [c_consts]: "DEV_SERIAL_CHIP_MODE = 0"

definition DEV_MULTI_CHIP_MODE :: u32 where [c_consts]: "DEV_MULTI_CHIP_MODE = 2"

definition DEV_MULTI_PLANE_MODE :: u32 where [c_consts]: "DEV_MULTI_PLANE_MODE = 4"

definition DEV_ECC_SOFT_MODE :: u32 where [c_consts]: "DEV_ECC_SOFT_MODE = 8"

definition NAND_SHUT_DOWN :: u32 where [c_consts]: "NAND_SHUT_DOWN = 65536"

definition NAND_CTRL_NONE_RB :: u32 where [c_consts]: "NAND_CTRL_NONE_RB = 2"

definition NAND_CTRL_INTERLEAVING_MODE :: u32 where [c_consts]: "NAND_CTRL_INTERLEAVING_MODE = 4"

definition NAND_MULTI_PLANE_MODE :: u32 where [c_consts]: "NAND_MULTI_PLANE_MODE = 8"

definition NAND_CLE :: u32 where [c_consts]: "NAND_CLE = 2"

definition NAND_CTRL_CLE :: u32 where [c_consts]: "NAND_CTRL_CLE = 3"

definition NAND_CTRL_ALE :: u32 where [c_consts]: "NAND_CTRL_ALE = 5"

section \<open>Structures\<close>

datatype chip_state = CHIP_READY | CHIP_STATUS | CHIP_ERASING | CHIP_ERASE_SUSPENDING
  | CHIP_ERASE_SUSPENDED | CHIP_WRITING | CHIP_WRITE_SUSPENDING | CHIP_WRITE_SUSPENDED
  | CHIP_PM_SUSPENDED | CHIP_SYNCING | CHIP_UNLOADING | CHIP_LOCKING | CHIP_UNLOCKING
  | CHIP_POINT | CHIP_SHUTDOWN | CHIP_READING | CHIP_RESETING | CHIP_PREPARING_ERASE
  | CHIP_VERIFYING_ERASE | CHIP_UNKNOWN

datatype oob_modes = NAND_HW_ECC | NAND_SOFT_ECC

record bch_desc =
  bch_name :: string
  mode :: u32
  unit_size :: u32
  bytes :: u32
  usr_mode :: u32

record read_retry_info =
  rr_flag :: u8
  default_flag :: u8
  info_save_blk :: u8
  reg_cnt_lp :: u8
  reg_cnt_up :: u8
  retry_cnt_lp :: u8
  retry_cnt_up :: u8
  cur_cnt_lp :: "u8 list"
  cur_cnt_up :: "u8 list"
  reg_addr_lp :: "u8 list"
  reg_addr_up :: "u8 list"
  rr_def_val :: "u8 list list"
  reg_offs_val_lp :: "u8 list list list"
  reg_offs_val_up :: "u8 list list list"

record en_slc_info =
  slc_flag :: u8
  pagelist :: "u8 list"
  slc_reg_cnt :: u8
  slc_reg_addr :: "u8 list"
  slc_def_val :: "u8 list list"
  slc_offs_val :: "u8 list"

record hw_controller =
  chip_selected :: u32
  rb_received :: u32
  ce_enable :: "u32 list"
  rb_enable :: "u32 list"
  chip_num :: u8
  flash_type :: u8
  mfr_type :: u8
  onfi_mode :: u32
  max_bch :: u8
  ecc_unit :: u16
  ecc_bytes :: u16
  ecc_steps :: u16
  oobtail :: u16
  bch_mode :: u8
  user_mode :: u8
  ran_mode :: u8
  oobavail :: u8
  oob_mod :: u8
  oob_fill_data :: u32
  oob_fill_boot :: u32
  ecc_cnt_limit :: u8
  ecc_cnt_cur :: u8
  ecc_max :: u8
  page_shift :: u16
  block_shift :: u16
  internal_page_nums :: u32
  zero_cnt :: u32
  page_addr :: u32
  ctl_option :: u32
  data_buf :: ptr
  user_buf :: ptr
  page_buf :: ptr
  oob_buf :: ptr
  slc_info :: en_slc_info
  retry_info :: read_retry_info
  data_dma_addr :: u32
  info_dma_addr :: u32
  bch_descs :: "bch_desc list"

record nand_flash =
  fl_id :: "u8 list"
  pagesize :: u32
  chipsize :: u32
  blocksize :: u32
  oobsize :: u32
  internal_chipnr :: u8
  T_REA :: u8
  T_RHOH :: u8
  fl_onfi_mode :: u8
  new_type :: u8
  fl_option :: u32

record chip_ops_para =
  op_page_addr :: u32
  op_chipnr :: u8
  op_data_buf :: ptr
  op_oob_buf :: ptr
  op_oob_mode :: oob_modes
  op_bit_flip :: u8
  op_ecc_err :: u8
  op_ooblen :: u8
  op_option :: u32

record nand_arg_info =
  arg_type :: u8
  valid_blk_addr :: u16
  valid_page_addr :: u16
  free_blk_addr :: u16
  arg_valid :: u8
  timestamp :: u16
  update_flag :: u8

section \<open>The bus to the controller\<close>

datatype nfc_reg = P_NAND_CMD | P_NAND_CFG | P_NAND_BUF

datatype nfc_ev = Wr nfc_reg u32 | Rd nfc_reg | Barrier

record nfc =
  reg_val :: "nfc_ev list \<Rightarrow> nfc_reg \<Rightarrow> u32"
  dma_mem :: "nfc_ev list \<Rightarrow> memory \<Rightarrow> memory"

record nand =
  state :: chip_state
  nand_status :: u8
  controller :: hw_controller
  ops_para :: chip_ops_para
  flash :: nand_flash
  block_status :: ptr
  nand_bbtinfo :: nand_arg_info
  shipped_bbtinfo :: nand_arg_info
  config_msg :: nand_arg_info
  nand_key :: nand_arg_info
  nand_secure :: nand_arg_info
  uboot_env :: nand_arg_info
  shipped_bbt_ptr :: ptr
  config_ptr :: ptr
  reserved_blk :: "u8 list"
  max_ecc_per_page :: u32
  user_page_buf :: ptr
  user_oob_buf :: ptr
  debug_flag :: u8
  nand_idleflag :: bool
  spi_nand_mutex :: bool
  amlnf :: amlnf_guard
  mem :: memory
  bus :: "nfc_ev list"

definition nfc_event :: "nfc \<Rightarrow> nfc_ev \<Rightarrow> nand \<Rightarrow> nand" where
  "nfc_event hw e s = s\<lparr>bus := e # bus s, mem := dma_mem hw (e # bus s) (mem s)\<rparr>"

definition aml_write_reg32 :: "nfc \<Rightarrow> nfc_reg \<Rightarrow> u32 \<Rightarrow> nand \<Rightarrow> nand" where
  "aml_write_reg32 hw r v s = nfc_event hw (Wr r v) s"

definition aml_read_reg32 :: "nfc \<Rightarrow> nfc_reg \<Rightarrow> nand \<Rightarrow> u32 \<times> nand" where
  "aml_read_reg32 hw r s = (let s = nfc_event hw (Rd r) s in (reg_val hw (bus s) r, s))"

definition aml_set_reg32_mask :: "nfc \<Rightarrow> nfc_reg \<Rightarrow> u32 \<Rightarrow> nand \<Rightarrow> nand" where
  "aml_set_reg32_mask hw r m s =
     (let (v, s) = aml_read_reg32 hw r s in aml_write_reg32 hw r (v OR m) s)"

definition aml_clr_reg32_mask :: "nfc \<Rightarrow> nfc_reg \<Rightarrow> u32 \<Rightarrow> nand \<Rightarrow> nand" where
  "aml_clr_reg32_mask hw r m s =
     (let (v, s) = aml_read_reg32 hw r s in aml_write_reg32 hw r (v AND NOT m) s)"

definition aml_set_reg32_bits :: "nfc \<Rightarrow> nfc_reg \<Rightarrow> u32 \<Rightarrow> nat \<Rightarrow> nat \<Rightarrow> nand \<Rightarrow> nand" where
  "aml_set_reg32_bits hw r v start len s =
     (let m = push_bit start (push_bit len 1 - 1);
          (x, s) = aml_read_reg32 hw r s
      in aml_write_reg32 hw r ((x AND NOT m) OR (push_bit start v AND m)) s)"

lemma nfc_event_simps [simp]:
  "state (nfc_event hw e s) = state s"
  "nand_status (nfc_event hw e s) = nand_status s"
  "controller (nfc_event hw e s) = controller s"
  "ops_para (nfc_event hw e s) = ops_para s"
  "flash (nfc_event hw e s) = flash s"
  "block_status (nfc_event hw e s) = block_status s"
  "nand_bbtinfo (nfc_event hw e s) = nand_bbtinfo s"
  "shipped_bbtinfo (nfc_event hw e s) = shipped_bbtinfo s"
  "config_msg (nfc_event hw e s) = config_msg s"
  "nand_key (nfc_event hw e s) = nand_key s"
  "nand_secure (nfc_event hw e s) = nand_secure s"
  "uboot_env (nfc_event hw e s) = uboot_env s"
  "shipped_bbt_ptr (nfc_event hw e s) = shipped_bbt_ptr s"
  "config_ptr (nfc_event hw e s) = config_ptr s"
  "reserved_blk (nfc_event hw e s) = reserved_blk s"
  "max_ecc_per_page (nfc_event hw e s) = max_ecc_per_page s"
  "user_page_buf (nfc_event hw e s) = user_page_buf s"
  "user_oob_buf (nfc_event hw e s) = user_oob_buf s"
  "debug_flag (nfc_event hw e s) = debug_flag s"
  "nand_idleflag (nfc_event hw e s) = nand_idleflag s"
  "spi_nand_mutex (nfc_event hw e s) = spi_nand_mutex s"
  "amlnf (nfc_event hw e s) = amlnf s"
  "bus (nfc_event hw e s) = e # bus s"
  "mem (nfc_event hw e s) = dma_mem hw (e # bus s) (mem s)"
  by (simp_all add: nfc_event_def)

end
