(* ===== verification/Controller.thy ===== *)
theory Controller
  imports Nand
begin

text \<open>
  \<open>phy/hw_controller.c\<close> with the command macros of \<open>include/hw_ctrl.h\<close>: chip
  selection, command and address cycles, status polling, DMA transfers, the
  choice of the ECC mode and the per-page user bytes.  Busy waits are written
  with the iteration bounds of the code; the one wait the code leaves unbounded
  (for the DMA descriptor, and the user byte loops) is a \<open>partial_function\<close>.
\<close>

section \<open>Command words\<close>

definition NFC_CMD_IDLE :: "u32 \<Rightarrow> u32 \<Rightarrow> u32" where
  "NFC_CMD_IDLE ce time = ce OR push_bit 14 0xc OR (time AND 0x3ff)"

definition NFC_CMD_CLE :: "u32 \<Rightarrow> u32 \<Rightarrow> u32" where
  "NFC_CMD_CLE ce cmd = ce OR push_bit 14 0x5 OR (cmd AND 0xff)"

definition NFC_CMD_ALE :: "u32 \<Rightarrow> u32 \<Rightarrow> u32" where
  "NFC_CMD_ALE ce addr = ce OR push_bit 14 0x6 OR (addr AND 0xff)"

definition NFC_CMD_ADL :: "u32 \<Rightarrow> u32" where
  "NFC_CMD_ADL addr = push_bit 20 3 OR (addr AND 0xffff)"

definition NFC_CMD_ADH :: "u32 \<Rightarrow> u32" where
  "NFC_CMD_ADH addr = push_bit 16 1 OR push_bit 20 3 OR (drop_bit 16 addr AND 0xffff)"

definition NFC_CMD_AIL :: "u32 \<Rightarrow> u32" where
  "NFC_CMD_AIL addr = push_bit 16 2 OR push_bit 20 3 OR (addr AND 0xffff)"

definition NFC_CMD_AIH :: "u32 \<Rightarrow> u32" where
  "NFC_CMD_AIH addr = push_bit 16 3 OR push_bit 20 3 OR (drop_bit 16 addr AND 0xffff)"

definition NFC_CMD_DWR :: "u32 \<Rightarrow> u8 \<Rightarrow> u32" where
  "NFC_CMD_DWR ce data = ce OR push_bit 14 0x4 OR (ucast data AND 0xff)"

definition NFC_CMD_DRD :: "u32 \<Rightarrow> u32 \<Rightarrow> u32" where
  "NFC_CMD_DRD ce sz = ce OR push_bit 14 0x8 OR sz"

definition NFC_CMD_SEED :: "u32 \<Rightarrow> u32" where
  "NFC_CMD_SEED seed = (push_bit 16 8 OR push_bit 20 3) OR (0xc2 + (seed AND 0x7fff))"

definition M2N_word :: "u8 \<Rightarrow> u32" where
  "M2N_word rnd = (if rnd \<noteq> 0 then push_bit 20 2 OR push_bit 19 1 else 0x00200000)"

definition N2M_word :: "u8 \<Rightarrow> u32" where
  "N2M_word rnd = (if rnd \<noteq> 0 then push_bit 17 1 OR push_bit 20 2 OR push_bit 19 1 else 0x00220000)"

definition NFC_CMD_M2N :: "u8 \<Rightarrow> u32 \<Rightarrow> u32 \<Rightarrow> u32 \<Rightarrow> u32 \<Rightarrow> u32" where
  "NFC_CMD_M2N rnd ecc sho pgsz pag = M2N_word rnd OR push_bit 14 ecc OR push_bit 13 sho
     OR push_bit 6 (pgsz AND 0x7f) OR (pag AND 0x3f)"

definition NFC_CMD_N2M :: "u8 \<Rightarrow> u32 \<Rightarrow> u32 \<Rightarrow> u32 \<Rightarrow> u32 \<Rightarrow> u32" where
  "NFC_CMD_N2M rnd ecc sho pgsz pag = N2M_word rnd OR push_bit 14 ecc OR push_bit 13 sho
     OR push_bit 6 (pgsz AND 0x7f) OR (pag AND 0x3f)"

definition NFC_CMD_M2N_RAW :: "u8 \<Rightarrow> u32 \<Rightarrow> u32" where
  "NFC_CMD_M2N_RAW rnd len = M2N_word rnd OR (len AND 0x3fff)"

definition NFC_CMD_N2M_RAW :: "u8 \<Rightarrow> u32 \<Rightarrow> u32" where
  "NFC_CMD_N2M_RAW rnd len = N2M_word rnd OR (len AND 0x3fff)"

definition NAND_INFO_DONE :: "u32 \<Rightarrow> u32" where
  "NAND_INFO_DONE a = drop_bit 31 a AND 1"

definition NAND_ECC_CNT :: "u32 \<Rightarrow> u32" where
  "NAND_ECC_CNT a = drop_bit 24 a AND 0x3f"

definition NAND_ZERO_CNT :: "u32 \<Rightarrow> u32" where
  "NAND_ZERO_CNT a = drop_bit 16 a AND 0x3f"

section \<open>Sending commands and polling\<close>

definition NFC_SEND_CMD :: "nfc \<Rightarrow> u32 \<Rightarrow> nand \<Rightarrow> nand" where
  "NFC_SEND_CMD hw cmd s = aml_write_reg32 hw P_NAND_CMD cmd s"

definition NFC_CMDFIFO_SIZE :: "nfc \<Rightarrow> nand \<Rightarrow> u32 \<times> nand" where
  "NFC_CMDFIFO_SIZE hw s =
     (let (v, s) = aml_read_reg32 hw P_NAND_CMD s in (drop_bit 22 v AND 0x1f, s))"

definition NFC_GET_RB_STATUS :: "nfc \<Rightarrow> u32 \<Rightarrow> nand \<Rightarrow> u32 \<times> nand" where
  "NFC_GET_RB_STATUS hw ce s =
     (let (v, s) = aml_read_reg32 hw P_NAND_CMD s
      in ((drop_bit 28 v AND NOT (drop_bit 10 ce)) AND 0xf, s))"

abbreviation (input) "NFC_FIFO_SPIN_MAX \<equiv> (100000 :: nat)"

fun fifo_spin :: "nfc \<Rightarrow> nat \<Rightarrow> nand \<Rightarrow> nand" where
  "fifo_spin hw 0 s = snd (NFC_CMDFIFO_SIZE hw s)"
| "fifo_spin hw (Suc k) s =
     (let (n, s) = NFC_CMDFIFO_SIZE hw s in if n > 0 then fifo_spin hw k s else s)"

text \<open>\<open>while (SIZE > 0 && ++n < MAX)\<close> reads the size register at most \<open>MAX\<close> k.\<close>

definition NFC_WAIT_FIFO_EMPTY :: "nfc \<Rightarrow> nand \<Rightarrow> nand" where
  "NFC_WAIT_FIFO_EMPTY hw s = fifo_spin hw (NFC_FIFO_SPIN_MAX - 1) s"

definition NFC_SEND_CMD_IDLE :: "nfc \<Rightarrow> u32 \<Rightarrow> u32 \<Rightarrow> nand \<Rightarrow> nand" where
  "NFC_SEND_CMD_IDLE hw ce time s = NFC_SEND_CMD hw (NFC_CMD_IDLE ce time) (NFC_WAIT_FIFO_EMPTY hw s)"

definition idle :: "nfc \<Rightarrow> u32 \<Rightarrow> nand \<Rightarrow> nand" where
  "idle hw time s = NFC_SEND_CMD_IDLE hw (chip_selected (controller s)) time s"

text \<open>
  The idiom \<open>do { if (ready) break; } while (cnt++ <= limit);\<close> returns the
  counter after the loop.
\<close>

function poll :: "(nand \<Rightarrow> bool \<times> nand) \<Rightarrow> nat \<Rightarrow> nat \<Rightarrow> nand \<Rightarrow> nat \<times> nand" where
  "poll ready limit cnt s =
     (let (b, s) = ready s
      in if b then (cnt, s)
         else if cnt \<le> limit then poll ready limit (cnt + 1) s
         else (cnt + 1, s))"
  by pat_completeness auto
termination
  by (relation "measure (\<lambda>(ready, limit, cnt, s). Suc limit - cnt)") auto

declare poll.simps [simp del]

definition fifo_ready :: "nfc \<Rightarrow> nand \<Rightarrow> bool \<times> nand" where
  "fifo_ready hw s = (let (n, s) = NFC_CMDFIFO_SIZE hw s in (n = 0, s))"

section \<open>Chip selection and byte access\<close>

definition controller_select_chip :: "nfc \<Rightarrow> u8 \<Rightarrow> nand \<Rightarrow> (int \<times> nand) option" where
  "controller_select_chip hw chipnr s =
     (if chipnr < 4
      then let c = controller s;
               s = s\<lparr>controller := c\<lparr>chip_selected := ce_enable c ! unat chipnr,
                                       rb_received := rb_enable c ! unat chipnr\<rparr>\<rparr>
           in Some (0, idle hw 0 s)
      else None)"

definition controller_cmd_ctrl :: "nfc \<Rightarrow> u32 \<Rightarrow> u32 \<Rightarrow> nand \<Rightarrow> nand" where
  "controller_cmd_ctrl hw cmd ctrl s =
     (if cmd = - 1 then s
      else let ce = chip_selected (controller s);
               cmd = (if has ctrl NAND_CLE then NFC_CMD_CLE ce cmd else NFC_CMD_ALE ce cmd)
           in NFC_SEND_CMD hw cmd s)"

definition controller_write_byte :: "nfc \<Rightarrow> u8 \<Rightarrow> nand \<Rightarrow> nand" where
  "controller_write_byte hw data s =
     (let s = idle hw 10 s;
          s = NFC_SEND_CMD hw (NFC_CMD_DWR (chip_selected (controller s)) data) s;
          s = idle hw 10 s;
          s = idle hw 0 s;
          s = idle hw 0 s
      in NFC_WAIT_FIFO_EMPTY hw s)"

definition nandphy_readb :: "nfc \<Rightarrow> nand \<Rightarrow> u8 \<times> nand" where
  "nandphy_readb hw s = (let (v, s) = aml_read_reg32 hw P_NAND_BUF s in (ucast v, s))"

definition controller_read_byte :: "nfc \<Rightarrow> nand \<Rightarrow> u8 \<times> nand" where
  "controller_read_byte hw s =
     (let s = NFC_SEND_CMD hw (NFC_CMD_DRD (chip_selected (controller s)) 0) s;
          s = idle hw 10 s;
          s = idle hw 0 s;
          s = idle hw 0 s;
          s = NFC_WAIT_FIFO_EMPTY hw s
      in nandphy_readb hw s)"

section \<open>Ready/busy\<close>

definition busy_limit :: "chip_state \<Rightarrow> nat" where
  "busy_limit st = (if st = CHIP_RESETING then 0xa000
     else if st = CHIP_WRITING then 0x5000 else 0x2000)"

definition status_ready :: "nfc \<Rightarrow> nand \<Rightarrow> bool \<times> nand" where
  "status_ready hw s = (let (b, s) = controller_read_byte hw s in (has b 0x40, s))"

definition rb_ready :: "nfc \<Rightarrow> nand \<Rightarrow> bool \<times> nand" where
  "rb_ready hw s = (let (v, s) = NFC_GET_RB_STATUS hw (rb_received (controller s)) s in (v \<noteq> 0, s))"

definition controller_quene_rb :: "nfc \<Rightarrow> u8 \<Rightarrow> nand \<Rightarrow> (int \<times> nand) option" where
  "controller_quene_rb hw chipnr s =
     (let limit = busy_limit (state s)
      in do {
        (_, s) \<leftarrow> controller_select_chip hw chipnr s;
        let s = idle hw 0 s;
        let s = idle hw 0 s;
        let s = NFC_WAIT_FIFO_EMPTY hw s;
        let (cnt, s) =
          (if has (ctl_option (controller s)) NAND_CTRL_NONE_RB
           then let s = controller_cmd_ctrl hw 0x70 NAND_CTRL_CLE s;
                    s = idle hw 20 s
                in poll (status_ready hw) limit 0 s
           else poll (rb_ready hw) limit 0 s);
        Some (if limit \<le> cnt then - NAND_BUSY_FAILURE else 0, s)
      })"

section \<open>ECC result of a page\<close>

definition user_info :: "hw_controller \<Rightarrow> memory \<Rightarrow> nat \<Rightarrow> u32" where
  "user_info c m i = ld32 m (user_buf c + 4 * (i * 2 + (if oob_mod c = 1 then 4 else 0)))"

fun hwecc_steps :: "nat list \<Rightarrow> nat \<Rightarrow> nand \<Rightarrow> int \<times> nand" where
  "hwecc_steps [] max_ecc s = (0, s\<lparr>max_ecc_per_page := of_nat max_ecc\<rparr>)"
| "hwecc_steps (i # is) max_ecc s =
     (let c = controller s;
          usr_info = user_info c (mem s) i;
          cur_ecc = NAND_ECC_CNT usr_info
      in if cur_ecc = 0x3f
         then (NAND_ECC_FAILURE, s\<lparr>controller := c\<lparr>zero_cnt := NAND_ZERO_CNT usr_info\<rparr>\<rparr>)
         else let cnt = (if ucast (ecc_cnt_cur c) > cur_ecc then ecc_cnt_cur c else ucast cur_ecc)
              in hwecc_steps is (max max_ecc (unat cnt)) (s\<lparr>controller := c\<lparr>ecc_cnt_cur := cnt\<rparr>\<rparr>))"

definition controller_hwecc_correct :: "u32 \<Rightarrow> nand \<Rightarrow> int \<times> nand" where
  "controller_hwecc_correct sz s =
     (let c = controller s; eu = ucast (ecc_unit c)
      in if sz mod eu \<noteq> 0 then (- NAND_ARGUMENT_FAILURE, s)
         else hwecc_steps [0..<unat (sz div eu)] 0 (s\<lparr>controller := c\<lparr>ecc_cnt_cur := 0\<rparr>\<rparr>))"

section \<open>DMA\<close>

partial_function (option) info_wait :: "nfc \<Rightarrow> ptr \<Rightarrow> nand \<Rightarrow> nand option" where
  "info_wait hw info s =
     (let s = nfc_event hw Barrier s
      in if NAND_INFO_DONE (ld32 (mem s) info) = 0 then info_wait hw info s else Some s)"

declare info_wait.simps [code]

definition dma_count :: "hw_controller \<Rightarrow> u32 \<Rightarrow> u8 \<Rightarrow> u32" where
  "dma_count c len bch =
     (if bch = 0 then 1
      else if bch = 8 then len div ucast (ecc_unit c)
      else ucast (ecc_steps c))"

definition dma_addrs :: "nfc \<Rightarrow> nand \<Rightarrow> nand" where
  "dma_addrs hw s =
     (let c = controller s;
          s = NFC_SEND_CMD hw (NFC_CMD_ADL (data_dma_addr c)) s;
          s = NFC_SEND_CMD hw (NFC_CMD_ADH (data_dma_addr c)) s;
          s = NFC_SEND_CMD hw (NFC_CMD_AIL (info_dma_addr c)) s;
          s = NFC_SEND_CMD hw (NFC_CMD_AIH (info_dma_addr c)) s
      in NFC_SEND_CMD hw (NFC_CMD_SEED (page_addr c)) s)"

definition controller_dma_read :: "nfc \<Rightarrow> u32 \<Rightarrow> u8 \<Rightarrow> nand \<Rightarrow> (int \<times> nand) option" where
  "controller_dma_read hw len bch s =
     (let c = controller s;
          len = (if bch = 0 \<and> len > 0x3fff then 0x3ffe else len);
          dma_unit_size = (if bch = 8 then drop_bit 3 (ucast (ecc_unit c)) else 0);
          dma_cnt = dma_count c len bch;
          count = (if oob_mod c = 1 \<and> bch \<noteq> 0 then dma_cnt + 2 else dma_cnt);
          info_buf = nat (int (user_buf c) + 8 * (sint count - 1));
          s = s\<lparr>mem := memset (user_buf c) 0 (unat count * PER_INFO_BYTE) (mem s)\<rparr>;
          s = dma_addrs hw s;
          s = (if bch = 0 then NFC_SEND_CMD hw (NFC_CMD_N2M_RAW (ran_mode c) len) s
               else NFC_SEND_CMD hw (NFC_CMD_N2M (ran_mode c) (if bch = 8 then 7 else ucast bch)
                      (if bch = 8 then 1 else 0) dma_unit_size dma_cnt) s);
          s = idle hw 0 s;
          s = idle hw 0 s;
          (cnt, s) = poll (fifo_ready hw) 0x100000 0 s
      in if 0x100000 \<le> cnt then Some (- NAND_DMA_FAILURE, s)
         else do { s \<leftarrow> info_wait hw info_buf s; Some (NAND_SUCCESS, s) })"

definition controller_dma_write :: "nfc \<Rightarrow> ptr \<Rightarrow> u32 \<Rightarrow> u8 \<Rightarrow> nand \<Rightarrow> int \<times> nand" where
  "controller_dma_write hw buf len bch s =
     (let c = controller s;
          len = (if bch = 0 \<and> len > 0x3fff then 0x3ffe else len);
          dma_unit_size = (if bch = 8 then drop_bit 3 (ucast (ecc_unit c)) else 0);
          count = dma_count c len bch;
          s = s\<lparr>mem := memcpy (data_buf c) buf (unat len) (mem s)\<rparr>;
          s = dma_addrs hw s;
          s = (if bch = 0 then NFC_SEND_CMD hw (NFC_CMD_M2N_RAW 0 len) s
               else NFC_SEND_CMD hw (NFC_CMD_M2N (ran_mode c) (if bch = 8 then 7 else ucast bch)
                      (if bch = 8 then 1 else 0) dma_unit_size count) s);
          oob_fill_cnt = (if bch = 8 then oob_fill_boot c else if bch \<noteq> 0 then oob_fill_data c else 0);
          s = (if bch \<noteq> 0 \<and> 0 < sint oob_fill_cnt
               then NFC_SEND_CMD hw (NFC_CMD_M2N_RAW (ran_mode c) oob_fill_cnt) s
               else if bch = 0
               then let s = NFC_SEND_CMD hw (NFC_CMD_ADL (of_nat (data_buf c))) s;
                        s = NFC_SEND_CMD hw (NFC_CMD_ADH (of_nat (data_buf c))) s
                    in NFC_SEND_CMD hw (NFC_CMD_M2N_RAW 0 (ucast (oobavail c))) s
               else s);
          s = idle hw 0 s;
          s = idle hw 0 s;
          (cnt, s) = poll (fifo_ready hw) 0x100000 0 s
      in if 0x100000 \<le> cnt then (- NAND_DMA_FAILURE, s) else (0, s))"

section \<open>Timing and initialisation\<close>

definition NFC_SET_TIMING_ASYC :: "nfc \<Rightarrow> u32 \<Rightarrow> u32 \<Rightarrow> nand \<Rightarrow> nand" where
  "NFC_SET_TIMING_ASYC hw bus_tim bus_cyc s =
     aml_set_reg32_bits hw P_NAND_CFG ((bus_cyc AND 31) OR push_bit 5 (bus_tim AND 31)) 0 12 s"

definition controller_hw_init :: "nfc \<Rightarrow> nand \<Rightarrow> int \<times> nand" where
  "controller_hw_init hw s =
     (let s = aml_write_reg32 hw P_NAND_CFG 0 s;
          s = NFC_SET_TIMING_ASYC hw 7 4 s
      in (0, NFC_SEND_CMD hw (push_bit 31 1) s))"

definition controller_adjust_timing :: "nfc \<Rightarrow> nand \<Rightarrow> int \<times> nand" where
  "controller_adjust_timing hw s =
     (let f = flash s;
          f = (if T_REA f < 16 then f\<lparr>T_REA := 16\<rparr> else f);
          f = (if T_RHOH f < 15 then f\<lparr>T_RHOH := 15\<rparr> else f);
          s = s\<lparr>flash := f\<rparr>;
          s = aml_write_reg32 hw P_NAND_CFG 0 s;
          s = NFC_SET_TIMING_ASYC hw 8 5 s;
          s = (if pagesize f > 4096
               then let s = aml_set_reg32_mask hw P_NAND_CFG (push_bit 26 3) s
                    in s\<lparr>controller := (controller s)\<lparr>oob_mod := 1\<rparr>\<rparr>
               else s\<lparr>controller := (controller s)\<lparr>oob_mod := 0\<rparr>\<rparr>)
      in (NAND_SUCCESS, NFC_SEND_CMD hw (push_bit 31 1) s))"

definition bch_list :: "bch_desc list" where
  "bch_list =
     [\<lparr>bch_name = ''NAND_RAW_MODE'', mode = 0x00, unit_size = 0, bytes = 0, usr_mode = 0\<rparr>,
      \<lparr>bch_name = ''NAND_BCH8_MODE'', mode = 0x30, unit_size = 512, bytes = 14, usr_mode = 2\<rparr>,
      \<lparr>bch_name = ''NAND_BCH8_1K_MODE'', mode = 0x60, unit_size = 1024, bytes = 14, usr_mode = 2\<rparr>,
      \<lparr>bch_name = ''NAND_BCH24_1K_MODE'', mode = 0x80, unit_size = 1024, bytes = 42, usr_mode = 2\<rparr>,
      \<lparr>bch_name = ''NAND_BCH30_1K_MODE'', mode = 0x90, unit_size = 1024, bytes = 54, usr_mode = 2\<rparr>,
      \<lparr>bch_name = ''NAND_BCH40_1K_MODE'', mode = 0xa0, unit_size = 1024, bytes = 70, usr_mode = 2\<rparr>,
      \<lparr>bch_name = ''NAND_BCH50_1K_MODE'', mode = 0xb0, unit_size = 1024, bytes = 88, usr_mode = 2\<rparr>,
      \<lparr>bch_name = ''NAND_BCH60_1K_MODE'', mode = 0xc0, unit_size = 1024, bytes = 106, usr_mode = 2\<rparr>,
      \<lparr>bch_name = ''NAND_SHORT_MODE'', mode = 0x10, unit_size = 384, bytes = 106, usr_mode = 2\<rparr>]"

fun ecc_search :: "bch_desc list \<Rightarrow> nand_flash \<Rightarrow> nat \<Rightarrow> u32" where
  "ecc_search ds f 0 = 0"
| "ecc_search ds f (Suc i) =
     (let d = ds ! Suc i
      in if oobsize f div (pagesize f div unit_size d) \<ge> bytes d + usr_mode d then mode d
         else ecc_search ds f i)"

definition ecc_setup :: "u16 \<Rightarrow> u16 \<Rightarrow> u8 \<Rightarrow> u8 \<Rightarrow> u8 \<Rightarrow> hw_controller \<Rightarrow> hw_controller" where
  "ecc_setup eu eb bm lim mx c =
     c\<lparr>ecc_unit := eu, ecc_bytes := eb, bch_mode := bm, user_mode := 2,
       ecc_cnt_limit := lim, ecc_max := mx\<rparr>"

definition ecc_select :: "u32 \<Rightarrow> hw_controller \<Rightarrow> hw_controller option" where
  "ecc_select opt c =
     (if opt = 0x30 then Some (ecc_setup 512 14 1 6 8 c)
      else if opt = 0x60 then Some (ecc_setup 1024 14 2 6 8 c)
      else if opt = 0x70 then Some (ecc_setup 1024 28 3 14 16 c)
      else if opt = 0x80 then Some (ecc_setup 1024 42 3 22 24 c)
      else if opt = 0x90 then Some (ecc_setup 1024 54 4 26 30 c)
      else if opt = 0xa0 then Some (ecc_setup 1024 70 5 34 40 c)
      else if opt = 0xb0 then Some (ecc_setup 1024 88 6 45 50 c)
      else if opt = 0xc0 then Some (ecc_setup 1024 106 7 55 60 c)
      else if opt = 0x10 then Some (ecc_setup 384 106 8 55 60 c)
      else None)"

definition ecc_layout :: "nand_flash \<Rightarrow> hw_controller \<Rightarrow> hw_controller" where
  "ecc_layout f c =
     (let per = ucast (ecc_unit c) + ucast (ecc_bytes c) + ucast (user_mode c) :: u32;
          steps = ucast ((pagesize f + oobsize f) div per) :: u16
      in c\<lparr>ecc_steps := steps,
           oobavail := ucast steps * user_mode c,
           oobtail := ucast (pagesize f - ucast steps * per),
           oob_fill_data := oobsize f - ucast steps * (ucast (ecc_bytes c) + ucast (user_mode c)),
           oob_fill_boot := (pagesize f + oobsize f) - 512,
           ran_mode := 1\<rparr>)"

definition controller_ecc_confirm :: "nand \<Rightarrow> int \<times> nand" where
  "controller_ecc_confirm s =
     (let c = controller s; f = flash s
      in if has (ctl_option c) 0
         then (NAND_SUCCESS, s\<lparr>controller := c\<lparr>ecc_unit := ucast (pagesize f + oobsize f), bch_mode := 0\<rparr>\<rparr>)
         else case ecc_select (ecc_search (bch_descs c) f (unat (max_bch c) - 1)) c of
                None \<Rightarrow> (- NAND_ARGUMENT_FAILURE, s)
              | Some c \<Rightarrow> (NAND_SUCCESS, s\<lparr>controller := ecc_layout f c\<rparr>))"

section \<open>User bytes\<close>

partial_function (option) get_user_loop :: "hw_controller \<Rightarrow> ptr \<Rightarrow> nat \<Rightarrow> u8 \<Rightarrow> memory \<Rightarrow> memory option" where
  "get_user_loop c oob k n m =
     (if n = 0 then Some m
      else let m = m(oob := ucast (ld32 m (user_buf c + 4 * (k * 2))))
           in if user_mode c = 2
              then let m = m(oob + 1 := ucast (drop_bit 8 (ld32 m (user_buf c + 4 * (k * 2)))))
                   in get_user_loop c (oob + 2) (k + 1) (n - 2) m
              else get_user_loop c (oob + 1) (k + 1) (n - 1) m)"

declare get_user_loop.simps [code]

definition controller_get_user_byte :: "ptr \<Rightarrow> u8 \<Rightarrow> nand \<Rightarrow> nand option" where
  "controller_get_user_byte oob n s =
     (let c = controller s
      in if oob_mod c = 1 then Some (s\<lparr>mem := memcpy oob (user_buf c) (unat n) (mem s)\<rparr>)
         else map_option (\<lambda>m. s\<lparr>mem := m\<rparr>) (get_user_loop c oob 0 n (mem s)))"

partial_function (option) set_user_loop :: "hw_controller \<Rightarrow> ptr \<Rightarrow> nat \<Rightarrow> u8 \<Rightarrow> memory \<Rightarrow> memory option" where
  "set_user_loop c oob k n m =
     (if n = 0 then Some m
      else let a = user_buf c + 4 * (k * 2);
               m = st32 a (ucast (m oob)) m
           in if user_mode c = 2
              then let m = st32 a (ld32 m a OR push_bit 8 (ucast (m (oob + 1)))) m
                   in set_user_loop c (oob + 2) (k + 1) (n - 2) m
              else set_user_loop c (oob + 1) (k + 1) (n - 1) m)"

declare set_user_loop.simps [code]

definition controller_set_user_byte :: "ptr \<Rightarrow> u8 \<Rightarrow> nand \<Rightarrow> nand option" where
  "controller_set_user_byte oob n s =
     (let c = controller s
      in if oob_mod c = 1 then Some (s\<lparr>mem := memcpy (user_buf c) oob (unat n) (mem s)\<rparr>)
         else map_option (\<lambda>m. s\<lparr>mem := m\<rparr>) (set_user_loop c oob 0 n (mem s)))"

section \<open>Filling the controller structure\<close>

definition CE_PAD_DEFAULT :: u32 where
  "CE_PAD_DEFAULT = 0xe OR push_bit 4 0xd OR push_bit 8 0xb OR push_bit 12 0x7"

definition RB_PAD_DEFAULT :: u32 where
  "RB_PAD_DEFAULT = 0xe"

definition pad_select :: "u32 \<Rightarrow> nat \<Rightarrow> u32" where
  "pad_select pads i = push_bit 10 (drop_bit (i * 4) pads AND 0xf)"

definition amlnand_hwcontroller_init :: "nfc \<Rightarrow> nand \<Rightarrow> int \<times> nand" where
  "amlnand_hwcontroller_init hw s =
     (let c = controller s;
          c = c\<lparr>ce_enable := map (pad_select CE_PAD_DEFAULT) [0..<MAX_CHIP_NUM],
                rb_enable := map (pad_select RB_PAD_DEFAULT) [0..<MAX_CHIP_NUM],
                ctl_option := (ctl_option c OR NAND_CTRL_NONE_RB) OR 0xc0\<rparr>;
          (ret, s) = controller_hw_init hw (s\<lparr>controller := c\<rparr>);
          c = controller s
      in (ret, s\<lparr>controller := c\<lparr>bch_descs := bch_list, max_bch := of_nat (length bch_list)\<rparr>\<rparr>))"

end
