(* ===== verification/ControllerProps.thy ===== *)
theory ControllerProps
  imports Controller
begin

text \<open>
  Properties of the controller layer: busy waits are bounded and sound, the ECC
  verdict of a transfer is the maximum over its units, the user bytes survive
  the descriptor buffer, and the chosen ECC mode is the strongest that fits.
  The concrete controller \<open>demo_hw\<close> and state \<open>demo_nand\<close> serve as witnesses.
\<close>

section \<open>A concrete controller and state\<close>

definition demo_hw :: nfc where
  "demo_hw = \<lparr>reg_val = (\<lambda>evs r. case r of P_NAND_CMD \<Rightarrow> 0xf0000000 | P_NAND_CFG \<Rightarrow> 0 | P_NAND_BUF \<Rightarrow> 0xe0),
     dma_mem = (\<lambda>evs m. m)\<rparr>"

definition demo_ctl :: hw_controller where
  "demo_ctl = \<lparr>chip_selected = 0x3800, rb_received = 0x3800, ce_enable = [0x3800, 0x3400, 0x2c00, 0x1c00],
     rb_enable = [0x3800, 0, 0, 0], chip_num = 1, flash_type = 0, mfr_type = 0x2c, onfi_mode = 0, max_bch = 9,
     ecc_unit = 1024, ecc_bytes = 70, ecc_steps = 8, oobtail = 0, bch_mode = 5, user_mode = 2, ran_mode = 1,
     oobavail = 16, oob_mod = 0, oob_fill_data = 64, oob_fill_boot = 8320, ecc_cnt_limit = 34, ecc_cnt_cur = 0,
     ecc_max = 40, page_shift = 13, block_shift = 21, internal_page_nums = 0x80000, zero_cnt = 0, page_addr = 0,
     ctl_option = 0xc2, data_buf = 100000, user_buf = 4000, page_buf = 200000, oob_buf = 300000,
     slc_info = \<lparr>slc_flag = 0, pagelist = [], slc_reg_cnt = 0, slc_reg_addr = [], slc_def_val = [], slc_offs_val = []\<rparr>,
     retry_info = \<lparr>rr_flag = 0, default_flag = 0, info_save_blk = 0, reg_cnt_lp = 0, reg_cnt_up = 0, retry_cnt_lp = 0, retry_cnt_up = 0,
       cur_cnt_lp = [0, 0, 0, 0], cur_cnt_up = [0, 0, 0, 0], reg_addr_lp = [], reg_addr_up = [], rr_def_val = [], reg_offs_val_lp = [],
       reg_offs_val_up = []\<rparr>,
     data_dma_addr = 0, info_dma_addr = 0, bch_descs = bch_list\<rparr>"

definition demo_flash :: nand_flash where
  "demo_flash = \<lparr>fl_id = [0x2c, 0x88, 0x04, 0x4b, 0xa9, 0, 0, 0], pagesize = 8192, chipsize = 8192, blocksize = 0x200000,
     oobsize = 640, internal_chipnr = 1, T_REA = 16, T_RHOH = 15, fl_onfi_mode = 0, new_type = 0, fl_option = 0\<rparr>"

definition demo_ops :: chip_ops_para where
  "demo_ops = \<lparr>op_page_addr = 0, op_chipnr = 0, op_data_buf = 400000, op_oob_buf = 500000, op_oob_mode = NAND_HW_ECC,
     op_bit_flip = 0, op_ecc_err = 0, op_ooblen = 0, op_option = 0\<rparr>"

definition demo_arg :: "u8 \<Rightarrow> nand_arg_info" where [simp]:
  "demo_arg t = \<lparr>arg_type = t, valid_blk_addr = 5, valid_page_addr = 0, free_blk_addr = 0, arg_valid = 1, timestamp = 1,
     update_flag = 0\<rparr>"

definition demo_nand :: nand where
  "demo_nand = \<lparr>state = CHIP_READY, nand_status = 0, controller = demo_ctl, ops_para = demo_ops, flash = demo_flash,
     block_status = 600000, nand_bbtinfo = demo_arg 0, shipped_bbtinfo = demo_arg 0, config_msg = demo_arg 0,
     nand_key = demo_arg 1, nand_secure = demo_arg 1, uboot_env = demo_arg 1, shipped_bbt_ptr = 0, config_ptr = 900000,
     reserved_blk = replicate 48 0xff, max_ecc_per_page = 0, user_page_buf = 700000, user_oob_buf = 800000,
     debug_flag = 0, nand_idleflag = False, spi_nand_mutex = False, amlnf = guard_init, mem = (\<lambda>_. 0), bus = []\<rparr>"

section \<open>Busy waits\<close>

lemma fifo_size_bus: "bus (snd (NFC_CMDFIFO_SIZE hw s)) = Rd P_NAND_CMD # bus s"
  by (simp add: NFC_CMDFIFO_SIZE_def aml_read_reg32_def Let_def)

lemma fifo_spin_bus: "\<exists>n\<le>Suc k. bus (fifo_spin hw k s) = replicate n (Rd P_NAND_CMD) @ bus s"
proof (induction k arbitrary: s)
  case 0
  then show ?case
    by (intro exI [of _ 1]) (simp add: fifo_size_bus)
next
  case (Suc k)
  obtain n where n: "n \<le> Suc k" "bus (fifo_spin hw k (snd (NFC_CMDFIFO_SIZE hw s))) =
      replicate n (Rd P_NAND_CMD) @ Rd P_NAND_CMD # bus s"
    using Suc.IH [of "snd (NFC_CMDFIFO_SIZE hw s)"] by (auto simp: fifo_size_bus)
  show ?case
  proof (cases "fst (NFC_CMDFIFO_SIZE hw s) > 0")
    case True
    then show ?thesis
      using n by (intro exI [of _ "Suc n"]) (simp add: split_beta replicate_app_Cons_same)
  next
    case False
    then show ?thesis
      by (intro exI [of _ 1]) (simp add: split_beta fifo_size_bus)
  qed
qed

text \<open>
  C40.  However the hardware behaves, waiting for the command FIFO ends after at
  most \<open>NFC_FIFO_SPIN_MAX\<close> reads of the status register, and does nothing else
  on the bus.
\<close>

theorem wait_fifo_bounded:
  "\<exists>n\<le>NFC_FIFO_SPIN_MAX. bus (NFC_WAIT_FIFO_EMPTY hw s) = replicate n (Rd P_NAND_CMD) @ bus s"
  using fifo_spin_bus [of "NFC_FIFO_SPIN_MAX - 1" hw s] by (simp add: NFC_WAIT_FIFO_EMPTY_def)

lemma poll_ready: "poll ready limit cnt s = (c, t) \<Longrightarrow> c < limit \<Longrightarrow> \<exists>u. ready u = (True, t)"
proof (induction "Suc limit - cnt" arbitrary: cnt s rule: less_induct)
  case less
  obtain b s1 where r: "ready s = (b, s1)"
    by (cases "ready s")
  have p: "poll ready limit cnt s =
      (if b then (cnt, s1) else if cnt \<le> limit then poll ready limit (cnt + 1) s1 else (cnt + 1, s1))"
    by (subst poll.simps) (simp add: r)
  show ?case
  proof (cases b)
    case True
    then show ?thesis
      using less.prems p r by auto
  next
    case False
    then have "cnt \<le> limit" "poll ready limit (cnt + 1) s1 = (c, t)"
      using less.prems p by (auto split: if_splits)
    then show ?thesis
      using less.hyps [of "cnt + 1" s1] less.prems(2) by simp
  qed
qed

lemma status_ready_read:
  assumes "status_ready hw u = (True, t)"
  shows "\<exists>evs. bus t = Rd P_NAND_BUF # evs \<and> has (ucast (reg_val hw (bus t) P_NAND_BUF) :: u8) 0x40"
  using assms
  by (auto simp: status_ready_def controller_read_byte_def nandphy_readb_def aml_read_reg32_def Let_def split_beta)

lemma rb_ready_read:
  assumes "rb_ready hw u = (True, t)"
  shows "\<exists>evs. bus t = Rd P_NAND_CMD # evs"
  using assms by (auto simp: rb_ready_def NFC_GET_RB_STATUS_def aml_read_reg32_def Let_def split_beta)

lemma ctl_option_kept:
  "ctl_option (controller (NFC_WAIT_FIFO_EMPTY hw s)) = ctl_option (controller s)"
  "ctl_option (controller (idle hw n s)) = ctl_option (controller s)"
proof -
  have *: "controller (fifo_spin hw k s) = controller s" for k s
    by (induction k arbitrary: s) (simp_all add: NFC_CMDFIFO_SIZE_def aml_read_reg32_def Let_def)
  then show "ctl_option (controller (NFC_WAIT_FIFO_EMPTY hw s)) = ctl_option (controller s)"
    by (simp add: NFC_WAIT_FIFO_EMPTY_def)
  show "ctl_option (controller (idle hw n s)) = ctl_option (controller s)"
    by (simp add: idle_def NFC_SEND_CMD_IDLE_def NFC_SEND_CMD_def aml_write_reg32_def NFC_WAIT_FIFO_EMPTY_def *)
qed

text \<open>
  When waiting for a chip whose ready line is not wired
  (\<open>NAND_CTRL_NONE_RB\<close>) reports success, the last thing read on the bus was a
  status byte with the ready bit set.
\<close>

theorem quene_rb_success_is_ready:
  assumes "controller_quene_rb hw chipnr s = Some (0, t)" "has (ctl_option (controller s)) NAND_CTRL_NONE_RB"
  shows "\<exists>evs. bus t = Rd P_NAND_BUF # evs \<and> has (ucast (reg_val hw (bus t) P_NAND_BUF) :: u8) 0x40"
proof -
  obtain u where sel: "controller_select_chip hw chipnr s = Some (0, u)"
    using assms(1) by (auto simp: controller_quene_rb_def controller_select_chip_def Let_def split: if_splits)
  then have opt: "ctl_option (controller u) = ctl_option (controller s)"
    by (auto simp: controller_select_chip_def Let_def ctl_option_kept split: if_splits)
  let ?p = "poll (status_ready hw) (busy_limit (state s)) 0 (idle hw 20 (controller_cmd_ctrl hw 0x70 NAND_CTRL_CLE
    (NFC_WAIT_FIFO_EMPTY hw (idle hw 0 (idle hw 0 u)))))"
  have "t = snd ?p" "fst ?p < busy_limit (state s)"
    using assms sel opt
    by (auto simp: controller_quene_rb_def ctl_option_kept Let_def split_beta NAND_BUSY_FAILURE_def split: if_splits)
  then show ?thesis
    using poll_ready [of "status_ready hw" "busy_limit (state s)" 0 _ "fst ?p" t] status_ready_read
    by (metis prod.collapse)
qed


lemma fifo_spin_empty: "fst (NFC_CMDFIFO_SIZE hw s) = 0 \<Longrightarrow> fifo_spin hw k s = snd (NFC_CMDFIFO_SIZE hw s)"
  by (cases k) (simp_all add: split_beta)

lemma demo_size: "NFC_CMDFIFO_SIZE demo_hw s = (0, nfc_event demo_hw (Rd P_NAND_CMD) s)"
  by (simp add: NFC_CMDFIFO_SIZE_def aml_read_reg32_def demo_hw_def Let_def)

lemma demo_wait: "NFC_WAIT_FIFO_EMPTY demo_hw s = nfc_event demo_hw (Rd P_NAND_CMD) s"
  by (simp add: NFC_WAIT_FIFO_EMPTY_def fifo_spin_empty demo_size)

lemma demo_poll_status: "poll (status_ready demo_hw) limit cnt s = (cnt, snd (status_ready demo_hw s))"
proof -
  have "fst (status_ready demo_hw s)"
    by (simp add: status_ready_def controller_read_byte_def nandphy_readb_def aml_read_reg32_def Let_def split_beta
        demo_hw_def has_def)
  then show ?thesis
    by (subst poll.simps) (simp add: split_beta)
qed

theorem quene_rb_success_is_ready_witness:
  "\<exists>t. controller_quene_rb demo_hw 0 demo_nand = Some (0, t) \<and>
     (\<exists>evs. bus t = Rd P_NAND_BUF # evs \<and> has (ucast (reg_val demo_hw (bus t) P_NAND_BUF) :: u8) 0x40)"
proof -
  have opt: "has (ctl_option (controller demo_nand)) NAND_CTRL_NONE_RB"
    by (simp add: demo_nand_def demo_ctl_def has_def c_consts)
  have "\<exists>t. controller_quene_rb demo_hw 0 demo_nand = Some (0, t)"
    using opt by (simp add: controller_quene_rb_def controller_select_chip_def Let_def ctl_option_kept
        demo_poll_status busy_limit_def)
  then show ?thesis
    using quene_rb_success_is_ready [OF _ opt, of demo_hw 0] by blast
qed


definition step_ecc :: "nand \<Rightarrow> nat \<Rightarrow> nat" where
  "step_ecc s i = unat (NAND_ECC_CNT (user_info (controller s) (mem s) i))"

lemma ecc_cnt_bound: "unat (NAND_ECC_CNT w) \<le> 63"
proof -
  have "NAND_ECC_CNT w \<le> 0x3f"
    unfolding NAND_ECC_CNT_def by (rule word_and_le1)
  then show ?thesis
    by (simp add: word_le_nat_alt)
qed

lemma hwecc_steps_ok:
  assumes "\<forall>i\<in>set is. step_ecc s i \<noteq> 63" "unat (ecc_cnt_cur (controller s)) = k"
  shows "\<exists>t. hwecc_steps is k s = (0, t) \<and> unat (ecc_cnt_cur (controller t)) = fold max (map (step_ecc s) is) k
    \<and> unat (max_ecc_per_page t) = fold max (map (step_ecc s) is) k"
  using assms
proof (induction "is" arbitrary: s k)
  case Nil
  have "unat (ecc_cnt_cur (controller s)) < 2 ^ 8"
    using unsigned_less [of "ecc_cnt_cur (controller s)"] by simp
  then show ?case
    using Nil by simp
next
  case (Cons i "is")
  let ?c = "controller s"
  define w where "w = NAND_ECC_CNT (user_info ?c (mem s) i)"
  define cnt :: u8 where "cnt = (if ucast (ecc_cnt_cur ?c) > w then ecc_cnt_cur ?c else ucast w)"
  let ?s = "s\<lparr>controller := ?c\<lparr>ecc_cnt_cur := cnt\<rparr>\<rparr>"
  have w: "unat w = step_ecc s i" "unat w \<le> 63" "unat w \<noteq> 63"
    using Cons.prems ecc_cnt_bound by (auto simp: w_def step_ecc_def)
  then have "unat (ucast w :: u8) = unat w"
    by (simp add: unat_trunc)
  then have cnt: "unat cnt = max k (step_ecc s i)"
    using w Cons.prems(2) by (auto simp: cnt_def word_less_nat_alt)
  have step: "step_ecc ?s = step_ecc s"
    by (simp add: fun_eq_iff step_ecc_def user_info_def)
  have "w \<noteq> 0x3f"
    using w by auto
  then have "hwecc_steps (i # is) k s = hwecc_steps is (max k (unat cnt)) ?s"
    unfolding hwecc_steps.simps Let_def w_def [symmetric] cnt_def [symmetric] by simp
  moreover have "max k (unat cnt) = unat (ecc_cnt_cur (controller ?s))"
    using cnt by simp
  ultimately show ?case
    using Cons.IH [of ?s "unat cnt"] Cons.prems(1) step cnt by (auto simp: max.commute)
qed

lemma hwecc_steps_bad:
  assumes "\<exists>i\<in>set is. step_ecc s i = 63"
  shows "fst (hwecc_steps is k s) = NAND_ECC_FAILURE"
  using assms
proof (induction "is" arbitrary: s k)
  case (Cons i "is")
  let ?w = "NAND_ECC_CNT (user_info (controller s) (mem s) i)"
  have step: "step_ecc (s\<lparr>controller := (controller s)\<lparr>ecc_cnt_cur := x\<rparr>\<rparr>) = step_ecc s" for x
    by (simp add: fun_eq_iff step_ecc_def user_info_def)
  have "?w = 0x3f \<longleftrightarrow> step_ecc s i = 63"
    by (simp add: word_unat_eq_iff step_ecc_def)
  moreover have "fst (hwecc_steps is k' (s\<lparr>controller := (controller s)\<lparr>ecc_cnt_cur := x\<rparr>\<rparr>)) = NAND_ECC_FAILURE"
    if "\<exists>i\<in>set is. step_ecc s i = 63" for k' x
    by (rule Cons.IH) (simp add: step that)
  ultimately show ?case
    using Cons.prems Cons.IH [of s] by (auto simp: Let_def)
qed simp

text \<open>
  C37.  The ECC verdict of a transfer: an argument error when the size is not a
  whole number of ECC units, otherwise \<open>NAND_ECC_FAILURE\<close> exactly when some
  unit's descriptor holds the uncorrectable mark, and otherwise success with
  the largest number of corrected bits over the units recorded in
  \<open>ecc_cnt_cur\<close> and \<open>max_ecc_per_page\<close>.
\<close>

theorem hwecc_verdict:
  fixes s sz
  defines "units \<equiv> [0..<unat (sz div ucast (ecc_unit (controller s)))]"
  shows "fst (controller_hwecc_correct sz s) =
      (if sz mod ucast (ecc_unit (controller s)) \<noteq> 0 then - NAND_ARGUMENT_FAILURE
       else if 63 \<in> step_ecc s ` set units then NAND_ECC_FAILURE else 0)
    \<and> (fst (controller_hwecc_correct sz s) = 0 \<longrightarrow>
        unat (ecc_cnt_cur (controller (snd (controller_hwecc_correct sz s)))) = fold max (map (step_ecc s) units) 0
        \<and> unat (max_ecc_per_page (snd (controller_hwecc_correct sz s))) = fold max (map (step_ecc s) units) 0)"
proof -
  let ?s = "s\<lparr>controller := (controller s)\<lparr>ecc_cnt_cur := 0\<rparr>\<rparr>"
  have step: "step_ecc ?s = step_ecc s"
    by (simp add: fun_eq_iff step_ecc_def user_info_def)
  have run: "controller_hwecc_correct sz s =
      (if sz mod ucast (ecc_unit (controller s)) \<noteq> 0 then (- NAND_ARGUMENT_FAILURE, s) else hwecc_steps units 0 ?s)"
    by (simp add: controller_hwecc_correct_def Let_def units_def)
  show ?thesis
  proof (cases "63 \<in> step_ecc s ` set units")
    case True
    then have "fst (hwecc_steps units 0 ?s) = NAND_ECC_FAILURE"
      by (intro hwecc_steps_bad) (auto simp: step)
    then show ?thesis
      using True by (simp add: run c_consts)
  next
    case False
    then have "\<forall>i\<in>set units. step_ecc ?s i \<noteq> 63"
      by (auto simp: step)
    from hwecc_steps_ok [OF this, of 0] show ?thesis
      using False by (auto simp: run step c_consts)
  qed
qed

theorem hwecc_verdict_witness:
  "fst (controller_hwecc_correct 8192 demo_nand) = 0
   \<and> unat (max_ecc_per_page (snd (controller_hwecc_correct 8192 demo_nand)))
     = fold max (map (step_ecc demo_nand) [0..<8]) 0"
proof -
  have e: "step_ecc demo_nand = (\<lambda>i. 0)"
    by (simp add: fun_eq_iff step_ecc_def user_info_def demo_nand_def ld32_def NAND_ECC_CNT_def)
  have u: "ecc_unit (controller demo_nand) = 1024"
    by (simp add: demo_nand_def demo_ctl_def)
  show ?thesis
    using hwecc_verdict [of 8192 demo_nand] by (simp add: u e image_constant_conv)
qed

section \<open>User bytes\<close>

lemma get_user_loop_odd:
  assumes "get_user_loop c oob k n m = Some r" "user_mode c = 2"
  shows "even n"
proof -
  have "user_mode c = 2 \<longrightarrow> even n"
    using assms(1)
  proof (rule get_user_loop.raw_induct [rotated], goal_cases)
    case (1 self c oob k n m r)
    have "even (n - 2)" if "user_mode c = 2" "n \<noteq> 0"
      using 1(2) 1(1) [of c _ _ "n - 2"] that by (auto simp: Let_def)
    then have "even (n - 2 + 2)" if "user_mode c = 2" "n \<noteq> 0"
      using that by (simp only: even_add) simp
    then show ?case
      by auto
  qed
  then show ?thesis
    using assms(2) by simp
qed

lemma pairs_step: "2 * Suc p < 256 \<Longrightarrow> (of_nat (2 * Suc p) :: u8) \<noteq> 0"
    "(of_nat (2 * Suc p) :: u8) - 2 = of_nat (2 * p)"
proof -
  assume "2 * Suc p < 256"
  then have "unat (of_nat (2 * Suc p) :: u8) = 2 * Suc p"
    by (intro unat_of_nat_small) simp
  then show "(of_nat (2 * Suc p) :: u8) \<noteq> 0"
    by (metis mult_is_0 nat.distinct(1) unsigned_0 zero_neq_numeral)
qed simp

definition apart :: "ptr \<Rightarrow> nat \<Rightarrow> ptr \<Rightarrow> nat \<Rightarrow> bool" where
  "apart a n b k \<longleftrightarrow> a + n \<le> b \<or> b + k \<le> a"

lemma user_pair_stored:
  fixes m :: memory and a b :: ptr
  defines "m1 \<equiv> st32 a (ucast (m b)) m"
  defines "m2 \<equiv> st32 a (ld32 m1 a OR push_bit 8 (ucast (m1 (b + 1)))) m1"
  assumes "b + 1 < a \<or> a + 4 \<le> b + 1"
  shows "m2 a = m b" "m2 (a + 1) = m (b + 1)" "c < a \<or> a + 4 \<le> c \<Longrightarrow> m2 c = m c"
proof -
  have one: "m1 (b + 1) = m (b + 1)"
    using assms(3) by (auto simp: m1_def st32_def)
  have "ld32 m1 a = ucast (m b)"
    by (simp only: m1_def ld32_st32)
  then have w: "ld32 m2 a = ucast (m b) OR push_bit 8 (ucast (m (b + 1)))"
    by (simp only: m2_def ld32_st32 one)
  have "ucast (ucast (m b) OR push_bit 8 (ucast (m (b + 1))) :: u32) = m b"
    by (rule bit_word_eqI) (simp add: bit_simps)
  then show "m2 a = m b"
    using ld32_byte0 [of m2 a] by (simp only: w)
  have "ucast (drop_bit 8 (ucast (m b) OR push_bit 8 (ucast (m (b + 1))) :: u32)) = m (b + 1)"
    by (rule bit_word_eqI) (auto simp: bit_simps dest: bit_imp_le_length)
  then show "m2 (a + 1) = m (b + 1)"
    using ld32_byte1 [of m2 a] by (simp only: w)
  show "c < a \<or> a + 4 \<le> c \<Longrightarrow> m2 c = m c"
    by (auto simp: m2_def m1_def st32_def)
qed

lemma set_user_loop_pairs:
  assumes "user_mode c = 2" "2 * p < 256" "apart oob (2 * p) (user_buf c + 8 * k) (8 * p)"
  shows "\<exists>m'. set_user_loop c oob k (of_nat (2 * p)) m = Some m'
    \<and> (\<forall>j<p. m' (user_buf c + 8 * (k + j)) = m (oob + 2 * j) \<and> m' (user_buf c + 8 * (k + j) + 1) = m (oob + 2 * j + 1))
    \<and> (\<forall>a. a < user_buf c + 8 * k \<or> user_buf c + 8 * (k + p) \<le> a \<longrightarrow> m' a = m a)"
  using assms
proof (induction p arbitrary: oob k m)
  case 0
  then show ?case
    by (subst set_user_loop.simps) auto
next
  case (Suc p)
  let ?a = "user_buf c + 8 * k"
  let ?m1 = "st32 ?a (ucast (m oob)) m"
  let ?m2 = "st32 ?a (ld32 ?m1 ?a OR push_bit 8 (ucast (?m1 (oob + 1)))) ?m1"
  have "oob + 1 < ?a \<or> ?a + 4 \<le> oob + 1"
    using Suc.prems(3) by (auto simp: apart_def)
  note pair = user_pair_stored [where m = m, OF this]
  have run: "set_user_loop c oob k (of_nat (2 * Suc p)) m = set_user_loop c (oob + 2) (k + 1) (of_nat (2 * p)) ?m2"
    using Suc.prems(1,2) pairs_step [of p]
    by (subst set_user_loop.simps) (simp only: Let_def if_False if_True mult.assoc [symmetric] mult.commute [of _ 2] refl, simp)
  have "apart (oob + 2) (2 * p) (user_buf c + 8 * (k + 1)) (8 * p)"
    using Suc.prems(3) by (auto simp: apart_def)
  then obtain m' where m': "set_user_loop c (oob + 2) (k + 1) (of_nat (2 * p)) ?m2 = Some m'"
    "\<forall>j<p. m' (user_buf c + 8 * (k + 1 + j)) = ?m2 (oob + 2 + 2 * j)
       \<and> m' (user_buf c + 8 * (k + 1 + j) + 1) = ?m2 (oob + 2 + 2 * j + 1)"
    "\<forall>a. a < user_buf c + 8 * (k + 1) \<or> user_buf c + 8 * (k + 1 + p) \<le> a \<longrightarrow> m' a = ?m2 a"
    using Suc.IH [of "oob + 2" "k + 1" ?m2] Suc.prems by auto
  have "m' (user_buf c + 8 * (k + j)) = m (oob + 2 * j) \<and> m' (user_buf c + 8 * (k + j) + 1) = m (oob + 2 * j + 1)"
    if "j < Suc p" for j
  proof (cases j)
    case 0
    then show ?thesis
      using m'(3) pair(1,2) by simp
  next
    case (Suc i)
    then have "?m2 (oob + 2 + 2 * i) = m (oob + 2 + 2 * i)" "?m2 (oob + 2 + 2 * i + 1) = m (oob + 2 + 2 * i + 1)"
      using Suc.prems(3) that by (intro pair(3); auto simp: apart_def)+
    then show ?thesis
      using m'(2) Suc that by (auto simp: algebra_simps)
  qed
  then show ?case
    using run m' pair(3) by auto
qed

lemma get_user_loop_pairs:
  assumes "user_mode c = 2" "2 * p < 256" "apart dst (2 * p) (user_buf c + 8 * k) (8 * p)"
  shows "\<exists>m'. get_user_loop c dst k (of_nat (2 * p)) m = Some m'
    \<and> (\<forall>j<p. m' (dst + 2 * j) = m (user_buf c + 8 * (k + j)) \<and> m' (dst + 2 * j + 1) = m (user_buf c + 8 * (k + j) + 1))
    \<and> (\<forall>a. a < dst \<or> dst + 2 * p \<le> a \<longrightarrow> m' a = m a)"
  using assms
proof (induction p arbitrary: dst k m)
  case 0
  then show ?case
    by (subst get_user_loop.simps) auto
next
  case (Suc p)
  let ?a = "user_buf c + 8 * k"
  let ?m1 = "m(dst := ucast (ld32 m ?a))"
  define M where "M = ?m1(dst + 1 := ucast (drop_bit 8 (ld32 ?m1 ?a)))"
  have lo: "M dst = m ?a"
    by (simp add: ld32_byte0 M_def)
  have out: "M b = m b" if "b \<noteq> dst" "b \<noteq> dst + 1" for b
    using that by (simp add: M_def)
  have "?m1 (?a + 1) = m (?a + 1)"
    using Suc.prems(3) by (auto simp: apart_def)
  then have hi: "M (dst + 1) = m (?a + 1)"
    using ld32_byte1 [of ?m1 ?a] by (simp add: M_def)
  have run: "get_user_loop c dst k (of_nat (2 * Suc p)) m = get_user_loop c (dst + 2) (k + 1) (of_nat (2 * p)) M"
    using Suc.prems(1,2) pairs_step [of p]
    unfolding M_def
    by (subst get_user_loop.simps) (simp only: Let_def if_False if_True mult.assoc [symmetric] mult.commute [of _ 2] refl, simp)
  have "apart (dst + 2) (2 * p) (user_buf c + 8 * (k + 1)) (8 * p)"
    using Suc.prems(3) by (auto simp: apart_def)
  then obtain m' where m': "get_user_loop c (dst + 2) (k + 1) (of_nat (2 * p)) M = Some m'"
    "\<forall>j<p. m' (dst + 2 + 2 * j) = M (user_buf c + 8 * (k + 1 + j))
       \<and> m' (dst + 2 + 2 * j + 1) = M (user_buf c + 8 * (k + 1 + j) + 1)"
    "\<forall>a. a < dst + 2 \<or> dst + 2 + 2 * p \<le> a \<longrightarrow> m' a = M a"
    using Suc.IH [of "dst + 2" "k + 1" M] Suc.prems by auto
  have "m' (dst + 2 * j) = m (user_buf c + 8 * (k + j)) \<and> m' (dst + 2 * j + 1) = m (user_buf c + 8 * (k + j) + 1)"
    if "j < Suc p" for j
  proof (cases j)
    case 0
    then show ?thesis
      using m'(3) lo hi by simp
  next
    case (Suc i)
    then show ?thesis
      using Suc.prems(3) m'(2) that out by (auto simp: algebra_simps apart_def)
  qed
  then show ?case
    using run m' out by auto
qed

lemma pairs_bytes:
  assumes "\<forall>j<p. f (2 * j) = g (2 * j) \<and> f (2 * j + 1) = g (2 * j + 1)"
  shows "\<forall>i < 2 * p. f i = g (i :: nat)"
proof (intro allI impI)
  fix i assume "i < 2 * p"
  then have "i div 2 < p" "i = 2 * (i div 2) \<or> i = 2 * (i div 2) + 1"
    by auto
  then show "f i = g i"
    using assms by metis
qed

text \<open>
  C38.  The user bytes of a page survive the controller's descriptor buffer: what
  \<open>set_usr_byte\<close> stores for an even number of bytes, \<open>get_usr_byte\<close> reads back,
  in the packed layout of large pages as well as in the two-bytes-per-unit
  layout of small ones.
\<close>

theorem user_bytes_roundtrip:
  assumes "user_mode (controller s) = 2" "even (unat n)"
    "apart oob (unat n) (user_buf (controller s)) (4 * unat n)"
    "apart dst (unat n) (user_buf (controller s)) (4 * unat n)"
  shows "\<exists>t u. controller_set_user_byte oob n s = Some t \<and> controller_get_user_byte dst n t = Some u
    \<and> mem_bytes (mem u) dst (unat n) = mem_bytes (mem s) oob (unat n)"
proof (cases "oob_mod (controller s) = 1")
  case True
  let ?t = "s\<lparr>mem := memcpy (user_buf (controller s)) oob (unat n) (mem s)\<rparr>"
  have "controller_set_user_byte oob n s = Some ?t"
    "controller_get_user_byte dst n ?t = Some (?t\<lparr>mem := memcpy dst (user_buf (controller s)) (unat n) (mem ?t)\<rparr>)"
    using True by (simp_all add: controller_set_user_byte_def controller_get_user_byte_def Let_def)
  then show ?thesis
    by (simp add: mem_bytes_def memcpy_def)
next
  case False
  obtain p where p: "unat n = 2 * p"
    using assms(2) by blast
  then have "2 * p < 2 ^ LENGTH(8)"
    by (metis unsigned_less)
  then have n: "n = of_nat (2 * p)" "2 * p < 256"
    using unat_of_nat_small [of "2 * p", where 'a = 8] p by (simp_all add: word_unat_eq_iff)
  obtain m1 where m1: "set_user_loop (controller s) oob 0 n (mem s) = Some m1"
    "\<forall>j<p. m1 (user_buf (controller s) + 8 * j) = mem s (oob + 2 * j)
       \<and> m1 (user_buf (controller s) + 8 * j + 1) = mem s (oob + 2 * j + 1)"
    using set_user_loop_pairs [of "controller s" p oob 0 "mem s"] assms p n by auto
  obtain m2 where m2: "get_user_loop (controller s) dst 0 n m1 = Some m2"
    "\<forall>j<p. m2 (dst + 2 * j) = m1 (user_buf (controller s) + 8 * j)
       \<and> m2 (dst + 2 * j + 1) = m1 (user_buf (controller s) + 8 * j + 1)"
    using get_user_loop_pairs [of "controller s" p dst 0 m1] assms p n by auto
  have "\<forall>i < 2 * p. m2 (dst + i) = mem s (oob + i)"
    by (rule pairs_bytes) (use m1(2) m2(2) in \<open>simp add: add.assoc\<close>)
  then have "mem_bytes m2 dst (unat n) = mem_bytes (mem s) oob (unat n)"
    by (simp add: mem_bytes_def p)
  then show ?thesis
    using m1(1) m2(1) False
    by (simp add: controller_set_user_byte_def controller_get_user_byte_def Let_def)
qed


theorem user_bytes_roundtrip_witness:
  "\<exists>t u. controller_set_user_byte 1000 16 demo_nand = Some t \<and> controller_get_user_byte 2000 16 t = Some u
     \<and> mem_bytes (mem u) 2000 16 = mem_bytes (mem demo_nand) 1000 16"
  using user_bytes_roundtrip [of demo_nand 16 1000 2000] by (simp add: demo_nand_def demo_ctl_def apart_def)


section \<open>The choice of the ECC mode\<close>

definition fits :: "nand_flash \<Rightarrow> bch_desc \<Rightarrow> bool" where
  "fits f d \<longleftrightarrow> bytes d + usr_mode d \<le> oobsize f div (pagesize f div unit_size d)"

definition strength :: "bch_desc \<Rightarrow> nat" where
  "strength d = (if mode d = 0x30 \<or> mode d = 0x60 then 8 else if mode d = 0x80 then 24 else if mode d = 0x90 then 30
     else if mode d = 0xa0 then 40 else if mode d = 0xb0 then 50 else 60)"

lemma bch_modes:
  "map mode bch_list = [0, 0x30, 0x60, 0x80, 0x90, 0xa0, 0xb0, 0xc0, 0x10]"
  "map unit_size bch_list = [0, 512, 1024, 1024, 1024, 1024, 1024, 1024, 384]"
  "map bytes bch_list = [0, 14, 14, 42, 54, 70, 88, 106, 106]"
  "map usr_mode bch_list = [0, 2, 2, 2, 2, 2, 2, 2, 2]"
  by (simp_all add: bch_list_def)

lemma bch_field: "i < 9 \<Longrightarrow> map fld bch_list ! i = fld (bch_list ! i)"
  by (rule nth_map) (simp add: bch_list_def)

lemma entries: "i \<in> {1..8} \<Longrightarrow> i = 1 \<or> i = 2 \<or> i = 3 \<or> i = 4 \<or> i = 5 \<or> i = 6 \<or> i = 7 \<or> i = (8 :: nat)"
  by auto

lemma bch_mode: "i < 9 \<Longrightarrow> mode (bch_list ! i) = [0, 0x30, 0x60, 0x80, 0x90, 0xa0, 0xb0, 0xc0, 0x10] ! i"
  and bch_unit: "i < 9 \<Longrightarrow> unit_size (bch_list ! i) = [0, 512, 1024, 1024, 1024, 1024, 1024, 1024, 384] ! i"
  and bch_bytes: "i < 9 \<Longrightarrow> bytes (bch_list ! i) = [0, 14, 14, 42, 54, 70, 88, 106, 106] ! i"
  and bch_usr: "i < 9 \<Longrightarrow> usr_mode (bch_list ! i) = [0, 2, 2, 2, 2, 2, 2, 2, 2] ! i"
  by (metis bch_modes bch_field)+

lemma ecc_search_none: "(\<forall>i\<in>{1..k}. \<not> fits f (ds ! i)) \<Longrightarrow> ecc_search ds f k = 0"
proof (induction k)
  case (Suc k)
  have "\<not> fits f (ds ! Suc k)" "\<forall>i\<in>{1..k}. \<not> fits f (ds ! i)"
    using Suc.prems by auto
  then show ?case
    using Suc.IH by (simp add: Let_def fits_def)
qed simp

lemma ecc_search_some:
  assumes "\<exists>i\<in>{1..k}. fits f (ds ! i)"
  shows "\<exists>i\<in>{1..k}. ecc_search ds f k = mode (ds ! i) \<and> fits f (ds ! i) \<and> (\<forall>j\<in>{i<..k}. \<not> fits f (ds ! j))"
  using assms
proof (induction k)
  case (Suc k)
  show ?case
  proof (cases "fits f (ds ! Suc k)")
    case True
    then show ?thesis
      by (intro bexI [of _ "Suc k"]) (auto simp: Let_def fits_def)
  next
    case False
    then have "\<exists>i\<in>{1..k}. fits f (ds ! i)"
      using Suc.prems by (auto simp: le_Suc_eq)
    then obtain i where i: "i \<in> {1..k}" "ecc_search ds f k = mode (ds ! i)" "fits f (ds ! i)"
      "\<forall>j\<in>{i<..k}. \<not> fits f (ds ! j)"
      using Suc.IH by blast
    have "\<forall>j\<in>{i<..Suc k}. \<not> fits f (ds ! j)"
      using i(4) False by (auto simp: le_Suc_eq)
    then show ?thesis
      using i False by (intro bexI [of _ i]) (auto simp: Let_def fits_def)
  qed
qed simp

lemma ecc_select_entry:
  assumes "i \<in> {1..8}"
  shows "\<exists>c'. ecc_select (mode (bch_list ! i)) c = Some c' \<and> ucast (ecc_unit c') = unit_size (bch_list ! i)
    \<and> ucast (ecc_bytes c') = bytes (bch_list ! i) \<and> ucast (user_mode c') = usr_mode (bch_list ! i)
    \<and> unat (ecc_max c') = strength (bch_list ! i)"
  using entries [OF assms]
  by (elim disjE) (simp_all add: bch_mode bch_unit bch_bytes bch_usr ecc_select_def ecc_setup_def strength_def)

lemma strengths:
  assumes "i \<in> {1..8}"
  shows "strength (bch_list ! i) = [0, 8, 8, 24, 30, 40, 50, 60, 60] ! i"
  using entries [OF assms] by (elim disjE) (simp_all add: bch_mode strength_def)

lemma strength_mono: "i \<in> {1..8} \<Longrightarrow> j \<in> {1..i} \<Longrightarrow> strength (bch_list ! j) \<le> strength (bch_list ! i)"
proof -
  let ?l = "[0, 8, 8, 24, 30, 40, 50, 60, 60] :: nat list"
  assume ij: "i \<in> {1..8}" "j \<in> {1..i}"
  have "sorted ?l"
    by simp
  from sorted_nth_mono [OF this, of j i] have "?l ! j \<le> ?l ! i"
    using ij by auto
  then show ?thesis
    using ij strengths [of i] strengths [of j] by simp
qed

lemma entry_bounds:
  assumes "i \<in> {1..8}"
  shows "unat (unit_size (bch_list ! i)) \<in> {384..1024} \<and> unat (bytes (bch_list ! i)) \<le> 106
    \<and> usr_mode (bch_list ! i) = 2"
  using entries [OF assms] by (elim disjE) (simp_all add: bch_unit bch_bytes bch_usr)

lemma fits_steps:
  assumes "fits f d" "unat (unit_size d) = u" "unat (bytes d) = b" "usr_mode d = 2" "u \<noteq> 0" "b \<le> 106"
    "u \<le> unat (pagesize f)"
  shows "unat (pagesize f) div u * (u + b + 2) \<le> unat (pagesize f) + unat (oobsize f)"
proof -
  let ?P = "unat (pagesize f)" and ?O = "unat (oobsize f)"
  have "unat (bytes d + usr_mode d) = b + 2"
    using assms unat_add_lem [of "bytes d" "usr_mode d"] by simp
  then have "b + 2 \<le> ?O div (?P div u)"
    using assms(1,2) by (simp add: fits_def word_le_nat_alt unat_div)
  then have "(?P div u) * (b + 2) \<le> (?P div u) * (?O div (?P div u))"
    by (rule mult_le_mono2)
  also have "\<dots> \<le> ?O"
    by simp
  finally have O: "(?P div u) * (b + 2) \<le> ?O" .
  have "?P div u * (u + b + 2) = ?P div u * u + ?P div u * (b + 2)"
    by (simp add: algebra_simps)
  also have "\<dots> \<le> ?P + ?O"
    using O by (intro add_mono) simp_all
  finally show ?thesis .
qed

lemma ecc_layout_steps:
  assumes "unat (ecc_unit c) \<le> 1024" "unat (ecc_bytes c) \<le> 106" "unat (user_mode c) = 2"
    "unat (pagesize f) + unat (oobsize f) < 2 ^ 16"
  shows "unat (ecc_steps (ecc_layout f c)) =
    (unat (pagesize f) + unat (oobsize f)) div (unat (ecc_unit c) + unat (ecc_bytes c) + 2)"
proof -
  have per: "unat (ucast (ecc_unit c) + ucast (ecc_bytes c) + ucast (user_mode c) :: u32) =
      unat (ecc_unit c) + unat (ecc_bytes c) + 2"
    using assms by (simp add: unat_word_ariths)
  have sum: "unat (pagesize f + oobsize f) = unat (pagesize f) + unat (oobsize f)"
    using assms(4) by (simp add: unat_word_ariths)
  have "(unat (pagesize f) + unat (oobsize f)) div (unat (ecc_unit c) + unat (ecc_bytes c) + 2) < 2 ^ 16"
    using assms(4) by (meson div_le_dividend le_less_trans)
  then show ?thesis
    by (simp add: ecc_layout_def Let_def unat_trunc unat_div per sum)
qed

text \<open>
  C39.  Choosing the ECC mode from the controller's table.  The choice fails
  exactly when no mode fits the spare area; otherwise the chosen mode is at
  least as strong as every mode that fits, the codewords of a page (data, parity
  and user bytes) fit into data plus spare area, and there are enough of them
  for all the data of the page.
\<close>

theorem ecc_confirm_strongest:
  assumes desc: "bch_descs (controller s) = bch_list" "max_bch (controller s) = 9"
    and P: "1024 \<le> unat (pagesize (flash s))" "unat (pagesize (flash s)) + unat (oobsize (flash s)) < 2 ^ 16"
  shows "fst (controller_ecc_confirm s) =
      (if \<exists>i\<in>{1..8}. fits (flash s) (bch_list ! i) then NAND_SUCCESS else - NAND_ARGUMENT_FAILURE)
    \<and> (fst (controller_ecc_confirm s) = NAND_SUCCESS \<longrightarrow>
        (let c = controller (snd (controller_ecc_confirm s));
             per = unat (ecc_unit c) + unat (ecc_bytes c) + unat (user_mode c)
         in (\<forall>i\<in>{1..8}. fits (flash s) (bch_list ! i) \<longrightarrow> strength (bch_list ! i) \<le> unat (ecc_max c))
            \<and> unat (ecc_steps c) * per \<le> unat (pagesize (flash s)) + unat (oobsize (flash s))
            \<and> unat (pagesize (flash s)) div unat (ecc_unit c) \<le> unat (ecc_steps c)))"
proof (cases "\<exists>i\<in>{1..8}. fits (flash s) (bch_list ! i)")
  case False
  then have "ecc_search bch_list (flash s) 8 = 0"
    using ecc_search_none [of 8] by blast
  then have "controller_ecc_confirm s = (- NAND_ARGUMENT_FAILURE, s)"
    using desc by (simp add: controller_ecc_confirm_def has_def Let_def ecc_select_def)
  then show ?thesis
    using False by (simp add: c_consts)
next
  case True
  obtain i where i: "i \<in> {1..8}" "ecc_search bch_list (flash s) 8 = mode (bch_list ! i)" "fits (flash s) (bch_list ! i)"
    "\<forall>j\<in>{i<..8}. \<not> fits (flash s) (bch_list ! j)"
    using ecc_search_some [OF True] by blast
  obtain c where c: "ecc_select (mode (bch_list ! i)) (controller s) = Some c"
    "ucast (ecc_unit c) = unit_size (bch_list ! i)" "ucast (ecc_bytes c) = bytes (bch_list ! i)"
    "ucast (user_mode c) = usr_mode (bch_list ! i)" "unat (ecc_max c) = strength (bch_list ! i)"
    using ecc_select_entry [OF i(1)] by blast
  have run: "controller_ecc_confirm s = (NAND_SUCCESS, s\<lparr>controller := ecc_layout (flash s) c\<rparr>)"
    using desc i(2) c(1) by (simp add: controller_ecc_confirm_def has_def Let_def)
  let ?u = "unat (ecc_unit c)" and ?b = "unat (ecc_bytes c)" and ?P = "unat (pagesize (flash s))"
    and ?O = "unat (oobsize (flash s))"
  have uw: "unat (unit_size (bch_list ! i)) = ?u" "unat (bytes (bch_list ! i)) = ?b" "unat (user_mode c) = 2"
    using c(2-4) entry_bounds [OF i(1)] unat_ucast_up [of "ecc_unit c", where 'b = 32]
      unat_ucast_up [of "ecc_bytes c", where 'b = 32] unat_ucast_up [of "user_mode c", where 'b = 32]
    by simp_all
  have u: "384 \<le> ?u" "?u \<le> 1024" "?b \<le> 106"
    using entry_bounds [OF i(1)] uw by auto
  have steps: "unat (ecc_steps (ecc_layout (flash s) c)) = (?P + ?O) div (?u + ?b + 2)"
    using ecc_layout_steps [of c "flash s"] u uw(3) P(2) by simp
  have "?P div ?u \<le> (?P + ?O) div (?u + ?b + 2)"
    using fits_steps [OF i(3) uw(1,2)] entry_bounds [OF i(1)] u P(1)
    by (simp add: less_eq_div_iff_mult_less_eq)
  moreover have "(?P + ?O) div (?u + ?b + 2) * (?u + ?b + 2) \<le> ?P + ?O"
    by (rule div_times_less_eq_dividend)
  moreover have "strength (bch_list ! j) \<le> strength (bch_list ! i)" if "j \<in> {1..8}" "fits (flash s) (bch_list ! j)" for j
    using strength_mono [OF i(1)] i(4) that by (metis atLeastAtMost_iff greaterThanAtMost_iff not_le)
  moreover have "ecc_unit (ecc_layout (flash s) c) = ecc_unit c" "ecc_bytes (ecc_layout (flash s) c) = ecc_bytes c"
    "user_mode (ecc_layout (flash s) c) = user_mode c" "ecc_max (ecc_layout (flash s) c) = ecc_max c"
    by (simp_all add: ecc_layout_def Let_def)
  ultimately show ?thesis
    using True run uw steps c(5) by (simp add: Let_def)
qed


theorem ecc_confirm_strongest_witness:
  "fst (controller_ecc_confirm demo_nand) = NAND_SUCCESS
   \<and> 40 \<le> unat (ecc_max (controller (snd (controller_ecc_confirm demo_nand))))"
proof -
  have f: "fits (flash demo_nand) (bch_list ! 5)"
    by (simp add: fits_def demo_nand_def demo_flash_def bch_unit bch_bytes bch_usr)
  then have ex: "\<exists>i\<in>{1..8}. fits (flash demo_nand) (bch_list ! i)"
    by (intro bexI [of _ 5]) simp_all
  have "strength (bch_list ! 5) = 40"
    by (simp add: strengths)
  moreover have "bch_descs (controller demo_nand) = bch_list" "max_bch (controller demo_nand) = 9"
    "1024 \<le> unat (pagesize (flash demo_nand))"
    "unat (pagesize (flash demo_nand)) + unat (oobsize (flash demo_nand)) < 2 ^ 16"
    by (simp_all add: demo_nand_def demo_ctl_def demo_flash_def)
  note 1 = ecc_confirm_strongest [OF this]
  moreover have "fst (controller_ecc_confirm demo_nand) = NAND_SUCCESS"
    using 1 ex by simp
  ultimately show ?thesis
    using f by (auto simp: Let_def dest: bspec [of _ _ 5])
qed

end
