(* ===== verification/ChipRead.thy ===== *)
theory ChipRead
  imports Controller
begin

text \<open>
  \<open>phy/chip_operation.c\<close>, first part: the FIFO and write-protect checks, the
  chip reset and \<open>read_page\<close>.  The C routine jumps between its command loop and
  its transfer loop (\<open>RETRY_PLANE_CMD\<close>, \<open>RETRY_CMD\<close>, \<open>RETRY_DMA\<close>,
  \<open>page_ff\<close>, \<open>new_oob_mod\<close>); the model gives every label a program point and
  every block a step, and \<open>read_run\<close> follows the jumps.  The read-retry and SLC
  entry points of the flash family are function pointers in the code and a
  parameter of type \<open>nand_hooks\<close> here, which also carries the result of the
  kernel's \<open>pinctrl_select_state\<close> and the memory allocator.
\<close>

record nand_hooks =
  slc_enter :: "nand \<Rightarrow> (int \<times> nand) option"
  slc_exit :: "nand \<Rightarrow> (int \<times> nand) option"
  retry_handle :: "u8 \<Rightarrow> nand \<Rightarrow> (int \<times> nand) option"
  retry_exit :: "(u8 \<Rightarrow> nand \<Rightarrow> (int \<times> nand) option) option"
  pin_select :: "nand \<Rightarrow> int"
  kmalloc :: "u32 \<Rightarrow> ptr"

abbreviation (input) "SANDISK_19NM \<equiv> (40 :: u8)"

abbreviation (input) "NAND_MFR_MICRON \<equiv> (0x2c :: u8)"

abbreviation (input) "NAND_MFR_INTEL \<equiv> (0x89 :: u8)"

abbreviation (input) "NAND_MFR_HYNIX \<equiv> (0xad :: u8)"

abbreviation (input) "NAND_MFR_SAMSUNG \<equiv> (0xec :: u8)"

definition cle :: "nfc \<Rightarrow> u32 \<Rightarrow> nand \<Rightarrow> nand" where
  "cle hw cmd s = controller_cmd_ctrl hw cmd NAND_CTRL_CLE s"

definition ale :: "nfc \<Rightarrow> u32 \<Rightarrow> nand \<Rightarrow> nand" where
  "ale hw a s = controller_cmd_ctrl hw a NAND_CTRL_ALE s"

definition ale_row :: "nfc \<Rightarrow> u32 \<Rightarrow> nand \<Rightarrow> nand" where
  "ale_row hw a s = ale hw (drop_bit 16 a) (ale hw (drop_bit 8 a) (ale hw a s))"

definition ale_column :: "nfc \<Rightarrow> u32 \<Rightarrow> nand \<Rightarrow> nand" where
  "ale_column hw c s = ale hw (drop_bit 8 c) (ale hw c s)"

section \<open>Pin multiplexing\<close>

text \<open>
  \<open>nand_get_chip\<close> of \<open>dev/amlnf_ctrl.c\<close> takes the mutex shared with the SPI
  controller and switches the pins.  Locking a mutex that is already held, by
  another task or by a previous turn of the retry loop, does not come back.
\<close>

definition nand_get_chip :: "nand_hooks \<Rightarrow> nand \<Rightarrow> nand option" where
  "nand_get_chip hk s =
     (if spi_nand_mutex s then None
      else let s = s\<lparr>spi_nand_mutex := True\<rparr>;
               s = s\<lparr>nand_idleflag := True\<rparr>
           in if pin_select hk s < 0 then None else Some s)"

definition nand_release_chip :: "nand \<Rightarrow> nand" where
  "nand_release_chip s =
     (if nand_idleflag s then s\<lparr>nand_idleflag := False, spi_nand_mutex := False\<rparr> else s)"

section \<open>FIFO, write protection, reset\<close>

function check_fifo_retry :: "nfc \<Rightarrow> nat \<Rightarrow> nat \<Rightarrow> nand \<Rightarrow> int \<times> nand" where
  "check_fifo_retry hw time_out_cnt retry_cnt s =
     (let (cnt, s) = poll (fifo_ready hw) 0x100000 time_out_cnt s
      in if 0x100000 \<le> cnt
         then if 3 < retry_cnt then (- NAND_FAILED, s)
              else check_fifo_retry hw cnt (retry_cnt + 1) s
         else (NAND_SUCCESS, s))"
  by pat_completeness auto
termination
  by (relation "measure (\<lambda>(hw, t, retry_cnt, s). 4 - retry_cnt)") auto

declare check_fifo_retry.simps [simp del]

definition check_cmdfifo_size :: "nfc \<Rightarrow> nand \<Rightarrow> int \<times> nand" where
  "check_cmdfifo_size hw s = check_fifo_retry hw 0 0 s"

definition fifo_or_bug :: "nfc \<Rightarrow> nand \<Rightarrow> nand option" where
  "fifo_or_bug hw s = (let (ret, s) = check_cmdfifo_size hw s in if ret \<noteq> 0 then None else Some s)"

fun check_wp_chips :: "nfc \<Rightarrow> nat list \<Rightarrow> nat \<Rightarrow> nand \<Rightarrow> (int \<times> nand) option" where
  "check_wp_chips hw [] time_out_cnt s = Some (0, s)"
| "check_wp_chips hw (i # is) time_out_cnt s = do {
     (_, s) \<leftarrow> controller_select_chip hw (of_nat i) s;
     let s = cle hw 0x70 s;
     let s = idle hw 20 s;
     let s = idle hw 0 s;
     let s = idle hw 0 s;
     let (cnt, s) = poll (fifo_ready hw) 0x2000 time_out_cnt s;
     if 0x2000 \<le> cnt then Some (- NAND_CMD_FAILURE, snd (NFC_CMDFIFO_SIZE hw s))
     else let (b, s) = controller_read_byte hw s
          in if has b 0x80 then Some (- NAND_WP_FAILURE, s)
             else check_wp_chips hw is cnt s
   }"

definition check_wp :: "nfc \<Rightarrow> nand \<Rightarrow> (int \<times> nand) option" where
  "check_wp hw s =
     (if has (ctl_option (controller s)) 1 then Some (- NAND_WP_FAILURE, s)
      else check_wp_chips hw [0..<unat (chip_num (controller s))] 0 s)"

definition nand_reset :: "nfc \<Rightarrow> u8 \<Rightarrow> nand \<Rightarrow> (int \<times> nand) option" where
  "nand_reset hw chipnr s =
     (let s = idle hw 0 s;
          s = cle hw 0xff s;
          s = idle hw 10 s;
          s = idle hw 0 s
      in do {
        (ret, s) \<leftarrow> controller_quene_rb hw chipnr s;
        if ret < 0 then Some (- NAND_BUSY_FAILURE, s)
        else let s = cle hw 0x70 s;
                 s = idle hw 20 s;
                 s = idle hw 0 s;
                 s = idle hw 0 s;
                 s = NFC_WAIT_FIFO_EMPTY hw s;
                 (status, s) = controller_read_byte hw s
             in if has status 0x40 then Some (NAND_SUCCESS, s)
                else Some (- NAND_BUSY_FAILURE, s)
      })"

section \<open>Address set-up shared by read and write\<close>

definition blk_shift :: "hw_controller \<Rightarrow> nat" where
  "blk_shift c = unat (ucast (block_shift c) - ucast (page_shift c) :: u32)"

text \<open>
  Pages at or above \<open>internal_page_nums\<close> belong to the second die of a package
  and carry its number in the row address.
\<close>

definition die_adjust :: "nand \<Rightarrow> nand" where
  "die_adjust s =
     (let c = controller s
      in if internal_page_nums c \<le> page_addr c
         then s\<lparr>controller := c\<lparr>page_addr := (page_addr c - internal_page_nums c)
                 OR (internal_page_nums c * ucast (internal_chipnr (flash s)))\<rparr>\<rparr>
         else s)"

definition plane0_addr :: "nat \<Rightarrow> u32 \<Rightarrow> u32" where
  "plane0_addr sh a =
     (let plane_page_addr = a AND (push_bit sh 1 - 1);
          plane_blk_addr = push_bit 1 (drop_bit sh a)
      in push_bit sh plane_blk_addr OR plane_page_addr)"

definition plane1_addr :: "nat \<Rightarrow> u32 \<Rightarrow> u32" where
  "plane1_addr sh a =
     (let plane_page_addr = a AND (push_bit sh 1 - 1);
          plane_blk_addr = push_bit 1 (drop_bit sh a)
      in push_bit sh (plane_blk_addr + 1) OR plane_page_addr)"

definition ops_chip_num :: "nand \<Rightarrow> u8" where
  "ops_chip_num s = (if has (op_option (ops_para s)) DEV_MULTI_CHIP_MODE then chip_num (controller s) else 1)"

definition ops_slc_mode :: "nand \<Rightarrow> nat" where
  "ops_slc_mode s =
     (if has (op_option (ops_para s)) DEV_SLC_MODE
      then if new_type (flash s) = SANDISK_19NM then 1
           else if 0 < new_type (flash s) \<and> new_type (flash s) < 10 then 2 else 0
      else 0)"

section \<open>Read: local variables and program points\<close>

record read_locals =
  r_buf :: ptr
  r_tmp_buf :: ptr
  r_page_size :: u32
  r_bch_mode :: u8
  r_plane_num :: nat
  r_plane0_page_addr :: u32
  r_plane1_page_addr :: u32
  r_chip_num :: u8
  r_user_byte_num :: u8
  r_with_data :: bool
  r_with_oob :: bool
  r_new_oob :: bool
  r_slc_mode :: nat
  r_up_page :: bool
  r_retry_op_cnt :: int
  r_retry_cnt :: u8
  r_plane0_retry_flag :: bool
  r_all_ff_flag :: bool
  r_i :: u8
  r_chipnr :: u8

datatype read_pc = CmdLoop | RetryCmd | DmaLoop | RetryDma | PageFF | NewOobMod | Exit int

definition hynix_retry_square :: "u8 \<Rightarrow> bool" where
  "hynix_retry_square t \<longleftrightarrow> t = 4 \<or> t = 3 \<or> t = 6"

definition sandisk_up_page :: "nand \<Rightarrow> bool" where
  "sandisk_up_page s =
     (let sh = blk_shift (controller s);
          tmp_page = op_page_addr (ops_para s) mod push_bit sh 1
      in \<not> has (op_option (ops_para s)) DEV_SLC_MODE \<and> new_type (flash s) = SANDISK_19NM
         \<and> (tmp_page mod 2 = 0 \<and> tmp_page \<noteq> 0 \<or> tmp_page = push_bit sh 1 - 1))"

definition read_setup :: "nand \<Rightarrow> read_locals \<times> nand" where
  "read_setup s =
     (let p = ops_para s;
          s = s\<lparr>controller := (controller s)\<lparr>page_addr := op_page_addr p\<rparr>\<rparr>;
          s = die_adjust s;
          c = controller s; f = flash s; rr = retry_info c;
          sh = blk_shift c;
          lp = int (unat (retry_cnt_lp rr));
          soft = has (op_option p) DEV_ECC_SOFT_MODE \<or> bch_mode c = 0;
          multi = has (op_option p) DEV_MULTI_PLANE_MODE;
          new_oob = (oob_mod c \<noteq> 0 \<and> op_oob_buf p \<noteq> NULL \<and> op_data_buf p = NULL)
      in (\<lparr>r_buf = op_data_buf p,
           r_tmp_buf = oob_buf c,
           r_page_size = (if new_oob then ucast (ecc_unit c)
                          else if soft then pagesize f + oobsize f
                          else ucast (ecc_steps c) * ucast (ecc_unit c)),
           r_bch_mode = (if soft then 0 else bch_mode c),
           r_plane_num = (if multi then 2 else 1),
           r_plane0_page_addr = (if multi then plane0_addr sh (page_addr c) else 0),
           r_plane1_page_addr = (if multi then plane1_addr sh (page_addr c) else 0),
           r_chip_num = ops_chip_num s,
           r_user_byte_num = (if soft then ucast (oobsize f) else ucast (ecc_steps c) * user_mode c),
           r_with_data = (op_data_buf p \<noteq> NULL),
           r_with_oob = (op_oob_buf p \<noteq> NULL),
           r_new_oob = new_oob,
           r_slc_mode = ops_slc_mode s,
           r_up_page = sandisk_up_page s,
           r_retry_op_cnt = (if hynix_retry_square (new_type f) then lp * lp else lp),
           r_retry_cnt = 0,
           r_plane0_retry_flag = False,
           r_all_ff_flag = False,
           r_i = 0,
           r_chipnr = 0\<rparr>, s))"

definition read_chipnr :: "read_locals \<Rightarrow> nand \<Rightarrow> u8" where
  "read_chipnr L s = (if 1 < r_chip_num L then r_i L else op_chipnr (ops_para s))"

definition is_micron :: "nand \<Rightarrow> bool" where
  "is_micron s \<longleftrightarrow> mfr_type (controller s) = NAND_MFR_MICRON \<or> mfr_type (controller s) = NAND_MFR_INTEL"

section \<open>Read: sending the command\<close>

definition read_cmd_plane :: "nfc \<Rightarrow> read_locals \<Rightarrow> nand \<Rightarrow> nand option" where
  "read_cmd_plane hw L s =
     (if is_micron s
      then let s = cle hw 0x00 s;
               s = ale_column hw 0 s;
               s = ale_row hw (r_plane0_page_addr L) s;
               s = cle hw 0x32 s;
               s = idle hw 10 s
           in do {
             (_, s) \<leftarrow> controller_quene_rb hw (r_chipnr L) s;
             let s = cle hw 0x00 s;
             let s = ale_column hw 0 s;
             let s = ale_row hw (r_plane1_page_addr L) s;
             Some (cle hw 0x30 s)
           }
      else let s = cle hw 0x60 s;
               s = ale_row hw (r_plane0_page_addr L) s;
               s = cle hw 0x60 s;
               s = ale_row hw (r_plane1_page_addr L) s
           in Some (cle hw 0x30 s))"

definition read_cmd_single :: "nfc \<Rightarrow> nand \<Rightarrow> nand" where
  "read_cmd_single hw s =
     (let s = cle hw 0x00 s;
          s = ale_column hw 0 s;
          s = ale_row hw (page_addr (controller s)) s
      in cle hw 0x30 s)"

definition step_cmd_loop ::
  "nfc \<Rightarrow> nand_hooks \<Rightarrow> read_locals \<Rightarrow> nand \<Rightarrow> ((read_pc \<times> read_locals) \<times> nand) option" where
  "step_cmd_loop hw hk L s =
     (if \<not> r_i L < r_chip_num L then Some ((DmaLoop, L\<lparr>r_i := 0\<rparr>), s)
      else let L = L\<lparr>r_chipnr := read_chipnr L s, r_retry_cnt := 0\<rparr>
           in do {
             (ret, s) \<leftarrow> controller_quene_rb hw (r_chipnr L) s;
             if ret \<noteq> 0 then Some ((Exit ret, L), s)
             else if r_plane_num L \<noteq> 2 \<and> r_slc_mode L = 1
             then do { (_, s) \<leftarrow> slc_enter hk s; Some ((RetryCmd, L), s) }
             else Some ((RetryCmd, L), s)
           })"

definition step_retry_cmd ::
  "nfc \<Rightarrow> read_locals \<Rightarrow> nand \<Rightarrow> ((read_pc \<times> read_locals) \<times> nand) option" where
  "step_retry_cmd hw L s = do {
     s \<leftarrow> (if r_plane_num L = 2 then read_cmd_plane hw L s else Some (read_cmd_single hw s));
     let s = idle hw 10 s;
     s \<leftarrow> fifo_or_bug hw s;
     if r_retry_cnt L \<noteq> 0 then Some ((RetryDma, L), s)
     else Some ((CmdLoop, L\<lparr>r_i := r_i L + 1\<rparr>), s)
   }"

definition step_dma_loop :: "read_locals \<Rightarrow> nand \<Rightarrow> ((read_pc \<times> read_locals) \<times> nand) option" where
  "step_dma_loop L s =
     (if \<not> r_i L < r_chip_num L then Some ((NewOobMod, L), s)
      else Some ((RetryDma, L\<lparr>r_chipnr := read_chipnr L s, r_retry_cnt := 0\<rparr>), s))"

section \<open>Read: the ECC verdict of one transfer\<close>

datatype ecc_verdict = EccFF | EccRetry | EccDone

definition retry_limit :: "read_locals \<Rightarrow> nand \<Rightarrow> int" where
  "retry_limit L s =
     (if new_type (flash s) \<noteq> SANDISK_19NM then r_retry_op_cnt L
      else if r_up_page L then int (unat (retry_cnt_up (retry_info (controller s))))
      else int (unat (retry_cnt_lp (retry_info (controller s)))))"

definition need_retry :: "read_locals \<Rightarrow> nand \<Rightarrow> bool \<times> read_locals" where
  "need_retry L s =
     (if rr_flag (retry_info (controller s)) \<noteq> 0 \<and> r_slc_mode L = 0
      then (int (unat (r_retry_cnt L)) < retry_limit L s, L\<lparr>r_retry_cnt := r_retry_cnt L + 1\<rparr>)
      else (False, L))"

definition count_ecc_err :: "nand \<Rightarrow> nand" where
  "count_ecc_err s = s\<lparr>ops_para := (ops_para s)\<lparr>op_ecc_err := op_ecc_err (ops_para s) + 1\<rparr>\<rparr>"

definition count_bit_flip :: "nand \<Rightarrow> nand" where
  "count_bit_flip s = s\<lparr>ops_para := (ops_para s)\<lparr>op_bit_flip := op_bit_flip (ops_para s) + 1\<rparr>\<rparr>"

definition bit_flip_seen :: "read_locals \<Rightarrow> nand \<Rightarrow> bool" where
  "bit_flip_seen L s =
     (if r_retry_cnt L \<noteq> 0 then retry_limit L s - 2 < int (unat (r_retry_cnt L))
      else ecc_cnt_limit (controller s) < ecc_cnt_cur (controller s) \<and> new_type (flash s) = 0)"

definition ecc_check ::
  "nfc \<Rightarrow> nand_hooks \<Rightarrow> bool \<Rightarrow> read_locals \<Rightarrow> nand \<Rightarrow> ((ecc_verdict \<times> read_locals) \<times> nand) option" where
  "ecc_check hw hk reset_chip L s = do {
     s \<leftarrow> controller_get_user_byte (r_tmp_buf L) (r_user_byte_num L) s;
     let (ret, s) = controller_hwecc_correct (r_page_size L) s;
     if ret = NAND_ECC_FAILURE
     then if zero_cnt (controller s) < ucast (ecc_max (controller s))
          then Some ((EccFF, L\<lparr>r_all_ff_flag := True\<rparr>), s)
          else let (need, L) = need_retry L s
               in if need
                  then do { (_, s) \<leftarrow> retry_handle hk (r_chipnr L) s; Some ((EccRetry, L), s) }
                  else let s = count_ecc_err s
                       in if reset_chip \<and> rr_flag (retry_info (controller s)) \<noteq> 0
                             \<and> new_type (flash s) \<noteq> 0 \<and> new_type (flash s) < 10
                          then do { (_, s) \<leftarrow> nand_reset hw (r_chipnr L) s; Some ((EccDone, L), s) }
                          else Some ((EccDone, L), s)
     else if ret < 0 then None
     else Some ((EccDone, L), if bit_flip_seen L s then count_bit_flip s else s)
   }"

definition retry_leave :: "nand_hooks \<Rightarrow> read_locals \<Rightarrow> nand \<Rightarrow> nand option" where
  "retry_leave hk L s =
     (case retry_exit hk of None \<Rightarrow> Some s
      | Some ex \<Rightarrow> if r_retry_cnt L \<noteq> 0 then do { (_, s) \<leftarrow> ex (r_chipnr L) s; Some s } else Some s)"

definition copy_out :: "read_locals \<Rightarrow> nand \<Rightarrow> read_locals \<times> nand" where
  "copy_out L s =
     (let n = unat (r_page_size L);
          (L, s) = (if r_with_data L
             then (L\<lparr>r_buf := r_buf L + n\<rparr>,
                   s\<lparr>mem := (if r_all_ff_flag L then memset (r_buf L) 0xff n (mem s)
                             else memcpy (r_buf L) (data_buf (controller s)) n (mem s))\<rparr>)
             else (L, s));
          u = unat (r_user_byte_num L);
          (L, s) = (if r_with_oob L
             then (L\<lparr>r_tmp_buf := r_tmp_buf L + u\<rparr>,
                   if r_all_ff_flag L then s\<lparr>mem := memset (r_tmp_buf L) 0xff u (mem s)\<rparr> else s)
             else (L, s))
      in (L\<lparr>r_all_ff_flag := False\<rparr>, s))"

definition dma_or_bug :: "nfc \<Rightarrow> read_locals \<Rightarrow> nand \<Rightarrow> nand option" where
  "dma_or_bug hw L s = do {
     (ret, s) \<leftarrow> controller_dma_read hw (r_page_size L) (r_bch_mode L) s;
     if ret \<noteq> 0 then None else Some s
   }"

definition seed_page :: "u32 \<Rightarrow> nand \<Rightarrow> nand" where
  "seed_page a s = s\<lparr>controller := (controller s)\<lparr>page_addr := a\<rparr>\<rparr>"

section \<open>Read: the transfers\<close>

definition read_plane0 ::
  "nfc \<Rightarrow> nand_hooks \<Rightarrow> read_locals \<Rightarrow> nand \<Rightarrow> ((bool \<times> read_locals) \<times> nand) option" where
  "read_plane0 hw hk L s =
     (if r_plane0_retry_flag L then Some ((False, L), s)
      else let micron = is_micron s;
               s = (if micron then s
                    else let s = cle hw 0x00 s;
                             s = ale_column hw 0 s;
                             s = ale_row hw (r_plane0_page_addr L) s;
                             s = cle hw 0x05 s;
                             s = ale_column hw 0 s;
                             s = cle hw 0xe0 s
                         in idle hw 20 s);
               s = seed_page (r_plane0_page_addr L) s
           in do {
             s \<leftarrow> dma_or_bug hw L s;
             let L = (if micron then L\<lparr>r_all_ff_flag := False\<rparr> else L);
             if r_bch_mode L = 0 then let (L, s) = copy_out L s in Some ((False, L), s)
             else do {
               ((v, L), s) \<leftarrow> ecc_check hw hk False L s;
               case v of
                 EccRetry \<Rightarrow> Some ((True, L), s)
               | EccFF \<Rightarrow> (let (L, s) = copy_out L s in Some ((False, L), s))
               | EccDone \<Rightarrow> do {
                   s \<leftarrow> retry_leave hk L s;
                   let L = L\<lparr>r_plane0_retry_flag := True, r_retry_cnt := 0\<rparr>;
                   let (L, s) = copy_out L s;
                   Some ((False, L), s)
                 }
             }
           })"

definition read_plane1 ::
  "nfc \<Rightarrow> nand_hooks \<Rightarrow> read_locals \<Rightarrow> nand \<Rightarrow> ((read_pc \<times> read_locals) \<times> nand) option" where
  "read_plane1 hw hk L s =
     (let micron = is_micron s;
          s = (if micron
               then let s = cle hw 0x06 s;
                        s = ale_column hw 0 s;
                        s = ale_row hw (r_plane1_page_addr L) s
                    in cle hw 0xe0 s
               else let s = cle hw 0x00 s;
                        s = ale_column hw 0 s;
                        s = ale_row hw (r_plane1_page_addr L) s;
                        s = cle hw 0x05 s;
                        s = ale_column hw 0 s
                    in cle hw 0xe0 s);
          s = idle hw 20 s;
          s = seed_page (r_plane1_page_addr L) s
      in do {
        s \<leftarrow> dma_or_bug hw L s;
        if r_bch_mode L = 0
        then if micron then Some ((PageFF, L), s)
             else do {
               s \<leftarrow> retry_leave hk L s;
               Some ((PageFF, L\<lparr>r_plane0_retry_flag := False, r_retry_cnt := 0\<rparr>), s)
             }
        else do {
          ((v, L), s) \<leftarrow> ecc_check hw hk True L s;
          case v of
            EccRetry \<Rightarrow> Some ((RetryCmd, L), s)
          | EccFF \<Rightarrow> Some ((PageFF, L), s)
          | EccDone \<Rightarrow> do {
              s \<leftarrow> retry_leave hk L s;
              Some ((PageFF, L\<lparr>r_plane0_retry_flag := False, r_retry_cnt := 0\<rparr>), s)
            }
        }
      })"

definition read_single ::
  "nfc \<Rightarrow> nand_hooks \<Rightarrow> read_locals \<Rightarrow> nand \<Rightarrow> ((read_pc \<times> read_locals) \<times> nand) option" where
  "read_single hw hk L s = do {
     s \<leftarrow> dma_or_bug hw L s;
     if r_bch_mode L = 0 then Some ((PageFF, L), s)
     else do {
       ((v, L), s) \<leftarrow> ecc_check hw hk True L s;
       case v of
         EccRetry \<Rightarrow> Some ((RetryCmd, L), s)
       | EccFF \<Rightarrow> Some ((PageFF, L), s)
       | EccDone \<Rightarrow> do { s \<leftarrow> retry_leave hk L s; Some ((PageFF, L), s) }
     }
   }"

definition step_retry_dma ::
  "nfc \<Rightarrow> nand_hooks \<Rightarrow> read_locals \<Rightarrow> nand \<Rightarrow> ((read_pc \<times> read_locals) \<times> nand) option" where
  "step_retry_dma hw hk L s = do {
     (ret, s) \<leftarrow> controller_quene_rb hw (r_chipnr L) s;
     if ret \<noteq> 0 then Some ((Exit ret, L), s)
     else let s = (if has (ctl_option (controller s)) NAND_CTRL_NONE_RB
                   then idle hw 10 (cle hw 0x00 s) else s)
          in if r_plane_num L = 2
             then do {
               ((retry, L), s) \<leftarrow> read_plane0 hw hk L s;
               if retry then Some ((RetryCmd, L), s)
               else if is_micron s \<and> r_new_oob L then Some ((NewOobMod, L), s)
               else read_plane1 hw hk L s
             }
             else read_single hw hk L s
   }"

definition step_page_ff :: "nfc \<Rightarrow> read_locals \<Rightarrow> nand \<Rightarrow> ((read_pc \<times> read_locals) \<times> nand) option" where
  "step_page_ff hw L s =
     (let (L, s) = copy_out L s
      in do { s \<leftarrow> fifo_or_bug hw s; Some ((DmaLoop, L\<lparr>r_i := r_i L + 1\<rparr>), s) })"

definition step_new_oob :: "read_locals \<Rightarrow> nand \<Rightarrow> ((read_pc \<times> read_locals) \<times> nand) option" where
  "step_new_oob L s =
     (let p = ops_para s;
          s = (if r_with_oob L
               then let m = memcpy (op_oob_buf p) (oob_buf (controller s)) BYTES_OF_USER_PER_PAGE (mem s);
                        m = (if op_ecc_err p \<noteq> 0 then memset (op_oob_buf p) 0x22 BYTES_OF_USER_PER_PAGE m else m)
                    in s\<lparr>mem := m\<rparr>
               else s)
      in Some ((Exit NAND_SUCCESS, L), s))"

section \<open>Read: following the jumps\<close>

definition read_step ::
  "nfc \<Rightarrow> nand_hooks \<Rightarrow> read_pc \<Rightarrow> read_locals \<Rightarrow> nand \<Rightarrow> ((read_pc \<times> read_locals) \<times> nand) option" where
  "read_step hw hk pc L s =
     (case pc of
        CmdLoop \<Rightarrow> step_cmd_loop hw hk L s
      | RetryCmd \<Rightarrow> step_retry_cmd hw L s
      | DmaLoop \<Rightarrow> step_dma_loop L s
      | RetryDma \<Rightarrow> step_retry_dma hw hk L s
      | PageFF \<Rightarrow> step_page_ff hw L s
      | NewOobMod \<Rightarrow> step_new_oob L s
      | Exit r \<Rightarrow> Some ((Exit r, L), s))"

partial_function (option) read_run ::
  "nfc \<Rightarrow> nand_hooks \<Rightarrow> read_pc \<Rightarrow> read_locals \<Rightarrow> nand \<Rightarrow> (int \<times> nand) option" where
  "read_run hw hk pc L s =
     (case pc of
        Exit r \<Rightarrow> Some (r, s)
      | _ \<Rightarrow> do { ((pc, L), s) \<leftarrow> read_step hw hk pc L s; read_run hw hk pc L s })"

declare read_run.simps [code]

definition read_page :: "nfc \<Rightarrow> nand_hooks \<Rightarrow> nand \<Rightarrow> (int \<times> nand) option" where
  "read_page hw hk s =
     (if op_data_buf (ops_para s) = NULL \<and> op_oob_buf (ops_para s) = NULL
      then Some (- NAND_ARGUMENT_FAILURE, s)
      else let (L, s) = read_setup s in read_run hw hk CmdLoop L s)"

end
