(* ===== verification/ChipOps.thy ===== *)
theory ChipOps
  imports ChipRead
begin

text \<open>
  \<open>phy/chip_operation.c\<close>, second part: \<open>write_page\<close>, \<open>erase_block\<close>, the bad
  block table in memory (\<open>block_isbad\<close>, \<open>block_markbad\<close>,
  \<open>blk_modify_bbt_chip_op\<close>), the block tests, the ONFI features and
  \<open>read_id\<close>.  Writing the table back (\<open>amlnand_update_bbt\<close>) is done by
  \<open>phy/chipenv.c\<close> through the operation table and is a parameter here.
\<close>

section \<open>Program status\<close>

function status_try :: "nfc \<Rightarrow> nat \<Rightarrow> nand \<Rightarrow> int \<times> nand" where
  "status_try hw st_cnt s =
     (let (status, s) = controller_read_byte hw s
      in if status = 0xe1 then (- NAND_WRITE_FAILED, s)
         else if status \<noteq> 0xe0 \<and> st_cnt < 6 then status_try hw (st_cnt + 1) (idle hw 10 s)
         else (0, s))"
  by pat_completeness auto
termination
  by (relation "measure (\<lambda>(hw, st_cnt, s). 6 - st_cnt)") auto

declare status_try.simps [simp del]

fun status_chips :: "nfc \<Rightarrow> nand_hooks \<Rightarrow> bool \<Rightarrow> u8 list \<Rightarrow> nand \<Rightarrow> (int \<times> nand) option" where
  "status_chips hw hk leave_slc [] s = Some (NAND_SUCCESS, s)"
| "status_chips hw hk leave_slc (chipnr # cs) s = do {
     (ret, s) \<leftarrow> controller_quene_rb hw chipnr s;
     if ret \<noteq> 0 then Some (ret, s)
     else let s = cle hw 0x70 s;
              s = idle hw 20 s;
              (ret, s) = status_try hw 0 s
          in if ret \<noteq> 0 then Some (ret, s)
             else do {
               (_, s) \<leftarrow> (if leave_slc then slc_exit hk s else Some (0, s));
               status_chips hw hk leave_slc cs s
             }
   }"

definition op_chips :: "nand \<Rightarrow> u8 list" where
  "op_chips s =
     (if 1 < ops_chip_num s then map of_nat [0..<unat (ops_chip_num s)]
      else if ops_chip_num s = 1 then [op_chipnr (ops_para s)] else [])"

section \<open>Write\<close>

record write_locals =
  w_page_size :: u32
  w_bch_mode :: u8
  w_plane_num :: nat
  w_plane0_page_addr :: u32
  w_plane1_page_addr :: u32
  w_user_byte_num :: u8
  w_slc_mode :: nat

definition write_setup :: "nand \<Rightarrow> write_locals \<times> ptr \<times> nand" where
  "write_setup s =
     (let p = ops_para s;
          s = s\<lparr>controller := (controller s)\<lparr>page_addr := op_page_addr p\<rparr>\<rparr>;
          s = die_adjust s;
          c = controller s; f = flash s;
          sh = blk_shift c;
          soft = has (op_option p) DEV_ECC_SOFT_MODE \<or> bch_mode c = 0;
          multi = has (op_option p) DEV_MULTI_PLANE_MODE;
          ub = ucast (ecc_steps c) * user_mode c;
          W = \<lparr>w_page_size = (if soft then pagesize f + oobsize f else ucast (ecc_steps c) * ucast (ecc_unit c)),
               w_bch_mode = (if soft then 0 else bch_mode c),
               w_plane_num = (if multi then 2 else 1),
               w_plane0_page_addr = (if multi then plane0_addr sh (page_addr c) else 0),
               w_plane1_page_addr = (if multi then plane1_addr sh (page_addr c) else 0),
               w_user_byte_num = (if soft then 0 else ub),
               w_slc_mode = ops_slc_mode s\<rparr>;
          n = unat ub * (w_plane_num W * unat (ops_chip_num s))
      in if soft then (W, op_oob_buf p, s)
         else if op_oob_buf p = NULL
         then (W, oob_buf c, s\<lparr>mem := (memset (oob_buf c) 0xa5 n (mem s))(oob_buf c := 0xff)\<rparr>)
         else (W, oob_buf c, s\<lparr>mem := memcpy (oob_buf c) (op_oob_buf p) n (mem s)\<rparr>))"

definition set_user_if :: "write_locals \<Rightarrow> ptr \<Rightarrow> nand \<Rightarrow> nand option" where
  "set_user_if W oob s =
     (if w_bch_mode W \<noteq> 0 then controller_set_user_byte oob (w_user_byte_num W) s else Some s)"

definition write_planes :: "nfc \<Rightarrow> write_locals \<Rightarrow> u8 \<Rightarrow> ptr \<Rightarrow> ptr \<Rightarrow> nand \<Rightarrow> (int \<times> nand) option" where
  "write_planes hw W chipnr buf oob s =
     (let s = cle hw 0x80 s;
          s = ale_column hw 0 s;
          s = ale_row hw (w_plane0_page_addr W) s
      in do {
        s \<leftarrow> set_user_if W oob s;
        let s = seed_page (w_plane0_page_addr W) s;
        let (ret, s) = controller_dma_write hw buf (w_page_size W) (w_bch_mode W) s;
        if ret \<noteq> 0 then Some (ret, s)
        else let s = cle hw 0x11 s;
                 s = idle hw 20 s
             in do {
               (ret, s) \<leftarrow> controller_quene_rb hw chipnr s;
               if ret \<noteq> 0 then Some (ret, s)
               else let oob = oob + unat (w_user_byte_num W);
                        buf = buf + unat (w_page_size W);
                        mfr = mfr_type (controller s);
                        s = (if mfr = NAND_MFR_HYNIX \<or> mfr = NAND_MFR_SAMSUNG then cle hw 0x81 s else cle hw 0x80 s);
                        s = ale_column hw 0 s;
                        s = ale_row hw (w_plane1_page_addr W) s;
                        s = idle hw 20 s
                    in do {
                      s \<leftarrow> set_user_if W oob s;
                      let s = seed_page (w_plane1_page_addr W) s;
                      Some (controller_dma_write hw buf (w_page_size W) (w_bch_mode W) s)
                    }
             }
      })"

definition write_single ::
  "nfc \<Rightarrow> nand_hooks \<Rightarrow> write_locals \<Rightarrow> u8 \<Rightarrow> ptr \<Rightarrow> ptr \<Rightarrow> nand \<Rightarrow> (int \<times> nand) option" where
  "write_single hw hk W chipnr buf oob s = do {
     (_, s) \<leftarrow> (if w_slc_mode W \<noteq> 0 then slc_enter hk s else Some (0, s));
     (_, s) \<leftarrow> controller_quene_rb hw chipnr s;
     let s = cle hw 0x80 s;
     let s = ale_column hw 0 s;
     let s = ale_row hw (page_addr (controller s)) s;
     let s = idle hw 20 s;
     s \<leftarrow> set_user_if W oob s;
     Some (controller_dma_write hw buf (w_page_size W) (w_bch_mode W) s)
   }"

fun write_chips ::
  "nfc \<Rightarrow> nand_hooks \<Rightarrow> write_locals \<Rightarrow> u8 list \<Rightarrow> ptr \<Rightarrow> ptr \<Rightarrow> nand \<Rightarrow> (int \<times> nand) option" where
  "write_chips hw hk W [] buf oob s = Some (0, s)"
| "write_chips hw hk W (chipnr # cs) buf oob s = do {
     (ret, s) \<leftarrow> controller_quene_rb hw chipnr s;
     if ret \<noteq> 0 then Some (ret, s)
     else do {
       (ret, s) \<leftarrow> (if w_plane_num W = 2 then write_planes hw W chipnr buf oob s
                    else write_single hw hk W chipnr buf oob s);
       if ret \<noteq> 0 then Some (ret, s)
       else let s = cle hw 0x10 s;
                s = idle hw 10 s
            in do {
              s \<leftarrow> fifo_or_bug hw s;
              write_chips hw hk W cs (buf + w_plane_num W * unat (w_page_size W))
                (oob + w_plane_num W * unat (w_user_byte_num W)) s
            }
     }
   }"

definition write_page :: "nfc \<Rightarrow> nand_hooks \<Rightarrow> nand \<Rightarrow> (int \<times> nand) option" where
  "write_page hw hk s =
     (let p = ops_para s
      in if amlnf_readonly (amlnf s) \<noteq> 0
         then Some (- EROFS, s\<lparr>amlnf := amlnf_refuse_write ''write_page'' (op_page_addr p) (amlnf s)\<rparr>)
         else if op_data_buf p = NULL then Some (- NAND_ARGUMENT_FAILURE, s)
         else if nand_status s \<noteq> 0 then Some (NAND_SUCCESS, s)
         else let cs = op_chips s; (W, oob, s) = write_setup s
              in do {
                (ret, s) \<leftarrow> write_chips hw hk W cs (op_data_buf p) oob s;
                if ret \<noteq> 0 then Some (ret, s)
                else status_chips hw hk (w_slc_mode W = 2) cs s
              })"

section \<open>Erase\<close>

definition ffs_diff :: "nand_flash \<Rightarrow> nat" where
  "ffs_diff f = unat (of_nat (ffs (blocksize f)) - of_nat (ffs (pagesize f)) :: u32)"

definition erase_planes :: "nfc \<Rightarrow> u8 \<Rightarrow> u32 \<Rightarrow> u32 \<Rightarrow> nand \<Rightarrow> (int \<times> nand) option" where
  "erase_planes hw chipnr p0 p1 s =
     (let s = cle hw 0x60 s;
          s = ale_row hw p0 s
      in do {
        (ret, s) \<leftarrow>
          (if mfr_type (controller s) = NAND_MFR_MICRON
           then controller_quene_rb hw chipnr (idle hw 10 (cle hw 0xd1 s))
           else Some (0, s));
        if ret \<noteq> 0 then Some (ret, s)
        else let s = cle hw 0x60 s;
                 s = ale_row hw p1 s;
                 s = cle hw 0xd0 s
             in Some (0, idle hw 10 s)
      })"

fun erase_chips ::
  "nfc \<Rightarrow> nand_hooks \<Rightarrow> bool \<Rightarrow> bool \<Rightarrow> u32 \<Rightarrow> u32 \<Rightarrow> u8 list \<Rightarrow> nand \<Rightarrow> (int \<times> nand) option" where
  "erase_chips hw hk multi slc p0 p1 [] s = Some (0, s)"
| "erase_chips hw hk multi slc p0 p1 (chipnr # cs) s = do {
     (ret, s) \<leftarrow> controller_quene_rb hw chipnr s;
     if ret \<noteq> 0 then Some (ret, s)
     else do {
       (ret, s) \<leftarrow>
         (if multi then erase_planes hw chipnr p0 p1 s
          else do {
            (_, s) \<leftarrow> (if slc then slc_enter hk s else Some (0, s));
            let s = cle hw 0x60 s;
            let s = ale_row hw (page_addr (controller s)) s;
            let s = cle hw 0xd0 s;
            Some (0, idle hw 10 s)
          });
       if ret \<noteq> 0 then Some (ret, s)
       else do {
         s \<leftarrow> fifo_or_bug hw s;
         erase_chips hw hk multi slc p0 p1 cs s
       }
     }
   }"

definition erase_block :: "nfc \<Rightarrow> nand_hooks \<Rightarrow> nand \<Rightarrow> (int \<times> nand) option" where
  "erase_block hw hk s =
     (let p = ops_para s
      in if amlnf_readonly (amlnf s) \<noteq> 0
         then Some (- EROFS, s\<lparr>amlnf := amlnf_refuse_write ''erase_block'' (op_page_addr p) (amlnf s)\<rparr>)
         else if nand_status s \<noteq> 0 then Some (NAND_SUCCESS, s)
         else let cs = op_chips s;
                  slc = (has (op_option p) DEV_SLC_MODE \<and> new_type (flash s) = SANDISK_19NM);
                  multi = has (op_option p) DEV_MULTI_PLANE_MODE;
                  s = seed_page (op_page_addr p) s;
                  s = die_adjust s;
                  sh = ffs_diff (flash s);
                  a = page_addr (controller s)
              in do {
                (ret, s) \<leftarrow> erase_chips hw hk multi slc (if multi then plane0_addr sh a else 0)
                              (if multi then plane1_addr sh a else 0) cs s;
                if ret \<noteq> 0 then Some (ret, s) else status_chips hw hk False cs s
              })"

section \<open>The bad block table in memory\<close>

definition status_addr :: "nand \<Rightarrow> nat \<Rightarrow> u32 \<Rightarrow> ptr" where
  "status_addr s chipnr blk = block_status s + 4 + 2 * (chipnr * MAX_BLK_NUM + unat blk)"

definition blk_status :: "nand \<Rightarrow> nat \<Rightarrow> u32 \<Rightarrow> u16" where
  "blk_status s chipnr blk = ld16 (mem s) (status_addr s chipnr blk)"

definition set_blcok_status :: "nat \<Rightarrow> u32 \<Rightarrow> int \<Rightarrow> nand \<Rightarrow> int \<times> nand" where
  "set_blcok_status chipnr addr v s = (0, s\<lparr>mem := st16 (status_addr s chipnr addr) (of_int v) (mem s)\<rparr>)"

definition get_blcok_status :: "nat \<Rightarrow> u32 \<Rightarrow> nand \<Rightarrow> int" where
  "get_blcok_status chipnr addr s =
     (let st = blk_status s chipnr addr
      in if st = NAND_BLOCK_USED_BAD then 1
         else if st = NAND_BLOCK_FACTORY_BAD then 2
         else if st = NAND_BLOCK_GOOD then 0
         else - 1)"

definition op_blk :: "nand \<Rightarrow> u32" where
  "op_blk s = drop_bit (ffs_diff (flash s)) (op_page_addr (ops_para s))"

definition other_plane :: "u32 \<Rightarrow> u32" where
  "other_plane blk = (if blk mod 2 = 0 then blk + 1 else blk - 1)"

fun isbad_chips :: "bool \<Rightarrow> nat list \<Rightarrow> u32 \<Rightarrow> int \<Rightarrow> nand \<Rightarrow> int" where
  "isbad_chips multi [] blk ret s = ret"
| "isbad_chips multi (chipnr # cs) blk ret s =
     (let ret = get_blcok_status chipnr blk s
      in if ret \<noteq> 0 then ret
         else if multi
         then let ret = get_blcok_status chipnr (other_plane blk) s
              in if ret \<noteq> 0 then ret else isbad_chips multi cs blk ret s
         else isbad_chips multi cs blk ret s)"

definition isbad_table :: "nand \<Rightarrow> int" where
  "isbad_table s =
     (let opt = op_option (ops_para s);
          chipnr = unat (op_chipnr (ops_para s));
          chips = [0..<unat (chip_num (controller s))];
          blk = op_blk s; blk2 = push_bit 1 blk
      in if has opt DEV_MULTI_PLANE_MODE \<and> \<not> has opt DEV_MULTI_CHIP_MODE
         then let ret = get_blcok_status chipnr blk2 s
              in if ret = 0 then get_blcok_status chipnr (other_plane blk2) s else ret
         else if \<not> has opt DEV_MULTI_PLANE_MODE \<and> has opt DEV_MULTI_CHIP_MODE
         then isbad_chips False chips blk 0 s
         else if has opt DEV_MULTI_PLANE_MODE \<and> has opt DEV_MULTI_CHIP_MODE
         then let ret = get_blcok_status chipnr blk2 s
              in if ret = 0 then isbad_chips True chips blk2 ret s else ret
         else get_blcok_status chipnr blk s)"

definition block_isbad :: "nfc \<Rightarrow> nand_hooks \<Rightarrow> nand \<Rightarrow> (int \<times> nand) option" where
  "block_isbad hw hk s =
     (let s = die_adjust s
      in if block_status s \<noteq> NULL then Some (isbad_table s, s)
         else let c = controller s;
                  s = s\<lparr>ops_para := (ops_para s)\<lparr>op_data_buf := page_buf c, op_oob_buf := oob_buf c, op_ooblen := 8\<rparr>,
                        mem := memset (oob_buf c) 0 8 (memset (page_buf c) 0 (unat (pagesize (flash s))) (mem s))\<rparr>
              in do {
                s \<leftarrow> nand_get_chip hk s;
                (ret, s) \<leftarrow> read_page hw hk s;
                let s = nand_release_chip s;
                if ret < 0 \<or> op_ecc_err (ops_para s) \<noteq> 0 then Some (- NAND_READ_FAILED, s)
                else if mem s (op_oob_buf (ops_para s)) = 0 then Some (- NAND_BAD_BLCOK_FAILURE, s)
                else Some (ret, s)
              })"

fun mark_chips :: "bool \<Rightarrow> nat list \<Rightarrow> u32 \<Rightarrow> nand \<Rightarrow> nand" where
  "mark_chips multi [] blk s = s"
| "mark_chips multi (chipnr # cs) blk s =
     (let s = (if multi then snd (set_blcok_status chipnr (other_plane blk) 1 s) else s);
          s = snd (set_blcok_status chipnr blk 1 s)
      in mark_chips multi cs blk s)"

definition mark_table :: "nand \<Rightarrow> nand" where
  "mark_table s =
     (let opt = op_option (ops_para s);
          chipnr = unat (op_chipnr (ops_para s));
          chips = [0..<unat (chip_num (controller s))];
          blk = op_blk s; blk2 = push_bit 1 blk
      in if has opt DEV_MULTI_PLANE_MODE \<and> \<not> has opt DEV_MULTI_CHIP_MODE
         then snd (set_blcok_status chipnr (other_plane blk2) 1 (snd (set_blcok_status chipnr blk2 1 s)))
         else if \<not> has opt DEV_MULTI_PLANE_MODE \<and> has opt DEV_MULTI_CHIP_MODE
         then mark_chips False chips blk s
         else if has opt DEV_MULTI_PLANE_MODE \<and> has opt DEV_MULTI_CHIP_MODE
         then mark_chips True chips blk2 s
         else snd (set_blcok_status chipnr blk 1 s))"

definition write_mark :: "nfc \<Rightarrow> nand_hooks \<Rightarrow> nand \<Rightarrow> (int \<times> nand) option" where
  "write_mark hw hk s = do {
     (_, s) \<leftarrow> controller_select_chip hw (op_chipnr (ops_para s)) s;
     let c = controller s;
     let f = flash s;
     let s = s\<lparr>ops_para := (ops_para s)\<lparr>op_data_buf := page_buf c, op_oob_buf := oob_buf c\<rparr>,
               mem := memset (oob_buf c) 0 (unat (oobsize f)) (memset (page_buf c) 0 (unat (pagesize f)) (mem s))\<rparr>;
     s \<leftarrow> (if state s = CHIP_READY then nand_get_chip hk s else Some s);
     (ret, s) \<leftarrow> write_page hw hk s;
     let s = (if state s = CHIP_READY then nand_release_chip s else s);
     Some (if ret < 0 then - NAND_WRITE_FAILED else ret, s)
   }"

definition block_markbad ::
  "nfc \<Rightarrow> nand_hooks \<Rightarrow> (nand \<Rightarrow> (int \<times> nand) option) \<Rightarrow> nand \<Rightarrow> (int \<times> nand) option" where
  "block_markbad hw hk update_bbt s =
     (if amlnf_allow_markbad (amlnf s) = 0
      then Some (- EROFS, s\<lparr>amlnf := amlnf_refuse_write ''block_markbad'' (op_page_addr (ops_para s)) (amlnf s)\<rparr>)
      else let s = die_adjust s;
               st = blk_status s (unat (op_chipnr (ops_para s))) (op_blk s)
           in if arg_valid (nand_bbtinfo s) \<noteq> 0 \<and> block_status s \<noteq> NULL
              then if st = NAND_BLOCK_USED_BAD \<or> st = NAND_BLOCK_FACTORY_BAD then Some (0, s)
                   else if st = NAND_BLOCK_GOOD
                   then do { (_, s) \<leftarrow> update_bbt (mark_table s); write_mark hw hk s }
                   else write_mark hw hk s
              else write_mark hw hk s)"

section \<open>Modifying the table from user space\<close>

fun modify_chips :: "bool \<Rightarrow> nat list \<Rightarrow> u32 \<Rightarrow> int \<Rightarrow> nand \<Rightarrow> nand" where
  "modify_chips multi [] blk v s = s"
| "modify_chips multi (chipnr # cs) blk v s =
     (let s = snd (set_blcok_status chipnr blk v s);
          s = (if multi then snd (set_blcok_status chipnr (other_plane blk) v s) else s)
      in modify_chips multi cs blk v s)"

definition blk_modify_bbt_chip_op :: "int \<Rightarrow> nand \<Rightarrow> int \<times> nand" where
  "blk_modify_bbt_chip_op v s =
     (if amlnf_allow_markbad (amlnf s) = 0
      then (- EROFS, s\<lparr>amlnf := amlnf_refuse_write ''blk_modify_bbt'' (op_page_addr (ops_para s)) (amlnf s)\<rparr>)
      else let s = die_adjust s;
               opt = op_option (ops_para s);
               chipnr = unat (op_chipnr (ops_para s));
               chips = [0..<unat (chip_num (controller s))];
               blk = op_blk s; blk2 = push_bit 1 blk
           in if has opt DEV_MULTI_PLANE_MODE \<and> \<not> has opt DEV_MULTI_CHIP_MODE
              then (0, snd (set_blcok_status chipnr (other_plane blk2) v (snd (set_blcok_status chipnr blk2 v s))))
              else if \<not> has opt DEV_MULTI_PLANE_MODE \<and> has opt (of_int v)
              then (0, modify_chips False chips blk v s)
              else if has opt DEV_MULTI_PLANE_MODE \<and> has opt DEV_MULTI_CHIP_MODE
              then (0, modify_chips True chips blk2 v (snd (set_blcok_status chipnr blk2 v s)))
              else (0, snd (set_blcok_status chipnr blk v s)))"

definition update_bbt_chip_op ::
  "(nand \<Rightarrow> (int \<times> nand) option) \<Rightarrow> nand \<Rightarrow> (int \<times> nand) option" where
  "update_bbt_chip_op update_bbt s = update_bbt (die_adjust s)"

section \<open>Block tests\<close>

definition ops_zero :: chip_ops_para where
  "ops_zero = \<lparr>op_page_addr = 0, op_chipnr = 0, op_data_buf = 0, op_oob_buf = 0, op_oob_mode = NAND_HW_ECC,
     op_bit_flip = 0, op_ecc_err = 0, op_ooblen = 0, op_option = 0\<rparr>"

definition test_bufs :: "u8 \<Rightarrow> nand \<Rightarrow> nand" where
  "test_bufs v s =
     s\<lparr>mem := memset (user_page_buf s) v (unat (pagesize (flash s))) (mem s),
       ops_para := (ops_para s)\<lparr>op_data_buf := user_page_buf s, op_oob_buf := user_oob_buf s, op_ooblen := 8\<rparr>\<rparr>"

fun test_pass :: "(nand \<Rightarrow> (int \<times> nand) option) \<Rightarrow> u8 \<Rightarrow> nat list \<Rightarrow> nand \<Rightarrow> (int \<times> nand) option" where
  "test_pass f v [] s = Some (0, s)"
| "test_pass f v (t # ts) s =
     (let s = s\<lparr>ops_para := (ops_para s)\<lparr>op_page_addr := op_page_addr (ops_para s) + of_nat t\<rparr>\<rparr>;
          s = test_bufs v s
      in do { (ret, s) \<leftarrow> f s; if ret < 0 then Some (- 1, s) else test_pass f v ts s })"

definition restart_at :: "u32 \<Rightarrow> nand \<Rightarrow> nand" where
  "restart_at a s = s\<lparr>ops_para := ops_zero\<lparr>op_page_addr := a\<rparr>\<rparr>"

definition test_block_chip_op ::
  "nfc \<Rightarrow> nand_hooks \<Rightarrow> (u32 \<Rightarrow> ptr) \<Rightarrow> nand \<Rightarrow> (int \<times> nand) option" where
  "test_block_chip_op hw hk malloc s =
     (let f = flash s; blk_addr = op_page_addr (ops_para s);
          dat_buf = malloc (pagesize f);
          pages = [0..<2 ^ ((ffs (blocksize f) - 1) - (ffs (pagesize f) - 1))]
      in if dat_buf = NULL then Some (- 1, s)
         else let s = s\<lparr>mem := memset dat_buf 0xa5 (unat (pagesize f)) (mem s)\<rparr>
              in do {
                (ret, s) \<leftarrow> erase_block hw hk s;
                if ret < 0 then Some (- 1, s)
                else do {
                  (ret, s) \<leftarrow> test_pass (read_page hw hk) 0 pages (restart_at blk_addr s);
                  if ret < 0 then Some (- 1, s)
                  else do {
                    (ret, s) \<leftarrow> test_pass (write_page hw hk) 0xa5 pages (restart_at blk_addr s);
                    if ret < 0 then Some (- 1, s)
                    else do {
                      (ret, s) \<leftarrow> test_pass (read_page hw hk) 0 pages (restart_at blk_addr s);
                      if ret < 0 then Some (- 1, s)
                      else do {
                        (ret, s) \<leftarrow> erase_block hw hk (s\<lparr>ops_para := (ops_para s)\<lparr>op_page_addr := blk_addr\<rparr>\<rparr>);
                        Some (if ret < 0 then - 1 else ret, s)
                      }
                    }
                  }
                }
              })"

text \<open>
  The reserved blocks, which hold the tables of \<open>phy/chipenv.c\<close>, start after the
  1024 pages of the boot area and are numbered across the chips.
\<close>

definition pages_per_blk :: "nand_flash \<Rightarrow> u32" where
  "pages_per_blk f = push_bit ((ffs (blocksize f) - 1) - (ffs (pagesize f) - 1)) 1"

definition resv_start :: "nand_flash \<Rightarrow> u32" where
  "resv_start f = drop_bit (ffs (blocksize f) - 1) (1024 * pagesize f)"

definition resv_page :: "u32 \<Rightarrow> nand \<Rightarrow> u32" where
  "resv_page blk s =
     (let n = ucast (chip_num (controller s)); tmp_blk = resv_start (flash s)
      in ((blk - blk mod n) div n + tmp_blk - tmp_blk div n) * pages_per_blk (flash s))"

definition resv_chip :: "u32 \<Rightarrow> nand \<Rightarrow> u8" where
  "resv_chip blk s = ucast (blk mod ucast (chip_num (controller s)))"

definition slc_type :: "nand_flash \<Rightarrow> bool" where
  "slc_type f \<longleftrightarrow> new_type f \<noteq> 0 \<and> (new_type f < 10 \<or> new_type f = SANDISK_19NM)"

definition slc_option :: "nand \<Rightarrow> nand" where
  "slc_option s =
     (if slc_type (flash s)
      then s\<lparr>ops_para := (ops_para s)\<lparr>op_option := op_option (ops_para s) OR DEV_SLC_MODE\<rparr>\<rparr> else s)"

definition pages_read :: "nand \<Rightarrow> u32" where
  "pages_read s =
     (if has (op_option (ops_para s)) DEV_SLC_MODE then drop_bit 1 (pages_per_blk (flash s)) else pages_per_blk (flash s))"

definition slc_page :: "nand \<Rightarrow> u32 \<Rightarrow> u32" where
  "slc_page s a =
     (let t = new_type (flash s); blk = a AND NOT (pages_per_blk (flash s) - 1)
      in if 0 < t \<and> t < 10 then blk OR ucast (pagelist (slc_info (controller s)) ! unat (a mod 256))
         else if t = SANDISK_19NM then blk OR push_bit 1 (a mod pages_per_blk (flash s))
         else a)"

definition resv_ops :: "u32 \<Rightarrow> u32 \<Rightarrow> nand \<Rightarrow> chip_ops_para" where
  "resv_ops blk page s =
     ops_zero\<lparr>op_option := (if slc_type (flash s) then DEV_SLC_MODE else 0), op_chipnr := resv_chip blk s,
       op_page_addr := slc_page s (resv_page blk s + page)\<rparr>"

definition resv_block_ops :: "u32 \<Rightarrow> nand \<Rightarrow> nand" where
  "resv_block_ops blk s =
     s\<lparr>ops_para := (ops_para s)\<lparr>op_page_addr := resv_page blk s, op_chipnr := resv_chip blk s\<rparr>\<rparr>"

fun resv_pass ::
  "nfc \<Rightarrow> (nand \<Rightarrow> (int \<times> nand) option) \<Rightarrow> u8 \<Rightarrow> (nand \<Rightarrow> bool) \<Rightarrow> u32 \<Rightarrow> nat list \<Rightarrow> nand \<Rightarrow> (int \<times> nand) option" where
  "resv_pass hw f v good blk [] s = Some (0, s)"
| "resv_pass hw f v good blk (t # ts) s = do {
     let s = s\<lparr>ops_para := resv_ops blk (of_nat t) s\<rparr>;
     (_, s) \<leftarrow> controller_select_chip hw (resv_chip blk s) s;
     (ret, s) \<leftarrow> f (test_bufs v s);
     if ret < 0 \<or> \<not> good s then Some (- 1, s) else resv_pass hw f v good blk ts s
   }"

definition resv_erase :: "nfc \<Rightarrow> nand_hooks \<Rightarrow> u32 \<Rightarrow> nand \<Rightarrow> (int \<times> nand) option" where
  "resv_erase hw hk blk s = do {
     let s = resv_block_ops blk s;
     (_, s) \<leftarrow> controller_select_chip hw (resv_chip blk s) s;
     (ret, s) \<leftarrow> erase_block hw hk s;
     Some (if ret < 0 then - 1 else ret, s)
   }"

definition test_block_reserved ::
  "nfc \<Rightarrow> nand_hooks \<Rightarrow> u32 \<Rightarrow> nand \<Rightarrow> (int \<times> nand) option" where
  "test_block_reserved hw hk tst_blk s =
     (let size = unat (pagesize (flash s));
          dat_buf = kmalloc hk (pagesize (flash s));
          same = (\<lambda>s. mem_bytes (mem s) (user_page_buf s) size = mem_bytes (mem s) dat_buf size)
      in if dat_buf = NULL then Some (- 1, nand_release_chip s)
         else let s = slc_option (s\<lparr>mem := memset dat_buf 0xa5 size (mem s)\<rparr>);
                  ts = [0..<unat (pages_read s)]
              in do {
                s \<leftarrow> nand_get_chip hk s;
                (ret, s) \<leftarrow> resv_erase hw hk tst_blk s;
                (ret, s) \<leftarrow> (if ret < 0 then Some (ret, s)
                  else resv_pass hw (write_page hw hk) 0xa5 (\<lambda>_. True) tst_blk ts s);
                (ret, s) \<leftarrow> (if ret < 0 then Some (ret, s) else resv_pass hw (read_page hw hk) 0 same tst_blk ts s);
                (ret, s) \<leftarrow> (if ret < 0 then Some (ret, s) else resv_erase hw hk tst_blk s);
                Some (ret, nand_release_chip s)
              })"

section \<open>ONFI features and the chip id\<close>

fun read_bytes :: "nfc \<Rightarrow> nat \<Rightarrow> ptr \<Rightarrow> nand \<Rightarrow> nand" where
  "read_bytes hw 0 buf s = s"
| "read_bytes hw (Suc n) buf s =
     (let (b, s) = controller_read_byte hw s
      in read_bytes hw n (buf + 1) (s\<lparr>mem := (mem s)(buf := b)\<rparr>))"

fun write_bytes :: "nfc \<Rightarrow> nat \<Rightarrow> ptr \<Rightarrow> nand \<Rightarrow> nand" where
  "write_bytes hw 0 buf s = s"
| "write_bytes hw (Suc n) buf s = write_bytes hw n (buf + 1) (controller_write_byte hw (mem s buf) s)"

fun get_onfi_chips :: "nfc \<Rightarrow> nat list \<Rightarrow> ptr \<Rightarrow> u32 \<Rightarrow> nand \<Rightarrow> (int \<times> nand) option" where
  "get_onfi_chips hw [] buf addr s = Some (0, s)"
| "get_onfi_chips hw (i # is) buf addr s = do {
     (_, s) \<leftarrow> controller_select_chip hw (of_nat i) s;
     let s = cle hw 0xee s;
     let s = ale hw addr s;
     let s = idle hw 10 s;
     let s = idle hw 0 s;
     get_onfi_chips hw is buf addr (read_bytes hw 4 buf s)
   }"

definition get_onfi_features :: "nfc \<Rightarrow> ptr \<Rightarrow> u32 \<Rightarrow> nand \<Rightarrow> (int \<times> nand) option" where
  "get_onfi_features hw buf addr s = get_onfi_chips hw [0..<unat (chip_num (controller s))] buf addr s"

fun set_onfi_chips :: "nfc \<Rightarrow> nat list \<Rightarrow> nat \<Rightarrow> ptr \<Rightarrow> u32 \<Rightarrow> nand \<Rightarrow> (int \<times> nand) option" where
  "set_onfi_chips hw [] cnt buf addr s = Some (NAND_SUCCESS, s)"
| "set_onfi_chips hw (i # is) cnt buf addr s = do {
     (_, s) \<leftarrow> controller_select_chip hw (of_nat i) s;
     let s = cle hw 0xef s;
     let s = ale hw addr s;
     let s = idle hw 20 s;
     let s = idle hw 0 s;
     let s = write_bytes hw 4 buf s;
     let (cnt, s) = poll (fifo_ready hw) 0x2000 cnt s;
     if 0x2000 \<le> cnt then Some (- NAND_BUSY_FAILURE, s) else set_onfi_chips hw is cnt buf addr s
   }"

definition set_onfi_features :: "nfc \<Rightarrow> ptr \<Rightarrow> u32 \<Rightarrow> nand \<Rightarrow> (int \<times> nand) option" where
  "set_onfi_features hw buf addr s = set_onfi_chips hw [0..<unat (chip_num (controller s))] 0 buf addr s"

definition read_id :: "nfc \<Rightarrow> u8 \<Rightarrow> u8 \<Rightarrow> ptr \<Rightarrow> nand \<Rightarrow> (int \<times> nand) option" where
  "read_id hw chipnr id_addr buf s =
     (if buf = NULL then Some (- NAND_ARGUMENT_FAILURE, s)
      else do {
        (ret, s) \<leftarrow> controller_select_chip hw chipnr s;
        if ret < 0 then Some (ret, s)
        else do {
          (ret, s) \<leftarrow> nand_reset hw chipnr s;
          if ret < 0 then Some (ret, s)
          else let s = cle hw 0x90 s;
                   s = ale hw (ucast id_addr) s;
                   s = idle hw 20 s;
                   s = idle hw 0 s
               in Some (ret, read_bytes hw 8 buf s)
        }
      })"

end
