(* ===== verification/BusFrame.thy ===== *)
theory BusFrame
  imports ChipOps
begin

text \<open>
  What the chip operations can do to the state and to the bus.  The locale
  \<open>nand_frame\<close> states what a relation between states has to absorb (register
  reads, idle, address and non-programming command cycles, DMA reads, updates
  of buffers and of the operation parameters) and shows once that every reading
  routine stays within such a relation; \<open>readonly_frame\<close> adds the refusals of
  the write guard and covers the writing routines while the guard is up.  The
  relation \<open>bus_safe\<close> (no program or erase opcode is sent) satisfies both.
\<close>

section \<open>Framed runs\<close>

definition framed1 :: "('s \<Rightarrow> 's \<Rightarrow> bool) \<Rightarrow> 's \<Rightarrow> 's option \<Rightarrow> bool" where
  "framed1 R s x \<longleftrightarrow> (\<forall>t. x = Some t \<longrightarrow> R s t)"

lemma framed1_Some: "R s t \<Longrightarrow> framed1 R s (Some t)"
  by (simp add: framed1_def)

lemma framed1_None: "framed1 R s None"
  by (simp add: framed1_def)

lemma framed1_bind:
  assumes "framed R s x" "\<And>r t. R s t \<Longrightarrow> framed1 R s (f (r, t))"
  shows "framed1 R s (x \<bind> f)"
  using assms by (auto simp: framed_def framed1_def bind_eq_Some_conv)

lemma framed_bind1:
  assumes "framed1 R s x" "\<And>t. R s t \<Longrightarrow> framed R s (f t)"
  shows "framed R s (x \<bind> f)"
  using assms by (auto simp: framed_def framed1_def bind_eq_Some_conv)

lemma framed1_bind1:
  assumes "framed1 R s x" "\<And>t. R s t \<Longrightarrow> framed1 R s (f t)"
  shows "framed1 R s (x \<bind> f)"
  using assms by (auto simp: framed1_def bind_eq_Some_conv)

lemma framed1_if:
  assumes "b \<Longrightarrow> framed1 R s x" "\<not> b \<Longrightarrow> framed1 R s y"
  shows "framed1 R s (if b then x else y)"
  using assms by simp

lemma framed_case_prod:
  assumes "R s (snd x)" "\<And>a b. R s b \<Longrightarrow> framed R s (f a b)"
  shows "framed R s (case x of (a, b) \<Rightarrow> f a b)"
  using assms by (cases x) simp

lemma framed1_case_prod:
  assumes "R s (snd x)" "\<And>a b. R s b \<Longrightarrow> framed1 R s (f a b)"
  shows "framed1 R s (case x of (a, b) \<Rightarrow> f a b)"
  using assms by (cases x) simp

lemma framed_case_any:
  assumes "\<And>a b. framed R s (f a b)"
  shows "framed R s (case x of (a, b) \<Rightarrow> f a b)"
  using assms by (cases x) simp

lemma framed_case_verdict:
  assumes "framed R s a" "framed R s b" "framed R s c"
  shows "framed R s (case v of EccFF \<Rightarrow> a | EccRetry \<Rightarrow> b | EccDone \<Rightarrow> c)"
  using assms by (cases v) simp_all

lemma framed_pair: "R s (snd x) \<Longrightarrow> framed R s (Some x)"
  by (cases x) (simp add: framed_def)

definition program_opcodes :: "u32 set" where
  "program_opcodes = {0x10, 0x11, 0x15, 0x80, 0x81, 0x85, 0xd0, 0xd1}"

locale nand_frame = frame R for R :: "nand \<Rightarrow> nand \<Rightarrow> bool" +
  fixes hw :: nfc and hk :: nand_hooks
  assumes ev_rd: "R s (nfc_event hw (Rd r) s)"
    and ev_barrier: "R s (nfc_event hw Barrier s)"
    and ev_idle: "R s (nfc_event hw (Wr P_NAND_CMD (NFC_CMD_IDLE (chip_selected (controller s)) t)) s)"
    and ev_ale: "R s (nfc_event hw (Wr P_NAND_CMD (NFC_CMD_ALE (chip_selected (controller s)) a)) s)"
    and ev_cle: "cmd AND 0xff \<notin> program_opcodes \<Longrightarrow>
       R s (nfc_event hw (Wr P_NAND_CMD (NFC_CMD_CLE (chip_selected (controller s)) cmd)) s)"
    and ev_drd: "R s (nfc_event hw (Wr P_NAND_CMD (NFC_CMD_DRD (chip_selected (controller s)) 0)) s)"
    and ev_dwr: "R s (nfc_event hw (Wr P_NAND_CMD (NFC_CMD_DWR (chip_selected (controller s)) b)) s)"
    and ev_adl: "R s (nfc_event hw (Wr P_NAND_CMD (NFC_CMD_ADL a)) s)"
    and ev_adh: "R s (nfc_event hw (Wr P_NAND_CMD (NFC_CMD_ADH a)) s)"
    and ev_ail: "R s (nfc_event hw (Wr P_NAND_CMD (NFC_CMD_AIL a)) s)"
    and ev_aih: "R s (nfc_event hw (Wr P_NAND_CMD (NFC_CMD_AIH a)) s)"
    and ev_seed: "R s (nfc_event hw (Wr P_NAND_CMD (NFC_CMD_SEED a)) s)"
    and ev_n2m: "R s (nfc_event hw (Wr P_NAND_CMD (NFC_CMD_N2M rn e sh pg n)) s)"
    and ev_n2m_raw: "R s (nfc_event hw (Wr P_NAND_CMD (NFC_CMD_N2M_RAW rn n)) s)"
    and up_mem: "R s (s\<lparr>mem := m\<rparr>)"
    and up_page: "R s (s\<lparr>controller := (controller s)\<lparr>page_addr := a\<rparr>\<rparr>)"
    and up_cur: "R s (s\<lparr>controller := (controller s)\<lparr>ecc_cnt_cur := b\<rparr>\<rparr>)"
    and up_zero: "R s (s\<lparr>controller := (controller s)\<lparr>zero_cnt := a\<rparr>\<rparr>)"
    and up_sel: "i < 4 \<Longrightarrow> R s (s\<lparr>controller := (controller s)
       \<lparr>chip_selected := ce_enable (controller s) ! i, rb_received := x\<rparr>\<rparr>)"
    and up_err: "R s (s\<lparr>ops_para := (ops_para s)\<lparr>op_ecc_err := b\<rparr>\<rparr>)"
    and up_flip: "R s (s\<lparr>ops_para := (ops_para s)\<lparr>op_bit_flip := b\<rparr>\<rparr>)"
    and up_ecc: "R s (s\<lparr>max_ecc_per_page := e\<rparr>)"
    and hk_slc_enter: "framed R s (slc_enter hk s)"
    and hk_handle: "framed R s (retry_handle hk ch s)"
    and hk_exit: "retry_exit hk = Some ex \<Longrightarrow> framed R s (ex ch s)"
begin

lemma R_if: "R s a \<Longrightarrow> R s b \<Longrightarrow> R s (if c then a else b)"
  by simp

lemma R_snd_if: "R s (snd a) \<Longrightarrow> R s (snd b) \<Longrightarrow> R s (snd (if c then a else b))"
  by simp

lemma R_snd_pair: "R s t \<Longrightarrow> R s (snd (r, t))"
  by simp

lemma R_rd: "R s t \<Longrightarrow> R s (snd (aml_read_reg32 hw r t))"
  by (simp add: aml_read_reg32_def Let_def) (rule trans [OF _ ev_rd])

lemma R_fifo_size: "R s t \<Longrightarrow> R s (snd (NFC_CMDFIFO_SIZE hw t))"
  by (simp add: NFC_CMDFIFO_SIZE_def Let_def split_beta R_rd)

lemma R_fifo_ready: "R s t \<Longrightarrow> R s (snd (fifo_ready hw t))"
  by (simp add: fifo_ready_def Let_def split_beta R_fifo_size)

lemma R_rb_status: "R s t \<Longrightarrow> R s (snd (NFC_GET_RB_STATUS hw ce t))"
  by (simp add: NFC_GET_RB_STATUS_def Let_def split_beta R_rd)

lemma R_rb_ready: "R s t \<Longrightarrow> R s (snd (rb_ready hw t))"
  by (simp add: rb_ready_def Let_def split_beta R_rb_status)

lemma R_fifo_spin: "R s t \<Longrightarrow> R s (fifo_spin hw k t)"
proof (induction k arbitrary: t)
  case 0
  then show ?case
    by (simp add: R_fifo_size)
next
  case (Suc k)
  have "R s (snd (NFC_CMDFIFO_SIZE hw t))"
    using Suc.prems by (rule R_fifo_size)
  then show ?case
    using Suc.IH by (simp add: split_beta)
qed

lemma R_wait: "R s t \<Longrightarrow> R s (NFC_WAIT_FIFO_EMPTY hw t)"
  unfolding NFC_WAIT_FIFO_EMPTY_def by (rule R_fifo_spin)

lemma R_idle: "R s t \<Longrightarrow> R s (idle hw n t)"
proof -
  assume "R s t"
  then have 1: "R s (NFC_WAIT_FIFO_EMPTY hw t)"
    by (rule R_wait)
  have "controller (fifo_spin hw k t) = controller t" for k
    by (induction k arbitrary: t)
      (simp_all add: NFC_CMDFIFO_SIZE_def aml_read_reg32_def Let_def)
  then have "chip_selected (controller t) = chip_selected (controller (NFC_WAIT_FIFO_EMPTY hw t))"
    by (simp add: NFC_WAIT_FIFO_EMPTY_def)
  then show ?thesis
    using trans [OF 1 ev_idle]
    by (simp add: idle_def NFC_SEND_CMD_IDLE_def NFC_SEND_CMD_def aml_write_reg32_def)
qed

lemma R_poll:
  assumes ready: "\<And>t. R s t \<Longrightarrow> R s (snd (ready t))"
  shows "R s t \<Longrightarrow> R s (snd (poll ready limit cnt t))"
proof (induction "Suc limit - cnt" arbitrary: cnt t rule: less_induct)
  case less
  have "R s (snd (poll ready limit (cnt + 1) (snd (ready t))))" if "cnt \<le> limit"
    by (rule less.hyps) (use that ready less.prems in auto)
  then show ?case
    using ready [OF less.prems] by (subst poll.simps) (simp add: split_beta Let_def)
qed

lemma R_poll_fifo: "R s t \<Longrightarrow> R s (snd (poll (fifo_ready hw) limit cnt t))"
  by (rule R_poll) (rule R_fifo_ready)

lemma R_poll_rb: "R s t \<Longrightarrow> R s (snd (poll (rb_ready hw) limit cnt t))"
  by (rule R_poll) (rule R_rb_ready)

lemma R_cle: "R s t \<Longrightarrow> cmd AND 0xff \<notin> program_opcodes \<Longrightarrow> R s (cle hw cmd t)"
  using trans [OF _ ev_cle]
  by (auto simp: cle_def controller_cmd_ctrl_def NFC_SEND_CMD_def aml_write_reg32_def Let_def
      has_def c_consts)

lemma R_ale: "R s t \<Longrightarrow> R s (ale hw a t)"
  using trans [OF _ ev_ale]
  by (auto simp: ale_def controller_cmd_ctrl_def NFC_SEND_CMD_def aml_write_reg32_def Let_def
      has_def c_consts)


lemma R_row: "R s t \<Longrightarrow> R s (ale_row hw a t)"
  by (simp add: ale_row_def R_ale)

lemma R_column: "R s t \<Longrightarrow> R s (ale_column hw a t)"
  by (simp add: ale_column_def R_ale)

lemma R_mem: "R s t \<Longrightarrow> R s (t\<lparr>mem := m\<rparr>)"
  using trans [OF _ up_mem] by blast

lemma R_page: "R s t \<Longrightarrow> R s (t\<lparr>controller := (controller t)\<lparr>page_addr := a\<rparr>\<rparr>)"
  using trans [OF _ up_page] by blast

lemma R_seed: "R s t \<Longrightarrow> R s (seed_page a t)"
  by (simp add: seed_page_def R_page)

lemma R_die: "R s t \<Longrightarrow> R s (die_adjust t)"
  by (simp add: die_adjust_def Let_def R_page)

lemma R_err: "R s t \<Longrightarrow> R s (count_ecc_err t)"
  unfolding count_ecc_err_def using trans [OF _ up_err] by blast

lemma R_flip: "R s t \<Longrightarrow> R s (count_bit_flip t)"
  unfolding count_bit_flip_def using trans [OF _ up_flip] by blast

lemma R_read_byte: "R s t \<Longrightarrow> R s (snd (controller_read_byte hw t))"
  using trans [OF _ ev_drd]
  by (simp add: controller_read_byte_def nandphy_readb_def NFC_SEND_CMD_def aml_write_reg32_def
      Let_def split_beta R_rd R_idle R_wait)

lemma R_write_byte: "R s t \<Longrightarrow> R s (controller_write_byte hw b t)"
  using trans [OF _ ev_dwr]
  by (simp add: controller_write_byte_def NFC_SEND_CMD_def aml_write_reg32_def Let_def R_idle R_wait)

lemma R_status_ready: "R s t \<Longrightarrow> R s (snd (status_ready hw t))"
  by (simp add: status_ready_def Let_def split_beta R_read_byte)

lemma R_poll_status: "R s t \<Longrightarrow> R s (snd (poll (status_ready hw) limit cnt t))"
  by (rule R_poll) (rule R_status_ready)

lemma R_handle: "R s t \<Longrightarrow> framed R s (retry_handle hk ch t)"
  by (rule framed_call [OF _ hk_handle])

lemma R_enter: "R s t \<Longrightarrow> framed R s (slc_enter hk t)"
  by (rule framed_call [OF _ hk_slc_enter])

lemma R_leave: "R s t \<Longrightarrow> framed1 R s (retry_leave hk L t)"
  using framed_call [OF _ hk_exit, of s t]
  by (auto simp: retry_leave_def framed1_def framed_def bind_eq_Some_conv split: option.splits if_splits)

lemmas R_rules = R_idle R_cle R_row R_column R_ale R_mem R_seed R_die R_err R_flip R_read_byte
  R_write_byte R_wait R_poll_fifo R_poll_rb R_poll_status R_fifo_size

lemma R_select: "R s t \<Longrightarrow> framed R s (controller_select_chip hw n t)"
  using trans [OF _ up_sel]
  by (auto simp: controller_select_chip_def Let_def framed_def word_less_nat_alt intro!: R_idle)

lemma opcodes:
  "0x00 AND 0xff \<notin> program_opcodes"
  "0x05 AND 0xff \<notin> program_opcodes"
  "0x06 AND 0xff \<notin> program_opcodes"
  "0x30 AND 0xff \<notin> program_opcodes"
  "0x32 AND 0xff \<notin> program_opcodes"
  "0x60 AND 0xff \<notin> program_opcodes"
  "0x70 AND 0xff \<notin> program_opcodes"
  "0x90 AND 0xff \<notin> program_opcodes"
  "0xe0 AND 0xff \<notin> program_opcodes"
  "0xee AND 0xff \<notin> program_opcodes"
  "0xef AND 0xff \<notin> program_opcodes"
  "0xff AND 0xff \<notin> program_opcodes"
  by (simp_all add: program_opcodes_def)

lemma R_quene_rb: "R s t \<Longrightarrow> framed R s (controller_quene_rb hw n t)"
  unfolding controller_quene_rb_def Let_def cle_def [symmetric]
  by (intro framed_bind [OF R_select])
    (auto intro!: framed_Some R_poll_status R_poll_rb R_wait R_idle R_cle opcodes simp: split_beta)

lemma R_send:
  "R s t \<Longrightarrow> (\<And>u. R u (nfc_event hw (Wr P_NAND_CMD w) u)) \<Longrightarrow> R s (NFC_SEND_CMD hw w t)"
  unfolding NFC_SEND_CMD_def aml_write_reg32_def using trans by blast

lemmas R_sends = R_send [OF _ ev_adl] R_send [OF _ ev_adh] R_send [OF _ ev_ail] R_send [OF _ ev_aih]
  R_send [OF _ ev_seed] R_send [OF _ ev_n2m] R_send [OF _ ev_n2m_raw]

lemma R_addrs: "R s t \<Longrightarrow> R s (dma_addrs hw t)"
  by (simp add: dma_addrs_def Let_def R_sends)

lemma info_wait_R: "info_wait hw a t = Some u \<Longrightarrow> R t u"
proof -
  have "info_wait hw' a t = Some u \<Longrightarrow> hw' = hw \<longrightarrow> R t u" for hw'
    by (erule info_wait.raw_induct [rotated])
      (auto simp: Let_def ev_barrier split: if_splits intro: trans [OF ev_barrier])
  then show "info_wait hw a t = Some u \<Longrightarrow> R t u"
    by simp
qed

lemma R_info_wait: "R s t \<Longrightarrow> framed1 R s (info_wait hw a t)"
  using trans info_wait_R by (fastforce simp: framed1_def)

lemma R_dma_read: "R s t \<Longrightarrow> framed R s (controller_dma_read hw len bch t)"
  unfolding controller_dma_read_def Let_def
  by (intro framed_case_prod framed_if framed_bind1 [OF R_info_wait] framed_Some R_poll_fifo R_idle R_if
      R_sends R_addrs R_mem)

lemma check_fifo_R: "R s t \<Longrightarrow> R s (snd (check_fifo_retry hw n k t))"
proof (induction "4 - k" arbitrary: k n t rule: less_induct)
  case less
  have p: "R s (snd (poll (fifo_ready hw) 0x100000 n t))"
    using less.prems by (rule R_poll_fifo)
  have "R s (snd (check_fifo_retry hw m (k + 1) (snd (poll (fifo_ready hw) 0x100000 n t))))" if "k \<le> 3" for m
    by (rule less.hyps) (use that p in auto)
  then show ?case
    using p by (subst check_fifo_retry.simps) (simp add: split_beta Let_def)
qed

lemma R_fifo_or_bug: "R s t \<Longrightarrow> framed1 R s (fifo_or_bug hw t)"
  unfolding fifo_or_bug_def check_cmdfifo_size_def Let_def
  by (intro framed1_case_prod framed1_if framed1_None framed1_Some check_fifo_R)

lemma R_reset: "R s t \<Longrightarrow> framed R s (nand_reset hw n t)"
  unfolding nand_reset_def Let_def
  by (intro framed_bind [OF R_quene_rb] framed_if framed_Some framed_case_prod)
    (auto intro!: framed_if framed_Some framed_case_prod R_rules opcodes)

lemma hwecc_R: "R s t \<Longrightarrow> R s (snd (hwecc_steps is k t))"
proof (induction "is" k t rule: hwecc_steps.induct)
  case (1 m t)
  then show ?case
    using trans [OF _ up_ecc] by simp
next
  case (2 i "is" m t)
  then show ?case
    using trans [OF _ up_cur] trans [OF _ up_zero] by (simp add: Let_def)
qed

lemma R_hwecc: "R s t \<Longrightarrow> R s (snd (controller_hwecc_correct n t))"
  using trans [OF _ up_cur] by (simp add: controller_hwecc_correct_def Let_def hwecc_R)

lemma R_get_user: "R s t \<Longrightarrow> framed1 R s (controller_get_user_byte a n t)"
  by (auto simp: controller_get_user_byte_def Let_def framed1_def R_mem)

lemma R_set_user: "R s t \<Longrightarrow> framed1 R s (controller_set_user_byte a n t)"
  by (auto simp: controller_set_user_byte_def Let_def framed1_def R_mem)

lemma R_ecc_check: "R s t \<Longrightarrow> framed R s (ecc_check hw hk b L t)"
  unfolding ecc_check_def Let_def
  by (intro framed_bind1 [OF R_get_user] framed_case_prod framed_case_any framed_if framed_None framed_Some
      framed_bind [OF R_reset] framed_bind [OF R_handle] R_rules R_if R_hwecc; simp add: split_beta)

lemma R_copy_out: "R s t \<Longrightarrow> R s (snd (copy_out L t))"
  by (simp add: copy_out_def Let_def R_mem)

lemma R_dma_or_bug: "R s t \<Longrightarrow> framed1 R s (dma_or_bug hw L t)"
  unfolding dma_or_bug_def
  by (intro framed1_bind [OF R_dma_read]) (auto intro: framed1_None framed1_Some)

lemmas S_rules = framed_bind1 [OF R_leave] framed_bind [OF R_enter] framed_bind1 [OF R_dma_or_bug] framed_bind [OF R_ecc_check] framed_bind [OF R_quene_rb]
  framed_bind1 [OF R_fifo_or_bug] framed_case_prod framed_case_any framed_case_verdict framed_if framed_None
  framed_Some R_rules R_if opcodes R_copy_out

lemma R_plane0: "R s t \<Longrightarrow> framed R s (read_plane0 hw hk L t)"
  unfolding read_plane0_def Let_def by (intro S_rules; simp add: split_beta; intro S_rules)

lemma R_plane1: "R s t \<Longrightarrow> framed R s (read_plane1 hw hk L t)"
  unfolding read_plane1_def Let_def by (intro S_rules; simp add: split_beta; intro S_rules)

lemma R_single: "R s t \<Longrightarrow> framed R s (read_single hw hk L t)"
  unfolding read_single_def Let_def by (intro S_rules; simp add: split_beta; intro S_rules)

lemma R_step_retry_dma: "R s t \<Longrightarrow> framed R s (step_retry_dma hw hk L t)"
  unfolding step_retry_dma_def Let_def
  by (intro S_rules framed_bind [OF R_plane0] R_plane1 R_single; simp add: split_beta framed_Some R_plane1)

lemma R_step_cmd_loop: "R s t \<Longrightarrow> framed R s (step_cmd_loop hw hk L t)"
  unfolding step_cmd_loop_def Let_def by (intro S_rules; simp add: split_beta; intro S_rules)

lemma R_cmd_plane: "R s t \<Longrightarrow> framed1 R s (read_cmd_plane hw L t)"
  unfolding read_cmd_plane_def Let_def
  by (intro framed1_if framed1_bind [OF R_quene_rb] framed1_Some; (simp add: split_beta)?;
      intro framed1_Some R_rules opcodes)

lemma R_cmd_single: "R s t \<Longrightarrow> R s (read_cmd_single hw t)"
  unfolding read_cmd_single_def Let_def by (intro R_rules opcodes)

lemma R_step_retry_cmd: "R s t \<Longrightarrow> framed R s (step_retry_cmd hw L t)"
  unfolding step_retry_cmd_def Let_def
  by (intro framed_bind1 framed1_if R_cmd_plane framed1_Some R_cmd_single R_fifo_or_bug R_idle framed_if framed_Some)

lemma R_step_page_ff: "R s t \<Longrightarrow> framed R s (step_page_ff hw L t)"
  unfolding step_page_ff_def Let_def by (intro S_rules)

lemma R_step_new_oob: "R s t \<Longrightarrow> framed R s (step_new_oob L t)"
  unfolding step_new_oob_def Let_def by (intro S_rules)

lemma R_step_dma_loop: "R s t \<Longrightarrow> framed R s (step_dma_loop L t)"
  unfolding step_dma_loop_def Let_def by (intro S_rules)

lemma R_read_step: "R s t \<Longrightarrow> framed R s (read_step hw hk pc L t)"
  unfolding read_step_def
  by (cases pc) (simp_all add: R_step_cmd_loop R_step_retry_cmd R_step_dma_loop R_step_retry_dma R_step_page_ff
      R_step_new_oob framed_Some)

lemma read_run_R: "read_run hw hk pc L t = Some (r, u) \<Longrightarrow> R t u"
proof -
  have "read_run hw' hk' pc L t = Some x \<Longrightarrow> hw' = hw \<and> hk' = hk \<longrightarrow> R t (snd x)" for hw' hk' x
  proof (erule read_run.raw_induct [rotated], intro impI, elim conjE, goal_cases)
    case (1 self hw' hk' pc L t x)
    show ?case
    proof (cases "\<exists>r. pc = Exit r")
      case True
      then show ?thesis
        using 1 refl by auto
    next
      case False
      then have "read_step hw hk pc L t \<bind> (\<lambda>((pc, L), s). self hw hk pc L s) = Some x"
        using 1 by (auto split: read_pc.splits)
      then obtain pc2 L2 u where u: "read_step hw hk pc L t = Some ((pc2, L2), u)" "self hw hk pc2 L2 u = Some x"
        by (auto simp: bind_eq_Some_conv)
      then show ?thesis
        using 1 framedD [OF R_read_step [OF refl] u(1)] trans by blast
    qed
  qed
  then show "read_run hw hk pc L t = Some (r, u) \<Longrightarrow> R t u"
    by fastforce
qed

lemma R_read_setup: "R s t \<Longrightarrow> R s (snd (read_setup t))"
  by (simp add: read_setup_def Let_def R_die R_page)

lemma R_read_page: "R s t \<Longrightarrow> framed R s (read_page hw hk t)"
proof -
  assume "R s t"
  then have "R s (snd (read_setup t))"
    by (rule R_read_setup)
  then show ?thesis
    using \<open>R s t\<close> trans read_run_R
    unfolding read_page_def framed_def by (fastforce simp: split_beta Let_def split: if_splits)
qed

end

locale readonly_frame = nand_frame +
  assumes up_ops: "R s (s\<lparr>ops_para := p\<rparr>)"
    and up_mutex: "R s (s\<lparr>spi_nand_mutex := mx\<rparr>)"
    and up_idle: "R s (s\<lparr>nand_idleflag := fl\<rparr>)"
    and up_guard: "R s (s\<lparr>amlnf := amlnf_refuse_write what pg (amlnf s)\<rparr>)"
    and keeps_ro: "R s t \<Longrightarrow> amlnf_readonly (amlnf t) = amlnf_readonly (amlnf s)"
begin

lemma R_mutex: "R s t \<Longrightarrow> R s (t\<lparr>spi_nand_mutex := b\<rparr>)"
  using trans [OF _ up_mutex] by blast

lemma R_idleflag: "R s t \<Longrightarrow> R s (t\<lparr>nand_idleflag := b\<rparr>)"
  using trans [OF _ up_idle] by blast

lemma R_ops: "R s t \<Longrightarrow> R s (t\<lparr>ops_para := p\<rparr>)"
  using trans [OF _ up_ops] by blast

lemma R_get_chip: "R s t \<Longrightarrow> framed1 R s (nand_get_chip hk t)"
  unfolding nand_get_chip_def Let_def by (intro framed1_if framed1_None framed1_Some R_idleflag R_mutex)

lemma R_release_chip: "R s t \<Longrightarrow> R s (nand_release_chip t)"
  unfolding nand_release_chip_def by (intro R_if R_idleflag R_mutex)

lemma R_refuse: "R s t \<Longrightarrow> R s (t\<lparr>amlnf := amlnf_refuse_write what pg (amlnf t)\<rparr>)"
  using trans [OF _ up_guard] by blast

lemma R_write_page:
  "amlnf_readonly (amlnf s) \<noteq> 0 \<Longrightarrow> R s t \<Longrightarrow> framed R s (write_page hw hk t)"
  using keeps_ro [of s t] by (simp add: write_page_def Let_def framed_Some R_refuse)

lemma R_erase_block:
  "amlnf_readonly (amlnf s) \<noteq> 0 \<Longrightarrow> R s t \<Longrightarrow> framed R s (erase_block hw hk t)"
  using keeps_ro [of s t] by (simp add: erase_block_def Let_def framed_Some R_refuse)

lemma R_block_isbad: "R s t \<Longrightarrow> framed R s (block_isbad hw hk t)"
  unfolding block_isbad_def Let_def
  by (intro framed_if framed_Some R_die framed_bind1 [OF R_get_chip] framed_bind [OF R_read_page] R_mem R_ops)
    (simp_all add: framed_Some R_release_chip)

lemma R_write_mark:
  assumes ro: "amlnf_readonly (amlnf s) \<noteq> 0" and "R s t"
  shows "framed R s (write_mark hw hk t)"
  unfolding write_mark_def Let_def
  by (intro framed_bind [OF R_select [OF \<open>R s t\<close>]])
    (auto intro!: framed_bind [OF R_write_page [OF ro]] framed_bind1 [OF R_get_chip] R_mem R_ops framed_Some
      R_release_chip)

lemma R_set_status: "R s t \<Longrightarrow> R s (snd (set_blcok_status ch b v t))"
  by (simp add: set_blcok_status_def R_mem)

lemma R_mark_chips: "R s t \<Longrightarrow> R s (mark_chips multi cs blk t)"
  by (induction cs arbitrary: t) (simp_all add: Let_def R_set_status)

lemma R_mark_table: "R s t \<Longrightarrow> R s (mark_table t)"
  by (simp add: mark_table_def Let_def R_set_status R_mark_chips)

lemma R_block_markbad:
  assumes ro: "amlnf_readonly (amlnf s) \<noteq> 0" and "R s t"
    and bbt: "\<And>u. R s u \<Longrightarrow> framed R s (update_bbt u)"
  shows "framed R s (block_markbad hw hk update_bbt t)"
  unfolding block_markbad_def Let_def
  by (intro framed_if framed_Some R_refuse \<open>R s t\<close> R_die R_write_mark [OF ro] framed_bind [OF bbt] R_mark_table)
    (simp add: R_write_mark [OF ro])

lemma R_test_bufs: "R s t \<Longrightarrow> R s (test_bufs v t)"
  unfolding test_bufs_def using R_ops [OF R_mem] by simp

lemma R_resv_pass:
  assumes f: "\<And>u. R s u \<Longrightarrow> framed R s (f u)"
  shows "R s t \<Longrightarrow> framed R s (resv_pass hw f v good blk ts t)"
proof (induction ts arbitrary: t)
  case (Cons x ts)
  show ?case
    unfolding resv_pass.simps Let_def
    by (intro framed_bind [OF R_select [OF R_ops [OF Cons.prems]]])
      (auto intro!: framed_bind [OF f] framed_if framed_Some R_test_bufs Cons.IH)
qed (simp add: framed_Some)

lemma R_resv_erase:
  assumes ro: "amlnf_readonly (amlnf s) \<noteq> 0" and "R s t"
  shows "framed R s (resv_erase hw hk blk t)"
  unfolding resv_erase_def resv_block_ops_def Let_def
  by (intro framed_bind [OF R_select [OF R_ops [OF \<open>R s t\<close>]]])
    (auto intro!: framed_bind [OF R_erase_block [OF ro]] framed_Some)

lemma R_slc_option: "R s t \<Longrightarrow> R s (slc_option t)"
  unfolding slc_option_def by (intro R_if R_ops)

lemma R_test_block_reserved:
  assumes ro: "amlnf_readonly (amlnf s) \<noteq> 0" and "R s t"
  shows "framed R s (test_block_reserved hw hk blk t)"
  unfolding test_block_reserved_def Let_def
  by (intro framed_if framed_Some R_release_chip framed_bind1 [OF R_get_chip] R_slc_option R_mem \<open>R s t\<close>
      framed_bind [OF R_resv_erase [OF ro]])
    (auto intro!: framed_bind [where R = R] framed_if framed_Some R_release_chip R_resv_pass R_write_page [OF ro] R_read_page
      R_resv_erase [OF ro])

lemma R_modify_chips: "R s t \<Longrightarrow> R s (modify_chips multi cs blk v t)"
  by (induction cs arbitrary: t) (simp_all add: Let_def R_set_status)

lemma R_modify_bbt: "R s t \<Longrightarrow> R s (snd (blk_modify_bbt_chip_op v t))"
  by (simp add: blk_modify_bbt_chip_op_def Let_def R_set_status R_modify_chips R_refuse R_die)

lemma R_read_bytes: "R s t \<Longrightarrow> R s (read_bytes hw n buf t)"
  by (induction n arbitrary: buf t) (auto simp: Let_def split_beta intro!: R_mem R_read_byte)

lemma R_read_id: "R s t \<Longrightarrow> framed R s (read_id hw n a buf t)"
  unfolding read_id_def Let_def
  by (intro framed_if framed_Some framed_bind [OF R_select]; simp)
    (intro framed_bind [OF R_reset] framed_if framed_Some conjI impI;
      auto intro!: framed_Some R_read_bytes R_rules simp: program_opcodes_def)

end

section \<open>Writing routines\<close>

locale write_frame = nand_frame +
  assumes ev_any: "R s (nfc_event hw ev s)"
    and hk_slc_exit: "framed R s (slc_exit hk s)"
    and up_refuse: "R s (s\<lparr>amlnf := amlnf_refuse_write what pg (amlnf s)\<rparr>)"
begin

lemma W_cmd: "R s t \<Longrightarrow> R s (NFC_SEND_CMD hw w t)"
  unfolding NFC_SEND_CMD_def aml_write_reg32_def using trans [OF _ ev_any] by blast

lemma W_cle: "R s t \<Longrightarrow> R s (cle hw cmd t)"
  by (simp add: cle_def controller_cmd_ctrl_def Let_def W_cmd)

lemma W_status_try: "R s t \<Longrightarrow> R s (snd (status_try hw k t))"
proof (induction "6 - k" arbitrary: k t rule: less_induct)
  case less
  have b: "R s (snd (controller_read_byte hw t))"
    using less.prems by (rule R_read_byte)
  have "R s (snd (status_try hw (k + 1) (idle hw 10 (snd (controller_read_byte hw t)))))" if "k < 6"
    by (rule less.hyps) (use that b in \<open>auto intro: R_idle\<close>)
  then show ?case
    using b by (subst status_try.simps) (simp add: split_beta Let_def)
qed

lemma W_exit: "R s t \<Longrightarrow> framed R s (slc_exit hk t)"
  by (rule framed_call [OF _ hk_slc_exit])

lemma W_status_chips: "R s t \<Longrightarrow> framed R s (status_chips hw hk b cs t)"
proof (induction cs arbitrary: t)
  case (Cons c cs)
  show ?case
    unfolding status_chips.simps Let_def
    by (intro framed_bind [OF R_quene_rb [OF Cons.prems]])
      (auto intro!: framed_if framed_Some framed_case_prod framed_bind W_status_try R_idle W_cle Cons.IH W_exit)
qed (simp add: framed_Some)

lemma W_dma_write: "R s t \<Longrightarrow> R s (snd (controller_dma_write hw buf len bch t))"
  unfolding controller_dma_write_def Let_def
  by (simp add: split_beta) (intro conjI impI R_poll_fifo R_idle W_cmd R_addrs R_mem; assumption)

lemma W_set_user: "R s t \<Longrightarrow> framed1 R s (set_user_if W oob t)"
  by (simp add: set_user_if_def R_set_user framed1_Some)

lemmas W_rules = framed_if framed_Some framed_case_prod framed_bind1 [OF W_set_user] framed_bind [OF R_quene_rb]
  framed_pair W_dma_write R_idle W_cle R_row R_column R_seed R_if framed_bind [OF framed_if] R_enter

lemma W_planes: "R s t \<Longrightarrow> framed R s (write_planes hw W ch buf oob t)"
  unfolding write_planes_def Let_def by (intro W_rules; simp add: split_beta; intro conjI impI W_rules; simp)

lemma W_single: "R s t \<Longrightarrow> framed R s (write_single hw hk W ch buf oob t)"
  unfolding write_single_def Let_def by (intro W_rules; simp add: split_beta; intro conjI impI W_rules)

lemma W_chips: "R s t \<Longrightarrow> framed R s (write_chips hw hk W cs buf oob t)"
proof (induction cs arbitrary: buf oob t)
  case (Cons c cs)
  show ?case
    unfolding write_chips.simps Let_def
    by (intro framed_bind [OF R_quene_rb [OF Cons.prems]])
      (auto intro!: framed_if framed_Some framed_bind W_planes W_single framed_bind1 [OF R_fifo_or_bug] R_idle W_cle
        Cons.IH)
qed (simp add: framed_Some)

lemma W_setup: "R s t \<Longrightarrow> R s (snd (snd (write_setup t)))"
  by (simp add: write_setup_def Let_def R_die R_page R_mem)

lemma W_write_page: "R s t \<Longrightarrow> framed R s (write_page hw hk t)"
proof -
  assume t: "R s t"
  have "R s (t\<lparr>amlnf := amlnf_refuse_write what pg (amlnf t)\<rparr>)" for what pg
    using trans [OF t up_refuse] .
  moreover obtain W oob u where w: "write_setup t = (W, oob, u)"
    by (metis prod_cases3)
  moreover have "framed R s (write_chips hw hk W (op_chips t) b oob u \<bind>
      (\<lambda>(ret, s). if ret \<noteq> 0 then Some (ret, s) else status_chips hw hk (w_slc_mode W = 2) (op_chips t) s))" for b
    using W_setup [OF t] w by (auto intro!: framed_bind W_chips framed_if framed_Some W_status_chips)
  ultimately show ?thesis
    using t by (simp add: write_page_def Let_def framed_Some)
qed

lemma W_erase_planes: "R s t \<Longrightarrow> framed R s (erase_planes hw ch a b t)"
  unfolding erase_planes_def Let_def
  by (intro framed_bind framed_if R_quene_rb framed_Some W_cle R_idle R_row)
    (auto intro!: framed_if framed_Some R_idle W_cle R_row)

lemma W_erase_chips: "R s t \<Longrightarrow> framed R s (erase_chips hw hk multi slc a b cs t)"
proof (induction cs arbitrary: multi slc t)
  case (Cons c cs)
  show ?case
    unfolding erase_chips.simps Let_def
    by (intro framed_bind [OF R_quene_rb [OF Cons.prems]])
      (auto intro!: framed_if framed_Some framed_bind W_erase_planes framed_bind1 [OF R_fifo_or_bug] R_idle W_cle R_row
        R_enter Cons.IH)
qed (simp add: framed_Some)

lemma W_erase_block: "R s t \<Longrightarrow> framed R s (erase_block hw hk t)"
proof -
  assume t: "R s t"
  have "R s (t\<lparr>amlnf := amlnf_refuse_write what pg (amlnf t)\<rparr>)" for what pg
    using trans [OF t up_refuse] .
  then show ?thesis
    unfolding erase_block_def Let_def
    by (intro framed_if framed_Some framed_bind W_erase_chips R_die R_seed t)
      (auto intro!: framed_if framed_Some W_status_chips)
qed

end

locale full_frame = readonly_frame + write_frame
begin

lemma F_resv_erase: "R s t \<Longrightarrow> framed R s (resv_erase hw hk blk t)"
  unfolding resv_erase_def resv_block_ops_def Let_def
  by (auto intro!: framed_bind [OF R_select [OF R_ops]] framed_bind [OF W_erase_block] framed_Some)

lemma F_test_block_reserved: "R s t \<Longrightarrow> framed R s (test_block_reserved hw hk blk t)"
  unfolding test_block_reserved_def Let_def
  by (auto intro!: framed_if framed_Some R_release_chip framed_bind1 [OF R_get_chip] R_slc_option R_mem
      framed_bind [OF F_resv_erase] framed_bind [where R = R] R_resv_pass W_write_page R_read_page F_resv_erase)

end

section \<open>No program or erase command on the bus\<close>

definition ce_word :: "u32 \<Rightarrow> bool" where
  "ce_word w \<longleftrightarrow> w AND 0x3c00 = w"

definition ce_ok :: "nand \<Rightarrow> bool" where
  "ce_ok s \<longleftrightarrow> ce_word (chip_selected (controller s)) \<and> (\<forall>i<4. ce_word (ce_enable (controller s) ! i))"

definition program_cmd :: "u32 \<Rightarrow> bool" where
  "program_cmd w \<longleftrightarrow> drop_bit 14 w = 5 \<and> w AND 0xff \<in> program_opcodes"

fun safe_ev :: "nfc_ev \<Rightarrow> bool" where
  "safe_ev (Wr P_NAND_CMD w) = (\<not> program_cmd w)"
| "safe_ev _ = True"

definition bus_safe :: "nand \<Rightarrow> nand \<Rightarrow> bool" where
  "bus_safe s t \<longleftrightarrow> amlnf_readonly (amlnf t) = amlnf_readonly (amlnf s) \<and>
     (ce_ok s \<longrightarrow> ce_ok t \<and> (\<exists>evs. bus t = evs @ bus s \<and> list_all safe_ev evs))"

lemma bus_safe_refl: "bus_safe s s"
  by (simp add: bus_safe_def)

lemma bus_safe_trans: "bus_safe s t \<Longrightarrow> bus_safe t u \<Longrightarrow> bus_safe s u"
  unfolding bus_safe_def by (metis append.assoc list_all_append)

lemma bus_safe_event:
  assumes "ce_ok s \<Longrightarrow> safe_ev e"
  shows "bus_safe s (nfc_event hw e s)"
proof -
  have "ce_ok (nfc_event hw e s) = ce_ok s"
    by (simp add: ce_ok_def)
  then show ?thesis
    using assms by (auto simp: bus_safe_def intro!: exI [of _ "[e]"])
qed

lemma ce_word_fields: "ce_word w \<Longrightarrow> drop_bit 14 w = 0" "ce_word w \<Longrightarrow> w AND 0xff = 0"
proof -
  assume w: "ce_word w"
  have "drop_bit 14 (w AND 0x3c00) = 0"
    by (simp add: drop_bit_and)
  then show "drop_bit 14 w = 0"
    using w by (metis ce_word_def)
  have "(w AND 0x3c00) AND 0xff = 0"
    by (simp add: and.assoc)
  then show "w AND 0xff = 0"
    using w by (simp add: ce_word_def)
qed

lemma cmd_kinds:
  assumes "ce_word ce"
  shows "drop_bit 14 (NFC_CMD_IDLE ce t) = 0xc" "drop_bit 14 (NFC_CMD_CLE ce cmd) = 0x5"
    "drop_bit 14 (NFC_CMD_ALE ce a) = 0x6" "drop_bit 14 (NFC_CMD_DWR ce b) = 0x4"
    "drop_bit 14 (NFC_CMD_DRD ce 0) = 0x8"
  using ce_word_fields(1) [OF assms]
  by (simp_all add: NFC_CMD_IDLE_def NFC_CMD_CLE_def NFC_CMD_ALE_def NFC_CMD_DWR_def NFC_CMD_DRD_def
      drop_bit_or drop_bit_and)

lemma cle_opcode: "ce_word ce \<Longrightarrow> NFC_CMD_CLE ce cmd AND 0xff = cmd AND 0xff"
  using ce_word_fields(2) [of ce]
  by (simp add: NFC_CMD_CLE_def and.assoc or.assoc bit.conj_disj_distrib2)

lemma dma_kinds:
  "bit (NFC_CMD_ADL a) 21" "bit (NFC_CMD_ADH a) 21" "bit (NFC_CMD_AIL a) 21" "bit (NFC_CMD_AIH a) 21"
  "bit (NFC_CMD_SEED sd) 21" "bit (NFC_CMD_N2M rn e sh pg n) 21" "bit (NFC_CMD_N2M_RAW rn n) 21"
  by (simp_all add: NFC_CMD_ADL_def NFC_CMD_ADH_def NFC_CMD_AIL_def NFC_CMD_AIH_def NFC_CMD_SEED_def
      NFC_CMD_N2M_def NFC_CMD_N2M_RAW_def N2M_word_def bit_simps)

lemma bit21_not_program: "bit w 21 \<Longrightarrow> \<not> program_cmd w"
proof
  assume "bit w 21" "program_cmd w"
  then have "bit (drop_bit 14 w) 7"
    by (simp add: bit_drop_bit_eq)
  moreover have "drop_bit 14 w = 5"
    using \<open>program_cmd w\<close> by (simp add: program_cmd_def)
  moreover have "\<not> bit (5 :: u32) 7"
    by simp
  ultimately show False
    by metis
qed

lemma bus_safe_dma: "bit w 21 \<Longrightarrow> bus_safe s (nfc_event hw (Wr P_NAND_CMD w) s)"
  by (rule bus_safe_event) (simp add: bit21_not_program)

lemma bus_safe_cmd:
  "drop_bit 14 w \<noteq> 5 \<Longrightarrow> bus_safe s (nfc_event hw (Wr P_NAND_CMD w) s)"
  by (rule bus_safe_event) (simp add: program_cmd_def)

definition hooks_safe :: "nand_hooks \<Rightarrow> bool" where
  "hooks_safe hk \<longleftrightarrow> (\<forall>s. framed bus_safe s (slc_enter hk s) \<and> (\<forall>n. framed bus_safe s (retry_handle hk n s))
     \<and> (\<forall>ex n. retry_exit hk = Some ex \<longrightarrow> framed bus_safe s (ex n s)))"

lemma bus_safe_reads:
  "bus_safe s (nfc_event hw (Rd r) s)" "bus_safe s (nfc_event hw Barrier s)"
  by (auto intro: bus_safe_event)

lemma bus_safe_cycles:
  "bus_safe s (nfc_event hw (Wr P_NAND_CMD (NFC_CMD_IDLE (chip_selected (controller s)) t)) s)"
  "bus_safe s (nfc_event hw (Wr P_NAND_CMD (NFC_CMD_ALE (chip_selected (controller s)) a)) s)"
  "bus_safe s (nfc_event hw (Wr P_NAND_CMD (NFC_CMD_DRD (chip_selected (controller s)) 0)) s)"
  "bus_safe s (nfc_event hw (Wr P_NAND_CMD (NFC_CMD_DWR (chip_selected (controller s)) b)) s)"
  by (rule bus_safe_event, simp add: ce_ok_def program_cmd_def cmd_kinds)+

lemma bus_safe_cle:
  "cmd AND 0xff \<notin> program_opcodes \<Longrightarrow>
     bus_safe s (nfc_event hw (Wr P_NAND_CMD (NFC_CMD_CLE (chip_selected (controller s)) cmd)) s)"
  by (intro bus_safe_event) (simp add: ce_ok_def program_cmd_def cmd_kinds cle_opcode)

lemma bus_safe_fields:
  "bus_safe s (s\<lparr>mem := m\<rparr>)" "bus_safe s (s\<lparr>ops_para := p\<rparr>)" "bus_safe s (s\<lparr>max_ecc_per_page := e\<rparr>)"
  "bus_safe s (s\<lparr>spi_nand_mutex := mx\<rparr>)" "bus_safe s (s\<lparr>nand_idleflag := fl\<rparr>)"
  "bus_safe s (s\<lparr>amlnf := amlnf_refuse_write what pg (amlnf s)\<rparr>)"
  "bus_safe s (s\<lparr>controller := (controller s)\<lparr>page_addr := a\<rparr>\<rparr>)"
  "bus_safe s (s\<lparr>controller := (controller s)\<lparr>ecc_cnt_cur := b\<rparr>\<rparr>)"
  "bus_safe s (s\<lparr>controller := (controller s)\<lparr>zero_cnt := a\<rparr>\<rparr>)"
  "i < 4 \<Longrightarrow> bus_safe s (s\<lparr>controller := (controller s)
     \<lparr>chip_selected := ce_enable (controller s) ! i, rb_received := x\<rparr>\<rparr>)"
  by (simp_all add: bus_safe_def ce_ok_def)

lemma bus_safe_readonly: "bus_safe s t \<Longrightarrow> amlnf_readonly (amlnf t) = amlnf_readonly (amlnf s)"
  by (simp add: bus_safe_def)

lemmas bus_safe_laws = bus_safe_refl bus_safe_reads bus_safe_cycles bus_safe_cle bus_safe_fields
  bus_safe_readonly bus_safe_dma [OF dma_kinds(1)] bus_safe_dma [OF dma_kinds(2)] bus_safe_dma [OF dma_kinds(3)]
  bus_safe_dma [OF dma_kinds(4)] bus_safe_dma [OF dma_kinds(5)] bus_safe_dma [OF dma_kinds(6)]
  bus_safe_dma [OF dma_kinds(7)]

locale safe_hooks =
  fixes hw :: nfc and hk :: nand_hooks
  assumes safe: "hooks_safe hk"

sublocale safe_hooks \<subseteq> readonly_frame bus_safe hw hk
  using safe by unfold_locales (auto intro: bus_safe_laws bus_safe_trans simp: hooks_safe_def)

section \<open>What reading and writing leave alone\<close>

text \<open>
  Page operations change the hardware side of the controller structure, the
  counters of the current operation, memory and the bus, and the refusal
  counter; the rest of the chip structure, the operation's address and buffers
  and the chip lock stay as they are.
\<close>

definition kept :: "nand \<Rightarrow> nand \<Rightarrow> bool" where
  "kept s t \<longleftrightarrow> state t = state s \<and> nand_status t = nand_status s \<and> flash t = flash s
     \<and> block_status t = block_status s \<and> nand_bbtinfo t = nand_bbtinfo s \<and> reserved_blk t = reserved_blk s
     \<and> shipped_bbtinfo t = shipped_bbtinfo s \<and> config_msg t = config_msg s \<and> nand_key t = nand_key s
     \<and> nand_secure t = nand_secure s \<and> uboot_env t = uboot_env s
     \<and> shipped_bbt_ptr t = shipped_bbt_ptr s \<and> config_ptr t = config_ptr s
     \<and> user_page_buf t = user_page_buf s \<and> user_oob_buf t = user_oob_buf s \<and> debug_flag t = debug_flag s
     \<and> nand_idleflag t = nand_idleflag s \<and> spi_nand_mutex t = spi_nand_mutex s
     \<and> amlnf_readonly (amlnf t) = amlnf_readonly (amlnf s)
     \<and> (ops_para t)\<lparr>op_ecc_err := 0, op_bit_flip := 0\<rparr> = (ops_para s)\<lparr>op_ecc_err := 0, op_bit_flip := 0\<rparr>
     \<and> chip_num (controller t) = chip_num (controller s) \<and> page_buf (controller t) = page_buf (controller s)
     \<and> oob_buf (controller t) = oob_buf (controller s) \<and> pagelist (slc_info (controller t)) = pagelist (slc_info (controller s))"

definition hooks_keep :: "nand_hooks \<Rightarrow> bool" where
  "hooks_keep hk \<longleftrightarrow> (\<forall>s. framed kept s (slc_enter hk s) \<and> framed kept s (slc_exit hk s)
     \<and> (\<forall>n. framed kept s (retry_handle hk n s))
     \<and> (\<forall>ex n. retry_exit hk = Some ex \<longrightarrow> framed kept s (ex n s)))"

lemma kept_refl: "kept s s"
  by (simp add: kept_def)

lemma kept_trans: "kept s t \<Longrightarrow> kept t u \<Longrightarrow> kept s u"
  by (simp add: kept_def)

lemma kept_event: "kept s (nfc_event hw e s)"
  by (simp add: kept_def)

lemma kept_fields:
  "kept s (s\<lparr>mem := m\<rparr>)" "kept s (s\<lparr>max_ecc_per_page := e\<rparr>)"
  "kept s (s\<lparr>amlnf := amlnf_refuse_write what pg (amlnf s)\<rparr>)"
  "kept s (s\<lparr>controller := (controller s)\<lparr>page_addr := a\<rparr>\<rparr>)"
  "kept s (s\<lparr>controller := (controller s)\<lparr>ecc_cnt_cur := b\<rparr>\<rparr>)"
  "kept s (s\<lparr>controller := (controller s)\<lparr>zero_cnt := a\<rparr>\<rparr>)"
  "kept s (s\<lparr>ops_para := (ops_para s)\<lparr>op_ecc_err := b\<rparr>\<rparr>)"
  "kept s (s\<lparr>ops_para := (ops_para s)\<lparr>op_bit_flip := b\<rparr>\<rparr>)"
  "kept s (s\<lparr>controller := (controller s)\<lparr>chip_selected := w, rb_received := x\<rparr>\<rparr>)"
  by (simp_all add: kept_def)

lemma kept_ops:
  assumes "kept s t"
  shows "op_page_addr (ops_para t) = op_page_addr (ops_para s)" "op_option (ops_para t) = op_option (ops_para s)"
    "op_data_buf (ops_para t) = op_data_buf (ops_para s)" "op_oob_buf (ops_para t) = op_oob_buf (ops_para s)"
    "op_chipnr (ops_para t) = op_chipnr (ops_para s)"
proof -
  have e: "(ops_para t)\<lparr>op_ecc_err := 0, op_bit_flip := 0\<rparr> = (ops_para s)\<lparr>op_ecc_err := 0, op_bit_flip := 0\<rparr>"
    using assms by (simp only: kept_def)
  show "op_page_addr (ops_para t) = op_page_addr (ops_para s)" "op_option (ops_para t) = op_option (ops_para s)"
    "op_data_buf (ops_para t) = op_data_buf (ops_para s)" "op_oob_buf (ops_para t) = op_oob_buf (ops_para s)"
    "op_chipnr (ops_para t) = op_chipnr (ops_para s)"
    using arg_cong [OF e, of op_page_addr] arg_cong [OF e, of op_option] arg_cong [OF e, of op_data_buf]
      arg_cong [OF e, of op_oob_buf] arg_cong [OF e, of op_chipnr]
    by simp_all
qed

locale keep_hooks =
  fixes hw :: nfc and hk :: nand_hooks
  assumes keep: "hooks_keep hk"

sublocale keep_hooks \<subseteq> kept: write_frame kept hw hk
  using keep by unfold_locales (auto intro: kept_refl kept_event kept_fields kept_trans simp: hooks_keep_def)

end
