(* ===== verification/ChipProps.thy ===== *)
theory ChipProps
  imports BusFrame ControllerProps
begin

text \<open>
  Properties of the chip operations: the write guard, the mapping of a page of a
  two-plane device to the pages of its planes, the bad block table, the block
  test, and the status loop after a program or erase.
\<close>

text \<open>Chips of type 0 have neither an SLC mode nor read retry; their entry points are never called.\<close>

definition plain_hooks :: nand_hooks where
  "plain_hooks = \<lparr>slc_enter = (\<lambda>s. Some (0, s)), slc_exit = (\<lambda>s. Some (0, s)), retry_handle = (\<lambda>n s. Some (0, s)), retry_exit = None,
     pin_select = (\<lambda>s. 0), kmalloc = (\<lambda>_. 950000)\<rparr>"

interpretation plain: safe_hooks hw plain_hooks for hw
  by unfold_locales (simp add: hooks_safe_def plain_hooks_def bus_safe_refl framed_Some)

section \<open>The write guard\<close>

text \<open>
  With the \<open>readonly\<close> parameter set, programming a page and erasing a
  block are refused with \<open>-EROFS\<close> whatever the arguments: nothing is sent to
  the controller, no buffer and no bad block status changes, and the refusal is
  counted.
\<close>

theorem readonly_refuses_program_and_erase:
  assumes "amlnf_readonly (amlnf s) \<noteq> 0"
  shows "\<exists>t u. write_page hw hk s = Some (- EROFS, t) \<and> erase_block hw hk s = Some (- EROFS, u)
    \<and> t = s\<lparr>amlnf := amlnf t\<rparr> \<and> u = s\<lparr>amlnf := amlnf u\<rparr>
    \<and> amlnf_refused (amlnf t) = amlnf_refused (amlnf s) + 1 \<and> amlnf_refused (amlnf u) = amlnf_refused (amlnf s) + 1"
  using assms by (simp add: write_page_def erase_block_def Let_def)

theorem readonly_refuses_program_and_erase_witness:
  "\<exists>t u. write_page demo_hw plain_hooks demo_nand = Some (- EROFS, t) \<and> erase_block demo_hw plain_hooks demo_nand = Some (- EROFS, u)
    \<and> amlnf_refused (amlnf t) = 1 \<and> amlnf_refused (amlnf u) = 1"
  using readonly_refuses_program_and_erase [of demo_nand demo_hw plain_hooks]
  by (simp add: demo_nand_def guard_init_def) metis

text \<open>
  Unless \<open>allow_markbad\<close> is set, and independently of \<open>readonly\<close>, marking a
  block bad and editing the bad block table are refused with \<open>-EROFS\<close> and leave
  the table, the buffers and the bus alone.
\<close>

theorem markbad_refused:
  assumes "amlnf_allow_markbad (amlnf s) = 0"
  shows "\<exists>t u. block_markbad hw hk update_bbt s = Some (- EROFS, t) \<and> blk_modify_bbt_chip_op v s = (- EROFS, u)
    \<and> t = s\<lparr>amlnf := amlnf t\<rparr> \<and> u = s\<lparr>amlnf := amlnf u\<rparr>"
  using assms by (simp add: block_markbad_def blk_modify_bbt_chip_op_def Let_def)

theorem markbad_refused_witness:
  "\<exists>t u. block_markbad demo_hw plain_hooks (\<lambda>s. Some (0, s)) demo_nand = Some (- EROFS, t)
     \<and> blk_modify_bbt_chip_op 1 demo_nand = (- EROFS, u)"
  using markbad_refused [of demo_nand demo_hw plain_hooks "\<lambda>s. Some (0, s)" 1] by (auto simp: demo_nand_def guard_init_def)

section \<open>Pages of a two-plane device\<close>

lemma quot_rem: "r < m \<Longrightarrow> (q * m + r) div m = q \<and> (q * m + r) mod m = (r :: nat)"
  by simp

lemma join_planes:
  assumes sh: "sh < 32" and q: "unat q < 2 ^ (32 - sh)"
  shows "unat (push_bit sh q OR (a AND (push_bit sh 1 - 1)) :: u32) = unat q * 2 ^ sh + unat a mod 2 ^ sh"
proof -
  have "push_bit sh q OR (a AND (push_bit sh 1 - 1)) = push_bit sh q OR take_bit sh a"
    by (simp add: take_bit_eq_mask mask_eq_exp_minus_1 push_bit_of_1)
  also have "\<dots> = push_bit sh q + take_bit sh a"
    by (rule disjunctive_add_eq_or [symmetric]) (auto simp: bit_eq_iff bit_simps)
  finally have e: "push_bit sh q OR (a AND (push_bit sh 1 - 1)) = push_bit sh q + take_bit sh a" .
  have t: "unat (take_bit sh a) = unat a mod 2 ^ sh"
    unfolding unsigned_take_bit_eq by (rule take_bit_eq_mod)
  have "(unat q + 1) * 2 ^ sh \<le> 2 ^ (32 - sh) * 2 ^ sh"
    using q by (intro mult_le_mono1) simp
  also have "(2 :: nat) ^ (32 - sh) * 2 ^ sh = 2 ^ 32"
    using sh by (simp add: power_add [symmetric])
  finally have b: "unat q * 2 ^ sh + 2 ^ sh \<le> 2 ^ 32"
    by simp
  have "(0 :: nat) < 2 ^ sh"
    by simp
  then have "unat q * 2 ^ sh < 2 ^ 32"
    using b by linarith
  then have p: "unat (push_bit sh q) = unat q * 2 ^ sh"
    by (subst unsigned_push_bit_eq) (simp add: push_bit_eq_mult take_bit_nat_eq_self_iff)
  have "unat a mod 2 ^ sh < 2 ^ sh"
    by simp
  then have "unat q * 2 ^ sh + unat a mod 2 ^ sh < 2 ^ 32"
    using b by linarith
  then show ?thesis
    unfolding e unat_word_ariths(1) p t by simp
qed

text \<open>
  C31.  A page address of a two-plane device names one page in each plane: plane
  0 gets block \<open>2 * b\<close> and plane 1 block \<open>2 * b + 1\<close> of the chip, at the same
  page within the block, where \<open>b\<close> is the block of the address.
\<close>

theorem plane_addresses:
  assumes sh: "sh < 31" and a: "unat a < 2 ^ 31"
  shows "unat (plane0_addr sh a) div 2 ^ sh = 2 * (unat a div 2 ^ sh)
    \<and> unat (plane1_addr sh a) div 2 ^ sh = 2 * (unat a div 2 ^ sh) + 1
    \<and> unat (plane0_addr sh a) mod 2 ^ sh = unat a mod 2 ^ sh
    \<and> unat (plane1_addr sh a) mod 2 ^ sh = unat a mod 2 ^ sh"
proof -
  let ?b = "unat a div 2 ^ sh"
  have "unat a < 2 ^ (31 - sh) * 2 ^ sh"
    using a sh by (simp add: power_add [symmetric])
  then have b: "?b < 2 ^ (31 - sh)"
    by (rule less_mult_imp_div_less)
  have "(2 :: nat) ^ (32 - sh) = 2 * 2 ^ (31 - sh)"
    using sh by (simp add: Suc_diff_le flip: power_Suc)
  then have b2: "2 * ?b + 1 < 2 ^ (32 - sh)"
    using b by simp
  have "(2 :: nat) ^ (32 - sh) \<le> 2 ^ 32"
    by (rule power_increasing) simp_all
  then have b3: "2 * ?b + 1 < 2 ^ 32"
    using b2 by linarith
  have d: "unat (drop_bit sh a) = ?b"
    using a by (subst unsigned_drop_bit_eq) (simp add: drop_bit_eq_div take_bit_nat_eq_self)
  have q0: "unat (push_bit 1 (drop_bit sh a)) = 2 * ?b"
    using b3 by (subst unsigned_push_bit_eq) (simp add: d push_bit_eq_mult take_bit_nat_eq_self mult.commute)
  have q1: "unat (push_bit 1 (drop_bit sh a) + 1) = 2 * ?b + 1"
    using b3 q0 by (simp add: unat_word_ariths)
  have "unat (plane0_addr sh a) = 2 * ?b * 2 ^ sh + unat a mod 2 ^ sh"
    using join_planes [of sh "push_bit 1 (drop_bit sh a)" a] sh b2 q0 by (simp add: plane0_addr_def Let_def)
  moreover have "unat (plane1_addr sh a) = (2 * ?b + 1) * 2 ^ sh + unat a mod 2 ^ sh"
    using join_planes [of sh "push_bit 1 (drop_bit sh a) + 1" a] sh b2 q1 by (simp add: plane1_addr_def Let_def)
  ultimately show ?thesis
    using quot_rem [of "unat a mod 2 ^ sh" "2 ^ sh" "2 * ?b"] quot_rem [of "unat a mod 2 ^ sh" "2 ^ sh" "2 * ?b + 1"]
    by (simp only:) simp
qed

theorem plane_addresses_witness:
  "unat (plane0_addr 8 0x305) div 2 ^ 8 = 6 \<and> unat (plane1_addr 8 0x305) div 2 ^ 8 = 7
   \<and> unat (plane1_addr 8 0x305) mod 2 ^ 8 = 5"
  using plane_addresses [of 8 "0x305"] by simp

section \<open>The bad block table\<close>

lemma status_set: "blk_status (snd (set_blcok_status ch b v s)) ch b = of_int v"
  by (simp add: blk_status_def set_blcok_status_def status_addr_def)

lemma status_set_one:
  assumes "blk_status s ch b = 1"
  shows "blk_status (snd (set_blcok_status ch' b' 1 s)) ch b = 1"
proof -
  let ?x = "status_addr s ch' b'" and ?y = "status_addr s ch b"
  have "?x = ?y \<or> ?x + 2 \<le> ?y \<or> ?y + 2 \<le> ?x"
    by (simp add: status_addr_def) presburger
  then show ?thesis
    using assms by (auto simp: blk_status_def set_blcok_status_def status_addr_def ld16_st16_other)
qed

lemma mark_chips_one: "blk_status s ch b = 1 \<Longrightarrow> blk_status (mark_chips multi cs blk s) ch b = 1"
  by (induction cs arbitrary: s) (simp_all add: Let_def status_set_one)

lemma mark_chips_set: "ch \<in> set cs \<Longrightarrow> blk_status (mark_chips multi cs blk s) ch blk = 1"
proof (induction cs arbitrary: s)
  case (Cons c cs)
  show ?case
  proof (cases "ch = c")
    case True
    then show ?thesis
      by (simp add: Let_def mark_chips_one status_set)
  next
    case False
    then show ?thesis
      using Cons by (simp add: Let_def)
  qed
qed simp

lemma set_status_same [simp]:
  "ops_para (snd (set_blcok_status ch b v s)) = ops_para s" "controller (snd (set_blcok_status ch b v s)) = controller s"
  "flash (snd (set_blcok_status ch b v s)) = flash s" "block_status (snd (set_blcok_status ch b v s)) = block_status s"
  by (simp_all add: set_blcok_status_def)

lemma mark_chips_same [simp]:
  "ops_para (mark_chips multi cs b s) = ops_para s" "controller (mark_chips multi cs b s) = controller s"
  "flash (mark_chips multi cs b s) = flash s" "block_status (mark_chips multi cs b s) = block_status s"
  by (induction cs arbitrary: s) (simp_all add: Let_def)

lemma mark_table_same [simp]:
  "ops_para (mark_table s) = ops_para s" "controller (mark_table s) = controller s"
  "flash (mark_table s) = flash s" "block_status (mark_table s) = block_status s"
  by (simp_all add: mark_table_def Let_def)

lemma isbad_chips_first: "blk_status s 0 b = 1 \<Longrightarrow> 0 < n \<Longrightarrow> isbad_chips multi [0..<n] b r s = 1"
  by (subst upt_conv_Cons) (simp_all add: get_blcok_status_def Let_def c_consts)



text \<open>
  In two-plane mode \<open>block_markbad\<close> looks at the status of block \<open>b\<close>
  although the operation is about the blocks \<open>2 * b\<close> and \<open>2 * b + 1\<close>: when
  block \<open>b\<close> happens to be bad, the call returns success and the pair it should
  have marked keeps its status.
\<close>

theorem markbad_wrong_block:
  assumes "amlnf_allow_markbad (amlnf s) \<noteq> 0" "arg_valid (nand_bbtinfo s) \<noteq> 0" "block_status s \<noteq> NULL"
    and "has (op_option (ops_para s)) DEV_MULTI_PLANE_MODE"
    and "blk_status s (unat (op_chipnr (ops_para s))) (op_blk s) \<in> {1, 2}"
  shows "\<exists>t. block_markbad hw hk update_bbt s = Some (0, t) \<and> mem t = mem s \<and> bus t = bus s
    \<and> blk_status t (unat (op_chipnr (ops_para s))) (push_bit 1 (op_blk s)) =
        blk_status s (unat (op_chipnr (ops_para s))) (push_bit 1 (op_blk s))"
proof -
  have same: "mem (die_adjust s) = mem s" "bus (die_adjust s) = bus s" "flash (die_adjust s) = flash s"
    "ops_para (die_adjust s) = ops_para s" "block_status (die_adjust s) = block_status s"
    "nand_bbtinfo (die_adjust s) = nand_bbtinfo s"
    by (simp_all add: die_adjust_def Let_def)
  then have st: "blk_status (die_adjust s) ch b = blk_status s ch b" "op_blk (die_adjust s) = op_blk s" for ch b
    by (simp_all add: blk_status_def status_addr_def op_blk_def)
  have "block_markbad hw hk update_bbt s = Some (0, die_adjust s)"
    using assms by (auto simp: block_markbad_def Let_def st same c_consts)
  then show ?thesis
    using same st by simp
qed

definition clash_nand :: nand where
  "clash_nand = demo_nand\<lparr>amlnf := guard_init\<lparr>amlnf_allow_markbad := 1\<rparr>,
     ops_para := demo_ops\<lparr>op_page_addr := 256, op_option := 4\<rparr>, mem := (\<lambda>_. 0)(600006 := 1)\<rparr>"

lemma ffs_demo: "ffs_diff demo_flash = 8"
proof -
  have "ffs (0x200000 :: u32) = 22" "ffs (8192 :: u32) = 14"
    using ffs_power [of 21] ffs_power [of 13] by simp_all
  then show ?thesis
    by (simp add: ffs_diff_def demo_flash_def)
qed

theorem markbad_wrong_block_witness:
  "\<exists>t. block_markbad demo_hw plain_hooks (\<lambda>s. Some (0, s)) clash_nand = Some (0, t) \<and> blk_status t 0 2 = NAND_BLOCK_GOOD"
proof -
  have blk: "op_blk clash_nand = 1"
    by (simp add: op_blk_def clash_nand_def demo_nand_def ffs_demo)
  have "blk_status clash_nand 0 1 = 1" "blk_status clash_nand 0 2 = 0"
    by (simp_all add: blk_status_def status_addr_def clash_nand_def demo_nand_def ld16_def)
  moreover have fields: "amlnf_allow_markbad (amlnf clash_nand) = 1" "arg_valid (nand_bbtinfo clash_nand) = 1"
    "block_status clash_nand = 600000" "op_option (ops_para clash_nand) = 4" "op_chipnr (ops_para clash_nand) = 0"
    by (simp_all add: clash_nand_def demo_nand_def demo_ops_def)
  ultimately show ?thesis
    using markbad_wrong_block [of clash_nand demo_hw plain_hooks "\<lambda>s. Some (0, s)"]
    by (auto simp: blk has_def c_consts)
qed

section \<open>The status loop\<close>

lemma status_try_unclear:
  assumes "\<And>u. fst (controller_read_byte hw u) \<notin> {0xe0, 0xe1}"
  shows "fst (status_try hw k s) = 0"
proof (induction "6 - k" arbitrary: k s rule: less_induct)
  case less
  have "fst (controller_read_byte hw s) \<notin> {0xe0, 0xe1}"
    by (rule assms)
  then show ?case
    using less.hyps [of "k + 1"] by (subst status_try.simps) (auto simp: split_beta Let_def)
qed

text \<open>
  After a program or erase the chip has six more chances to answer with a
  clear status; a chip that never does, neither confirming (\<open>0xe0\<close>) nor
  reporting failure (\<open>0xe1\<close>), is taken to have succeeded.
\<close>

theorem unclear_status_is_success:
  assumes "\<And>u. fst (controller_read_byte hw u) \<notin> {0xe0, 0xe1}"
    and "controller_quene_rb hw chipnr s = Some (0, t)"
  shows "\<exists>u. status_chips hw hk False [chipnr] s = Some (NAND_SUCCESS, u)"
  using assms(2) status_try_unclear [OF assms(1)] by (simp add: split_beta Let_def)

definition mute_hw :: nfc where
  "mute_hw = demo_hw\<lparr>reg_val := (\<lambda>evs r. if r = P_NAND_BUF then 0x40 else reg_val demo_hw evs r)\<rparr>"

theorem unclear_status_is_success_witness:
  "\<exists>t u. controller_quene_rb mute_hw 0 demo_nand = Some (0, t)
     \<and> status_chips mute_hw plain_hooks False [0] demo_nand = Some (NAND_SUCCESS, u)"
proof -
  have b: "fst (controller_read_byte mute_hw u) = 0x40" for u
    by (simp add: controller_read_byte_def nandphy_readb_def aml_read_reg32_def Let_def split_beta mute_hw_def)
  then have "fst (status_ready mute_hw u)" for u
    by (simp add: status_ready_def split_beta has_def)
  then have p: "poll (status_ready mute_hw) limit cnt u = (cnt, snd (status_ready mute_hw u))" for limit cnt u
    by (subst poll.simps) (simp add: split_beta)
  have "has (ctl_option (controller demo_nand)) NAND_CTRL_NONE_RB"
    by (simp add: demo_nand_def demo_ctl_def has_def c_consts)
  then have "\<exists>t. controller_quene_rb mute_hw 0 demo_nand = Some (0, t)"
    by (simp add: controller_quene_rb_def controller_select_chip_def Let_def ctl_option_kept p busy_limit_def)
  then show ?thesis
    using unclear_status_is_success [of mute_hw 0 demo_nand _ plain_hooks] b by auto
qed

section \<open>The block test\<close>

lemma test_pass_address:
  assumes f: "\<And>u. \<exists>r t. f u = Some (r, t) \<and> 0 \<le> r \<and> op_page_addr (ops_para t) = op_page_addr (ops_para u)"
  shows "\<exists>t. test_pass f v ts s = Some (0, t)
    \<and> op_page_addr (ops_para t) = op_page_addr (ops_para s) + of_nat (sum_list ts)"
proof (induction ts arbitrary: s)
  case (Cons t ts)
  let ?s = "test_bufs v (s\<lparr>ops_para := (ops_para s)\<lparr>op_page_addr := op_page_addr (ops_para s) + of_nat t\<rparr>\<rparr>)"
  have a: "op_page_addr (ops_para ?s) = op_page_addr (ops_para s) + of_nat t"
    by (simp add: test_bufs_def)
  obtain r u where "f ?s = Some (r, u)" "0 \<le> r" "op_page_addr (ops_para u) = op_page_addr (ops_para ?s)"
    using f by blast
  then show ?case
    using Cons [of u] a by (auto simp: Let_def add.assoc)
qed simp

text \<open>
  The block test adds the page index to a running address: after a pass
  over the \<open>n\<close> pages of a block that starts at page \<open>a\<close>, the operation
  parameters point at page \<open>a + n * (n - 1) / 2\<close>, which for a block of 64 or
  more pages is a page of a different block.
\<close>

theorem test_pass_leaves_block:
  assumes "\<And>u. \<exists>r t. f u = Some (r, t) \<and> 0 \<le> r \<and> op_page_addr (ops_para t) = op_page_addr (ops_para u)"
  shows "\<exists>t. test_pass f v [0..<n] (restart_at a s) = Some (0, t)
    \<and> op_page_addr (ops_para t) = a + of_nat (n * (n - 1) div 2)"
proof -
  have "2 * sum_list [0..<n] = n * (n - 1)"
  proof (induction n)
    case (Suc n)
    then show ?case
      by (cases n) simp_all
  qed simp
  then have "sum_list [0..<n] = n * (n - 1) div 2"
    by simp
  then show ?thesis
    using test_pass_address [OF assms, of v "[0..<n]" "restart_at a s"] by (simp add: restart_at_def)
qed

theorem test_pass_leaves_block_witness:
  "\<exists>t. test_pass (\<lambda>u. Some (0, u)) 0 [0..<64] (restart_at 0x100 demo_nand) = Some (0, t)
     \<and> op_page_addr (ops_para t) = 0x100 + 2016"
  using test_pass_leaves_block [of "\<lambda>u. Some (0, u)" 0 64 "0x100" demo_nand] by simp

end
