(* ===== verification/PhyDev.thy ===== *)
theory PhyDev
  imports ChipOps
begin

text \<open>
  \<open>dev/phydev.c\<close>: the physical devices (boot, code and data areas of the chip)
  and their operations, which lock the chip, translate byte addresses to pages
  and call the chip operations page by page or block by block.  The chip
  operations are reached through the function table \<open>struct chip_operation\<close>,
  a record of functions here; \<open>chip_table\<close> is the table that
  \<open>amlnand_init_operation\<close> fills.
\<close>

section \<open>The operation table\<close>

record chip_operation =
  ct_select_chip :: "u8 \<Rightarrow> nand \<Rightarrow> (int \<times> nand) option"
  ct_read_page :: "nand \<Rightarrow> (int \<times> nand) option"
  ct_write_page :: "nand \<Rightarrow> (int \<times> nand) option"
  ct_erase_block :: "nand \<Rightarrow> (int \<times> nand) option"
  ct_block_isbad :: "nand \<Rightarrow> (int \<times> nand) option"
  ct_block_markbad :: "nand \<Rightarrow> (int \<times> nand) option"
  ct_blk_modify_bbt :: "int \<Rightarrow> nand \<Rightarrow> (int \<times> nand) option"
  ct_update_bbt :: "nand \<Rightarrow> (int \<times> nand) option"
  ct_get_chip :: "nand \<Rightarrow> nand option"
  ct_test_block_reserved :: "u32 \<Rightarrow> nand \<Rightarrow> (int \<times> nand) option"

definition chip_table ::
  "nfc \<Rightarrow> nand_hooks \<Rightarrow> (nand \<Rightarrow> (int \<times> nand) option) \<Rightarrow> chip_operation" where
  "chip_table hw hk amlnand_update_bbt =
     \<lparr>ct_select_chip = controller_select_chip hw,
      ct_read_page = read_page hw hk,
      ct_write_page = write_page hw hk,
      ct_erase_block = erase_block hw hk,
      ct_block_isbad = block_isbad hw hk,
      ct_block_markbad = block_markbad hw hk amlnand_update_bbt,
      ct_blk_modify_bbt = (\<lambda>v s. Some (blk_modify_bbt_chip_op v s)),
      ct_update_bbt = update_bbt_chip_op amlnand_update_bbt,
      ct_get_chip = nand_get_chip hk,
      ct_test_block_reserved = test_block_reserved hw hk\<rparr>"

section \<open>The device structure\<close>

record phydev_ops =
  do_mode :: oob_modes
  do_addr :: u64
  do_len :: u64
  do_retlen :: u32
  do_ooblen :: u32
  do_datbuf :: ptr
  do_oobbuf :: ptr

record amlnand_phydev =
  pd_name :: string
  pd_flags :: u32
  pd_option :: u32
  pd_offset :: u64
  pd_size :: u64
  erasesize :: u32
  writesize :: u32
  pd_oobavail :: u32
  erasesize_shift :: u32
  writesize_shift :: u32
  writesize_mask :: u32
  pd_ops :: phydev_ops

type_synonym dev = "amlnand_phydev \<times> nand"

section \<open>Locking the chip\<close>

definition get_chip_state :: "nand \<Rightarrow> chip_state" where
  "get_chip_state s = state s"

definition set_chip_state :: "chip_state \<Rightarrow> nand \<Rightarrow> nand" where
  "set_chip_state st s = s\<lparr>state := st\<rparr>"

text \<open>
  A caller that finds the chip in use sleeps until another task releases it;
  seen from one task alone that call does not return.  The interleaving of
  several tasks is the subject of theory \<open>DevLock\<close>.
\<close>

definition amlnand_get_device :: "chip_operation \<Rightarrow> chip_state \<Rightarrow> nand \<Rightarrow> nand option" where
  "amlnand_get_device ct new_state s =
     (if get_chip_state s = CHIP_READY then ct_get_chip ct (set_chip_state new_state s) else None)"

definition amlnand_release_device :: "nand \<Rightarrow> nand" where
  "amlnand_release_device s = nand_release_chip (set_chip_state CHIP_READY s)"

section \<open>Addresses\<close>

definition amlnand_slc_addr_trs :: "amlnand_phydev \<Rightarrow> nand \<Rightarrow> u32" where
  "amlnand_slc_addr_trs p s =
     (let addr = do_addr (pd_ops p);
          real_erase_size = push_bit 1 (erasesize p);
          real_erase_shift = ffs real_erase_size - 1;
          ws = unat (writesize_shift p); es = unat (erasesize_shift p);
          real_page_per_blk = push_bit (real_erase_shift - ws) 1 :: u32;
          page_per_blk = push_bit (es - ws) 1 :: u32;
          blk_num_in_dev = ucast (drop_bit es addr) :: u32;
          blk_num = ucast (drop_bit real_erase_shift (pd_offset p)) + blk_num_in_dev;
          page_num = ucast (drop_bit ws addr) - blk_num_in_dev * page_per_blk;
          t = new_type (flash s)
      in if 0 < t \<and> t < 10
         then blk_num * real_page_per_blk + ucast (pagelist (slc_info (controller s)) ! unat page_num)
         else if t = SANDISK_19NM then blk_num * real_page_per_blk + push_bit 1 page_num
         else ucast (drop_bit ws (pd_offset p + addr)))"

definition page_of :: "amlnand_phydev \<Rightarrow> u64 \<Rightarrow> nand \<Rightarrow> u32" where
  "page_of p addr s =
     (if has (op_option (ops_para s)) DEV_SLC_MODE then amlnand_slc_addr_trs p s
      else ucast (drop_bit (unat (writesize_shift p)) addr))"

definition set_page_addr :: "u32 \<Rightarrow> nand \<Rightarrow> nand" where
  "set_page_addr a s = s\<lparr>ops_para := (ops_para s)\<lparr>op_page_addr := a\<rparr>\<rparr>"

text \<open>
  \<open>DEV_SERIAL_CHIP_MODE\<close> is \<open>0 << 1\<close>: the test below is never true.
\<close>

definition serial_select :: "chip_operation \<Rightarrow> nat \<Rightarrow> u64 \<Rightarrow> nand \<Rightarrow> nand option" where
  "serial_select ct sh addr s =
     (if has (op_option (ops_para s)) DEV_SERIAL_CHIP_MODE
      then let n = ucast (drop_bit sh addr mod ucast (chip_num (controller s)));
               s = s\<lparr>ops_para := (ops_para s)\<lparr>op_chipnr := n\<rparr>\<rparr>
           in do { (_, s) \<leftarrow> ct_select_chip ct n s; Some s }
      else Some s)"

definition out_of_space :: "amlnand_phydev \<Rightarrow> bool" where
  "out_of_space p \<longleftrightarrow> do_addr (pd_ops p) + do_len (pd_ops p) > pd_size p"

definition set_retlen :: "u64 \<Rightarrow> amlnand_phydev \<Rightarrow> amlnand_phydev" where
  "set_retlen n p = p\<lparr>pd_ops := (pd_ops p)\<lparr>do_retlen := ucast n\<rparr>\<rparr>"

definition clear_ops :: "amlnand_phydev \<Rightarrow> bool \<Rightarrow> nand \<Rightarrow> nand" where
  "clear_ops p bufs s =
     (let d = pd_ops p;
          o0 = ops_zero\<lparr>op_option := pd_option p\<rparr>;
          o1 = (if bufs then o0\<lparr>op_data_buf := do_datbuf d, op_oob_buf := do_oobbuf d, op_ooblen := ucast (do_ooblen d),
                  op_option := (if do_mode d = NAND_SOFT_ECC then pd_option p OR DEV_ECC_SOFT_MODE else pd_option p)\<rparr>
                else o0)
      in s\<lparr>ops_para := o1\<rparr>)"

definition advance_buf :: "amlnand_phydev \<Rightarrow> nand \<Rightarrow> nand" where
  "advance_buf p s =
     s\<lparr>ops_para := (ops_para s)\<lparr>op_data_buf := op_data_buf (ops_para s) + unat (writesize p)\<rparr>\<rparr>"

section \<open>Read\<close>

text \<open>
  The three \<open>while (1)\<close> loops of \<open>nand_read\<close>, \<open>nand_write\<close> and \<open>nand_erase\<close>
  have one shape: place the operation at the current address, call the chip,
  stop on an error, advance by one unit, stop when enough is done.
\<close>

partial_function (option) unit_loop ::
  "(nand \<Rightarrow> (int \<times> nand) option) \<Rightarrow> (int \<Rightarrow> nand \<Rightarrow> bool) \<Rightarrow> (nand \<Rightarrow> nand) \<Rightarrow> (u64 \<Rightarrow> nand \<Rightarrow> nand option)
     \<Rightarrow> u64 \<Rightarrow> u64 \<Rightarrow> u64 \<Rightarrow> u64 \<Rightarrow> nand \<Rightarrow> ((int \<times> u64) \<times> nand) option" where
  "unit_loop f stop adv place step len addr n s = do {
     s \<leftarrow> place addr s;
     (ret, s) \<leftarrow> f s;
     if stop ret s then Some ((ret, n), s)
     else let s = adv s; n = n + step
          in if len \<le> n then Some ((ret, n), s)
             else unit_loop f stop adv place step len (addr + step) n s
   }"

declare unit_loop.simps [code]

definition place_page :: "chip_operation \<Rightarrow> amlnand_phydev \<Rightarrow> nat \<Rightarrow> u64 \<Rightarrow> nand \<Rightarrow> nand option" where
  "place_page ct p sh addr s = do {
     s \<leftarrow> serial_select ct sh addr s;
     Some (set_page_addr (page_of p addr s) s)
   }"

definition read_stop :: "int \<Rightarrow> nand \<Rightarrow> bool" where
  "read_stop ret s \<longleftrightarrow> op_ecc_err (ops_para s) \<noteq> 0 \<or> ret < 0"

definition write_stop :: "int \<Rightarrow> nand \<Rightarrow> bool" where
  "write_stop ret s \<longleftrightarrow> ret < 0"

definition read_loop ::
  "chip_operation \<Rightarrow> amlnand_phydev \<Rightarrow> u64 \<Rightarrow> u64 \<Rightarrow> nand \<Rightarrow> ((int \<times> u64) \<times> nand) option" where
  "read_loop ct p len addr s =
     unit_loop (ct_read_page ct) read_stop (advance_buf p) (place_page ct p (unat (erasesize p)))
       (ucast (writesize p)) len addr 0 s"

definition nand_read :: "chip_operation \<Rightarrow> dev \<Rightarrow> (int \<times> dev) option" where
  "nand_read ct d =
     (let (p, s) = d; o0 = pd_ops p
      in if out_of_space p then Some (- NAND_ARGUMENT_FAILURE, d)
         else if do_len o0 = 0 \<and> do_ooblen o0 = 0 then Some (NAND_SUCCESS, d)
         else do {
           s \<leftarrow> amlnand_get_device ct CHIP_READING s;
           let len = (if do_len o0 = 0 then ucast (writesize p) else do_len o0);
           ((ret, readlen), s) \<leftarrow> read_loop ct p len (pd_offset p + do_addr o0) (clear_ops p True s);
           let s = amlnand_release_device s;
           let ret = (if ret \<noteq> 0 then ret
                      else if op_ecc_err (ops_para s) \<noteq> 0 then NAND_ECC_FAILURE
                      else if op_bit_flip (ops_para s) \<noteq> 0 then - EUCLEAN
                      else ret);
           Some (ret, set_retlen readlen p, s)
         })"

section \<open>Write\<close>

definition nand_write_verify :: "chip_operation \<Rightarrow> (u32 \<Rightarrow> ptr) \<Rightarrow> amlnand_phydev \<Rightarrow> nand \<Rightarrow> nand option" where
  "nand_write_verify ct malloc p s =
     (let verify_buf = malloc (2 * writesize p)
      in if verify_buf = NULL then Some s
         else do {
           (_, s) \<leftarrow> ct_read_page ct (s\<lparr>ops_para := (ops_para s)\<lparr>op_data_buf := verify_buf\<rparr>\<rparr>);
           Some s
         })"

definition write_loop ::
  "chip_operation \<Rightarrow> amlnand_phydev \<Rightarrow> u64 \<Rightarrow> u64 \<Rightarrow> nand \<Rightarrow> ((int \<times> u64) \<times> nand) option" where
  "write_loop ct p len addr s =
     unit_loop (ct_write_page ct) write_stop (advance_buf p) (place_page ct p (unat (erasesize_shift p)))
       (ucast (writesize p)) len addr 0 s"

definition nand_write :: "chip_operation \<Rightarrow> (u32 \<Rightarrow> ptr) \<Rightarrow> dev \<Rightarrow> (int \<times> dev) option" where
  "nand_write ct malloc d =
     (let (p, s) = d; o0 = pd_ops p
      in if out_of_space p then Some (- NAND_ARGUMENT_FAILURE, d)
         else if do_len o0 = 0 \<and> do_ooblen o0 = 0 then Some (NAND_SUCCESS, d)
         else if has (pd_option p) NAND_SHUT_DOWN then Some (NAND_SUCCESS, d)
         else do {
           s \<leftarrow> amlnand_get_device ct CHIP_WRITING s;
           ((ret, writelen), s) \<leftarrow> write_loop ct p (do_len o0) (pd_offset p + do_addr o0) (clear_ops p True s);
           let p = set_retlen writelen p;
           s \<leftarrow> (if has (debug_flag s) 1 then nand_write_verify ct malloc p s else Some s);
           Some (ret, p, amlnand_release_device s)
         })"

section \<open>Erase\<close>

definition place_block :: "chip_operation \<Rightarrow> amlnand_phydev \<Rightarrow> nat \<Rightarrow> u64 \<Rightarrow> nand \<Rightarrow> nand option" where
  "place_block ct p sh addr s = serial_select ct sh addr (set_page_addr (page_of p addr s) s)"

definition erase_loop ::
  "chip_operation \<Rightarrow> amlnand_phydev \<Rightarrow> u64 \<Rightarrow> u64 \<Rightarrow> nand \<Rightarrow> ((int \<times> u64) \<times> nand) option" where
  "erase_loop ct p len addr s =
     unit_loop (ct_erase_block ct) write_stop (\<lambda>s. s) (place_block ct p (unat (erasesize p)))
       (ucast (erasesize p)) len addr 0 s"

definition nand_erase :: "chip_operation \<Rightarrow> dev \<Rightarrow> (int \<times> dev) option" where
  "nand_erase ct d =
     (let (p, s) = d; o0 = pd_ops p
      in if out_of_space p then Some (- NAND_ARGUMENT_FAILURE, d)
         else if do_len o0 = 0 then Some (NAND_SUCCESS, d)
         else if has (pd_option p) NAND_SHUT_DOWN then Some (NAND_SUCCESS, d)
         else do {
           s \<leftarrow> amlnand_get_device ct CHIP_ERASING s;
           ((ret, eraselen), s) \<leftarrow> erase_loop ct p (do_len o0) (pd_offset p + do_addr o0) (clear_ops p False s);
           Some (ret, set_retlen eraselen p, amlnand_release_device s)
         })"

section \<open>Block status\<close>

text \<open>The common shape of the block operations: check, lock, address, call, release.\<close>

definition block_op ::
  "chip_operation \<Rightarrow> bool \<Rightarrow> nat \<Rightarrow> (nand \<Rightarrow> (int \<times> nand) option) \<Rightarrow> dev \<Rightarrow> (int \<times> dev) option" where
  "block_op ct protect sh f d =
     (let (p, s) = d
      in if do_addr (pd_ops p) > pd_size p then Some (- NAND_ARGUMENT_FAILURE, d)
         else if protect \<and> has (pd_option p) NAND_SHUT_DOWN then Some (NAND_SUCCESS, d)
         else do {
           s \<leftarrow> amlnand_get_device ct CHIP_READING s;
           let s = clear_ops p False s;
           s \<leftarrow> place_block ct p sh (pd_offset p + do_addr (pd_ops p)) s;
           (ret, s) \<leftarrow> f s;
           Some (ret, p, amlnand_release_device s)
         })"

definition nand_block_isbad :: "chip_operation \<Rightarrow> dev \<Rightarrow> (int \<times> dev) option" where
  "nand_block_isbad ct d = block_op ct True (unat (erasesize_shift (fst d))) (ct_block_isbad ct) d"

definition nand_block_markbad :: "chip_operation \<Rightarrow> dev \<Rightarrow> (int \<times> dev) option" where
  "nand_block_markbad ct d = block_op ct True (unat (erasesize (fst d))) (ct_block_markbad ct) d"

definition block_modifybbt :: "chip_operation \<Rightarrow> int \<Rightarrow> dev \<Rightarrow> (int \<times> dev) option" where
  "block_modifybbt ct v d = block_op ct False (unat (erasesize (fst d))) (ct_blk_modify_bbt ct v) d"

definition update_bbt :: "chip_operation \<Rightarrow> dev \<Rightarrow> (int \<times> dev) option" where
  "update_bbt ct d = block_op ct False (unat (erasesize (fst d))) (ct_update_bbt ct) d"

section \<open>Block test\<close>

partial_function (option) test_loop ::
  "(nand \<Rightarrow> (int \<times> nand) option) \<Rightarrow> bool \<Rightarrow> amlnand_phydev \<Rightarrow> nand \<Rightarrow> (int \<times> nand) option" where
  "test_loop f ecc p s = do {
     (ret, s) \<leftarrow> f s;
     if ecc \<and> op_ecc_err (ops_para s) \<noteq> 0 \<or> ret < 0 then Some (ret, s)
     else let s = set_page_addr (op_page_addr (ops_para s) + writesize p) s
          in if do_len (pd_ops p) \<le> ucast (op_page_addr (ops_para s)) then test_loop f ecc p s
             else Some (ret, s)
   }"

declare test_loop.simps [code]

definition test_failed :: "bool \<Rightarrow> int \<Rightarrow> nand \<Rightarrow> bool" where
  "test_failed ecc ret s \<longleftrightarrow> ecc \<and> op_ecc_err (ops_para s) \<noteq> 0 \<or> ret < 0"

definition test_body :: "chip_operation \<Rightarrow> amlnand_phydev \<Rightarrow> nand \<Rightarrow> (int \<times> nand) option" where
  "test_body ct p s =
     (let tmp_addr = op_page_addr (ops_para s);
          s = s\<lparr>ops_para := (ops_para s)\<lparr>op_data_buf := do_datbuf (pd_ops p)\<rparr>\<rparr>
      in do {
        (ret, s) \<leftarrow> ct_erase_block ct s;
        if ret < 0 then Some (ret, s)
        else do {
          (ret, s) \<leftarrow> test_loop (ct_write_page ct) False p (set_page_addr tmp_addr s);
          if test_failed False ret s then Some (ret, s)
          else do {
            (ret, s) \<leftarrow> test_loop (ct_read_page ct) True p (set_page_addr tmp_addr s);
            if test_failed True ret s then Some (ret, s)
            else ct_erase_block ct (set_page_addr tmp_addr s)
          }
        }
      })"

definition nand_test_block :: "chip_operation \<Rightarrow> dev \<Rightarrow> (int \<times> dev) option" where
  "nand_test_block ct d = block_op ct True (unat (erasesize (fst d))) (test_body ct (fst d)) d"

end
