(* ===== verification/DevFrame.thy ===== *)
theory DevFrame
  imports BusFrame PhyDev
begin

text \<open>
  What the device operations preserve, given what the operations of the chip
  table preserve.  The locale \<open>unit_frame\<close> is the interface the transfer loops
  rely on, \<open>dev_frame\<close> adds what locking and the block operations need; both
  are interpreted on \<open>chip_table\<close>.
\<close>

section \<open>Loops over pages and blocks\<close>

locale unit_frame = frame R for R :: "nand \<Rightarrow> nand \<Rightarrow> bool" +
  fixes ct :: chip_operation
  assumes up_ops: "R s (s\<lparr>ops_para := q\<rparr>)"
    and ct_select: "framed R s (ct_select_chip ct n s)"
    and ct_read: "framed R s (ct_read_page ct s)"
    and ct_write: "framed R s (ct_write_page ct s)"
    and ct_erase: "framed R s (ct_erase_block ct s)"
begin

lemma D_ops: "R s t \<Longrightarrow> R s (t\<lparr>ops_para := q\<rparr>)"
  using trans [OF _ up_ops] by blast

lemma D_set_page: "R s t \<Longrightarrow> R s (set_page_addr a t)"
  unfolding set_page_addr_def by (rule D_ops)

lemma D_clear: "R s t \<Longrightarrow> R s (clear_ops p b t)"
  unfolding clear_ops_def Let_def by (rule D_ops)

lemma D_advance: "R s t \<Longrightarrow> R s (advance_buf p t)"
  unfolding advance_buf_def by (rule D_ops)

lemma D_serial: "R s t \<Longrightarrow> framed1 R s (serial_select ct sh addr t)"
  unfolding serial_select_def Let_def
  using framedD [OF framed_call [OF D_ops ct_select]] by (auto simp: framed1_def bind_eq_Some_conv)

lemma D_place_page: "R s t \<Longrightarrow> framed1 R s (place_page ct p sh addr t)"
  unfolding place_page_def using D_serial D_set_page by (fastforce simp: framed1_def bind_eq_Some_conv)

lemma D_place_block: "R s t \<Longrightarrow> framed1 R s (place_block ct p sh addr t)"
  unfolding place_block_def by (intro D_serial D_set_page)

lemma unit_loop_R:
  assumes f: "\<And>u. framed R u (f u)" and adv: "\<And>u. R u (adv u)" and place: "\<And>u a. framed1 R u (place a u)"
  shows "unit_loop f stop adv place step len addr n t = Some (x, u) \<Longrightarrow> R t u"
proof -
  have "unit_loop f' stop' adv' place' step' len' addr n t = Some y \<Longrightarrow> f' = f \<and> adv' = adv \<and> place' = place \<longrightarrow> R t (snd y)"
    for f' stop' adv' place' step' len' y
  proof (erule unit_loop.raw_induct [rotated], intro impI, elim conjE, goal_cases)
    case (1 self f' stop' adv' place' step' len' addr n t y)
    obtain u v ret where u: "place addr t = Some u" and v: "f u = Some (ret, v)"
      and y: "(if stop' ret v then Some ((ret, n), v)
        else let s = adv v; n = n + step' in if len' \<le> n then Some ((ret, n), s)
          else self f stop' adv place step' len' (addr + step') n s) = Some y"
      using 1(2-) by (auto simp: bind_eq_Some_conv)
    have tu: "R t u" "R u v" "R v (adv v)"
      using place u f v adv by (auto simp: framed1_def framed_def)
    then have tv: "R t v" "R t (adv v)"
      using trans by blast+
    then show ?case
      using 1(1) [of f stop' adv place step' len' "addr + step'" "n + step'" "adv v" y] 1(3-) y trans
      by (auto simp: Let_def split: if_splits)
  qed
  then show "unit_loop f stop adv place step len addr n t = Some (x, u) \<Longrightarrow> R t u"
    by fastforce
qed

lemma D_read_loop: "R s t \<Longrightarrow> framed R s (read_loop ct p len addr t)"
  using unit_loop_R [OF ct_read, of "advance_buf p" "place_page ct p (unat (erasesize p))"] D_advance [OF refl]
    D_place_page [OF refl] trans
  unfolding read_loop_def framed_def by blast

lemma D_write_loop: "R s t \<Longrightarrow> framed R s (write_loop ct p len addr t)"
  using unit_loop_R [OF ct_write, of "advance_buf p" "place_page ct p (unat (erasesize_shift p))"] D_advance [OF refl]
    D_place_page [OF refl] trans
  unfolding write_loop_def framed_def by blast

lemma D_erase_loop: "R s t \<Longrightarrow> framed R s (erase_loop ct p len addr t)"
  using unit_loop_R [OF ct_erase, of "\<lambda>s. s" "place_block ct p (unat (erasesize p))"] refl
    D_place_block [OF refl] trans
  unfolding erase_loop_def framed_def by blast

lemma D_verify: "R s t \<Longrightarrow> framed1 R s (nand_write_verify ct malloc p t)"
  unfolding nand_write_verify_def Let_def
  using framedD [OF framed_call [OF D_ops ct_read]] by (auto simp: framed1_def bind_eq_Some_conv)

lemma test_loop_R:
  assumes f: "\<And>u. framed R u (f u)"
  shows "test_loop f ecc p t = Some (x, u) \<Longrightarrow> R t u"
proof -
  have "test_loop f' ecc p t = Some y \<Longrightarrow> f' = f \<longrightarrow> R t (snd y)" for f' y
  proof (erule test_loop.raw_induct [rotated], intro impI, goal_cases)
    case (1 self f' ecc p t y)
    obtain ret v where v: "f t = Some (ret, v)"
      using 1(2-) by (auto simp: bind_eq_Some_conv)
    then have "R t v" "R t (set_page_addr a v)" for a
      using f D_set_page by (auto simp: framed_def)
    then show ?case
      using 1(1) [of f ecc p "set_page_addr (op_page_addr (ops_para v) + writesize p) v" y] 1(2-) v trans
      by (auto simp: Let_def split: if_splits)
  qed
  then show "test_loop f ecc p t = Some (x, u) \<Longrightarrow> R t u"
    by fastforce
qed

lemma D_test_loop:
  assumes "\<And>u. framed R u (f u)" "R s t"
  shows "framed R s (test_loop f ecc p t)"
  using test_loop_R [OF assms(1)] assms(2) trans unfolding framed_def by blast

lemma D_test_body: "R s t \<Longrightarrow> framed R s (test_body ct p t)"
  unfolding test_body_def Let_def
  by (intro framed_bind [OF framed_call [OF _ ct_erase]] framed_bind [OF D_test_loop [OF ct_write]]
      framed_bind [OF D_test_loop [OF ct_read]] framed_case_prod framed_if framed_Some D_ops D_set_page
      framed_call [OF _ ct_erase]) (auto intro: framed_if framed_Some D_set_page framed_call [OF _ ct_erase])

end

section \<open>Device operations\<close>

definition framed2 :: "('s \<Rightarrow> 's \<Rightarrow> bool) \<Rightarrow> 's \<Rightarrow> ('a \<times> 'p \<times> 's) option \<Rightarrow> bool" where
  "framed2 R s x \<longleftrightarrow> (\<forall>r p t. x = Some (r, p, t) \<longrightarrow> R s t)"

lemma framed2_Some: "R s t \<Longrightarrow> framed2 R s (Some (r, p, t))"
  by (simp add: framed2_def)

lemma framed2_bind:
  assumes "framed R s x" "\<And>r t. R s t \<Longrightarrow> framed2 R s (f (r, t))"
  shows "framed2 R s (x \<bind> f)"
  using assms by (auto simp: framed_def framed2_def bind_eq_Some_conv)

lemma framed2_bind1:
  assumes "framed1 R s x" "\<And>t. R s t \<Longrightarrow> framed2 R s (f t)"
  shows "framed2 R s (x \<bind> f)"
  using assms by (auto simp: framed1_def framed2_def bind_eq_Some_conv)

lemma framed2_if:
  assumes "b \<Longrightarrow> framed2 R s x" "\<not> b \<Longrightarrow> framed2 R s y"
  shows "framed2 R s (if b then x else y)"
  using assms by simp

lemma framed2_cong: "framed2 R s (f a b) \<Longrightarrow> framed2 R s (case (a, b) of (x, y) \<Rightarrow> f x y)"
  by simp

locale lock_frame = unit_frame +
  assumes up_state: "R s (s\<lparr>state := st\<rparr>)"
    and up_lock: "R s (s\<lparr>nand_idleflag := fl, spi_nand_mutex := mx\<rparr>)"
    and ct_get: "framed1 R s (ct_get_chip ct s)"
    and ct_isbad: "framed R s (ct_block_isbad ct s)"
    and ct_modify: "framed R s (ct_blk_modify_bbt ct v s)"
    and ct_test: "framed R s (ct_test_block_reserved ct blk s)"
begin

lemma D_get_chip: "R s t \<Longrightarrow> framed1 R s (ct_get_chip ct t)"
  using trans ct_get by (fastforce simp: framed1_def)

lemma D_release_chip: "R s t \<Longrightarrow> R s (nand_release_chip t)"
  unfolding nand_release_chip_def using trans [OF _ up_lock] by simp

end

locale dev_frame = lock_frame +
  assumes ct_markbad: "framed R s (ct_block_markbad ct s)"
    and ct_update: "framed R s (ct_update_bbt ct s)"
begin

lemma D_get_device: "R s t \<Longrightarrow> framed1 R s (amlnand_get_device ct st t)"
  unfolding amlnand_get_device_def set_chip_state_def
  using ct_get [unfolded framed1_def] trans up_state by (auto simp: framed1_def) blast

lemma D_release_device: "R s t \<Longrightarrow> R s (amlnand_release_device t)"
  unfolding amlnand_release_device_def set_chip_state_def nand_release_chip_def
  using trans [OF trans [OF _ up_state] up_lock] trans [OF _ up_state] by simp

lemmas D_rules = framed2_if framed2_Some D_release_device D_clear framed2_bind1 [OF D_get_device]
  framed2_bind1 [OF D_place_block]

lemma D_nand_read: "R s t \<Longrightarrow> framed2 R s (nand_read ct (p, t))"
  unfolding nand_read_def Let_def prod.case
  by (intro D_rules framed2_bind [OF D_read_loop]) (auto intro!: D_rules)

lemma D_nand_write: "R s t \<Longrightarrow> framed2 R s (nand_write ct malloc (p, t))"
  unfolding nand_write_def Let_def prod.case
  by (intro D_rules framed2_bind [OF D_write_loop]) (auto intro!: D_rules framed2_bind1 [OF D_verify])

lemma D_nand_erase: "R s t \<Longrightarrow> framed2 R s (nand_erase ct (p, t))"
  unfolding nand_erase_def Let_def prod.case
  by (intro D_rules framed2_bind [OF D_erase_loop]) (auto intro!: D_rules)

lemma D_block_op:
  assumes "\<And>u. R s u \<Longrightarrow> framed R s (f u)" "R s t"
  shows "framed2 R s (block_op ct prot sh f (p, t))"
  unfolding block_op_def Let_def prod.case
  by (intro D_rules framed2_bind [OF assms(1)] assms(2)) (auto intro!: D_rules)

lemma D_block_ops:
  assumes "R s t"
  shows "framed2 R s (nand_block_isbad ct (p, t))" "framed2 R s (nand_block_markbad ct (p, t))"
    "framed2 R s (block_modifybbt ct v (p, t))" "framed2 R s (update_bbt ct (p, t))"
    "framed2 R s (nand_test_block ct (p, t))"
  unfolding nand_block_isbad_def nand_block_markbad_def block_modifybbt_def update_bbt_def nand_test_block_def fst_conv
  by (intro D_block_op assms framed_call [OF _ ct_isbad] framed_call [OF _ ct_markbad] framed_call [OF _ ct_modify]
      framed_call [OF _ ct_update] D_test_body; assumption)+

end

section \<open>The guard at the device interface\<close>

text \<open>
  While the guard is up nothing a device operation does puts a program or
  erase opcode on the bus.
\<close>

definition guarded :: "nand \<Rightarrow> nand \<Rightarrow> bool" where
  "guarded s t \<longleftrightarrow> (amlnf_readonly (amlnf s) \<noteq> 0 \<longrightarrow> bus_safe s t)"

lemma guarded_refl: "guarded s s"
  by (simp add: guarded_def bus_safe_refl)

lemma guarded_trans: "guarded s t \<Longrightarrow> guarded t u \<Longrightarrow> guarded s u"
  using bus_safe_trans bus_safe_readonly by (metis guarded_def)

lemma guarded_framed: "(amlnf_readonly (amlnf s) \<noteq> 0 \<Longrightarrow> framed bus_safe s x) \<Longrightarrow> framed guarded s x"
  by (auto simp: framed_def guarded_def)

locale guarded_table = safe_hooks +
  fixes ub :: "nand \<Rightarrow> (int \<times> nand) option"
  assumes ub_safe: "framed guarded s (ub s)"
begin

lemma ub_bus_safe: "amlnf_readonly (amlnf s) \<noteq> 0 \<Longrightarrow> bus_safe s u \<Longrightarrow> framed bus_safe s (ub u)"
  using ub_safe bus_safe_trans bus_safe_readonly by (metis framed_def guarded_def)

end

sublocale guarded_table \<subseteq> dev: dev_frame guarded "chip_table hw hk ub"
proof (unfold_locales)
  fix s :: nand and q n st fl mx v blk
  show "guarded s s"
    by (rule guarded_refl)
  show "guarded s t \<Longrightarrow> guarded t u \<Longrightarrow> guarded s u" for t u
    by (rule guarded_trans)
  show "guarded s (s\<lparr>ops_para := q\<rparr>)" "guarded s (s\<lparr>state := st\<rparr>)"
    "guarded s (s\<lparr>nand_idleflag := fl, spi_nand_mutex := mx\<rparr>)"
    by (simp_all add: guarded_def bus_safe_def ce_ok_def)
  show "framed guarded s (ct_select_chip (chip_table hw hk ub) n s)"
    "framed guarded s (ct_read_page (chip_table hw hk ub) s)"
    "framed guarded s (ct_write_page (chip_table hw hk ub) s)"
    "framed guarded s (ct_erase_block (chip_table hw hk ub) s)"
    "framed guarded s (ct_block_isbad (chip_table hw hk ub) s)"
    by (rule guarded_framed; simp add: chip_table_def R_select R_read_page R_write_page R_erase_block R_block_isbad
        bus_safe_refl)+
  show "framed1 guarded s (ct_get_chip (chip_table hw hk ub) s)"
    using R_get_chip [OF refl] by (auto simp: chip_table_def guarded_def framed1_def)
  show "framed guarded s (ct_block_markbad (chip_table hw hk ub) s)"
    by (rule guarded_framed) (simp add: chip_table_def R_block_markbad bus_safe_refl ub_bus_safe)
  show "framed guarded s (ct_blk_modify_bbt (chip_table hw hk ub) v s)"
    by (rule guarded_framed) (simp add: chip_table_def framed_pair R_modify_bbt bus_safe_refl)
  show "framed guarded s (ct_test_block_reserved (chip_table hw hk ub) blk s)"
    by (rule guarded_framed) (simp add: chip_table_def R_test_block_reserved bus_safe_refl)
  show "framed guarded s (ct_update_bbt (chip_table hw hk ub) s)"
    by (rule guarded_framed) (simp add: chip_table_def update_bbt_chip_op_def ub_bus_safe R_die bus_safe_refl)
qed

section \<open>Histories of device calls\<close>

datatype dev_req = DevRead | DevWrite | DevErase | DevIsbad | DevMarkbad | DevModifyBbt int | DevUpdateBbt | DevTestBlock

fun dev_call :: "chip_operation \<Rightarrow> (u32 \<Rightarrow> ptr) \<Rightarrow> dev_req \<Rightarrow> dev \<Rightarrow> (int \<times> dev) option" where
  "dev_call ct malloc DevRead d = nand_read ct d"
| "dev_call ct malloc DevWrite d = nand_write ct malloc d"
| "dev_call ct malloc DevErase d = nand_erase ct d"
| "dev_call ct malloc DevIsbad d = nand_block_isbad ct d"
| "dev_call ct malloc DevMarkbad d = nand_block_markbad ct d"
| "dev_call ct malloc (DevModifyBbt v) d = block_modifybbt ct v d"
| "dev_call ct malloc DevUpdateBbt d = update_bbt ct d"
| "dev_call ct malloc DevTestBlock d = nand_test_block ct d"

context dev_frame
begin

lemma D_call: "dev_call ct malloc req (p, s) = Some (r, p', t) \<Longrightarrow> R s t"
  using D_nand_read [OF refl] D_nand_write [OF refl] D_nand_erase [OF refl] D_block_ops [OF refl]
  by (cases req) (auto simp: framed2_def)

end

end
