(* ===== verification/PhyDevProps.thy ===== *)
theory PhyDevProps
  imports ChipProps DevFrame
begin

text \<open>
  Properties of the physical devices.  The locale \<open>unit_op\<close> states what the
  transfer loops rely on (an operation leaves the addressing of the device
  alone) and shows once that a loop performs exactly the expected sequence of
  chip operations; it is interpreted on the chip's read, write and erase.
\<close>

section \<open>Transfers as sequences of pages\<close>

fun unit_seq ::
  "(nand \<Rightarrow> (int \<times> nand) option) \<Rightarrow> (int \<Rightarrow> nand \<Rightarrow> bool) \<Rightarrow> (nand \<Rightarrow> nand) \<Rightarrow> u64 \<Rightarrow> u32 list \<Rightarrow> u64 \<Rightarrow> nand
     \<Rightarrow> ((int \<times> u64) \<times> nand) option" where
  "unit_seq f stop adv step [] n s = Some ((0, n), s)"
| "unit_seq f stop adv step (a # as) n s = do {
     (ret, s) \<leftarrow> f (set_page_addr a s);
     if stop ret s then Some ((ret, n), s)
     else if as = [] then Some ((ret, n + step), adv s)
     else unit_seq f stop adv step as (n + step) (adv s)
   }"

definition units :: "nat \<Rightarrow> nat \<Rightarrow> nat" where
  "units len step = (len + step - 1) div step"

lemma units_iff: "0 < step \<Longrightarrow> k < units len step \<longleftrightarrow> k * step < len"
proof -
  assume "0 < step"
  then have "Suc k \<le> (len + step - 1) div step \<longleftrightarrow> Suc k * step \<le> len + step - 1"
    by (simp add: less_eq_div_iff_mult_less_eq)
  then show ?thesis
    using \<open>0 < step\<close> by (auto simp: units_def Suc_le_eq)
qed

definition same_place :: "nand \<Rightarrow> nand \<Rightarrow> bool" where
  "same_place s t \<longleftrightarrow> op_option (ops_para t) = op_option (ops_para s) \<and> flash t = flash s
     \<and> pagelist (slc_info (controller t)) = pagelist (slc_info (controller s))"

lemma same_place_trans: "same_place s t \<Longrightarrow> same_place t u \<Longrightarrow> same_place s u"
  by (simp add: same_place_def)

lemma page_of_same: "same_place s t \<Longrightarrow> page_of p a t = page_of p a s"
  by (simp add: page_of_def amlnand_slc_addr_trs_def same_place_def Let_def)

lemma same_place_set [simp]: "same_place s (set_page_addr a s)" "same_place s (advance_buf p s)" "same_place s s"
  by (simp_all add: same_place_def set_page_addr_def advance_buf_def)

lemma kept_same_place: "kept s t \<Longrightarrow> same_place s t"
proof -
  assume k: "kept s t"
  then have "flash t = flash s \<and> pagelist (slc_info (controller t)) = pagelist (slc_info (controller s))"
    by (simp only: kept_def)
  then show ?thesis
    using kept_ops(2) [OF k] by (simp add: same_place_def)
qed

lemma serial_never: "serial_select ct sh addr s = Some s"
  by (simp add: serial_select_def has_def c_consts)

lemma place_page_simp: "place_page ct p sh addr s = Some (set_page_addr (page_of p addr s) s)"
  by (simp add: place_page_def serial_never)

lemma place_block_simp: "place_block ct p sh addr s = Some (set_page_addr (page_of p addr s) s)"
  by (simp add: place_block_def serial_never)

locale unit_op =
  fixes f :: "nand \<Rightarrow> (int \<times> nand) option" and adv :: "nand \<Rightarrow> nand"
  assumes f_place: "f s = Some (r, t) \<Longrightarrow> same_place s t"
    and adv_place: "same_place s (adv s)"
begin

lemma loop_step:
  assumes "\<And>a u. place a u = Some (set_page_addr (page_of p a u) u)"
  shows "unit_loop f stop adv place step len (addr + of_nat k * step) (of_nat k * step) s =
      (f (set_page_addr (page_of p (addr + of_nat k * step) s) s) \<bind> (\<lambda>(ret, t).
         if stop ret t then Some ((ret, of_nat k * step), t)
         else if len \<le> of_nat (k + 1) * step then Some ((ret, of_nat (k + 1) * step), adv t)
         else unit_loop f stop adv place step len (addr + of_nat (k + 1) * step) (of_nat (k + 1) * step) (adv t)))"
proof -
  have "of_nat k * step + step = of_nat (k + 1) * step" "addr + of_nat k * step + step = addr + of_nat (k + 1) * step"
    by (simp_all add: algebra_simps)
  then show ?thesis
    by (subst unit_loop.simps) (simp only: assms Option.bind.bind_lunit Let_def)
qed

lemma loop_enough:
  fixes step len :: u64
  assumes "0 < unat step" "unat len + unat step < 2 ^ 64" "k < units (unat len) (unat step)"
  shows "len \<le> of_nat (k + 1) * step \<longleftrightarrow> \<not> k + 1 < units (unat len) (unat step)"
proof -
  have "k * unat step < unat len"
    using assms(1,3) by (simp add: units_iff)
  then have "(k + 1) * unat step < 2 ^ 64"
    using assms(2) by simp
  then have "unat (of_nat (k + 1) * step) = (k + 1) * unat step"
    using unat_of_nat_mult [of "k + 1" step] by simp
  then show ?thesis
    using assms(1) by (simp add: units_iff word_le_nat_alt not_less)
qed

lemma loop_from:
  assumes step: "0 < unat step" "unat len + unat step < 2 ^ 64"
    and place: "\<And>a u. place a u = Some (set_page_addr (page_of p a u) u)"
    and k: "k < units (unat len) (unat step)"
  shows "unit_loop f stop adv place step len (addr + of_nat k * step) (of_nat k * step) s =
    unit_seq f stop adv step (map (\<lambda>i. page_of p (addr + of_nat i * step) s) [k..<units (unat len) (unat step)])
      (of_nat k * step) s"
  using k
proof (induction "units (unat len) (unat step) - k" arbitrary: k s)
  case (Suc d)
  let ?n = "units (unat len) (unat step)"
  have enough: "len \<le> of_nat (k + 1) * step \<longleftrightarrow> \<not> k + 1 < ?n"
    by (rule loop_enough [OF step Suc.prems])
  have next_n: "of_nat k * step + step = of_nat (k + 1) * step"
    by (simp add: algebra_simps)
  let ?s = "set_page_addr (page_of p (addr + of_nat k * step) s) s"
  note body = loop_step [OF place, where k = k and step = step and len = len and addr = addr and s = s and stop = stop]
  have cons: "[k..<?n] = k # [k + 1..<?n]"
    using Suc.prems by (simp add: upt_conv_Cons)
  show ?case
  proof (cases "f ?s")
    case None
    then show ?thesis
      by (simp add: body cons)
  next
    case (Some x)
    obtain r t where x: "x = (r, t)"
      by (cases x)
    have "same_place s (adv t)"
      using f_place [of ?s r t] Some x same_place_trans adv_place same_place_set(1) by metis
    then have pages: "page_of p a (adv t) = page_of p a s" for a
      by (rule page_of_same)
    show ?thesis
    proof (cases "k + 1 < ?n")
      case True
      then have "unit_loop f stop adv place step len (addr + of_nat (k + 1) * step) (of_nat (k + 1) * step) (adv t) =
          unit_seq f stop adv step (map (\<lambda>i. page_of p (addr + of_nat i * step) (adv t)) [k + 1..<?n])
            (of_nat (k + 1) * step) (adv t)"
        using Suc.hyps by (intro Suc.hyps(1)) auto
      then show ?thesis
        using Some x True enough next_n pages by (simp add: body cons)
    next
      case False
      then show ?thesis
        using Some x enough next_n by (simp add: body cons)
    qed
  qed
qed simp

lemma loop_is_seq:
  assumes "0 < unat step" "unat len + unat step < 2 ^ 64" "0 < unat len"
    and "\<And>a u. place a u = Some (set_page_addr (page_of p a u) u)"
  shows "unit_loop f stop adv place step len addr 0 s =
    unit_seq f stop adv step (map (\<lambda>i. page_of p (addr + of_nat i * step) s) [0..<units (unat len) (unat step)]) 0 s"
  using loop_from [OF assms(1,2,4), of 0 stop addr s] assms(1,3) by (simp add: units_iff)

end

sublocale keep_hooks \<subseteq> rd: unit_op "read_page hw hk" "advance_buf p" for p
  using framedD [OF kept.R_read_page [OF kept_refl]] by unfold_locales (auto intro: kept_same_place)

sublocale keep_hooks \<subseteq> wr: unit_op "write_page hw hk" "advance_buf p" for p
  using framedD [OF kept.W_write_page [OF kept_refl]] by unfold_locales (auto intro: kept_same_place)

sublocale keep_hooks \<subseteq> er: unit_op "erase_block hw hk" "\<lambda>s. s"
  using framedD [OF kept.W_erase_block [OF kept_refl]] by unfold_locales (auto intro: kept_same_place)

context keep_hooks
begin

lemma read_loop_seq:
  assumes "0 < unat (writesize p)" "unat len + unat (writesize p) < 2 ^ 64" "0 < unat len"
  shows "read_loop (chip_table hw hk ub) p len addr s =
    unit_seq (read_page hw hk) read_stop (advance_buf p) (ucast (writesize p))
      (map (\<lambda>i. page_of p (addr + of_nat i * ucast (writesize p)) s) [0..<units (unat len) (unat (writesize p))]) 0 s"
  unfolding read_loop_def
  using rd.loop_is_seq [where p = p and step = "ucast (writesize p)"] assms
  by (simp add: chip_table_def place_page_simp)

lemma write_loop_seq:
  assumes "0 < unat (writesize p)" "unat len + unat (writesize p) < 2 ^ 64" "0 < unat len"
  shows "write_loop (chip_table hw hk ub) p len addr s =
    unit_seq (write_page hw hk) write_stop (advance_buf p) (ucast (writesize p))
      (map (\<lambda>i. page_of p (addr + of_nat i * ucast (writesize p)) s) [0..<units (unat len) (unat (writesize p))]) 0 s"
  unfolding write_loop_def
  using wr.loop_is_seq [where p = p and step = "ucast (writesize p)"] assms
  by (simp add: chip_table_def place_page_simp)

lemma erase_loop_seq:
  assumes "0 < unat (erasesize p)" "unat len + unat (erasesize p) < 2 ^ 64" "0 < unat len"
  shows "erase_loop (chip_table hw hk ub) p len addr s =
    unit_seq (erase_block hw hk) write_stop (\<lambda>s. s) (ucast (erasesize p))
      (map (\<lambda>i. page_of p (addr + of_nat i * ucast (erasesize p)) s) [0..<units (unat len) (unat (erasesize p))]) 0 s"
  unfolding erase_loop_def
  using er.loop_is_seq [where p = p and step = "ucast (erasesize p)"] assms
  by (simp add: chip_table_def place_block_simp)

end

interpretation plain_keep: keep_hooks hw plain_hooks for hw
  by unfold_locales (simp add: hooks_keep_def plain_hooks_def kept_refl framed_Some)

lemma unat_power_2: "k < LENGTH('a) \<Longrightarrow> unat (2 ^ k :: 'a::len word) = 2 ^ k"
  using unat_of_nat_small [of "2 ^ k", where 'a = 'a] power_strict_increasing [of k "LENGTH('a)" "2 :: nat"] by simp

lemma unat_drop: "unat (drop_bit k w) = unat w div 2 ^ k"
  by (simp only: unat_drop_bit_eq) (simp add: drop_bit_eq_div)

lemma page_step:
  assumes "unat addr + i * 2 ^ sh < 2 ^ 64" "sh < 32"
  shows "(ucast (drop_bit sh (addr + of_nat i * 2 ^ sh)) :: u32) = ucast (drop_bit sh (addr :: u64)) + of_nat i"
proof -
  have "unat (2 ^ sh :: u64) = 2 ^ sh"
    using assms(2) by (intro unat_power_2) simp
  then have m: "unat (of_nat i * 2 ^ sh :: u64) = i * 2 ^ sh"
    using unat_of_nat_mult [of i "2 ^ sh :: u64"] assms(1) by simp
  have sum: "unat (addr + of_nat i * 2 ^ sh) = unat addr + i * 2 ^ sh"
    using assms(1) m by (simp add: unat_word_ariths)
  have "unat (drop_bit sh (addr + of_nat i * 2 ^ sh)) = unat (drop_bit sh addr) + i"
    unfolding unat_drop sum by simp
  then have "of_nat (unat (drop_bit sh (addr + of_nat i * 2 ^ sh))) = (of_nat (unat (drop_bit sh addr) + i) :: u32)"
    by (rule arg_cong)
  then show ?thesis
    by simp
qed

definition page_run :: "amlnand_phydev \<Rightarrow> u64 \<Rightarrow> nat \<Rightarrow> u32 list" where
  "page_run p addr n = map (\<lambda>i. ucast (drop_bit (unat (writesize_shift p)) addr) + of_nat i) [0..<n]"

definition geometry_ok :: "amlnand_phydev \<Rightarrow> bool" where
  "geometry_ok p \<longleftrightarrow> writesize p = 2 ^ unat (writesize_shift p) \<and> unat (writesize_shift p) < 32
     \<and> erasesize p = 2 ^ unat (erasesize_shift p) \<and> unat (erasesize_shift p) < 32"

lemma geometry_unat:
  assumes "geometry_ok p"
  shows "unat (writesize p) = 2 ^ unat (writesize_shift p)" "unat (erasesize p) = 2 ^ unat (erasesize_shift p)"
proof -
  have w: "writesize p = 2 ^ unat (writesize_shift p)" "unat (writesize_shift p) < LENGTH(32)"
    and e: "erasesize p = 2 ^ unat (erasesize_shift p)" "unat (erasesize_shift p) < LENGTH(32)"
    using assms by (auto simp only: geometry_ok_def len_of_numeral_defs len_num1 len_bit0)
  show "unat (writesize p) = 2 ^ unat (writesize_shift p)"
    using unat_power_2 [OF w(2)] by (simp only: w(1) [symmetric])
  show "unat (erasesize p) = 2 ^ unat (erasesize_shift p)"
    using unat_power_2 [OF e(2)] by (simp only: e(1) [symmetric])
qed

lemma pages_consecutive:
  assumes geo: "geometry_ok p" and len: "unat addr + unat len < 2 ^ 64"
    and slc: "\<not> has (op_option (ops_para s)) DEV_SLC_MODE"
  shows "map (\<lambda>i. page_of p (addr + of_nat i * ucast (writesize p)) s) [0..<units (unat len) (unat (writesize p))] =
    page_run p addr (units (unat len) (unat (writesize p)))"
proof -
  let ?sh = "unat (writesize_shift p)"
  note u = geometry_unat(1) [OF geo]
  have sh: "?sh < 32"
    using geo by (simp add: geometry_ok_def)
  have st: "ucast (writesize p) = (2 ^ ?sh :: u64)"
    using u unat_power_2 [of ?sh, where 'a = 64] sh by (intro word_unat_eq_iff [THEN iffD2]) simp
  have "page_of p (addr + of_nat i * ucast (writesize p)) s = ucast (drop_bit ?sh addr) + of_nat i"
    if "i < units (unat len) (unat (writesize p))" for i
  proof -
    have "i * unat (writesize p) < unat len"
      using that u by (simp add: units_iff)
    then show ?thesis
      unfolding st using len u slc sh page_step [of addr i ?sh] by (simp add: page_of_def)
  qed
  then show ?thesis
    by (simp add: page_run_def)
qed

lemma pages_in_slc_mode:
  assumes "has (op_option (ops_para s)) DEV_SLC_MODE"
  shows "map (\<lambda>i. page_of p (addr + of_nat i * st) s) [0..<n] = replicate n (amlnand_slc_addr_trs p s)"
  using assms by (simp add: page_of_def map_replicate_const)

lemma unit_seq_count:
  assumes "unit_seq f stop adv step as n s = Some ((r, m), t)" "as \<noteq> []" "stop = (\<lambda>u v. u < 0)"
  shows "\<exists>k\<le>length as. m = n + of_nat k * step \<and> (k = length as \<longleftrightarrow> 0 \<le> r)"
  using assms(1,2)
proof (induction as arbitrary: n s)
  case (Cons a as)
  then obtain r1 u where u: "f (set_page_addr a s) = Some (r1, u)"
    by (auto simp: bind_eq_Some_conv)
  consider "r1 < 0" | "0 \<le> r1" "as = []" | "0 \<le> r1" "as \<noteq> []"
    by fastforce
  then show ?case
  proof cases
    case 3
    then have "unit_seq f stop adv step as (n + step) (adv u) = Some ((r, m), t)"
      using Cons.prems u assms(3) by simp
    then obtain k where "k \<le> length as" "m = n + step + of_nat k * step" "k = length as \<longleftrightarrow> 0 \<le> r"
      using Cons.IH 3(2) by blast
    then show ?thesis
      by (intro exI [of _ "k + 1"]) (simp add: algebra_simps)
  qed (use Cons.prems u assms(3) in auto)
qed simp

lemma units_mult: "0 < step \<Longrightarrow> units len step * step < len + step"
  unfolding units_def using div_times_less_eq_dividend [of "len + step - 1" step] by linarith


definition demo_dev :: amlnand_phydev where
  "demo_dev = \<lparr>pd_name = ''nfcode'', pd_flags = 0, pd_option = 0, pd_offset = 0x800000, pd_size = 0x4000000,
     erasesize = 0x200000, writesize = 0x2000, pd_oobavail = 16, erasesize_shift = 21, writesize_shift = 13,
     writesize_mask = 0x1fff,
     pd_ops = \<lparr>do_mode = NAND_HW_ECC, do_addr = 0x4000, do_len = 0x6000, do_retlen = 0, do_ooblen = 0,
       do_datbuf = 400000, do_oobbuf = 0\<rparr>\<rparr>"

lemma demo_geometry: "geometry_ok demo_dev"
  by (simp add: geometry_ok_def demo_dev_def)

lemma plain_hooks_keep: "hooks_keep plain_hooks"
  by (rule plain_keep.keep)


text \<open>
  In SLC mode the page of every step is computed from the start address of
  the request, which the loop does not advance: a transfer of several pages
  reads or programs one and the same page each time.
\<close>

theorem slc_transfer_repeats_page:
  assumes "hooks_keep hk" "geometry_ok p"
    and "0 < unat len" "unat len + unat (writesize p) < 2 ^ 64"
    and "has (op_option (ops_para s)) DEV_SLC_MODE"
  shows "read_loop (chip_table hw hk ub) p len addr s =
      unit_seq (read_page hw hk) read_stop (advance_buf p) (ucast (writesize p))
        (replicate (units (unat len) (unat (writesize p))) (amlnand_slc_addr_trs p s)) 0 s
    \<and> write_loop (chip_table hw hk ub) p len addr s =
      unit_seq (write_page hw hk) write_stop (advance_buf p) (ucast (writesize p))
        (replicate (units (unat len) (unat (writesize p))) (amlnand_slc_addr_trs p s)) 0 s"
  using keep_hooks.read_loop_seq [OF keep_hooks.intro [OF assms(1)], of p len hw ub addr s]
    keep_hooks.write_loop_seq [OF keep_hooks.intro [OF assms(1)], of p len hw ub addr s]
    geometry_unat(1) [of p] assms by (simp add: pages_in_slc_mode)

definition slc_nand :: nand where
  "slc_nand = demo_nand\<lparr>ops_para := demo_ops\<lparr>op_option := 1\<rparr>, flash := demo_flash\<lparr>new_type := SANDISK_19NM\<rparr>\<rparr>"

theorem slc_transfer_repeats_page_witness:
  "write_loop (chip_table demo_hw plain_hooks (\<lambda>s. Some (0, s))) demo_dev 0x6000 0x804000 slc_nand =
     unit_seq (write_page demo_hw plain_hooks) write_stop (advance_buf demo_dev) 0x2000
       (replicate 3 (amlnand_slc_addr_trs demo_dev slc_nand)) 0 slc_nand"
proof -
  have u: "unat (writesize demo_dev) = 0x2000" "writesize demo_dev = 0x2000"
    by (simp_all add: demo_dev_def)
  have "has (op_option (ops_para slc_nand)) DEV_SLC_MODE"
    by (simp add: slc_nand_def has_def c_consts)
  then show ?thesis
    using slc_transfer_repeats_page [OF plain_hooks_keep demo_geometry, of "0x6000" slc_nand demo_hw "\<lambda>s. Some (0, s)" "0x804000"] u
    by (simp add: units_def)
qed

section \<open>Requests on a device\<close>

definition chip_idle :: "nand \<Rightarrow> bool" where
  "chip_idle s \<longleftrightarrow> state s = CHIP_READY \<and> \<not> nand_idleflag s \<and> \<not> spi_nand_mutex s"

definition same_lock :: "nand \<Rightarrow> nand \<Rightarrow> bool" where
  "same_lock s t \<longleftrightarrow> state t = state s \<and> nand_idleflag t = nand_idleflag s \<and> spi_nand_mutex t = spi_nand_mutex s"

lemma kept_same_lock: "kept s t \<Longrightarrow> same_lock s t"
  unfolding kept_def same_lock_def by (elim conjE) (intro conjI; assumption)

lemma framed_same_lock: "framed kept s x \<Longrightarrow> framed same_lock s x"
  using kept_same_lock by (auto simp: framed_def)

sublocale keep_hooks \<subseteq> lock: unit_frame same_lock "chip_table hw hk ub" for ub
proof unfold_locales
  fix s :: nand and q n
  show "same_lock s s" "same_lock s (s\<lparr>ops_para := q\<rparr>)"
    by (simp_all add: same_lock_def)
  show "same_lock s t \<Longrightarrow> same_lock t u \<Longrightarrow> same_lock s u" for t u
    by (simp add: same_lock_def)
  show "framed same_lock s (ct_select_chip (chip_table hw hk ub) n s)"
    "framed same_lock s (ct_read_page (chip_table hw hk ub) s)"
    "framed same_lock s (ct_write_page (chip_table hw hk ub) s)"
    "framed same_lock s (ct_erase_block (chip_table hw hk ub) s)"
    by (rule framed_same_lock; simp add: chip_table_def kept.R_select kept.R_read_page kept.W_write_page
        kept.W_erase_block kept_refl)+
qed

lemma get_device_idle:
  assumes "amlnand_get_device (chip_table hw hk ub) st s = Some t"
  shows "nand_idleflag t"
  using assms by (auto simp: amlnand_get_device_def chip_table_def nand_get_chip_def Let_def split: if_splits)

lemma release_idle: "nand_idleflag t \<Longrightarrow> chip_idle (amlnand_release_device t)"
  by (simp add: chip_idle_def amlnand_release_device_def nand_release_chip_def set_chip_state_def)

context keep_hooks
begin

lemma loops_keep_flag:
  "read_loop (chip_table hw hk ub) p len a t = Some (x, u) \<Longrightarrow> nand_idleflag u = nand_idleflag t"
  "write_loop (chip_table hw hk ub) p len a t = Some (x, u) \<Longrightarrow> nand_idleflag u = nand_idleflag t"
  "erase_loop (chip_table hw hk ub) p len a t = Some (x, u) \<Longrightarrow> nand_idleflag u = nand_idleflag t"
  "nand_write_verify (chip_table hw hk ub) malloc p t = Some u \<Longrightarrow> nand_idleflag u = nand_idleflag t"
  by (drule framedD [OF lock.D_read_loop [OF lock.refl]] framedD [OF lock.D_write_loop [OF lock.refl]]
      framedD [OF lock.D_erase_loop [OF lock.refl]] lock.D_verify [OF lock.refl, unfolded framed1_def, rule_format],
      simp add: same_lock_def)+

lemma clear_keeps_flag: "nand_idleflag (clear_ops p b t) = nand_idleflag t"
  by (simp add: clear_ops_def Let_def)

lemma read_releases:
  "nand_read (chip_table hw hk ub) (p, s) = Some (r, p', t) \<Longrightarrow> t = s \<or> chip_idle t"
  unfolding nand_read_def Let_def
  by (auto simp: bind_eq_Some_conv clear_keeps_flag split: if_splits
      intro!: release_idle dest!: get_device_idle loops_keep_flag)

lemma write_releases:
  "nand_write (chip_table hw hk ub) malloc (p, s) = Some (r, p', t) \<Longrightarrow> t = s \<or> chip_idle t"
  unfolding nand_write_def Let_def
  by (auto simp: bind_eq_Some_conv clear_keeps_flag split: if_splits
      intro!: release_idle dest!: get_device_idle loops_keep_flag)

lemma erase_releases:
  "nand_erase (chip_table hw hk ub) (p, s) = Some (r, p', t) \<Longrightarrow> t = s \<or> chip_idle t"
  unfolding nand_erase_def Let_def
  by (auto simp: bind_eq_Some_conv clear_keeps_flag split: if_splits
      intro!: release_idle dest!: get_device_idle loops_keep_flag)

end

text \<open>
  C22.  A read, write or erase request that returns leaves the chip free for the
  next user (state READY, pins released, the mutex shared with the SPI
  controller unlocked), whether it succeeded or not, and whether it took the
  chip at all.
\<close>

theorem requests_release_chip:
  assumes "hooks_keep hk" "chip_idle s" "ct = chip_table hw hk ub"
    "nand_read ct (p, s) = Some (r, p', t) \<or> nand_write ct malloc (p, s) = Some (r, p', t) \<or> nand_erase ct (p, s) = Some (r, p', t)"
  shows "chip_idle t"
  using assms keep_hooks.read_releases keep_hooks.write_releases keep_hooks.erase_releases keep_hooks.intro by metis

lemma write_page_refused:
  "amlnf_readonly (amlnf s) \<noteq> 0 \<Longrightarrow> write_page hw hk s =
     Some (- EROFS, s\<lparr>amlnf := amlnf_refuse_write ''write_page'' (op_page_addr (ops_para s)) (amlnf s)\<rparr>)"
  by (simp add: write_page_def Let_def)

lemma erase_block_refused:
  "amlnf_readonly (amlnf s) \<noteq> 0 \<Longrightarrow> erase_block hw hk s =
     Some (- EROFS, s\<lparr>amlnf := amlnf_refuse_write ''erase_block'' (op_page_addr (ops_para s)) (amlnf s)\<rparr>)"
  by (simp add: erase_block_def Let_def)

lemma loop_stops_at_once:
  assumes "place addr s = Some t" "f t = Some (r, u)" "stop r u"
  shows "unit_loop f stop adv place step len addr n s = Some ((r, n), u)"
  using assms by (subst unit_loop.simps) simp

lemma write_loop_refused:
  assumes "amlnf_readonly (amlnf s) \<noteq> 0"
  shows "write_loop (chip_table hw hk ub) p len addr s = Some ((- EROFS, 0), (set_page_addr (page_of p addr s) s)
    \<lparr>amlnf := amlnf_refuse_write ''write_page'' (page_of p addr s) (amlnf s)\<rparr>)"
  unfolding write_loop_def
  by (rule loop_stops_at_once [OF place_page_simp])
    (use assms in \<open>simp_all add: chip_table_def write_page_refused set_page_addr_def write_stop_def c_consts\<close>)

lemma erase_loop_refused:
  assumes "amlnf_readonly (amlnf s) \<noteq> 0"
  shows "erase_loop (chip_table hw hk ub) p len addr s = Some ((- EROFS, 0), (set_page_addr (page_of p addr s) s)
    \<lparr>amlnf := amlnf_refuse_write ''erase_block'' (page_of p addr s) (amlnf s)\<rparr>)"
  unfolding erase_loop_def
  by (rule loop_stops_at_once [OF place_block_simp])
    (use assms in \<open>simp_all add: chip_table_def erase_block_refused set_page_addr_def write_stop_def c_consts\<close>)

lemma get_device_ready:
  assumes "chip_idle s" "0 \<le> pin_select hk (s\<lparr>state := st, spi_nand_mutex := True, nand_idleflag := True\<rparr>)"
  shows "amlnand_get_device (chip_table hw hk ub) st s = Some (s\<lparr>state := st, spi_nand_mutex := True, nand_idleflag := True\<rparr>)"
  using assms by (simp add: amlnand_get_device_def get_chip_state_def set_chip_state_def chip_table_def nand_get_chip_def
      chip_idle_def)

text \<open>
  C17.  With the \<open>readonly\<close> parameter set, a write or erase request that lies
  within the device and finds the chip free always comes back with \<open>-EROFS\<close>
  and nothing transferred: one refusal is counted, the bus and memory have not
  been touched, and the chip is free again.
\<close>

theorem readonly_request_refused:
  assumes "amlnf_readonly (amlnf s) \<noteq> 0" "chip_idle s" "\<And>u. 0 \<le> pin_select hk u"
    and "\<not> out_of_space p" "do_len (pd_ops p) \<noteq> 0" "\<not> has (pd_option p) NAND_SHUT_DOWN" "\<not> has (debug_flag s) 1"
  shows "\<exists>t u. nand_write (chip_table hw hk ub) malloc (p, s) = Some (- EROFS, set_retlen 0 p, t)
    \<and> nand_erase (chip_table hw hk ub) (p, s) = Some (- EROFS, set_retlen 0 p, u)
    \<and> chip_idle t \<and> bus t = bus s \<and> mem t = mem s \<and> amlnf_refused (amlnf t) = amlnf_refused (amlnf s) + 1
    \<and> chip_idle u \<and> bus u = bus s \<and> mem u = mem s \<and> amlnf_refused (amlnf u) = amlnf_refused (amlnf s) + 1"
proof -
  note get = get_device_ready [OF assms(2,3)]
  show ?thesis
    using assms
    by (simp add: nand_write_def nand_erase_def Let_def get write_loop_refused erase_loop_refused clear_ops_def
        set_page_addr_def amlnand_release_device_def nand_release_chip_def set_chip_state_def chip_idle_def)
qed

lemma demo_facts: "chip_idle demo_nand" "amlnf_readonly (amlnf demo_nand) \<noteq> 0" "\<not> has (debug_flag demo_nand) 1"
  "0 \<le> pin_select plain_hooks u" "\<not> out_of_space demo_dev" "do_len (pd_ops demo_dev) \<noteq> 0"
  "\<not> has (pd_option demo_dev) NAND_SHUT_DOWN"
  by (simp_all add: chip_idle_def demo_nand_def guard_init_def has_def plain_hooks_def out_of_space_def demo_dev_def)

theorem readonly_request_refused_witness:
  "\<exists>t. nand_write (chip_table demo_hw plain_hooks (\<lambda>s. Some (0, s))) (\<lambda>_. 0) (demo_dev, demo_nand) =
     Some (- EROFS, set_retlen 0 demo_dev, t) \<and> chip_idle t \<and> bus t = []"
  using readonly_request_refused [of demo_nand plain_hooks demo_dev demo_hw "\<lambda>s. Some (0, s)" "\<lambda>_. 0"] demo_facts
  by (auto simp: demo_nand_def)


lemma demo_write_refused_any:
  assumes "\<And>u. 0 \<le> pin_select hk u"
  shows "\<exists>t. nand_write (chip_table demo_hw hk ub) (\<lambda>_. 0) (demo_dev, demo_nand) =
     Some (- EROFS, set_retlen 0 demo_dev, t) \<and> amlnf_refused (amlnf t) = amlnf_refused (amlnf demo_nand) + 1"
  using demo_facts get_device_ready [OF demo_facts(1) assms]
  by (simp add: nand_write_def Let_def write_loop_refused clear_ops_def set_page_addr_def amlnand_release_device_def
      nand_release_chip_def set_chip_state_def)

lemmas demo_write_refused = demo_write_refused_any [of plain_hooks, OF demo_facts(4)]


theorem requests_release_chip_witness:
  "\<exists>r p' t. nand_write (chip_table demo_hw plain_hooks (\<lambda>s. Some (0, s))) (\<lambda>_. 0) (demo_dev, demo_nand) = Some (r, p', t)
     \<and> chip_idle t"
  using requests_release_chip [OF plain_hooks_keep demo_facts(1) refl] demo_write_refused [of "\<lambda>s. Some (0, s)"] by blast

end
