(* ===== verification/DevLock.thy ===== *)
theory DevLock
  imports PhyDev ControllerProps
begin

text \<open>
  Several tasks in \<open>amlnand_get_device\<close> and \<open>amlnand_release_device\<close>
  (\<open>dev/amlnf_ctrl.c\<close>).  The sections under the spin lock \<open>amlnf_lock\<close> are
  single steps; \<open>nand_get_chip\<close> and \<open>nand_release_chip\<close> run step by step
  outside it.  The SPI driver takes the shared mutex as well.
\<close>

section \<open>Tasks and steps\<close>

datatype task_pc =
    Outside
  | Retry chip_state      \<comment> \<open>about to take the spin lock and look at the state\<close>
  | Sleeping chip_state   \<comment> \<open>on the wait queue\<close>
  | Locking               \<comment> \<open>state taken, in \<open>mutex_lock\<close>\<close>
  | Flagging              \<comment> \<open>mutex taken, about to set \<open>nand_idleflag\<close>\<close>
  | Pinning               \<comment> \<open>about to select the pins\<close>
  | Relocking             \<comment> \<open>pin selection failed, in \<open>mutex_lock\<close> again\<close>
  | Using
  | Releasing             \<comment> \<open>state set to READY, about to look at \<open>nand_idleflag\<close>\<close>
  | Unlocking             \<comment> \<open>flag cleared, about to unlock the mutex\<close>

datatype mutex_user = Task nat | Spi

record lock_sys =
  chip :: nand
  holder :: "mutex_user option"
  pc :: "nat \<Rightarrow> task_pc"

definition goes :: "nat \<Rightarrow> task_pc \<Rightarrow> lock_sys \<Rightarrow> lock_sys" where
  "goes t p s = s\<lparr>pc := (pc s)(t := p)\<rparr>"

definition wake_up :: "(nat \<Rightarrow> task_pc) \<Rightarrow> nat \<Rightarrow> task_pc" where
  "wake_up p t = (case p t of Sleeping st \<Rightarrow> Retry st | q \<Rightarrow> q)"

inductive lock_step :: "lock_sys \<Rightarrow> lock_sys \<Rightarrow> bool" where
  call: "pc s t = Outside \<Longrightarrow> st \<noteq> CHIP_READY \<Longrightarrow> lock_step s (goes t (Retry st) s)"
| take: "pc s t = Retry st \<Longrightarrow> get_chip_state (chip s) = CHIP_READY \<Longrightarrow>
    lock_step s (goes t Locking (s\<lparr>chip := set_chip_state st (chip s)\<rparr>))"
| sleep: "pc s t = Retry st \<Longrightarrow> get_chip_state (chip s) \<noteq> CHIP_READY \<Longrightarrow> lock_step s (goes t (Sleeping st) s)"
| lock: "pc s t = Locking \<or> pc s t = Relocking \<Longrightarrow> \<not> spi_nand_mutex (chip s) \<Longrightarrow>
    lock_step s (goes t Flagging (s\<lparr>chip := (chip s)\<lparr>spi_nand_mutex := True\<rparr>, holder := Some (Task t)\<rparr>))"
| flag: "pc s t = Flagging \<Longrightarrow> lock_step s (goes t Pinning (s\<lparr>chip := (chip s)\<lparr>nand_idleflag := True\<rparr>\<rparr>))"
| pin_ok: "pc s t = Pinning \<Longrightarrow> lock_step s (goes t Using s)"
| pin_failed: "pc s t = Pinning \<Longrightarrow> lock_step s (goes t Relocking s)"
| release: "pc s t = Using \<Longrightarrow> lock_step s
    (goes t Releasing (s\<lparr>chip := set_chip_state CHIP_READY (chip s), pc := wake_up (pc s)\<rparr>))"
| unflag: "pc s t = Releasing \<Longrightarrow> nand_idleflag (chip s) \<Longrightarrow>
    lock_step s (goes t Unlocking (s\<lparr>chip := (chip s)\<lparr>nand_idleflag := False\<rparr>\<rparr>))"
| no_flag: "pc s t = Releasing \<Longrightarrow> \<not> nand_idleflag (chip s) \<Longrightarrow> lock_step s (goes t Outside s)"
| unlock: "pc s t = Unlocking \<Longrightarrow>
    lock_step s (goes t Outside (s\<lparr>chip := (chip s)\<lparr>spi_nand_mutex := False\<rparr>, holder := None\<rparr>))"
| spi_lock: "\<not> spi_nand_mutex (chip s) \<Longrightarrow> lock_step s (s\<lparr>chip := (chip s)\<lparr>spi_nand_mutex := True\<rparr>, holder := Some Spi\<rparr>)"
| spi_unlock: "holder s = Some Spi \<Longrightarrow> lock_step s (s\<lparr>chip := (chip s)\<lparr>spi_nand_mutex := False\<rparr>, holder := None\<rparr>)"

inductive_cases lock_stepE: "lock_step s t"

definition lock_init :: "nand \<Rightarrow> lock_sys" where
  "lock_init c = \<lparr>chip = c\<lparr>state := CHIP_READY, nand_idleflag := False, spi_nand_mutex := False\<rparr>,
     holder = None, pc = (\<lambda>_. Outside)\<rparr>"

inductive lock_reach :: "nand \<Rightarrow> lock_sys \<Rightarrow> bool" for c where
  init: "lock_reach c (lock_init c)"
| step: "lock_reach c s \<Longrightarrow> lock_step s t \<Longrightarrow> lock_reach c t"

section \<open>The invariant\<close>

text \<open>
  \<open>owns\<close>: the program points at which the chip state is taken; \<open>holds\<close>: those
  at which the mutex is held; \<open>flagged\<close>: those at which the flag is set.
\<close>

fun owns :: "task_pc \<Rightarrow> bool" where
  "owns Outside = False"
| "owns (Retry st) = False"
| "owns (Sleeping st) = False"
| "owns Locking = True"
| "owns Flagging = True"
| "owns Pinning = True"
| "owns Relocking = True"
| "owns Using = True"
| "owns Releasing = False"
| "owns Unlocking = False"

fun holds :: "task_pc \<Rightarrow> bool" where
  "holds Outside = False"
| "holds (Retry st) = False"
| "holds (Sleeping st) = False"
| "holds Locking = False"
| "holds Flagging = True"
| "holds Pinning = True"
| "holds Relocking = True"
| "holds Using = True"
| "holds Releasing = True"
| "holds Unlocking = True"

fun flagged :: "task_pc \<Rightarrow> bool" where
  "flagged Outside = False"
| "flagged (Retry st) = False"
| "flagged (Sleeping st) = False"
| "flagged Locking = False"
| "flagged Flagging = False"
| "flagged Pinning = True"
| "flagged Relocking = True"
| "flagged Using = True"
| "flagged Releasing = True"
| "flagged Unlocking = False"

definition holder_inv :: "lock_sys \<Rightarrow> bool" where
  "holder_inv s \<longleftrightarrow> (\<forall>t. holds (pc s t) = (holder s = Some (Task t))) \<and> spi_nand_mutex (chip s) = (holder s \<noteq> None)
     \<and> (\<forall>t. flagged (pc s t) \<longrightarrow> nand_idleflag (chip s))"

definition owner_inv :: "lock_sys \<Rightarrow> bool" where
  "owner_inv s \<longleftrightarrow> (\<exists>ow. (\<forall>t. owns (pc s t) = (ow = Some t)) \<and> (state (chip s) \<noteq> CHIP_READY) = (ow \<noteq> None))"

definition sleep_inv :: "lock_sys \<Rightarrow> bool" where
  "sleep_inv s \<longleftrightarrow> (\<forall>t st. pc s t = Sleeping st \<longrightarrow> st \<noteq> CHIP_READY \<and> state (chip s) \<noteq> CHIP_READY)
     \<and> (\<forall>t st. pc s t = Retry st \<longrightarrow> st \<noteq> CHIP_READY)"

definition lock_inv :: "lock_sys \<Rightarrow> bool" where
  "lock_inv s \<longleftrightarrow> holder_inv s \<and> owner_inv s \<and> sleep_inv s"

lemma wake_up_simps [simp]:
  "owns (wake_up p t) = owns (p t)" "holds (wake_up p t) = holds (p t)" "flagged (wake_up p t) = flagged (p t)"
  "wake_up p t \<noteq> Sleeping st" "wake_up p t = Retry st \<longleftrightarrow> p t = Retry st \<or> p t = Sleeping st"
  by (simp_all add: wake_up_def split: task_pc.splits)

lemma lock_inv_init: "lock_inv (lock_init c)"
  by (auto simp: lock_inv_def holder_inv_def owner_inv_def sleep_inv_def lock_init_def)

lemma holder_inv_goes:
  assumes "holder_inv s" "holds p = holds (pc s t)" "flagged p \<longrightarrow> flagged (pc s t)"
  shows "holder_inv (goes t p s)"
  using assms by (auto simp: holder_inv_def goes_def)

lemma holder_inv_step: "lock_step s t \<Longrightarrow> holder_inv s \<Longrightarrow> holder_inv t"
proof (induction rule: lock_step.induct)
  case (lock s t)
  then show ?case
    by (simp add: holder_inv_def goes_def, blast)
next
  case (release s t)
  then show ?case
    by (simp add: holder_inv_def goes_def set_chip_state_def, metis flagged.simps holds.simps)
next
  case (unflag s t)
  then have "holder s = Some (Task t)"
    by (metis holder_inv_def holds.simps(9))
  then show ?case
    using unflag by (simp add: holder_inv_def goes_def, metis flagged.simps holds.simps task_pc.exhaust mutex_user.inject option.inject)
next
  case (unlock s t)
  then show ?case
    by (simp add: holder_inv_def goes_def, metis holds.simps(10) mutex_user.inject(1) option.inject)
next
  case (flag s t)
  then show ?case
    by (simp add: holder_inv_def goes_def, metis holds.simps(5))
next
  case (take s t st)
  then show ?case
    by (simp add: holder_inv_def goes_def set_chip_state_def, metis holds.simps)
next
  case (no_flag s t)
  then show ?case
    by (metis holder_inv_def flagged.simps(9))
next
  case (spi_lock s)
  then show ?case
    by (simp add: holder_inv_def)
next
  case (spi_unlock s)
  then show ?case
    by (simp add: holder_inv_def)
qed (simp_all add: holder_inv_goes)

lemma owner_inv_goes:
  assumes "owner_inv s" "owns p = owns (pc s t)"
  shows "owner_inv (goes t p s)"
  using assms unfolding owner_inv_def goes_def by (simp, metis)

lemma owner_inv_chip:
  "state c = state (chip s) \<Longrightarrow> owner_inv (s\<lparr>chip := c\<rparr>) = owner_inv s"
  "owner_inv (s\<lparr>holder := h\<rparr>) = owner_inv s"
  by (simp_all add: owner_inv_def)

lemma owner_inv_step: "lock_step s t \<Longrightarrow> owner_inv s \<Longrightarrow> sleep_inv s \<Longrightarrow> owner_inv t"
proof (induction rule: lock_step.induct)
  case (take s t st)
  then have "st \<noteq> CHIP_READY" "\<not> owns (pc s u)" for u
    by (auto simp: sleep_inv_def owner_inv_def get_chip_state_def)
  then show ?case
    by (auto simp: owner_inv_def goes_def set_chip_state_def)
next
  case (release s t)
  then have "owns (pc s u) \<longleftrightarrow> u = t" for u
    unfolding owner_inv_def by (metis option.inject owns.simps(8))
  then show ?case
    by (auto simp: owner_inv_def goes_def set_chip_state_def)
next
  case (lock s t)
  then show ?case
    by (intro owner_inv_goes) (auto simp: owner_inv_chip)
qed (simp_all add: owner_inv_goes owner_inv_chip)

lemma sleep_inv_step: "lock_step s t \<Longrightarrow> sleep_inv s \<Longrightarrow> sleep_inv t"
proof (induction rule: lock_step.induct)
  case (release s t)
  then show ?case
    by (auto simp: sleep_inv_def goes_def)
qed (auto simp: sleep_inv_def goes_def get_chip_state_def set_chip_state_def split: if_splits)

lemma reach_inv: "lock_reach c s \<Longrightarrow> lock_inv s"
proof (induction rule: lock_reach.induct)
  case (step s t)
  then show ?case
    by (simp add: lock_inv_def holder_inv_step owner_inv_step sleep_inv_step)
qed (rule lock_inv_init)

section \<open>Mutual exclusion and progress\<close>

lemma owner_unique: "lock_inv s \<Longrightarrow> owns (pc s t) \<Longrightarrow> owns (pc s u) \<Longrightarrow> t = u"
  by (auto simp: lock_inv_def owner_inv_def)

text \<open>
  C23.  Whatever the interleaving of the tasks and of the SPI driver, a task that
  uses the chip is the only one: it alone holds the mutex, the chip state is
  taken, the pins are marked as switched, and no other task is between locking
  and unlocking.
\<close>

theorem chip_mutual_exclusion:
  assumes "lock_reach c s" "pc s t = Using"
  shows "holder s = Some (Task t) \<and> spi_nand_mutex (chip s) \<and> nand_idleflag (chip s) \<and> state (chip s) \<noteq> CHIP_READY
    \<and> (\<forall>u. holds (pc s u) \<or> owns (pc s u) \<longrightarrow> u = t)"
proof -
  have inv: "lock_inv s"
    using assms(1) by (rule reach_inv)
  have "holds (pc s t)" "flagged (pc s t)" "owns (pc s t)"
    using assms(2) by simp_all
  then have "holder s = Some (Task t)" "nand_idleflag (chip s)"
    using inv unfolding lock_inv_def holder_inv_def by blast+
  moreover from this(1) have "spi_nand_mutex (chip s)"
    using inv by (simp add: lock_inv_def holder_inv_def)
  moreover have "state (chip s) \<noteq> CHIP_READY"
    using inv \<open>owns (pc s t)\<close> by (auto simp: lock_inv_def owner_inv_def)
  moreover have "u = t" if "holds (pc s u) \<or> owns (pc s u)" for u
    using that inv owner_unique \<open>owns (pc s t)\<close> \<open>holder s = Some (Task t)\<close>
    unfolding lock_inv_def holder_inv_def by (metis mutex_user.inject option.inject)
  ultimately show ?thesis
    by blast
qed

definition waiting :: "task_pc \<Rightarrow> bool" where
  "waiting p \<longleftrightarrow> (\<exists>st. p = Retry st \<or> p = Sleeping st)"

definition no_relock :: "lock_sys \<Rightarrow> bool" where
  "no_relock s \<longleftrightarrow> (\<forall>t. pc s t \<noteq> Relocking)"

definition keeps_waiting :: "lock_sys \<Rightarrow> lock_sys \<Rightarrow> bool" where
  "keeps_waiting s s' \<longleftrightarrow> (\<forall>v. (waiting (pc s v) \<longrightarrow> waiting (pc s' v)) \<and> (pc s' v = Locking \<longrightarrow> pc s v = Locking))"

definition can_free :: "lock_sys \<Rightarrow> bool" where
  "can_free s \<longleftrightarrow> (\<exists>s'. lock_step\<^sup>*\<^sup>* s s' \<and> lock_inv s' \<and> no_relock s' \<and> holder s' = None \<and> keeps_waiting s s')"

lemma lock_inv_step: "lock_step s t \<Longrightarrow> lock_inv s \<Longrightarrow> lock_inv t"
  by (simp add: lock_inv_def holder_inv_step owner_inv_step sleep_inv_step)

lemma can_free_here: "lock_inv s \<Longrightarrow> no_relock s \<Longrightarrow> holder s = None \<Longrightarrow> can_free s"
  by (auto simp: can_free_def keeps_waiting_def)

lemma can_free_step:
  assumes "lock_step s s'" "keeps_waiting s s'" "can_free s'"
  shows "can_free s"
  using assms unfolding can_free_def keeps_waiting_def by (meson converse_rtranclp_into_rtranclp)

lemma wake_up_waiting: "waiting (wake_up p v) = waiting (p v)" "wake_up p v = Locking \<longleftrightarrow> p v = Locking"
  "wake_up p v = Relocking \<longleftrightarrow> p v = Relocking"
  by (simp_all add: waiting_def wake_up_def split: task_pc.splits)

lemma keeps_goes:
  assumes "\<not> waiting (pc s t)" "p \<noteq> Locking" "pc s' = pc s \<or> pc s' = wake_up (pc s)"
  shows "keeps_waiting s (goes t p s')"
  using assms by (auto simp: keeps_waiting_def goes_def wake_up_waiting)

lemma no_relock_goes:
  assumes "no_relock s" "p \<noteq> Relocking" "pc s' = pc s \<or> pc s' = wake_up (pc s)"
  shows "no_relock (goes t p s')"
  using assms by (auto simp: no_relock_def goes_def wake_up_waiting)

lemma free_via:
  assumes inv: "lock_inv s" "no_relock s" and st: "lock_step s (goes t p s')"
    and "\<not> waiting (pc s t)" "p \<noteq> Locking" "p \<noteq> Relocking" "pc s' = pc s \<or> pc s' = wake_up (pc s)"
    and goes_on: "lock_inv (goes t p s') \<Longrightarrow> no_relock (goes t p s') \<Longrightarrow> can_free (goes t p s')"
  shows "can_free s"
  by (intro can_free_step [OF st] keeps_goes goes_on lock_inv_step [OF st] no_relock_goes [OF inv(2)] assms)

lemma goes_pc [simp]: "pc (goes t p s) t = p"
  by (simp add: goes_def)

lemma goes_holder [simp]: "holder (goes t p s) = holder s"
  by (simp add: goes_def)

lemma flag_set: "lock_inv s \<Longrightarrow> pc s t = Releasing \<Longrightarrow> nand_idleflag (chip s)"
  unfolding lock_inv_def holder_inv_def by (metis flagged.simps(9))

lemma free_unlocking: "lock_inv s \<Longrightarrow> no_relock s \<Longrightarrow> pc s t = Unlocking \<Longrightarrow> can_free s"
  by (rule free_via [OF _ _ lock_step.unlock, of _ t]) (auto simp: waiting_def intro!: can_free_here)

lemma free_releasing: "lock_inv s \<Longrightarrow> no_relock s \<Longrightarrow> pc s t = Releasing \<Longrightarrow> can_free s"
  by (rule free_via [OF _ _ lock_step.unflag, of _ t])
    (auto simp: waiting_def flag_set intro: free_unlocking [of _ t])

lemma free_using: "lock_inv s \<Longrightarrow> no_relock s \<Longrightarrow> pc s t = Using \<Longrightarrow> can_free s"
  by (rule free_via [OF _ _ lock_step.release, of _ t]) (auto simp: waiting_def intro: free_releasing [of _ t])

lemma free_pinning: "lock_inv s \<Longrightarrow> no_relock s \<Longrightarrow> pc s t = Pinning \<Longrightarrow> can_free s"
  by (rule free_via [OF _ _ lock_step.pin_ok, of _ t]) (auto simp: waiting_def intro: free_using [of _ t])

lemma free_flagging: "lock_inv s \<Longrightarrow> no_relock s \<Longrightarrow> pc s t = Flagging \<Longrightarrow> can_free s"
  by (rule free_via [OF _ _ lock_step.flag, of _ t]) (auto simp: waiting_def intro: free_pinning [of _ t])

lemma can_always_free:
  assumes "lock_inv s" "no_relock s"
  shows "can_free s"
proof (cases "holder s")
  case None
  then show ?thesis
    using assms can_free_here by blast
next
  case (Some h)
  show ?thesis
  proof (cases h)
    case Spi
    let ?s = "s\<lparr>chip := (chip s)\<lparr>spi_nand_mutex := False\<rparr>, holder := None\<rparr>"
    have st: "lock_step s ?s"
      using Some Spi by (simp add: lock_step.spi_unlock)
    show ?thesis
      by (rule can_free_step [OF st], simp add: keeps_waiting_def, rule can_free_here [OF lock_inv_step [OF st assms(1)]])
        (use assms(2) in \<open>simp_all add: no_relock_def\<close>)
  next
    case (Task t)
    then have "holds (pc s t)"
      using Some assms(1) by (simp add: lock_inv_def holder_inv_def)
    then show ?thesis
      using assms free_flagging free_pinning free_using free_releasing free_unlocking
      by (cases "pc s t") (auto simp: no_relock_def)
  qed
qed

lemma idle_owner_locking: "lock_inv s \<Longrightarrow> holder s = None \<Longrightarrow> owns (pc s t) \<Longrightarrow> pc s t = Locking"
proof -
  assume "lock_inv s" "holder s = None" "owns (pc s t)"
  moreover from this have "\<not> holds (pc s t)"
    by (simp add: lock_inv_def holder_inv_def)
  ultimately show "pc s t = Locking"
    by (cases "pc s t") auto
qed

text \<open>With nobody holding the mutex, the task that owns the chip can take it and then finish.\<close>

lemma owner_can_finish:
  assumes "lock_inv s" "no_relock s" "holder s = None" "pc s t = Locking"
  shows "\<exists>s'. lock_step\<^sup>*\<^sup>* s s' \<and> lock_inv s' \<and> holder s' = None \<and> state (chip s') = CHIP_READY
    \<and> (\<forall>v. waiting (pc s v) \<longrightarrow> waiting (pc s' v))"
proof -
  have "\<not> spi_nand_mutex (chip s)"
    using assms(1,3) by (simp add: lock_inv_def holder_inv_def)
  with assms(4) have st: "lock_step s (goes t Flagging (s\<lparr>chip := (chip s)\<lparr>spi_nand_mutex := True\<rparr>, holder := Some (Task t)\<rparr>))"
    (is "lock_step s ?s2")
    by (intro lock_step.lock) auto
  have inv2: "lock_inv ?s2" "no_relock ?s2"
    using lock_inv_step [OF st assms(1)] no_relock_goes [OF assms(2)] by simp_all
  obtain s3 where s3: "lock_step\<^sup>*\<^sup>* ?s2 s3" "lock_inv s3" "holder s3 = None" "keeps_waiting ?s2 s3"
    using can_always_free [OF inv2] by (auto simp: can_free_def)
  have "\<not> owns (pc s3 u)" for u
    using idle_owner_locking [OF s3(2,3), of u] s3(4) owner_unique [OF inv2(1), of u t] unfolding keeps_waiting_def by force
  then have "state (chip s3) = CHIP_READY"
    using s3(2) by (auto simp: lock_inv_def owner_inv_def)
  moreover have "waiting (pc s3 v)" if "waiting (pc s v)" for v
  proof -
    have "waiting (pc ?s2 v)"
      using that assms(4) by (auto simp: goes_def waiting_def)
    then show ?thesis
      using s3(4) by (simp add: keeps_waiting_def)
  qed
  ultimately show ?thesis
    using s3(2,3) converse_rtranclp_into_rtranclp [OF st s3(1)] by blast
qed

lemma can_make_ready:
  assumes inv: "lock_inv s" "no_relock s"
  shows "\<exists>s'. lock_step\<^sup>*\<^sup>* s s' \<and> lock_inv s' \<and> holder s' = None \<and> state (chip s') = CHIP_READY
    \<and> (\<forall>v. waiting (pc s v) \<longrightarrow> waiting (pc s' v))"
proof -
  obtain s1 where s1: "lock_step\<^sup>*\<^sup>* s s1" "lock_inv s1" "no_relock s1" "holder s1 = None" "keeps_waiting s s1"
    using can_always_free [OF inv] by (auto simp: can_free_def)
  show ?thesis
  proof (cases "state (chip s1) = CHIP_READY")
    case True
    then show ?thesis
      using s1 unfolding keeps_waiting_def by blast
  next
    case False
    then obtain t where "pc s1 t = Locking"
      using s1(2) idle_owner_locking [OF s1(2,4)] by (auto simp: lock_inv_def owner_inv_def)
    from owner_can_finish [OF s1(2-4) this]
    show ?thesis
      using s1(1,5) unfolding keeps_waiting_def by (meson rtranclp_trans)
  qed
qed

lemma goes_chip [simp]: "chip (goes t p s) = chip s"
  by (simp add: goes_def)

lemma can_pin_when_ready:
  assumes "state (chip s) = CHIP_READY" "\<not> spi_nand_mutex (chip s)" "pc s t = Retry st"
  shows "\<exists>s'. lock_step\<^sup>*\<^sup>* s s' \<and> pc s' t = Pinning"
proof -
  define s1 where "s1 = goes t Locking (s\<lparr>chip := set_chip_state st (chip s)\<rparr>)"
  define s2 where "s2 = goes t Flagging (s1\<lparr>chip := (chip s1)\<lparr>spi_nand_mutex := True\<rparr>, holder := Some (Task t)\<rparr>)"
  have "lock_step s s1"
    unfolding s1_def by (rule lock_step.take) (simp_all add: assms get_chip_state_def)
  moreover have "lock_step s1 s2"
    unfolding s2_def by (rule lock_step.lock) (simp_all add: s1_def assms set_chip_state_def)
  moreover have "lock_step s2 (goes t Pinning (s2\<lparr>chip := (chip s2)\<lparr>nand_idleflag := True\<rparr>\<rparr>))"
    by (rule lock_step.flag) (simp add: s2_def)
  ultimately show ?thesis
    using goes_pc by (meson rtranclp.rtrancl_into_rtrancl rtranclp.rtrancl_refl)
qed

lemma can_use_when_ready:
  assumes "state (chip s) = CHIP_READY" "\<not> spi_nand_mutex (chip s)" "pc s t = Retry st"
  shows "\<exists>s'. lock_step\<^sup>*\<^sup>* s s' \<and> pc s' t = Using"
  using can_pin_when_ready [OF assms] lock_step.pin_ok goes_pc by (meson rtranclp.rtrancl_into_rtrancl)

text \<open>
  C24.  No wakeup is lost and no task is locked out: from every reachable state in
  which no pin selection has failed, a task that waits for the chip (asleep or
  about to retry) can still get it, by steps of the tasks already under way.
\<close>

theorem waiting_task_can_use:
  assumes "lock_reach c s" "no_relock s" "waiting (pc s t)"
  shows "\<exists>s'. lock_step\<^sup>*\<^sup>* s s' \<and> pc s' t = Using"
proof -
  obtain s1 where s1: "lock_step\<^sup>*\<^sup>* s s1" "lock_inv s1" "holder s1 = None" "state (chip s1) = CHIP_READY"
    "waiting (pc s1 t)"
    using can_make_ready [OF reach_inv [OF assms(1)] assms(2)] assms(3) by blast
  then obtain st where "pc s1 t = Retry st"
    by (auto simp: waiting_def lock_inv_def sleep_inv_def)
  moreover have "\<not> spi_nand_mutex (chip s1)"
    using s1 by (simp add: lock_inv_def holder_inv_def)
  ultimately show ?thesis
    using can_use_when_ready [of s1 t st] s1(1,4) by (meson rtranclp_trans)
qed

lemma relocking_excludes: "lock_inv s \<Longrightarrow> pc s t = Relocking \<Longrightarrow> pc s u \<noteq> Using"
  using owner_unique [of s t u] by auto

text \<open>
  After one failed pin selection \<open>nand_get_chip\<close> locks the mutex it already
  holds: that task never gets any further, and no other task can use the chip
  from then on.
\<close>

theorem failed_pins_lock_up:
  assumes "lock_reach c s" "pc s t = Relocking" "lock_step\<^sup>*\<^sup>* s s'"
  shows "pc s' t = Relocking \<and> (\<forall>u. pc s' u \<noteq> Using)"
  using assms(3)
proof (induction rule: rtranclp_induct)
  case base
  show ?case
    using reach_inv [OF assms(1)] relocking_excludes assms(2) by blast
next
  case (step y z)
  have "lock_reach c y"
    using step.hyps(1) assms(1) by (induction rule: rtranclp_induct) (auto intro: lock_reach.step)
  then have inv: "lock_inv y" "lock_inv z"
    using reach_inv lock_reach.step step.hyps(2) by blast+
  have "holds (pc y t)"
    using step.IH by simp
  then have m: "holder y = Some (Task t)"
    using inv(1) unfolding lock_inv_def holder_inv_def by blast
  then have m: "spi_nand_mutex (chip y)" "holder y = Some (Task t)"
    using inv(1) by (simp_all add: lock_inv_def holder_inv_def)
  have "pc z t = Relocking"
    using step.hyps(2) step.IH m
    by (cases rule: lock_step.cases) (auto simp: goes_def wake_up_def)
  then show ?case
    using inv(2) relocking_excludes by blast
qed

lemma reach_star: "lock_reach c s \<Longrightarrow> lock_step\<^sup>*\<^sup>* s t \<Longrightarrow> lock_reach c t"
  by (rotate_tac, induction rule: rtranclp_induct) (auto intro: lock_reach.step)

theorem waiting_task_can_use_witness:
  "\<exists>s s'. lock_reach demo_nand s \<and> pc s 0 = Retry CHIP_READING \<and> lock_step\<^sup>*\<^sup>* s s' \<and> pc s' 0 = Using"
proof -
  let ?s = "goes 0 (Retry CHIP_READING) (lock_init demo_nand)"
  have "lock_reach demo_nand ?s" "no_relock ?s" "waiting (pc ?s 0)"
    by (rule lock_reach.step [OF lock_reach.init lock_step.call])
      (simp_all add: lock_init_def no_relock_def goes_def waiting_def)
  then show ?thesis
    using waiting_task_can_use [of demo_nand ?s 0] goes_pc by blast
qed

lemma demo_using: "\<exists>s. lock_reach demo_nand s \<and> pc s 0 = Using"
proof -
  let ?s = "goes 0 (Retry CHIP_READING) (lock_init demo_nand)"
  have "lock_reach demo_nand ?s"
    by (rule lock_reach.step [OF lock_reach.init lock_step.call]) (simp_all add: lock_init_def)
  moreover obtain s' where "lock_step\<^sup>*\<^sup>* ?s s'" "pc s' 0 = Using"
    using can_use_when_ready [of ?s 0 CHIP_READING] by (auto simp: lock_init_def)
  ultimately show ?thesis
    using reach_star by blast
qed

theorem chip_mutual_exclusion_witness:
  "\<exists>s. lock_reach demo_nand s \<and> pc s 0 = Using \<and> holder s = Some (Task 0) \<and> pc s 1 \<noteq> Using"
proof -
  obtain s where s: "lock_reach demo_nand s" "pc s 0 = Using"
    using demo_using by blast
  then have "holder s = Some (Task 0)" "owns (pc s 1) \<longrightarrow> (1 :: nat) = 0"
    using chip_mutual_exclusion [OF s] by blast+
  then show ?thesis
    using s by auto
qed

theorem failed_pins_lock_up_witness:
  "\<exists>s. lock_reach demo_nand s \<and> pc s 0 = Relocking \<and> (\<forall>s' u. lock_step\<^sup>*\<^sup>* s s' \<longrightarrow> pc s' u \<noteq> Using)"
proof -
  let ?s = "goes 0 (Retry CHIP_READING) (lock_init demo_nand)"
  have "lock_reach demo_nand ?s"
    by (rule lock_reach.step [OF lock_reach.init lock_step.call]) (simp_all add: lock_init_def)
  moreover obtain s1 where s1: "lock_step\<^sup>*\<^sup>* ?s s1" "pc s1 0 = Pinning"
    using can_pin_when_ready [of ?s 0 CHIP_READING] by (auto simp: lock_init_def)
  ultimately have "lock_reach demo_nand (goes 0 Relocking s1)"
    using reach_star lock_reach.step lock_step.pin_failed by blast
  then show ?thesis
    using failed_pins_lock_up goes_pc by blast
qed

end
