(* ===== verification/InfoStore.thy ===== *)
theory InfoStore
  imports PhyDev
begin

text \<open>
  \<open>phy/chipenv.c\<close>: the records kept in the reserved blocks of the flash (bad
  block table, device configuration, keys, environment).  A record is found by
  scanning the spare bytes of the reserved blocks for its four letter name and
  its time stamp, read back page by page, and saved to a fresh block (or to the
  next pages of the current one).  The operations of the chip are those of
  \<open>struct chip_operation\<close>.
\<close>

section \<open>Records and their descriptors\<close>

text \<open>The \<open>nand_arg_info\<close> a caller passes a pointer to is named by a constructor.\<close>

abbreviation (input) "HYNIX_1YNM_8GB \<equiv> (6 :: u8)"

datatype info_id = BbtInfo | ShippedInfo | ConfigInfo | KeyInfo | SecureInfo | EnvInfo

fun arg_of :: "info_id \<Rightarrow> nand \<Rightarrow> nand_arg_info" where
  "arg_of BbtInfo s = nand_bbtinfo s"
| "arg_of ShippedInfo s = shipped_bbtinfo s"
| "arg_of ConfigInfo s = config_msg s"
| "arg_of KeyInfo s = nand_key s"
| "arg_of SecureInfo s = nand_secure s"
| "arg_of EnvInfo s = uboot_env s"

fun set_arg :: "info_id \<Rightarrow> nand_arg_info \<Rightarrow> nand \<Rightarrow> nand" where
  "set_arg BbtInfo a s = s\<lparr>nand_bbtinfo := a\<rparr>"
| "set_arg ShippedInfo a s = s\<lparr>shipped_bbtinfo := a\<rparr>"
| "set_arg ConfigInfo a s = s\<lparr>config_msg := a\<rparr>"
| "set_arg KeyInfo a s = s\<lparr>nand_key := a\<rparr>"
| "set_arg SecureInfo a s = s\<lparr>nand_secure := a\<rparr>"
| "set_arg EnvInfo a s = s\<lparr>uboot_env := a\<rparr>"

definition bytes_of :: "string \<Rightarrow> u8 list" where
  "bytes_of name = map (\<lambda>c. of_nat (of_char c)) name"

text \<open>
  \<open>struct _nand_arg_oobinfo\<close>: four letters and a 16-bit time stamp, six bytes at
  the start of the spare area.
\<close>

definition oob_name :: "ptr \<Rightarrow> nand \<Rightarrow> u8 list" where
  "oob_name p s = mem_bytes (mem s) p 4"

definition oob_stamp :: "ptr \<Rightarrow> nand \<Rightarrow> u16" where
  "oob_stamp p s = ld16 (mem s) (p + 4)"

fun store_bytes :: "ptr \<Rightarrow> u8 list \<Rightarrow> memory \<Rightarrow> memory" where
  "store_bytes p [] m = m"
| "store_bytes p (b # bs) m = store_bytes (p + 1) bs (m(p := b))"

section \<open>Checksums\<close>

fun checksum_from :: "memory \<Rightarrow> ptr \<Rightarrow> nat \<Rightarrow> u32 \<Rightarrow> u32" where
  "checksum_from m p 0 acc = acc"
| "checksum_from m p (Suc n) acc = checksum_from m (p + 1) n (acc + ucast (m p))"

definition aml_info_checksum :: "memory \<Rightarrow> ptr \<Rightarrow> nat \<Rightarrow> u32" where
  "aml_info_checksum m p len = checksum_from m p len 0"

text \<open>
  Sizes and offsets of the stored structures on 32-bit ARM: \<open>struct block_status\<close>
  is a checksum and 4 x 8192 16-bit entries, \<open>struct shipped_bbt\<close> a checksum and
  4 x 2048 of them, \<open>struct nand_config\<close> a checksum, four device descriptions of
  680 bytes at offset 8, the driver version, the number of devices and the
  block of the shipped table.
\<close>

definition block_status_size :: nat where "block_status_size = 4 + 2 * (4 * 8192)"

definition shipped_bbt_size :: nat where "shipped_bbt_size = 4 + 2 * (4 * 2048)"

definition nand_config_size :: nat where "nand_config_size = 2736"

definition dev_paras_size :: nat where "dev_paras_size = 4 * 680"

definition aml_info_check_datasum :: "ptr \<Rightarrow> string \<Rightarrow> nand \<Rightarrow> int" where
  "aml_info_check_datasum data name s =
     (let crc = ld32 (mem s) data;
          bad = (\<lambda>off len. aml_info_checksum (mem s) (data + off) len \<noteq> crc)
      in if take 4 name = ''nbbt'' \<and> bad 4 (4 * 8192)
            \<or> take 4 name = ''fbbt'' \<and> bad 4 (4 * 2048)
            \<or> take 4 name = ''ncnf'' \<and> bad 8 dev_paras_size
         then - NAND_READ_FAILED else 0)"

section \<open>Reserved blocks\<close>

definition locked_call :: "chip_operation \<Rightarrow> (nand \<Rightarrow> (int \<times> nand) option) \<Rightarrow> nand \<Rightarrow> (int \<times> nand) option" where
  "locked_call ct f s = do {
     s \<leftarrow> (if state s = CHIP_READY then ct_get_chip ct s else Some s);
     (ret, s) \<leftarrow> f s;
     Some (ret, if state s = CHIP_READY then nand_release_chip s else s)
   }"

definition select_resv :: "chip_operation \<Rightarrow> u32 \<Rightarrow> chip_ops_para \<Rightarrow> nand \<Rightarrow> nand option" where
  "select_resv ct blk p s = do {
     (_, s) \<leftarrow> ct_select_chip ct (resv_chip blk s) (s\<lparr>ops_para := p\<rparr>);
     Some s
   }"

definition at_block :: "chip_operation \<Rightarrow> u32 \<Rightarrow> nand \<Rightarrow> nand option" where
  "at_block ct blk s =
     select_resv ct blk (ops_zero\<lparr>op_page_addr := resv_page blk s, op_chipnr := resv_chip blk s\<rparr>) s"

partial_function (option) last_reserve ::
  "chip_operation \<Rightarrow> nat \<Rightarrow> u32 \<Rightarrow> nand \<Rightarrow> (u32 \<times> nand) option" where
  "last_reserve ct blk_addr total_blk s =
     (if RESERVED_BLOCK_CNT \<le> blk_addr then Some (total_blk, s)
      else do {
        s \<leftarrow> at_block ct total_blk s;
        (ret, s) \<leftarrow> ct_block_isbad ct s;
        last_reserve ct (if ret = uint NAND_BLOCK_FACTORY_BAD then blk_addr else blk_addr + 1) (total_blk + 1) s
      })"

declare last_reserve.simps [code]

definition get_last_reserve_block :: "chip_operation \<Rightarrow> nand \<Rightarrow> (u32 \<times> nand) option" where
  "get_last_reserve_block ct s = last_reserve ct 0 (resv_start (flash s)) (s\<lparr>ops_para := ops_zero\<rparr>)"

definition blk_used :: "u32 \<Rightarrow> nand \<Rightarrow> bool" where
  "blk_used blk s \<longleftrightarrow> (\<exists>b\<in>set (reserved_blk s). ucast b = blk)"

text \<open>The candidates are tried in order; one that cannot be erased is marked bad.\<close>

fun free_scan :: "chip_operation \<Rightarrow> u32 \<Rightarrow> nat list \<Rightarrow> nand \<Rightarrow> (int \<times> nand) option" where
  "free_scan ct block [] s = Some (- NAND_BAD_BLCOK_FAILURE, s)"
| "free_scan ct block (b # bs) s =
     (let blk = of_nat b
      in if blk_used blk s \<or> block = blk then free_scan ct block bs s
         else do {
           s \<leftarrow> at_block ct blk s;
           (ret, s) \<leftarrow> ct_block_isbad ct s;
           if ret = uint NAND_BLOCK_FACTORY_BAD then free_scan ct block bs s
           else do {
             (ret, s) \<leftarrow> locked_call ct (ct_erase_block ct) s;
             if ret < 0 then do { (_, s) \<leftarrow> ct_block_markbad ct s; free_scan ct block bs s }
             else Some (if ret = 0 then int b else ret, s)
           }
         })"

definition amlnand_get_free_block :: "chip_operation \<Rightarrow> u32 \<Rightarrow> nand \<Rightarrow> (int \<times> nand) option" where
  "amlnand_get_free_block ct block s = do {
     let start_blk = resv_start (flash s);
     (total_blk, s) \<leftarrow> get_last_reserve_block ct (s\<lparr>ops_para := ops_zero\<rparr>);
     free_scan ct block [unat start_blk..<unat total_blk] s
   }"

fun replace_first :: "(u8 \<Rightarrow> bool) \<Rightarrow> u8 \<Rightarrow> u8 list \<Rightarrow> u8 list" where
  "replace_first P b [] = []"
| "replace_first P b (x # xs) = (if P x then b # xs else x # replace_first P b xs)"

definition reserve_blk :: "u32 \<Rightarrow> nand \<Rightarrow> nand" where
  "reserve_blk blk s = s\<lparr>reserved_blk := replace_first (\<lambda>b. b = 0xff) (ucast blk) (reserved_blk s)\<rparr>"

definition unreserve_blk :: "u32 \<Rightarrow> nand \<Rightarrow> nand" where
  "unreserve_blk blk s = s\<lparr>reserved_blk := replace_first (\<lambda>b. ucast b = blk) 0xff (reserved_blk s)\<rparr>"

section \<open>Reading a record\<close>

definition info_bufs :: "bool \<Rightarrow> nand \<Rightarrow> nand" where
  "info_bufs data s =
     s\<lparr>ops_para := (ops_para s)\<lparr>op_data_buf := (if data then user_page_buf s else NULL), op_oob_buf := user_oob_buf s,
         op_ooblen := 6\<rparr>,
       mem := memset (user_oob_buf s) 0 6
         (if data then memset (user_page_buf s) 0 (unat (pagesize (flash s))) (mem s) else mem s)\<rparr>"

definition failed_read :: "int \<Rightarrow> nand \<Rightarrow> bool" where
  "failed_read ret s \<longleftrightarrow> op_ecc_err (ops_para s) \<noteq> 0 \<or> ret < 0"

definition read_resv :: "chip_operation \<Rightarrow> bool \<Rightarrow> u32 \<Rightarrow> u32 \<Rightarrow> nand \<Rightarrow> (int \<times> nand) option" where
  "read_resv ct data blk page s = do {
     s \<leftarrow> select_resv ct blk (resv_ops blk page s) s;
     locked_call ct (ct_read_page ct) (info_bufs data s)
   }"

definition named :: "string \<Rightarrow> nand \<Rightarrow> bool" where
  "named name s \<longleftrightarrow> oob_name (user_oob_buf s) s = bytes_of name"

partial_function (option) read_pages ::
  "chip_operation \<Rightarrow> info_id \<Rightarrow> ptr \<Rightarrow> string \<Rightarrow> u32 \<Rightarrow> u32 \<Rightarrow> u32 \<Rightarrow> int \<Rightarrow> nand \<Rightarrow> (int \<times> nand) option" where
  "read_pages ct i buf name sz amount_loaded offset_tmp ret s =
     (if \<not> amount_loaded < sz then Some (ret, s)
      else do {
        let a = arg_of i s;
        (ret, s) \<leftarrow> read_resv ct True (ucast (valid_blk_addr a)) (ucast (valid_page_addr a) + offset_tmp) s;
        if failed_read ret s then Some (ret, s)
        else let len = unat (min (pagesize (flash s)) (sz - amount_loaded));
                 s = (if named name s
                      then s\<lparr>mem := memcpy (buf + unat amount_loaded) (user_page_buf s) len (mem s)\<rparr> else s)
             in read_pages ct i buf name sz (amount_loaded + pagesize (flash s)) (offset_tmp + 1) ret s
      })"

declare read_pages.simps [code]

definition amlnand_read_info_by_name ::
  "chip_operation \<Rightarrow> info_id \<Rightarrow> ptr \<Rightarrow> string \<Rightarrow> u32 \<Rightarrow> nand \<Rightarrow> (int \<times> nand) option" where
  "amlnand_read_info_by_name ct i buf name sz s =
     (let s = slc_option (s\<lparr>ops_para := ops_zero\<rparr>)
      in if arg_valid (arg_of i s) = 1 then read_pages ct i buf name sz 0 0 0 s else Some (0, s))"

section \<open>Finding a record\<close>

text \<open>
  The scan of one block: skip pages that cannot be read (record by record, and
  after nine failures once to the middle and once to the end of the block) and
  judge the block by the first page that can.
\<close>

definition note_arg :: "u16 \<Rightarrow> u16 \<Rightarrow> nand_arg_info \<Rightarrow> nand_arg_info" where
  "note_arg blk ts a =
     (if arg_valid a = 1
      then if timestamp a < ts then a\<lparr>free_blk_addr := valid_blk_addr a, valid_blk_addr := blk, timestamp := ts\<rparr>
           else a\<lparr>free_blk_addr := blk\<rparr>
      else a\<lparr>arg_valid := 1, valid_blk_addr := blk, timestamp := ts\<rparr>)"

definition note_block :: "info_id \<Rightarrow> string \<Rightarrow> u16 \<Rightarrow> nand \<Rightarrow> nand" where
  "note_block i name blk s =
     (if named name s then set_arg i (note_arg blk (oob_stamp (user_oob_buf s) s) (arg_of i s)) s else s)"

datatype scan_phase = FromStart | FromMiddle | FromEnd

definition info_step :: "u32 \<Rightarrow> nand \<Rightarrow> u32" where
  "info_step sz s = drop_bit (ffs (pagesize (flash s)) - 1) sz + 1"

definition next_page :: "u32 \<Rightarrow> nat \<Rightarrow> scan_phase \<Rightarrow> u32 \<Rightarrow> nand \<Rightarrow> u32 \<times> scan_phase" where
  "next_page sz failed ph i s =
     (let st = info_step sz s; n = pages_per_blk (flash s) div st
      in if 8 < failed \<and> ph = FromStart then (st * drop_bit 1 n, FromMiddle)
         else if ph = FromMiddle then (st * n, FromEnd)
         else (i + st, ph))"

partial_function (option) scan_pages ::
  "chip_operation \<Rightarrow> info_id \<Rightarrow> string \<Rightarrow> u32 \<Rightarrow> u32 \<Rightarrow> u16 \<Rightarrow> nat \<Rightarrow> scan_phase \<Rightarrow> u32 \<Rightarrow> int \<Rightarrow> nand
     \<Rightarrow> (int \<times> nand) option" where
  "scan_pages ct info name sz pages blk failed ph i ret s =
     (if \<not> i < pages then Some (ret, s)
      else do {
        s \<leftarrow> select_resv ct (ucast blk) (resv_ops (ucast blk) i s) s;
        s \<leftarrow> ct_get_chip ct (info_bufs True s);
        (ret, s) \<leftarrow> ct_read_page ct s;
        let s = nand_release_chip s;
        if failed_read ret s
        then let (i, ph) = next_page sz (failed + 1) ph i s
             in scan_pages ct info name sz pages blk (failed + 1) ph i ret s
        else Some (ret, note_block info name blk s)
      })"

declare scan_pages.simps [code]

fun scan_blocks ::
  "chip_operation \<Rightarrow> info_id \<Rightarrow> string \<Rightarrow> u32 \<Rightarrow> u32 \<Rightarrow> u16 list \<Rightarrow> int \<Rightarrow> nand \<Rightarrow> (int \<times> nand) option" where
  "scan_blocks ct info name sz pages [] ret s = Some (ret, s)"
| "scan_blocks ct info name sz pages (blk # blks) ret s = do {
     s \<leftarrow> at_block ct (ucast blk) s;
     (ret, s) \<leftarrow> ct_block_isbad ct s;
     if ret \<noteq> 0 then scan_blocks ct info name sz pages blks ret s
     else do {
       (ret, s) \<leftarrow> scan_pages ct info name sz pages blk 0 FromStart 0 ret s;
       let a = arg_of info s;
       if arg_type a = FULL_BLK \<and> arg_valid a = 1 \<and> valid_blk_addr a \<noteq> 0 then Some (ret, s)
       else scan_blocks ct info name sz pages blks ret s
     }
   }"

text \<open>
  Within the chosen block: the first copy that can be read (\<open>FULL_BLK\<close>), or the
  last of the copies written one after the other (\<open>FULL_PAGE\<close>).
\<close>

partial_function (option) find_copy ::
  "chip_operation \<Rightarrow> info_id \<Rightarrow> string \<Rightarrow> u32 \<Rightarrow> u32 \<Rightarrow> u32 \<Rightarrow> int \<Rightarrow> nand \<Rightarrow> (int \<times> nand) option" where
  "find_copy ct info name sz pages i ret s =
     (let full_blk = (arg_type (arg_of info s) = FULL_BLK)
      in if \<not> i < pages then Some (ret, s)
         else do {
           (ret, s) \<leftarrow> read_resv ct (\<not> full_blk) (ucast (valid_blk_addr (arg_of info s))) i s;
           if failed_read ret s
           then find_copy ct info name sz pages (i + info_step sz s) ret
                  (set_arg info ((arg_of info s)\<lparr>update_flag := 1\<rparr>) s)
           else if named name s
           then let s = set_arg info ((arg_of info s)\<lparr>valid_page_addr := ucast i,
                          timestamp := oob_stamp (user_oob_buf s) s\<rparr>) s
                in if full_blk then Some (ret, s)
                   else find_copy ct info name sz pages
                          (i + info_step sz s + (if new_type (flash s) = HYNIX_1YNM_8GB then 1 else 0)) ret s
           else if full_blk then find_copy ct info name sz pages (i + info_step sz s) ret s
           else Some (ret, s)
         })"

declare find_copy.simps [code]

definition amlnand_check_info_by_name ::
  "chip_operation \<Rightarrow> info_id \<Rightarrow> string \<Rightarrow> u32 \<Rightarrow> nand \<Rightarrow> (int \<times> nand) option" where
  "amlnand_check_info_by_name ct info name sz s = do {
     let s = slc_option (s\<lparr>ops_para := ops_zero\<rparr>);
     let pages = pages_read s;
     let start = unat (resv_start (flash s));
     (ret, s) \<leftarrow> scan_blocks ct info name sz pages (map of_nat [start..<start + RESERVED_BLOCK_CNT]) 0 s;
     let a = arg_of info s;
     if arg_valid a = 1
     then do {
       (ret, s) \<leftarrow> (if arg_type a = FULL_BLK \<or> arg_type a = FULL_PAGE
         then find_copy ct info name sz pages 0 ret s else Some (ret, s));
       Some (ret, reserve_blk (ucast (valid_blk_addr (arg_of info s))) s)
     }
     else Some (ret, s)
   }"

definition amlnand_info_init ::
  "chip_operation \<Rightarrow> info_id \<Rightarrow> ptr \<Rightarrow> string \<Rightarrow> u32 \<Rightarrow> nand \<Rightarrow> (int \<times> nand) option" where
  "amlnand_info_init ct info buf name sz s = do {
     (ret, s) \<leftarrow> amlnand_check_info_by_name ct info name sz s;
     if ret < 0 then Some (ret, s)
     else if arg_valid (arg_of info s) = 1
     then do {
       (ret, s) \<leftarrow> amlnand_read_info_by_name ct info buf name sz s;
       if ret < 0 then Some (ret, s) else Some (aml_info_check_datasum buf name s, s)
     }
     else Some (ret, s)
   }"

section \<open>Saving a record\<close>

definition oob_bytes :: "string \<Rightarrow> u16 \<Rightarrow> u8 list" where
  "oob_bytes name ts = take 4 (bytes_of name) @ [ucast ts, ucast (drop_bit 8 ts)]"

definition fill_bufs :: "u8 \<Rightarrow> nand \<Rightarrow> nand" where
  "fill_bufs v s =
     s\<lparr>mem := memset (user_oob_buf s) v 6 (memset (user_page_buf s) v (unat (pagesize (flash s))) (mem s))\<rparr>"

definition user_bufs :: "nand \<Rightarrow> nand" where
  "user_bufs s =
     s\<lparr>ops_para := (ops_para s)\<lparr>op_data_buf := user_page_buf s, op_oob_buf := user_oob_buf s, op_ooblen := 6\<rparr>\<rparr>"

definition put_page ::
  "chip_operation \<Rightarrow> string \<Rightarrow> u16 \<Rightarrow> ptr \<Rightarrow> u32 \<Rightarrow> u32 \<Rightarrow> u32 \<Rightarrow> u32 \<Rightarrow> nand \<Rightarrow> (int \<times> nand) option" where
  "put_page ct name ts buf whole amount blk page s = do {
     s \<leftarrow> select_resv ct blk (resv_ops blk page s) s;
     let s = fill_bufs 0 (user_bufs s);
     let len = unat (min (pagesize (flash s)) (whole - amount));
     let m = memcpy (user_page_buf s) (buf + unat amount) len (mem s);
     locked_call ct (ct_write_page ct) (s\<lparr>mem := store_bytes (user_oob_buf s) (oob_bytes name ts) m\<rparr>)
   }"

text \<open>
  Hynix 1y nm flash in SLC mode: after each page its paired page is programmed
  with erased data, and the record is closed with a page of dummy data.  The
  option of the paired write ends up as 0, since \<open>DEV_SERIAL_CHIP_MODE\<close> is 0.
\<close>

definition put_paired :: "chip_operation \<Rightarrow> nand \<Rightarrow> (int \<times> nand) option" where
  "put_paired ct s = do {
     let p = ops_para s;
     let old_ran = ran_mode (controller s);
     let s = s\<lparr>controller := (controller s)\<lparr>ran_mode := 0\<rparr>,
               ops_para := p\<lparr>op_page_addr := op_page_addr p + 1,
                 op_option := (op_option p OR DEV_ECC_SOFT_MODE) AND DEV_SERIAL_CHIP_MODE\<rparr>\<rparr>;
     (ret, s) \<leftarrow> locked_call ct (ct_write_page ct) (fill_bufs 0xff s);
     Some (ret, s\<lparr>controller := (controller s)\<lparr>ran_mode := old_ran\<rparr>,
       ops_para := (ops_para s)\<lparr>op_page_addr := op_page_addr p, op_option := op_option p\<rparr>\<rparr>)
   }"

definition put_dummy :: "chip_operation \<Rightarrow> u32 \<Rightarrow> u32 \<Rightarrow> nand \<Rightarrow> (int \<times> nand) option" where
  "put_dummy ct blk page s = do {
     s \<leftarrow> select_resv ct blk (resv_ops blk page s) s;
     (_, s) \<leftarrow> locked_call ct (ct_write_page ct) (fill_bufs 0x5a (user_bufs s));
     put_paired ct s
   }"

definition is_hynix_1y :: "nand \<Rightarrow> bool" where
  "is_hynix_1y s \<longleftrightarrow> new_type (flash s) = HYNIX_1YNM_8GB"

datatype save_out = Written int | Rewrite

text \<open>A page that cannot be written: test the block, mark it bad if the test fails, start over elsewhere.\<close>

definition page_failed :: "chip_operation \<Rightarrow> u32 \<Rightarrow> nat \<Rightarrow> int \<Rightarrow> nand \<Rightarrow> ((save_out \<times> nat) \<times> nand) option" where
  "page_failed ct blk test_cnt ret s =
     (if 3 \<le> test_cnt then Some ((Written ret, test_cnt), s)
      else do {
        (ret, s) \<leftarrow> ct_test_block_reserved ct blk s;
        (_, s) \<leftarrow> (if ret \<noteq> 0 then ct_block_markbad ct s else Some (ret, s));
        Some ((Rewrite, test_cnt + 1), s)
      })"

partial_function (option) save_pages ::
  "chip_operation \<Rightarrow> bool \<Rightarrow> string \<Rightarrow> u16 \<Rightarrow> ptr \<Rightarrow> u32 \<Rightarrow> u32 \<Rightarrow> u32 \<Rightarrow> u32 \<Rightarrow> u32 \<Rightarrow> nat \<Rightarrow> int \<Rightarrow> nand
     \<Rightarrow> ((save_out \<times> nat) \<times> nand) option" where
  "save_pages ct full_blk name ts buf whole blk base amount off test_cnt ret s =
     (if \<not> amount < whole then Some ((Written ret, test_cnt), s)
      else do {
        let temp_page_num = (if full_blk then base + off else (resv_page blk s + (base + off)) mod 256);
        (ret, s) \<leftarrow> put_page ct name ts buf whole amount blk (base + off) s;
        if ret < 0 then page_failed ct blk test_cnt ret s
        else do {
          (ret, s) \<leftarrow> (if is_hynix_1y s \<and> 1 \<le> temp_page_num
            then do { (_, s) \<leftarrow> ct_select_chip ct (resv_chip blk s) s; put_paired ct s }
            else Some (ret, s));
          let amount = amount + pagesize (flash s);
          (ret, s) \<leftarrow> (if is_hynix_1y s \<and> \<not> full_blk \<and> whole \<le> amount then put_dummy ct blk (temp_page_num + 1) s
            else Some (ret, s));
          save_pages ct full_blk name ts buf whole blk base amount (off + 1) test_cnt ret s
        }
      })"

declare save_pages.simps [code]

partial_function (option) save_copies ::
  "chip_operation \<Rightarrow> string \<Rightarrow> u16 \<Rightarrow> ptr \<Rightarrow> u32 \<Rightarrow> u32 \<Rightarrow> u32 \<Rightarrow> u32 \<Rightarrow> u32 \<Rightarrow> nat \<Rightarrow> int \<Rightarrow> nand
     \<Rightarrow> ((save_out \<times> nat) \<times> nand) option" where
  "save_copies ct name ts buf whole arg_pages pages blk i test_cnt ret s =
     (if \<not> i < pages then Some ((Written ret, test_cnt), s)
      else if pages - i < arg_pages
      then do {
        (ret, s) \<leftarrow> (if is_hynix_1y s then put_dummy ct blk i s else Some (ret, s));
        Some ((Written ret, test_cnt), s)
      }
      else do {
        ((out, test_cnt), s) \<leftarrow> save_pages ct True name ts buf whole blk i 0 0 test_cnt ret s;
        case out of
          Rewrite \<Rightarrow> Some ((Rewrite, test_cnt), s)
        | Written ret \<Rightarrow> if ret < 0 then Some ((Written ret, test_cnt), s)
            else save_copies ct name ts buf whole arg_pages pages blk (i + arg_pages) test_cnt ret s
      })"

declare save_copies.simps [code]

definition choose_block ::
  "chip_operation \<Rightarrow> info_id \<Rightarrow> u32 \<Rightarrow> u32 \<Rightarrow> u32 \<Rightarrow> bool \<Rightarrow> nand \<Rightarrow> ((int \<times> u32 \<times> bool) \<times> nand) option" where
  "choose_block ct info arg_pages pages blk full s =
     (let a = arg_of info s
      in if arg_valid a \<noteq> 0 \<and> update_flag a = 0 \<and> arg_type a = FULL_PAGE
            \<and> \<not> pages < ucast (valid_page_addr a) + 2 * arg_pages
         then Some ((0, ucast (valid_blk_addr a), full), s)
         else do {
           (ret, s) \<leftarrow> amlnand_get_free_block ct blk s;
           Some ((ret, word_of_int ret,
             if ret < 0 then full
             else full \<or> arg_valid a \<noteq> 0 \<and> update_flag a = 0 \<and> arg_type a = FULL_PAGE), s)
         })"

text \<open>From the label \<open>get_free_blk\<close>: choose a block and write, until it works or nothing is left.\<close>

partial_function (option) save_attempt ::
  "chip_operation \<Rightarrow> info_id \<Rightarrow> string \<Rightarrow> u16 \<Rightarrow> ptr \<Rightarrow> u32 \<Rightarrow> u32 \<Rightarrow> u32 \<Rightarrow> u32 \<Rightarrow> bool \<Rightarrow> nat \<Rightarrow> nand
     \<Rightarrow> ((int \<times> u32 \<times> bool \<times> nat) \<times> nand) option" where
  "save_attempt ct info name ts buf whole arg_pages pages blk full test_cnt s = do {
     ((ret, blk, full), s) \<leftarrow> choose_block ct info arg_pages pages blk full s;
     if ret < 0 then Some ((- NAND_BAD_BLCOK_FAILURE, blk, full, test_cnt), s)
     else do {
       let a = arg_of info s;
       let appended = (arg_valid a \<noteq> 0 \<and> \<not> full \<and> update_flag a = 0);
       let base = (if appended then ucast (valid_page_addr a) + arg_pages + (if is_hynix_1y s then 1 else 0) else 0);
       ((out, test_cnt), s) \<leftarrow>
         (if arg_type a = FULL_BLK then save_copies ct name ts buf whole arg_pages pages blk 0 test_cnt ret s
          else if arg_type a = FULL_PAGE then save_pages ct False name ts buf whole blk base 0 0 test_cnt ret s
          else Some ((Written ret, test_cnt), s));
       case out of
         Rewrite \<Rightarrow> save_attempt ct info name ts buf whole arg_pages pages blk full test_cnt s
       | Written ret \<Rightarrow> Some ((if ret < 0 then - NAND_WRITE_FAILED else ret, blk, full, test_cnt), s)
     }
   }"

declare save_attempt.simps [code]

definition erase_old :: "chip_operation \<Rightarrow> u32 \<Rightarrow> nand \<Rightarrow> (int \<times> nand) option" where
  "erase_old ct old s = do {
     let s = resv_block_ops old s;
     (_, s) \<leftarrow> ct_select_chip ct (resv_chip old s) s;
     (ret, s) \<leftarrow> locked_call ct (ct_erase_block ct) s;
     (ret, s) \<leftarrow> (if ret < 0
       then do {
         (ret, s) \<leftarrow> ct_test_block_reserved ct old s;
         if ret \<noteq> 0 then ct_block_markbad ct s else Some (ret, s)
       }
       else Some (ret, s));
     Some (ret, if ret < 0 then s else unreserve_blk old s)
   }"

definition moved_block :: "bool \<Rightarrow> nand_arg_info \<Rightarrow> bool" where
  "moved_block full a \<longleftrightarrow> arg_type a = FULL_BLK \<or> arg_type a = FULL_PAGE \<and> (full \<or> update_flag a \<noteq> 0)"

definition new_arg :: "u32 \<Rightarrow> u32 \<Rightarrow> bool \<Rightarrow> nand \<Rightarrow> nand_arg_info \<Rightarrow> nand_arg_info" where
  "new_arg blk arg_pages full s a =
     a\<lparr>valid_blk_addr := ucast blk,
       valid_page_addr :=
         (if arg_valid a = 0 \<or> arg_type a \<noteq> FULL_PAGE \<and> arg_type a \<noteq> FULL_BLK then valid_page_addr a
          else if moved_block full a then 0
          else valid_page_addr a + ucast arg_pages + (if is_hynix_1y s then 1 else 0))\<rparr>"

definition finish_save :: "chip_operation \<Rightarrow> info_id \<Rightarrow> u32 \<Rightarrow> u32 \<Rightarrow> bool \<Rightarrow> int \<Rightarrow> nand \<Rightarrow> (int \<times> nand) option" where
  "finish_save ct info arg_pages blk full ret s =
     (let a = arg_of info s; old = ucast (valid_blk_addr a) :: u32;
          s = (if arg_valid a = 0 \<or> moved_block full a then reserve_blk blk s else s);
          s = set_arg info (new_arg blk arg_pages full s a) s
      in if moved_block full a \<and> arg_valid a \<noteq> 0 \<and> old \<noteq> 0 then erase_old ct old s else Some (ret, s))"

definition stamp_next :: "info_id \<Rightarrow> nand \<Rightarrow> nand" where
  "stamp_next info s = set_arg info ((arg_of info s)\<lparr>timestamp := timestamp (arg_of info s) + 1\<rparr>) s"

text \<open>
  One pass from the label \<open>write_again\<close>.  The result says whether the save may go
  on: a failure, also of retiring the old block, leaves the routine.
\<close>

definition save_round ::
  "chip_operation \<Rightarrow> info_id \<Rightarrow> string \<Rightarrow> ptr \<Rightarrow> u32 \<Rightarrow> u32 \<Rightarrow> u32 \<Rightarrow> u32 \<Rightarrow> nat \<Rightarrow> nand
     \<Rightarrow> ((int \<times> bool \<times> u32 \<times> nat) \<times> nand) option" where
  "save_round ct info name buf whole arg_pages pages blk test_cnt s = do {
     let s = (stamp_next info s)\<lparr>ops_para := ops_zero\<rparr>;
     ((ret, blk, full, test_cnt), s) \<leftarrow>
       save_attempt ct info name (timestamp (arg_of info s)) buf whole arg_pages pages blk False test_cnt s;
     if ret < 0 then Some ((ret, False, blk, test_cnt), s)
     else do {
       (ret, s) \<leftarrow> finish_save ct info arg_pages blk full ret s;
       if ret < 0 then Some ((ret, False, blk, test_cnt), s)
       else Some ((ret, True, blk, test_cnt), set_arg info ((arg_of info s)\<lparr>arg_valid := 1\<rparr>) s)
     }
   }"

definition amlnand_save_info_by_name ::
  "chip_operation \<Rightarrow> info_id \<Rightarrow> ptr \<Rightarrow> string \<Rightarrow> u32 \<Rightarrow> nand \<Rightarrow> (int \<times> nand) option" where
  "amlnand_save_info_by_name ct info buf name sz s =
     (if amlnf_allow_meta (amlnf s) = 0 then Some (- EROFS, s)
      else do {
        let f = flash s;
        let arg_pages = info_step sz s;
        let whole = sz + (if sz mod pagesize f = 0 then pagesize f else 0);
        let s = slc_option s;
        let pages = pages_read s;
        ((ret, ok, blk, test_cnt), s) \<leftarrow> save_round ct info name buf whole arg_pages pages 0 0 s;
        if \<not> ok \<or> arg_type (arg_of info s) \<noteq> FULL_PAGE then Some (ret, s)
        else do {
          let s = set_arg info ((arg_of info s)\<lparr>update_flag := 0\<rparr>) s;
          ((ret, _), s) \<leftarrow> save_round ct info name buf whole arg_pages pages blk test_cnt s;
          Some (ret, s)
        }
      })"

section \<open>The bad block table\<close>

definition amlnand_update_bbt :: "chip_operation \<Rightarrow> nand \<Rightarrow> (int \<times> nand) option" where
  "amlnand_update_bbt ct s =
     (if block_status s = NULL then None
      else let p = block_status s;
               s = s\<lparr>mem := st32 p (aml_info_checksum (mem s) (p + 4) (4 * 8192)) (mem s)\<rparr>
           in amlnand_save_info_by_name ct BbtInfo p ''nbbt'' (of_nat block_status_size) s)"

text \<open>
  The table of operations calls \<open>amlnand_update_bbt\<close>, which calls the table
  again when it has to retire a block.  The nesting is bounded here: a call
  deeper than \<open>n\<close> does not come back.
\<close>

fun bbt_writer :: "nfc \<Rightarrow> nand_hooks \<Rightarrow> nat \<Rightarrow> nand \<Rightarrow> (int \<times> nand) option" where
  "bbt_writer hw hk 0 s = None"
| "bbt_writer hw hk (Suc n) s = amlnand_update_bbt (chip_table hw hk (bbt_writer hw hk n)) s"

definition amlnand_info_error_handle :: "chip_operation \<Rightarrow> nand \<Rightarrow> nand option" where
  "amlnand_info_error_handle ct s = do {
     let b = nand_bbtinfo s;
     (ret, s) \<leftarrow> (if arg_valid b \<noteq> 0 \<and> update_flag b \<noteq> 0
       then do {
         (ret, s) \<leftarrow> amlnand_update_bbt ct s;
         Some (ret, s\<lparr>nand_bbtinfo := (nand_bbtinfo s)\<lparr>update_flag := 0\<rparr>\<rparr>)
       }
       else Some (0, s));
     let c = config_msg s;
     if ret \<noteq> 0 \<or> \<not> (arg_valid c \<noteq> 0 \<and> update_flag c \<noteq> 0) then Some s
     else do {
       let s = s\<lparr>mem := st32 (config_ptr s) (aml_info_checksum (mem s) (config_ptr s + 8) dev_paras_size) (mem s)\<rparr>;
       (_, s) \<leftarrow> amlnand_save_info_by_name ct ConfigInfo (config_ptr s) ''ncnf'' (of_nat nand_config_size) s;
       Some (s\<lparr>config_msg := (config_msg s)\<lparr>update_flag := 0\<rparr>\<rparr>)
     }
   }"

section \<open>Repairing reserved blocks\<close>

partial_function (option) used_bad ::
  "chip_operation \<Rightarrow> nat \<Rightarrow> u32 \<Rightarrow> u32 list \<Rightarrow> nand \<Rightarrow> ((u32 \<times> u32 list) \<times> nand) option" where
  "used_bad ct blk_addr last_blk bad s =
     (if RESERVED_BLOCK_CNT \<le> blk_addr then Some ((last_blk, bad), s)
      else do {
        s \<leftarrow> at_block ct last_blk s;
        (ret, s) \<leftarrow> ct_block_isbad ct s;
        if ret = uint NAND_BLOCK_FACTORY_BAD then used_bad ct blk_addr (last_blk + 1) bad s
        else used_bad ct (blk_addr + 1) (last_blk + 1)
               (if ret = uint NAND_BLOCK_USED_BAD \<and> length bad < 128 then bad @ [last_blk] else bad) s
      })"

declare used_bad.simps [code]

text \<open>
  One block is erased, programmed, read back and erased again.  The page address
  is advanced before the first access, so that page 0 is skipped and the last
  access is to page 0 of the next block.
\<close>

fun repair_pass ::
  "(nand \<Rightarrow> (int \<times> nand) option) \<Rightarrow> (int \<Rightarrow> nand \<Rightarrow> bool) \<Rightarrow> ptr \<Rightarrow> ptr \<Rightarrow> nat \<Rightarrow> nand \<Rightarrow> (bool \<times> nand) option" where
  "repair_pass f bad dat oob 0 s = Some (True, s)"
| "repair_pass f bad dat oob (Suc n) s = do {
     let s = set_page_addr (op_page_addr (ops_para s) + 1) s;
     (ret, s) \<leftarrow> f (s\<lparr>mem := memset oob 0 (unat (oobsize (flash s))) (memset dat 0 (unat (pagesize (flash s))) (mem s))\<rparr>);
     if bad ret s then Some (False, s) else repair_pass f bad dat oob n s
   }"

definition repair_at :: "ptr \<Rightarrow> ptr \<Rightarrow> u32 \<Rightarrow> nand \<Rightarrow> nand" where
  "repair_at dat oob blk s =
     s\<lparr>ops_para := (ops_para s)\<lparr>op_page_addr := resv_page blk s, op_data_buf := dat, op_oob_buf := oob\<rparr>\<rparr>"

definition repair_block :: "chip_operation \<Rightarrow> ptr \<Rightarrow> ptr \<Rightarrow> u32 \<Rightarrow> nand \<Rightarrow> nand option" where
  "repair_block ct dat oob blk s = do {
     let n = unat (pages_per_blk (flash s));
     let bad_again = (\<lambda>s. do { (_, s) \<leftarrow> ct_blk_modify_bbt ct 1 s; Some s });
     s \<leftarrow> at_block ct blk s;
     (_, s) \<leftarrow> ct_blk_modify_bbt ct 0 s;
     (ret, s) \<leftarrow> ct_erase_block ct s;
     if ret \<noteq> 0 then bad_again s
     else do {
       (ok, s) \<leftarrow> repair_pass (ct_write_page ct) (\<lambda>ret s. ret \<noteq> 0) dat oob n (repair_at dat oob blk s);
       if \<not> ok then bad_again (set_page_addr (resv_page blk s) s)
       else do {
         (ok, s) \<leftarrow> repair_pass (ct_read_page ct) failed_read dat oob n (repair_at dat oob blk s);
         if \<not> ok then bad_again (set_page_addr (resv_page blk s) s)
         else do {
           (ret, s) \<leftarrow> ct_erase_block ct (set_page_addr (resv_page blk s) s);
           if ret \<noteq> 0 then bad_again s else Some s
         }
       }
     }
   }"

fun repair_blocks :: "chip_operation \<Rightarrow> ptr \<Rightarrow> ptr \<Rightarrow> u32 list \<Rightarrow> nand \<Rightarrow> nand option" where
  "repair_blocks ct dat oob [] s = Some s"
| "repair_blocks ct dat oob (b # bs) s = do { s \<leftarrow> repair_block ct dat oob b s; repair_blocks ct dat oob bs s }"

definition repair_reserved_bad_block ::
  "chip_operation \<Rightarrow> (u32 \<Rightarrow> ptr) \<Rightarrow> nand \<Rightarrow> (int \<times> nand) option" where
  "repair_reserved_bad_block ct malloc s =
     (let f = flash s; dat = malloc (pagesize f); oob = malloc (oobsize f);
          s = s\<lparr>ops_para := ops_zero\<rparr>
      in if dat = NULL then Some (- 1, s)
         else if oob = NULL then Some (- 1, s\<lparr>mem := memset dat 0 (unat (pagesize f)) (mem s)\<rparr>)
         else do {
           let s = s\<lparr>mem := memset oob 0 (unat (oobsize f)) (memset dat 0 (unat (pagesize f)) (mem s))\<rparr>;
           ((last_blk, bad), s) \<leftarrow> used_bad ct 0 (resv_start f) [] s;
           s \<leftarrow> (if 6 < length bad
             then do {
               s \<leftarrow> ct_get_chip ct s;
               s \<leftarrow> repair_blocks ct dat oob bad s;
               (_, s) \<leftarrow> amlnand_update_bbt ct (nand_release_chip s);
               Some s
             }
             else Some s);
           Some (uint last_blk, s)
         })"

end
