(* ===== verification/InfoFrame.thy ===== *)
theory InfoFrame
  imports DevFrame InfoStore
begin

text \<open>
  The frame rules of the record store (\<open>phy/chipenv.c\<close>): a relation that the chip
  operations and the updates of the store's own fields preserve is preserved by
  every operation of the store, the loops included.
\<close>

section \<open>What the record store preserves\<close>

context lock_frame
begin

lemma I_select: "R s t \<Longrightarrow> framed1 R s (select_resv ct blk p t)"
  unfolding select_resv_def using framedD [OF framed_call [OF D_ops ct_select]]
  by (auto simp: framed1_def bind_eq_Some_conv)

lemma I_at_block: "R s t \<Longrightarrow> framed1 R s (at_block ct blk t)"
  unfolding at_block_def by (rule I_select)

lemma I_locked:
  assumes "\<And>u. R s u \<Longrightarrow> framed R s (f u)" "R s t"
  shows "framed R s (locked_call ct f t)"
  unfolding locked_call_def
  using D_get_chip [OF assms(2)] assms
  by (auto simp: framed_def framed1_def bind_eq_Some_conv split: if_splits intro!: D_release_chip)

lemma I_locked_erase: "R s t \<Longrightarrow> framed R s (locked_call ct (ct_erase_block ct) t)"
  by (rule I_locked [OF framed_call [OF _ ct_erase]])

lemma last_reserve_R: "last_reserve ct n b t = Some x \<Longrightarrow> R t (snd x)"
proof -
  have "last_reserve ct' n b t = Some x \<Longrightarrow> ct' = ct \<longrightarrow> R t (snd x)" for ct' x
  proof (erule last_reserve.raw_induct [rotated], intro impI, goal_cases)
    case (1 self ct' n b t x)
    have self: "framed R t (self ct n b u)" if "R t u" for n b u
      using 1(1) that trans by (fastforce simp: framed_def)
    have "framed R t (if RESERVED_BLOCK_CNT \<le> n then Some (b, t) else at_block ct b t \<bind> (\<lambda>s. ct_block_isbad ct s \<bind>
        (\<lambda>(ret, s). self ct (if ret = uint NAND_BLOCK_FACTORY_BAD then n else n + 1) (b + 1) s)))"
      by (auto intro!: framed_if framed_Some framed_bind1 [OF I_at_block] framed_bind [OF framed_call [OF _ ct_isbad]]
          self refl)
    then show ?case
      using 1(2-) by (cases x) (auto simp: framed_def)
  qed
  then show "last_reserve ct n b t = Some x \<Longrightarrow> R t (snd x)"
    by blast
qed

lemma I_last: "R s t \<Longrightarrow> framed R s (get_last_reserve_block ct t)"
  unfolding get_last_reserve_block_def using D_ops last_reserve_R trans by (fastforce simp: framed_def)

end

locale info_frame = dev_frame +
  assumes up_mem: "R s (s\<lparr>mem := m\<rparr>)"
    and up_arg: "R s (set_arg i a s)"
    and up_resv: "R s (s\<lparr>reserved_blk := bs\<rparr>)"
    and up_ran: "R s (s\<lparr>controller := (controller s)\<lparr>ran_mode := b\<rparr>\<rparr>)"
begin

lemma I_mem: "R s t \<Longrightarrow> R s (t\<lparr>mem := m\<rparr>)"
  using trans [OF _ up_mem] by blast

lemma I_arg: "R s t \<Longrightarrow> R s (set_arg i a t)"
  using trans [OF _ up_arg] by blast

lemma I_resv: "R s t \<Longrightarrow> R s (t\<lparr>reserved_blk := bs\<rparr>)"
  using trans [OF _ up_resv] by blast

lemma I_ran: "R s t \<Longrightarrow> R s (t\<lparr>controller := (controller t)\<lparr>ran_mode := b\<rparr>\<rparr>)"
  using trans [OF _ up_ran] by blast

lemma I_free_scan: "R s t \<Longrightarrow> framed R s (free_scan ct block bs t)"
proof (induction bs arbitrary: t)
  case (Cons b bs)
  then show ?case
    unfolding free_scan.simps Let_def
    by (auto intro!: framed_if framed_bind1 [OF I_at_block] framed_bind [OF framed_call [OF _ ct_isbad]]
        framed_bind [OF I_locked_erase] framed_bind [OF framed_call [OF _ ct_markbad]] framed_Some)
qed (simp add: framed_Some)

lemma I_get_free: "R s t \<Longrightarrow> framed R s (amlnand_get_free_block ct block t)"
  unfolding amlnand_get_free_block_def Let_def
  by (auto intro!: framed_bind [OF I_last] I_free_scan D_ops)

lemma I_bufs: "R s t \<Longrightarrow> R s (info_bufs d t)" "R s t \<Longrightarrow> R s (fill_bufs v t)" "R s t \<Longrightarrow> R s (user_bufs t)"
  unfolding info_bufs_def fill_bufs_def user_bufs_def using I_mem [OF D_ops] I_mem D_ops by auto

lemma I_page_op: "R s t \<Longrightarrow> framed R s (locked_call ct (ct_write_page ct) t)" "R s t \<Longrightarrow> framed R s (locked_call ct (ct_read_page ct) t)"
  by (rule I_locked [OF framed_call [OF _ ct_write]], assumption+)
    (rule I_locked [OF framed_call [OF _ ct_read]], assumption+)

lemma I_put_page: "R s t \<Longrightarrow> framed R s (put_page ct name ts buf whole amount blk page t)"
  unfolding put_page_def Let_def by (intro framed_bind1 [OF I_select] I_page_op I_mem I_bufs)

lemma I_put_paired: "R s t \<Longrightarrow> framed R s (put_paired ct t)"
  unfolding put_paired_def Let_def
  using I_ran [THEN D_ops]
  by (auto intro!: framed_bind [OF I_page_op(1)] framed_Some I_bufs)

lemma I_put_dummy: "R s t \<Longrightarrow> framed R s (put_dummy ct blk page t)"
  unfolding put_dummy_def
  by (auto intro!: framed_bind1 [OF I_select] framed_bind [OF I_page_op(1)] I_bufs I_put_paired)

lemma I_page_failed: "R s t \<Longrightarrow> framed R s (page_failed ct blk tc ret t)"
  unfolding page_failed_def
  by (auto intro!: framed_if framed_Some framed_bind [OF framed_call [OF _ ct_test]] framed_bind [where R = R]
      framed_call [OF _ ct_markbad] framed_call [OF _ ct_test])

lemma I_read_resv: "R s t \<Longrightarrow> framed R s (read_resv ct data blk page t)"
  unfolding read_resv_def by (intro framed_bind1 [OF I_select] I_page_op I_bufs)

lemma read_pages_R: "read_pages ct i buf name sz amount off ret t = Some x \<Longrightarrow> R t (snd x)"
proof -
  have "read_pages ct' i buf name sz amount off ret t = Some x \<Longrightarrow> ct' = ct \<longrightarrow> R t (snd x)" for ct' x
  proof (erule read_pages.raw_induct [rotated], intro impI, goal_cases)
    case (1 self ct' i buf name sz amount off ret t x)
    note body = 1(2) [unfolded 1(3)]
    have self: "framed R t (self ct i buf name sz amount off ret u)" if "R t u" for amount off ret u
      using 1(1) that trans by (fastforce simp: framed_def)
    have "framed R t (Some x)"
      unfolding body [symmetric] Let_def
      by (auto intro!: framed_if framed_Some framed_bind [where R = R] framed_bind1 [where R = R] self refl
          I_read_resv I_mem split: save_out.splits)
    then show ?case
      by (cases x) (auto simp: framed_def)
  qed
  then show "read_pages ct i buf name sz amount off ret t = Some x \<Longrightarrow> R t (snd x)"
    by blast
qed

lemma I_read_pages: "R s t \<Longrightarrow> framed R s (read_pages ct i buf name sz amount off ret t)"
  using read_pages_R trans by (fastforce simp: framed_def)

lemma I_note: "R s t \<Longrightarrow> R s (note_block i name blk t)"
  unfolding note_block_def using I_arg by simp

lemma scan_pages_R: "scan_pages ct info name sz pages blk failed ph i ret t = Some x \<Longrightarrow> R t (snd x)"
proof -
  have "scan_pages ct' info name sz pages blk failed ph i ret t = Some x \<Longrightarrow> ct' = ct \<longrightarrow> R t (snd x)" for ct' x
  proof (erule scan_pages.raw_induct [rotated], intro impI, goal_cases)
    case (1 self ct' info name sz pages blk failed ph i ret t x)
    note body = 1(2) [unfolded 1(3)]
    have self: "framed R t (self ct info name sz pages blk failed ph i ret u)" if "R t u" for failed ph i ret u
      using 1(1) that trans by (fastforce simp: framed_def)
    have "framed R t (Some x)"
      unfolding body [symmetric] Let_def
      by (auto intro!: framed_if framed_Some framed_bind [where R = R] framed_bind1 [where R = R] self refl
          I_select D_get_chip framed_call [OF _ ct_read] D_release_chip I_note I_bufs split: prod.splits)
    then show ?case
      by (cases x) (auto simp: framed_def)
  qed
  then show "scan_pages ct info name sz pages blk failed ph i ret t = Some x \<Longrightarrow> R t (snd x)"
    by blast
qed

lemma I_scan_pages: "R s t \<Longrightarrow> framed R s (scan_pages ct info name sz pages blk failed ph i ret t)"
  using scan_pages_R trans by (fastforce simp: framed_def)

lemma find_copy_R: "find_copy ct info name sz pages i ret t = Some x \<Longrightarrow> R t (snd x)"
proof -
  have "find_copy ct' info name sz pages i ret t = Some x \<Longrightarrow> ct' = ct \<longrightarrow> R t (snd x)" for ct' x
  proof (erule find_copy.raw_induct [rotated], intro impI, goal_cases)
    case (1 self ct' info name sz pages i ret t x)
    note body = 1(2) [unfolded 1(3)]
    have self: "framed R t (self ct info name sz pages i ret u)" if "R t u" for i ret u
      using 1(1) that trans by (fastforce simp: framed_def)
    have "framed R t (Some x)"
      unfolding body [symmetric] Let_def
      by (auto intro!: framed_if framed_Some framed_bind [where R = R] framed_bind1 [where R = R] self refl
          I_read_resv I_arg split: save_out.splits)
    then show ?case
      by (cases x) (auto simp: framed_def)
  qed
  then show "find_copy ct info name sz pages i ret t = Some x \<Longrightarrow> R t (snd x)"
    by blast
qed

lemma I_find_copy: "R s t \<Longrightarrow> framed R s (find_copy ct info name sz pages i ret t)"
  using find_copy_R trans by (fastforce simp: framed_def)

lemma save_pages_R: "save_pages ct fb name ts buf whole blk base amount off tc ret t = Some x \<Longrightarrow> R t (snd x)"
proof -
  have "save_pages ct' fb name ts buf whole blk base amount off tc ret t = Some x \<Longrightarrow> ct' = ct \<longrightarrow> R t (snd x)" for ct' x
  proof (erule save_pages.raw_induct [rotated], intro impI, goal_cases)
    case (1 self ct' fb name ts buf whole blk base amount off tc ret t x)
    note body = 1(2) [unfolded 1(3)]
    have self: "framed R t (self ct fb name ts buf whole blk base amount off tc ret u)" if "R t u" for amount off ret u
      using 1(1) that trans by (fastforce simp: framed_def)
    have "framed R t (Some x)"
      unfolding body [symmetric] Let_def
      by (auto intro!: framed_if framed_Some framed_bind [where R = R] framed_bind1 [where R = R] self refl
          I_put_page I_page_failed framed_call [OF _ ct_select] I_put_paired I_put_dummy split: save_out.splits)
    then show ?case
      by (cases x) (auto simp: framed_def)
  qed
  then show "save_pages ct fb name ts buf whole blk base amount off tc ret t = Some x \<Longrightarrow> R t (snd x)"
    by blast
qed

lemma I_save_pages: "R s t \<Longrightarrow> framed R s (save_pages ct fb name ts buf whole blk base amount off tc ret t)"
  using save_pages_R trans by (fastforce simp: framed_def)

lemma save_copies_R: "save_copies ct name ts buf whole arg_pages pages blk i tc ret t = Some x \<Longrightarrow> R t (snd x)"
proof -
  have "save_copies ct' name ts buf whole arg_pages pages blk i tc ret t = Some x \<Longrightarrow> ct' = ct \<longrightarrow> R t (snd x)" for ct' x
  proof (erule save_copies.raw_induct [rotated], intro impI, goal_cases)
    case (1 self ct' name ts buf whole arg_pages pages blk i tc ret t x)
    note body = 1(2) [unfolded 1(3)]
    have self: "framed R t (self ct name ts buf whole arg_pages pages blk i tc ret u)" if "R t u" for i tc ret u
      using 1(1) that trans by (fastforce simp: framed_def)
    have "framed R t (Some x)"
      unfolding body [symmetric] Let_def
      by (auto intro!: framed_if framed_Some framed_bind [where R = R] framed_bind1 [where R = R] self refl
          I_put_dummy I_save_pages split: save_out.splits)
    then show ?case
      by (cases x) (auto simp: framed_def)
  qed
  then show "save_copies ct name ts buf whole arg_pages pages blk i tc ret t = Some x \<Longrightarrow> R t (snd x)"
    by blast
qed

lemma I_save_copies: "R s t \<Longrightarrow> framed R s (save_copies ct name ts buf whole arg_pages pages blk i tc ret t)"
  using save_copies_R trans by (fastforce simp: framed_def)

lemma I_choose: "R s t \<Longrightarrow> framed R s (choose_block ct info arg_pages pages blk full t)"
  unfolding choose_block_def Let_def by (auto intro!: framed_if framed_Some framed_bind [OF I_get_free])

lemma save_attempt_R: "save_attempt ct info name ts buf whole arg_pages pages blk full tc t = Some x \<Longrightarrow> R t (snd x)"
proof -
  have "save_attempt ct' info name ts buf whole arg_pages pages blk full tc t = Some x \<Longrightarrow> ct' = ct \<longrightarrow> R t (snd x)" for ct' x
  proof (erule save_attempt.raw_induct [rotated], intro impI, goal_cases)
    case (1 self ct' info name ts buf whole arg_pages pages blk full tc t x)
    note body = 1(2) [unfolded 1(3)]
    have self: "framed R t (self ct info name ts buf whole arg_pages pages blk full tc u)" if "R t u" for blk full tc u
      using 1(1) that trans by (fastforce simp: framed_def)
    have "framed R t (Some x)"
      unfolding body [symmetric] Let_def
      by (auto intro!: framed_if framed_Some framed_bind [where R = R] framed_bind1 [where R = R] self refl
          I_choose I_save_pages I_save_copies split: save_out.splits)
    then show ?case
      by (cases x) (auto simp: framed_def)
  qed
  then show "save_attempt ct info name ts buf whole arg_pages pages blk full tc t = Some x \<Longrightarrow> R t (snd x)"
    by blast
qed

lemma I_save_attempt: "R s t \<Longrightarrow> framed R s (save_attempt ct info name ts buf whole arg_pages pages blk full tc t)"
  using save_attempt_R trans by (fastforce simp: framed_def)

lemma I_erase_old: "R s t \<Longrightarrow> framed R s (erase_old ct old t)"
  unfolding erase_old_def resv_block_ops_def unreserve_blk_def Let_def
  by (auto intro!: framed_bind [where R = R] framed_call [OF _ ct_select] D_ops I_locked_erase framed_if framed_Some
      framed_call [OF _ ct_test] framed_call [OF _ ct_markbad] I_resv)

lemma I_finish: "R s t \<Longrightarrow> framed R s (finish_save ct info arg_pages blk full ret t)"
  unfolding finish_save_def reserve_blk_def Let_def
  by (auto intro!: I_erase_old framed_Some I_arg I_resv)

lemma I_round: "R s t \<Longrightarrow> framed R s (save_round ct info name buf whole arg_pages pages blk tc t)"
  unfolding save_round_def stamp_next_def Let_def
  by (auto intro!: framed_bind [where R = R] I_save_attempt D_ops I_arg framed_if framed_Some I_finish)

lemma I_slc: "R s t \<Longrightarrow> R s (slc_option t)"
  unfolding slc_option_def using D_ops by simp

lemma I_save_info: "R s t \<Longrightarrow> framed R s (amlnand_save_info_by_name ct info buf name sz t)"
  unfolding amlnand_save_info_by_name_def Let_def
  by (auto intro!: framed_if framed_Some framed_bind [where R = R] I_round I_slc I_arg)

lemma I_read_info: "R s t \<Longrightarrow> framed R s (amlnand_read_info_by_name ct info buf name sz t)"
  unfolding amlnand_read_info_by_name_def Let_def
  by (auto intro!: framed_if framed_Some I_read_pages I_slc D_ops)

lemma I_scan_blocks: "R s t \<Longrightarrow> framed R s (scan_blocks ct info name sz pages bs ret t)"
proof (induction bs arbitrary: ret t)
  case (Cons b bs)
  then show ?case
    unfolding scan_blocks.simps Let_def
    by (auto intro!: framed_bind1 [OF I_at_block] framed_bind [OF framed_call [OF _ ct_isbad]] framed_if
        framed_bind [OF I_scan_pages] framed_Some)
qed (simp add: framed_Some)

lemma I_check_info: "R s t \<Longrightarrow> framed R s (amlnand_check_info_by_name ct info name sz t)"
  unfolding amlnand_check_info_by_name_def reserve_blk_def Let_def
  by (auto intro!: framed_bind [where R = R] I_scan_blocks I_slc D_ops framed_if framed_Some I_find_copy I_resv)

lemma I_info_init: "R s t \<Longrightarrow> framed R s (amlnand_info_init ct info buf name sz t)"
  unfolding amlnand_info_init_def
  by (auto intro!: framed_bind [OF I_check_info] framed_bind [OF I_read_info] framed_if framed_Some)

lemma I_update_bbt: "R s t \<Longrightarrow> framed R s (amlnand_update_bbt ct t)"
  unfolding amlnand_update_bbt_def Let_def by (auto intro!: framed_if framed_None I_save_info I_mem)

end

section \<open>Calls on the store\<close>

datatype info_req = InfoSave info_id ptr string u32 | InfoRead info_id ptr string u32 | InfoInit info_id ptr string u32
  | InfoFreeBlock u32 | InfoUpdateBbt

fun info_call :: "chip_operation \<Rightarrow> info_req \<Rightarrow> nand \<Rightarrow> (int \<times> nand) option" where
  "info_call ct (InfoSave i buf name sz) s = amlnand_save_info_by_name ct i buf name sz s"
| "info_call ct (InfoRead i buf name sz) s = amlnand_read_info_by_name ct i buf name sz s"
| "info_call ct (InfoInit i buf name sz) s = amlnand_info_init ct i buf name sz s"
| "info_call ct (InfoFreeBlock b) s = amlnand_get_free_block ct b s"
| "info_call ct InfoUpdateBbt s = amlnand_update_bbt ct s"

context info_frame
begin

lemma I_call: "info_call ct req s = Some (r, t) \<Longrightarrow> R s t"
  using I_save_info [OF refl] I_read_info [OF refl] I_info_init [OF refl] I_get_free [OF refl] I_update_bbt [OF refl]
  by (cases req) (auto simp: framed_def)

end

section \<open>The guard and the record store\<close>

sublocale guarded_table \<subseteq> info: info_frame guarded "chip_table hw hk ub"
proof unfold_locales
  fix s :: nand and m i a bs b
  show "guarded s (s\<lparr>mem := m\<rparr>)" "guarded s (s\<lparr>reserved_blk := bs\<rparr>)"
    "guarded s (s\<lparr>controller := (controller s)\<lparr>ran_mode := b\<rparr>\<rparr>)"
    by (simp_all add: guarded_def bus_safe_def ce_ok_def)
  show "guarded s (set_arg i a s)"
    by (cases i) (simp_all add: guarded_def bus_safe_def ce_ok_def)
qed

context guarded_table
begin

lemma update_bbt_guarded: "framed guarded s (amlnand_update_bbt (chip_table hw hk ub) s)"
  by (rule info.I_update_bbt [OF guarded_refl])

end

lemma bbt_writer_guarded: "hooks_safe hk \<Longrightarrow> framed guarded s (bbt_writer hw hk n s)"
proof (induction n arbitrary: s)
  case (Suc n)
  then have "guarded_table hk (bbt_writer hw hk n)"
    by (intro guarded_table.intro safe_hooks.intro guarded_table_axioms.intro)
  then show ?case
    using guarded_table.update_bbt_guarded by simp
qed (simp add: framed_None)

end
