(* ===== verification/InfoProps.thy ===== *)
theory InfoProps
  imports PhyDevProps InfoFrame "HOL-Library.Multiset"
begin

text \<open>
  Properties of the record store: refusal to write records, what the checksums
  cover, how free blocks are chosen and blocks change hands, how the newest copy
  of a record is found.
\<close>

section \<open>Refusing to write records\<close>

text \<open>
  Unless the \<open>allow_meta\<close> parameter is set no record is ever saved: the bad
  block table, configuration, keys and environment on the flash stay as they
  are, whatever else is allowed, and the call leaves the state untouched.
\<close>

theorem meta_write_refused:
  assumes "amlnf_allow_meta (amlnf s) = 0"
  shows "amlnand_save_info_by_name ct info buf name sz s = Some (- EROFS, s)
    \<and> (block_status s \<noteq> NULL \<longrightarrow> (\<exists>m. amlnand_update_bbt ct s = Some (- EROFS, s\<lparr>mem := m\<rparr>)))"
  using assms by (auto simp: amlnand_save_info_by_name_def amlnand_update_bbt_def Let_def)

theorem meta_write_refused_witness:
  "amlnand_save_info_by_name (chip_table demo_hw plain_hooks (\<lambda>s. Some (0, s))) KeyInfo 0 ''nkey'' 4096 demo_nand = Some (- EROFS, demo_nand)"
  using meta_write_refused [of demo_nand] by (simp add: demo_nand_def guard_init_def)

section \<open>Checksums\<close>

lemma checksum_from_sum: "checksum_from m p n acc = acc + of_nat (\<Sum>i<n. unat (m (p + i)))"
proof (induction n arbitrary: p acc)
  case (Suc n)
  have "(\<Sum>i<Suc n. unat (m (p + i))) = unat (m p) + (\<Sum>i<n. unat (m (p + 1 + i)))"
    by (subst sum.lessThan_Suc_shift) simp
  then show ?case
    using Suc [of "p + 1" "acc + ucast (m p)"] by (simp add: add.assoc)
qed simp

text \<open>
  The checksum is the sum of the bytes modulo \<open>2 ^ 32\<close>.  The table that
  \<open>amlnand_update_bbt\<close> prepares passes the check, but the check reads as many
  bytes as the table has entries, and an entry has two bytes: any change of the
  second half of the table (chips 2 and 3) goes unnoticed.
\<close>

theorem bbt_checksum_covers_half:
  assumes p: "p = block_status s"
    and m: "\<forall>a. a < p + 4 + 4 * 8192 \<longrightarrow> mem t a = st32 p (aml_info_checksum (mem s) (p + 4) (4 * 8192)) (mem s) a"
  shows "aml_info_check_datasum p ''nbbt'' t = 0
    \<and> aml_info_checksum (mem s) (p + 4) (4 * 8192) = of_nat (\<Sum>i<4 * 8192. unat (mem s (p + 4 + i)))"
proof -
  let ?c = "aml_info_checksum (mem s) (p + 4) (4 * 8192)"
  have "ld32 (mem t) p = ld32 (st32 p ?c (mem s)) p"
    using m by (simp add: ld32_def)
  moreover have "mem t (p + 4 + i) = mem s (p + 4 + i)" if "i < 4 * 8192" for i
    using m that by (simp add: st32_def)
  then have "(\<Sum>i<4 * 8192. unat (mem t (p + 4 + i))) = (\<Sum>i<4 * 8192. unat (mem s (p + 4 + i)))"
    by (intro sum.cong) (simp_all only: lessThan_iff)
  then have "aml_info_checksum (mem t) (p + 4) (4 * 8192) = ?c"
    by (simp only: aml_info_checksum_def checksum_from_sum)
  ultimately show ?thesis
    by (simp add: aml_info_check_datasum_def Let_def aml_info_checksum_def checksum_from_sum)
qed

theorem bbt_checksum_covers_half_witness:
  "aml_info_check_datasum 600000 ''nbbt'' (demo_nand\<lparr>mem := (\<lambda>_. 0)(600004 + 2 * 8192 * 2 := 1)\<rparr>) = 0"
proof -
  have "aml_info_checksum (\<lambda>_. 0) 600004 (4 * 8192) = 0"
    by (simp add: aml_info_checksum_def checksum_from_sum)
  then show ?thesis
    using bbt_checksum_covers_half [of 600000 demo_nand "demo_nand\<lparr>mem := (\<lambda>_. 0)(600004 + 2 * 8192 * 2 := 1)\<rparr>"]
    by (simp add: demo_nand_def st32_def)
qed

section \<open>The newest copy\<close>

definition noted :: "(u16 \<times> u16) list \<Rightarrow> nand_arg_info \<Rightarrow> nand_arg_info" where
  "noted obs a = fold (\<lambda>(blk, ts). note_arg blk ts) obs a"

lemma note_arg_valid: "arg_valid (note_arg b ts a) = 1"
  by (simp add: note_arg_def)

lemma noted_newest:
  assumes "arg_valid a = 1"
  shows "let r = noted obs a in arg_valid r = 1 \<and> timestamp r = fold max (map snd obs) (timestamp a)
    \<and> (valid_blk_addr r, timestamp r) \<in> set ((valid_blk_addr a, timestamp a) # obs)"
  using assms
proof (induction obs arbitrary: a)
  case (Cons x obs)
  obtain b ts where x: "x = (b, ts)"
    by (cases x)
  have "timestamp (note_arg b ts a) = max ts (timestamp a)"
    "valid_blk_addr (note_arg b ts a) = (if timestamp a < ts then b else valid_blk_addr a)"
    using Cons.prems by (auto simp: note_arg_def max_def)
  then show ?case
    using Cons.IH [of "note_arg b ts a"] note_arg_valid [of b ts a]
    by (auto simp: noted_def x Let_def max_def split: if_splits)
qed (simp add: noted_def)

lemma fold_max_ge: "z \<le> fold max xs z \<and> (\<forall>y\<in>set xs. y \<le> fold max xs z)" for z :: "'a :: linorder"
proof (induction xs arbitrary: z)
  case (Cons x xs)
  show ?case
    using Cons [of "max x z"] by simp
qed simp

section \<open>What page and block operations leave of the store\<close>

context full_frame
begin

lemma F_write_mark: "R s t \<Longrightarrow> framed R s (write_mark hw hk t)"
  unfolding write_mark_def Let_def
  by (intro framed_bind [OF R_select])
    (auto intro!: framed_bind [OF W_write_page] framed_bind1 [OF R_get_chip] R_mem R_ops framed_Some R_release_chip)

lemma F_block_markbad:
  assumes "R s t" "\<And>u. R s u \<Longrightarrow> framed R s (ub u)"
  shows "framed R s (block_markbad hw hk ub t)"
  unfolding block_markbad_def Let_def
  by (intro framed_if framed_Some R_refuse \<open>R s t\<close> R_die F_write_mark framed_bind [OF assms(2)] R_mark_table)
    (simp add: F_write_mark)

end

definition store_same :: "nand \<Rightarrow> nand \<Rightarrow> bool" where
  "store_same s t \<longleftrightarrow> (\<forall>i. arg_of i t = arg_of i s) \<and> reserved_blk t = reserved_blk s \<and> flash t = flash s
     \<and> user_page_buf t = user_page_buf s \<and> user_oob_buf t = user_oob_buf s \<and> block_status t = block_status s
     \<and> amlnf_readonly (amlnf t) = amlnf_readonly (amlnf s) \<and> chip_num (controller t) = chip_num (controller s)
     \<and> pagelist (slc_info (controller t)) = pagelist (slc_info (controller s))"

lemma arg_of_fields:
  "arg_of i (s\<lparr>mem := m\<rparr>) = arg_of i s" "arg_of i (s\<lparr>ops_para := q\<rparr>) = arg_of i s"
  "arg_of i (s\<lparr>state := st\<rparr>) = arg_of i s" "arg_of i (s\<lparr>controller := c\<rparr>) = arg_of i s"
  "arg_of i (s\<lparr>nand_idleflag := f\<rparr>) = arg_of i s" "arg_of i (s\<lparr>spi_nand_mutex := f\<rparr>) = arg_of i s"
  "arg_of i (s\<lparr>amlnf := g\<rparr>) = arg_of i s" "arg_of i (s\<lparr>max_ecc_per_page := e\<rparr>) = arg_of i s"
  "arg_of i (nfc_event hw ev s) = arg_of i s"
  by (cases i; simp)+

lemma kept_store_same: "kept s t \<Longrightarrow> store_same s t"
proof -
  assume k: "kept s t"
  have "arg_of i t = arg_of i s" for i
    using k by (cases i) (simp_all only: kept_def arg_of.simps)
  then show ?thesis
    using k unfolding store_same_def kept_def by (elim conjE) (intro conjI allI; assumption)
qed

lemma framed_kept_store: "framed kept s x \<Longrightarrow> framed store_same s x"
  by (auto simp: framed_def intro: kept_store_same)

lemma store_same_trans: "store_same s t \<Longrightarrow> store_same t u \<Longrightarrow> store_same s u"
  by (simp add: store_same_def)

sublocale keep_hooks \<subseteq> store: full_frame store_same hw hk
proof unfold_locales
  fix s t u
  show "store_same s t \<Longrightarrow> store_same t u \<Longrightarrow> store_same s u"
    by (rule store_same_trans)
  show "store_same s t \<Longrightarrow> amlnf_readonly (amlnf t) = amlnf_readonly (amlnf s)"
    by (simp add: store_same_def)
qed (simp add: store_same_def arg_of_fields; fail
    | rule framed_kept_store, (rule kept.hk_slc_enter kept.hk_handle kept.hk_exit kept.hk_slc_exit; assumption?)
    | rule kept_store_same, (rule kept.refl kept.ev_rd kept.ev_any kept.up_mem
    kept.up_page kept.up_cur kept.up_zero kept.up_sel kept.up_err kept.up_flip kept.up_ecc kept.up_refuse; assumption?))+

locale store_ops = lock_frame store_same ct for ct :: chip_operation

sublocale keep_hooks \<subseteq> store_table: store_ops "chip_table hw hk ub" for ub
proof unfold_locales
  fix s :: nand and q n st fl mx v blk
  show "store_same s (s\<lparr>state := st\<rparr>)" "store_same s (s\<lparr>nand_idleflag := fl, spi_nand_mutex := mx\<rparr>)"
    by (simp_all add: store_same_def arg_of_fields)
  show "framed store_same s (ct_select_chip (chip_table hw hk ub) n s)"
    "framed store_same s (ct_read_page (chip_table hw hk ub) s)"
    "framed store_same s (ct_write_page (chip_table hw hk ub) s)"
    "framed store_same s (ct_erase_block (chip_table hw hk ub) s)"
    "framed store_same s (ct_block_isbad (chip_table hw hk ub) s)"
    "framed store_same s (ct_test_block_reserved (chip_table hw hk ub) blk s)"
    by (simp_all add: chip_table_def store.R_select store.R_read_page store.W_write_page store.W_erase_block
        store.R_block_isbad store.F_test_block_reserved store.refl)
  show "framed1 store_same s (ct_get_chip (chip_table hw hk ub) s)"
    by (simp add: chip_table_def store.R_get_chip store.refl)
  show "framed store_same s (ct_blk_modify_bbt (chip_table hw hk ub) v s)"
    by (simp add: chip_table_def framed_pair store.R_modify_bbt store.refl)
qed (rule store.up_ops)

section \<open>Free blocks\<close>

definition nonpos :: "(int \<times> nand) option \<Rightarrow> bool" where
  "nonpos x \<longleftrightarrow> (\<forall>r t. x = Some (r, t) \<longrightarrow> r \<le> 0)"

lemma nonposD: "nonpos x \<Longrightarrow> x = Some (r, t) \<Longrightarrow> r \<le> 0"
  by (auto simp: nonpos_def)

lemma nonpos_bind: "(\<And>r t. x = Some (r, t) \<Longrightarrow> nonpos (f (r, t))) \<Longrightarrow> nonpos (x \<bind> f)"
  by (auto simp: nonpos_def bind_eq_Some_conv)

lemma nonpos_rb: "nonpos (controller_quene_rb hw c s)"
  by (auto simp: nonpos_def controller_quene_rb_def Let_def bind_eq_Some_conv c_consts split_beta)

lemmas rb_nonpos = nonposD [OF nonpos_rb]

lemma status_try_nonpos: "fst (status_try hw k s) \<le> 0"
proof (induction "6 - k" arbitrary: k s rule: less_induct)
  case less
  then show ?case
    by (subst status_try.simps) (auto simp: split_beta Let_def c_consts)
qed

lemma status_try_le: "status_try hw k s = (r, t) \<Longrightarrow> r \<le> 0"
  using status_try_nonpos [of hw k s] by simp

lemma nonpos_status: "nonpos (status_chips hw hk b cs s)"
proof (induction cs arbitrary: b s)
  case (Cons c cs)
  show ?case
    unfolding status_chips.simps
    by (rule nonpos_bind) (auto simp: nonpos_def Let_def bind_eq_Some_conv
        dest: rb_nonpos status_try_le nonposD [OF Cons.IH] split: if_splits prod.splits)
qed (simp add: nonpos_def c_consts)

lemma nonpos_planes: "nonpos (erase_planes hw c p0 p1 s)"
  unfolding erase_planes_def Let_def
  by (auto simp: nonpos_def bind_eq_Some_conv dest: rb_nonpos split: if_splits)

lemma nonpos_step:
  "nonpos x \<Longrightarrow> (\<And>t. nonpos (f t)) \<Longrightarrow> nonpos (x \<bind> (\<lambda>(r, t). if r \<noteq> 0 then Some (r, t) else f t))"
  by (rule nonpos_bind) (auto simp: nonpos_def)

lemma nonpos_fifo: "(\<And>t. nonpos (f t)) \<Longrightarrow> nonpos (x \<bind> f)" for x :: "nand option"
  by (cases x) (simp_all add: nonpos_def)

lemma nonpos_zero: "nonpos (x \<bind> (\<lambda>(_, s). Some (0, f s)))"
  by (auto simp: nonpos_def bind_eq_Some_conv)

lemma nonpos_chips: "nonpos (erase_chips hw hk multi slc p0 p1 cs s)"
proof (induction cs arbitrary: s)
  case (Cons c cs)
  show ?case
    unfolding erase_chips.simps
    by (rule nonpos_step nonpos_rb nonpos_fifo Cons.IH)+ (simp add: nonpos_planes nonpos_zero Let_def,
        rule nonpos_fifo, rule Cons.IH)
qed (simp add: nonpos_def)

lemma erase_block_nonpos: "nonpos (erase_block hw hk s)"
  unfolding erase_block_def Let_def
  by (auto simp: nonpos_def bind_eq_Some_conv c_consts dest: nonposD [OF nonpos_chips] nonposD [OF nonpos_status]
      split: if_splits)

context keep_hooks
begin

lemma free_scan_fresh:
  assumes "free_scan (chip_table hw hk ub) block bs s = Some (r, t)" "0 \<le> r"
  shows "nat r \<in> set bs \<and> of_nat (nat r) \<noteq> block \<and> \<not> blk_used (of_nat (nat r)) t"
  using assms
proof (induction bs arbitrary: s)
  case Nil
  then show ?case
    by (simp add: c_consts)
next
  case (Cons b bs)
  let ?ct = "chip_table hw hk ub"
  show ?case
  proof (cases "blk_used (of_nat b) s \<or> block = of_nat b")
    case True
    then show ?thesis
      using Cons by (auto simp: Let_def)
  next
    case False
    then obtain s1 s2 ret where s1: "at_block ?ct (of_nat b) s = Some s1" "ct_block_isbad ?ct s1 = Some (ret, s2)"
      and body: "(if ret = uint NAND_BLOCK_FACTORY_BAD then free_scan ?ct block bs s2
        else locked_call ?ct (ct_erase_block ?ct) s2 \<bind> (\<lambda>(ret, s).
          if ret < 0 then ct_block_markbad ?ct s \<bind> (\<lambda>(_, s). free_scan ?ct block bs s)
          else Some (if ret = 0 then int b else ret, s))) = Some (r, t)"
      using Cons.prems(1) by (auto simp: Let_def bind_eq_Some_conv split: prod.splits)
    have same: "store_same s s2"
      using s1 store_table.I_at_block [OF store.refl] store_table.ct_isbad store_same_trans
      by (metis framed1_def framed_def)
    show ?thesis
    proof (cases "ret = uint NAND_BLOCK_FACTORY_BAD")
      case True
      then show ?thesis
        using body Cons.IH Cons.prems(2) by auto
    next
      case other: False
      then obtain e s3 where s3: "locked_call ?ct (ct_erase_block ?ct) s2 = Some (e, s3)"
        using body by (auto simp: bind_eq_Some_conv)
      have "e \<le> 0"
        using s3 by (auto simp: locked_call_def chip_table_def bind_eq_Some_conv dest: nonposD [OF erase_block_nonpos]
            split: if_splits)
      show ?thesis
      proof (cases "e < 0")
        case True
        then show ?thesis
          using body other s3 Cons.IH Cons.prems(2) by (auto simp: bind_eq_Some_conv split: prod.splits)
      next
        case False
        then have "r = int b" "t = s3"
          using body other s3 \<open>e \<le> 0\<close> by auto
        moreover have "store_same s s3"
          using same s3 store_table.I_locked_erase [OF store.refl] store_same_trans by (metis framed_def)
        ultimately show ?thesis
          using \<open>\<not> (blk_used (of_nat b) s \<or> block = of_nat b)\<close> by (auto simp: blk_used_def store_same_def)
      qed
    qed
  qed
qed

end



definition rw_nand :: nand where
  "rw_nand = demo_nand\<lparr>nand_status := 1, amlnf := guard_init\<lparr>amlnf_readonly := 0\<rparr>, reserved_blk := 5 # replicate 47 0xff\<rparr>"

definition like_rw :: "u8 list \<Rightarrow> nand \<Rightarrow> bool" where
  "like_rw bs u \<longleftrightarrow> mem u = (\<lambda>_. 0) \<and> block_status u = 600000 \<and> flash u = demo_flash \<and> state u = CHIP_READY
     \<and> nand_status u = 1 \<and> amlnf_readonly (amlnf u) = 0 \<and> \<not> spi_nand_mutex u \<and> chip_num (controller u) = 1
     \<and> reserved_blk u = bs"

lemma like_rw_status: "like_rw bs u \<Longrightarrow> get_blcok_status c b u = 0"
  by (simp add: like_rw_def get_blcok_status_def blk_status_def ld16_def c_consts)

lemma like_rw_chips: "like_rw bs u \<Longrightarrow> isbad_chips m cs b 0 u = 0"
  by (induction cs) (cases m; simp add: like_rw_status)+

lemma demo_dma: "dma_mem demo_hw evs m = m"
  by (simp add: demo_hw_def)

abbreviation "rw_table \<equiv> chip_table demo_hw plain_hooks (\<lambda>s. Some (0, s))"

lemma like_rw_isbad: "like_rw bs u \<Longrightarrow> \<exists>v. ct_block_isbad rw_table u = Some (0, v) \<and> like_rw bs v"
proof -
  assume u: "like_rw bs u"
  then have "like_rw bs (die_adjust u)"
    by (simp add: like_rw_def die_adjust_def Let_def)
  then show ?thesis
    by (simp add: chip_table_def block_isbad_def Let_def isbad_table_def like_rw_status like_rw_chips)
      (simp add: like_rw_def)
qed

lemma like_rw_select: "like_rw bs u \<Longrightarrow> c < 4 \<Longrightarrow> \<exists>v. ct_select_chip rw_table c u = Some (0, v) \<and> like_rw bs v"
  by (simp add: chip_table_def controller_select_chip_def like_rw_def Let_def
      idle_def demo_wait NFC_SEND_CMD_IDLE_def NFC_SEND_CMD_def aml_write_reg32_def demo_dma)

lemma like_rw_at: "like_rw bs u \<Longrightarrow> \<exists>v. at_block rw_table b u = Some v \<and> like_rw bs v"
proof -
  assume u: "like_rw bs u"
  let ?u = "u\<lparr>ops_para := ops_zero\<lparr>op_page_addr := resv_page b u, op_chipnr := 0\<rparr>\<rparr>"
  have "like_rw bs ?u" "resv_chip b u = 0"
    using u by (simp_all add: like_rw_def resv_chip_def)
  then show ?thesis
    using like_rw_select [of bs ?u 0] by (auto simp: at_block_def select_resv_def)
qed

lemma like_rw_last: "like_rw bs u \<Longrightarrow> n \<le> 48 \<Longrightarrow> \<exists>v. last_reserve rw_table n b u = Some (b + of_nat (48 - n), v) \<and> like_rw bs v"
proof (induction "48 - n" arbitrary: n b u)
  case 0
  then show ?case
    by (subst last_reserve.simps) simp
next
  case (Suc k)
  obtain v w where "at_block rw_table b u = Some v" "ct_block_isbad rw_table v = Some (0, w)" "like_rw bs w"
    using like_rw_at [OF Suc.prems(1)] like_rw_isbad by metis
  moreover obtain x where "last_reserve rw_table (n + 1) (b + 1) w = Some (b + 1 + of_nat (48 - (n + 1)), x)" "like_rw bs x"
    using Suc(1) [of "n + 1", OF _ \<open>like_rw bs w\<close>] Suc(2) by fastforce
  moreover have "b + 1 + of_nat (48 - (n + 1)) = b + (of_nat (48 - n) :: u32)"
    using Suc(2) by (simp add: of_nat_diff algebra_simps)
  moreover have "n < 48"
    using Suc(2) by simp
  ultimately show ?case
    by (subst last_reserve.simps) (simp add: c_consts)
qed

lemma like_rw_erase: "like_rw bs u \<Longrightarrow> \<exists>v. locked_call rw_table (ct_erase_block rw_table) u = Some (0, v) \<and> like_rw bs v"
  by (simp add: locked_call_def chip_table_def nand_get_chip_def plain_hooks_def erase_block_def nand_release_chip_def
      like_rw_def Let_def c_consts)

lemma demo_resv_start: "resv_start demo_flash = 4"
  by code_simp


text \<open>
  \<open>get_last_reserve_block\<close> counts 48 blocks that are not factory bad, with no
  bound on the blocks it looks at: on a chip whose blocks are all marked
  factory bad from there on it never returns, and neither does the search for
  a free block.
\<close>

theorem all_factory_bad_hangs:
  assumes "\<And>u r v. ct_block_isbad ct u = Some (r, v) \<Longrightarrow> r = uint NAND_BLOCK_FACTORY_BAD"
  shows "get_last_reserve_block ct s = None \<and> amlnand_get_free_block ct block s = None"
proof -
  have "last_reserve ct' n b t = Some x \<Longrightarrow> ct' = ct \<longrightarrow> RESERVED_BLOCK_CNT \<le> n" for ct' n b t x
    by (erule last_reserve.raw_induct [rotated]) (auto simp: bind_eq_Some_conv split: if_splits dest: assms)
  from this [of ct 0] have "last_reserve ct 0 b t = None" for b t
    by (cases "last_reserve ct 0 b t") auto
  then show ?thesis
    by (simp add: get_last_reserve_block_def amlnand_get_free_block_def)
qed

theorem all_factory_bad_hangs_witness:
  "get_last_reserve_block (rw_table\<lparr>ct_block_isbad := (\<lambda>u. Some (2, u))\<rparr>) rw_nand = None"
  using all_factory_bad_hangs [of "rw_table\<lparr>ct_block_isbad := (\<lambda>u. Some (2, u))\<rparr>" rw_nand] by (simp add: c_consts)

section \<open>The table of blocks in use\<close>

lemma length_replace_first [simp]: "length (replace_first P b xs) = length xs"
  by (induction xs) auto

lemma replace_first_mset:
  "\<exists>x\<in>set xs. P x \<Longrightarrow> \<exists>x. P x \<and> x \<in> set xs \<and> mset (replace_first P b xs) + {#x#} = mset xs + {#b#}"
proof (induction xs)
  case (Cons y ys)
  show ?case
  proof (cases "P y")
    case False
    then obtain x where "P x" "x \<in> set ys" "mset (replace_first P b ys) + {#x#} = mset ys + {#b#}"
      using Cons by auto
    then show ?thesis
      using False by (intro exI [of _ x]) (auto simp: add_mset_commute)
  qed auto
qed simp

lemma replace_first_none: "\<forall>x\<in>set xs. \<not> P x \<Longrightarrow> replace_first P b xs = xs"
  by (induction xs) auto

lemma set_arg_fields [simp]:
  "reserved_blk (set_arg i a s) = reserved_blk s" "arg_of i (set_arg i a s) = a" "flash (set_arg i a s) = flash s"
  by (cases i; simp)+

lemma arg_of_reserve [simp]: "arg_of i (s\<lparr>reserved_blk := bs\<rparr>) = arg_of i s"
  by (cases i) simp_all

lemma mset_moved:
  assumes "0xff \<in> set xs" "ucast old \<in> set xs" "unat (old :: u32) < 255"
  shows "mset (replace_first (\<lambda>b. ucast b = old) 0xff (replace_first (\<lambda>b. b = 0xff) new xs)) + {#ucast old#} =
    mset xs + {#new#}"
proof -
  let ?ys = "replace_first (\<lambda>b. b = 0xff) new xs"
  have ff: "mset ?ys + {#0xff#} = mset xs + {#new#}"
    using replace_first_mset [of xs "\<lambda>b. b = 0xff" new] assms(1) by auto
  have up: "ucast (ucast old :: u8) = old"
    using assms(3) by (intro word_unat_eq_iff [THEN iffD2]) (simp add: unat_trunc)
  have "ucast old \<noteq> (0xff :: u8)"
    using assms(3) up by auto
  moreover have "ucast old \<in># mset ?ys + {#0xff#}"
    unfolding ff using assms(2) by simp
  ultimately have "ucast old \<in># mset ?ys"
    by simp
  then obtain x where "ucast x = old" "mset (replace_first (\<lambda>b. ucast b = old) 0xff ?ys) + {#x#} = mset ?ys + {#0xff#}"
    using replace_first_mset [of ?ys "\<lambda>b. ucast b = old" "0xff"] up by auto
  moreover have "x = ucast old"
    using \<open>ucast x = old\<close> by (auto intro!: bit_word_eqI simp: bit_simps)
  ultimately show ?thesis
    using ff by simp
qed

lemma framed_last: "framed R s x \<Longrightarrow> x \<bind> (\<lambda>(r, t). Some (r, g r t)) = Some (r, t) \<Longrightarrow> \<exists>u. R s u \<and> t = g r u"
  by (auto simp: framed_def bind_eq_Some_conv)

context keep_hooks
begin

lemma erase_old_store:
  assumes "erase_old (chip_table hw hk ub) old s = Some (r, t)" "0 \<le> r"
    and ub: "\<And>u. framed store_same u (ub u)"
  shows "\<exists>u. store_same s u \<and> t = unreserve_blk old u"
proof -
  let ?ct = "chip_table hw hk ub"
  have mark: "framed store_same s (ct_block_markbad ?ct u)" if "store_same s u" for u
    using store.F_block_markbad [OF that store.framed_call [OF _ ub]] by (simp add: chip_table_def)
  have fr: "framed store_same s (ct_select_chip ?ct (resv_chip old (resv_block_ops old s)) (resv_block_ops old s) \<bind>
    (\<lambda>(_, s). locked_call ?ct (ct_erase_block ?ct) s \<bind> (\<lambda>(ret, s).
      if ret < 0 then ct_test_block_reserved ?ct old s \<bind> (\<lambda>(ret, s). if ret \<noteq> 0 then ct_block_markbad ?ct s else Some (ret, s))
      else Some (ret, s))))" (is "framed _ _ ?x")
    unfolding resv_block_ops_def Let_def
    by (auto intro!: framed_bind [OF store.framed_call [OF store_table.D_ops store_table.ct_select]] store.refl framed_if
        framed_bind [OF store_table.I_locked_erase] framed_bind [OF store.framed_call [OF _ store_table.ct_test]] framed_Some mark)
  have "erase_old ?ct old s = ?x \<bind> (\<lambda>(ret, s). Some (ret, if ret < 0 then s else unreserve_blk old s))"
    by (simp add: erase_old_def Let_def bind_assoc case_prod_unfold)
  then have "\<exists>u. store_same s u \<and> t = (if r < 0 then u else unreserve_blk old u)"
    by (intro framed_last [OF fr]) (use assms(1) in \<open>simp only:\<close>)
  then show ?thesis
    using assms(2) by auto
qed

end

text \<open>
  C26.  A record moves between blocks without leaking or losing one.  When a save
  leaves the block the record had, the table of blocks in use afterwards is the
  old table with the old block replaced by the new one (as a multiset), and the
  record points at the new block.  This holds whatever the driver had to do to
  retire the old block, as long as no bad block table was rewritten meanwhile.
\<close>

theorem save_moves_reservation:
  assumes "hooks_keep hk" "\<And>u. framed store_same u (ub u)"
    and "finish_save (chip_table hw hk ub) info arg_pages blk full r s = Some (r', t)" "0 \<le> r'"
    and "moved_block full (arg_of info s)" "arg_valid (arg_of info s) \<noteq> 0"
    and old: "old = valid_blk_addr (arg_of info s)" "0 < old" "old < 255"
    and "ucast old \<in> set (reserved_blk s)" "0xff \<in> set (reserved_blk s)"
  shows "mset (reserved_blk t) + {#ucast old#} = mset (reserved_blk s) + {#ucast blk#}
    \<and> length (reserved_blk t) = length (reserved_blk s) \<and> valid_blk_addr (arg_of info t) = ucast blk"
proof -
  let ?s = "set_arg info (new_arg blk arg_pages full (reserve_blk blk s) (arg_of info s)) (reserve_blk blk s)"
  have up: "unat (ucast old :: u32) = unat old"
    by simp
  then have "unat (ucast old :: u32) \<noteq> 0"
    using old(2) by (simp only: word_less_nat_alt)
  then have "ucast old \<noteq> (0 :: u32)"
    by (metis unat_0)
  then have "erase_old (chip_table hw hk ub) (ucast old) ?s = Some (r', t)"
    using assms(3,5,6) old(1) by (simp add: finish_save_def Let_def)
  then obtain u where u: "store_same ?s u" "t = unreserve_blk (ucast old) u"
    using keep_hooks.erase_old_store [OF keep_hooks.intro [OF assms(1)]] assms(2,4) by blast
  have "unat (ucast old :: u32) < 255"
    using old(3) up by (simp add: word_less_nat_alt)
  moreover have "ucast (ucast old :: u32) = (ucast old :: u8)"
    by (auto intro!: bit_word_eqI simp: bit_simps)
  ultimately show ?thesis
    using mset_moved [of "reserved_blk s" "ucast old" "ucast blk"] assms(10,11) u
    by (simp add: store_same_def unreserve_blk_def reserve_blk_def new_arg_def)
qed

theorem save_moves_reservation_witness:
  "\<exists>t. finish_save rw_table BbtInfo 9 6 False 0 rw_nand = Some (0, t) \<and> mset (reserved_blk t) + {#5#} = mset (5 # replicate 47 0xff) + {#6#}"
proof -
  let ?s = "set_arg BbtInfo (new_arg 6 9 False (reserve_blk 6 rw_nand) (demo_arg 0)) (reserve_blk 6 rw_nand)"
  have "replicate 47 x = x # replicate 46 x" for x :: u8
    by (simp flip: replicate_Suc)
  then have "like_rw (5 # 6 # replicate 46 0xff) (resv_block_ops 5 ?s)" "resv_chip 5 (resv_block_ops 5 ?s) = 0"
    by (simp_all add: like_rw_def resv_block_ops_def resv_chip_def reserve_blk_def rw_nand_def demo_nand_def demo_ctl_def)
  moreover from this obtain u where "ct_select_chip rw_table 0 (resv_block_ops 5 ?s) = Some (0, u)"
    "like_rw (5 # 6 # replicate 46 0xff) u"
    using like_rw_select [of _ "resv_block_ops 5 ?s" 0] by auto
  moreover from this(2) obtain v where "locked_call rw_table (ct_erase_block rw_table) u = Some (0, v)"
    using like_rw_erase by blast
  ultimately have "erase_old rw_table 5 ?s = Some (0, unreserve_blk 5 v)"
    by (simp add: erase_old_def)
  then obtain t where fin: "finish_save rw_table BbtInfo 9 6 False 0 rw_nand = Some (0, t)"
    by (simp add: finish_save_def rw_nand_def demo_nand_def moved_block_def Let_def)
  have rw: "nand_bbtinfo rw_nand = demo_arg 0" "reserved_blk rw_nand = 5 # replicate 47 0xff"
    by (simp_all add: rw_nand_def demo_nand_def)
  have "mset (reserved_blk t) + {#ucast (5 :: u16)#} = mset (reserved_blk rw_nand) + {#ucast (6 :: u32)#}"
    by (rule save_moves_reservation [OF _ _ fin, THEN conjunct1])
      (simp_all add: rw hooks_keep_def plain_hooks_def kept_def framed_def store_same_def moved_block_def)
  then show ?thesis
    unfolding rw using fin by (intro exI [of _ t] conjI) simp_all
qed

section \<open>A page that cannot be written\<close>

text \<open>
  A record whose page cannot be written while the device layer holds the
  chip is never saved: testing the block takes the chip again, whatever the
  state of the chip, and waits for itself.
\<close>

theorem failed_page_waits_for_itself:
  assumes "spi_nand_mutex s" "kmalloc hk (pagesize (flash s)) \<noteq> NULL" "test_cnt < 3"
  shows "page_failed (chip_table hw hk ub) blk test_cnt ret s = None"
  using assms by (simp add: page_failed_def chip_table_def test_block_reserved_def Let_def nand_get_chip_def slc_option_def)

theorem failed_page_waits_for_itself_witness:
  "page_failed (chip_table demo_hw plain_hooks (\<lambda>s. Some (0, s))) 20 0 (- 1) (demo_nand\<lparr>spi_nand_mutex := True\<rparr>) = None"
  by (rule failed_page_waits_for_itself) (simp_all add: plain_hooks_def)

section \<open>The scan finds the newest copy\<close>

lemma note_block_same [simp]:
  "failed_read ret (note_block i name blk u) = failed_read ret u" "named name' (note_block i name blk u) = named name' u"
  "oob_stamp p (note_block i name blk u) = oob_stamp p u" "user_oob_buf (note_block i name blk u) = user_oob_buf u"
  by (cases i; simp add: note_block_def failed_read_def named_def oob_stamp_def oob_name_def)+

fun scan_seen :: "chip_operation \<Rightarrow> info_id \<Rightarrow> string \<Rightarrow> u32 \<Rightarrow> u32 \<Rightarrow> u16 list \<Rightarrow> nand \<Rightarrow> (u16 \<times> u16) list" where
  "scan_seen ct info name sz pages [] s = []"
| "scan_seen ct info name sz pages (blk # blks) s =
     (case at_block ct (ucast blk) s of None \<Rightarrow> [] | Some s \<Rightarrow>
      (case ct_block_isbad ct s of None \<Rightarrow> [] | Some (ret, s) \<Rightarrow>
       if ret \<noteq> 0 then scan_seen ct info name sz pages blks s
       else (case scan_pages ct info name sz pages blk 0 FromStart 0 ret s of None \<Rightarrow> [] | Some (ret, s) \<Rightarrow>
        let here = (if failed_read ret s \<or> \<not> named name s then [] else [(blk, oob_stamp (user_oob_buf s) s)]);
            a = arg_of info s
        in if arg_type a = FULL_BLK \<and> arg_valid a = 1 \<and> valid_blk_addr a \<noteq> 0 then here
           else here @ scan_seen ct info name sz pages blks s)))"

lemma note_block_arg:
  "arg_of i (note_block i name blk u) =
     (if named name u then note_arg blk (oob_stamp (user_oob_buf u) u) (arg_of i u) else arg_of i u)"
  by (simp add: note_block_def)

context store_ops
begin

lemma scan_pages_result:
  assumes "scan_pages ct info name sz pages blk failed ph i ret s = Some (ret', t)" "i < pages"
  shows "if failed_read ret' t then arg_of info t = arg_of info s
    else \<exists>u. arg_of info u = arg_of info s \<and> t = note_block info name blk u"
proof -
  let ?P = "\<lambda>s ret' t. if failed_read ret' t then store_same s t else \<exists>u. store_same s u \<and> t = note_block info name blk u"
  have "scan_pages ct' info' name' sz' pages' blk' failed ph i ret s = Some x \<Longrightarrow>
    (ct', info', name', sz', pages', blk') = (ct, info, name, sz, pages, blk) \<longrightarrow>
    (if i < pages then ?P s (fst x) (snd x) else x = (ret, s))" for ct' info' name' sz' pages' blk' failed ph i ret s x
  proof (erule scan_pages.raw_induct [rotated], intro impI, goal_cases)
    case (1 self ct' info' name' sz' pages' blk' failed ph i ret s x)
    then have eqs: "ct' = ct" "info' = info" "name' = name" "sz' = sz" "pages' = pages" "blk' = blk"
      by auto
    show ?case
    proof (cases "i < pages")
      case True
      obtain s1 s2 r3 s3 where run: "select_resv ct (ucast blk) (resv_ops (ucast blk) i s) s = Some s1"
        "ct_get_chip ct (info_bufs True s1) = Some s2" "ct_read_page ct s2 = Some (r3, s3)"
        and body: "(if failed_read r3 (nand_release_chip s3)
            then let (i, ph) = next_page sz (failed + 1) ph i (nand_release_chip s3)
                 in self ct info name sz pages blk (failed + 1) ph i r3 (nand_release_chip s3)
            else Some (r3, note_block info name blk (nand_release_chip s3))) = Some x"
        using 1(2) True unfolding eqs by (auto simp: Let_def bind_eq_Some_conv)
      let ?u = "nand_release_chip s3"
      have "store_same s s1" "store_same s1 (info_bufs True s1)" "store_same (info_bufs True s1) s2" "store_same s2 s3"
        using run I_select [OF refl] ct_get ct_read
        by (auto simp: framed1_def framed_def info_bufs_def store_same_def arg_of_fields)
      then have same: "store_same s ?u"
        using D_release_chip store_same_trans by metis
      show ?thesis
      proof (cases "failed_read r3 ?u")
        case bad: True
        obtain i' ph' where n: "next_page sz (failed + 1) ph i ?u = (i', ph')"
          by fastforce
        have "if i' < pages then ?P ?u (fst x) (snd x) else x = (r3, ?u)"
          using 1(1) body bad n by fastforce
        then show ?thesis
          using True same bad store_same_trans by (auto split: if_splits)
      next
        case False
        then show ?thesis
          using True body same by auto
      qed
    next
      case False
      then show ?thesis
        using 1(2) eqs by auto
    qed
  qed
  from this [OF assms(1)] show ?thesis
    using assms(2) by (auto simp: store_same_def split: if_splits)
qed

lemma at_block_arg: "at_block ct b s = Some t \<Longrightarrow> arg_of i t = arg_of i s"
  using I_at_block [OF refl] by (simp add: framed1_def store_same_def)

lemma isbad_arg: "ct_block_isbad ct s = Some (r, t) \<Longrightarrow> arg_of i t = arg_of i s"
  using ct_isbad [of s] by (simp add: framed_def store_same_def)

lemma scan_blocks_noted:
  assumes "scan_blocks ct info name sz pages blks ret s = Some (ret', t)" "0 < pages"
  shows "arg_of info t = noted (scan_seen ct info name sz pages blks s) (arg_of info s)"
  using assms
proof (induction blks arbitrary: ret s)
  case (Cons blk blks)
  obtain s1 r2 s2 where s2: "at_block ct (ucast blk) s = Some s1" "ct_block_isbad ct s1 = Some (r2, s2)"
    using Cons.prems by (auto simp: bind_eq_Some_conv)
  then have args: "arg_of info s2 = arg_of info s"
    using at_block_arg isbad_arg by metis
  show ?case
  proof (cases "r2 = 0")
    case True
    then obtain r3 s3 where s3: "scan_pages ct info name sz pages blk 0 FromStart 0 r2 s2 = Some (r3, s3)"
      using Cons.prems s2 by (auto simp: bind_eq_Some_conv)
    let ?here = "if failed_read r3 s3 \<or> \<not> named name s3 then [] else [(blk, oob_stamp (user_oob_buf s3) s3)]"
    have "arg_of info s3 = noted ?here (arg_of info s)"
      using scan_pages_result [OF s3 \<open>0 < pages\<close>] args by (auto simp: noted_def note_block_arg split: if_splits)
    then show ?thesis
      using Cons True s2 s3 by (auto simp: Let_def noted_def split: if_splits)
  next
    case False
    then show ?thesis
      using Cons s2 args by (auto simp: noted_def)
  qed
qed (simp add: noted_def)

end

text \<open>
  C25.  The scan for a record takes the newest copy.  Among the blocks of the
  reserved area that it visits, those whose first readable page carries the
  name of the record are the copies it sees (\<open>scan_seen\<close>); the one it settles on
  is one of them, and none of them has a later time stamp.  When it sees none,
  nothing is recorded.
\<close>

theorem scan_selects_newest:
  assumes "store_ops ct" "0 < pages" "scan_blocks ct info name sz pages blks ret s = Some (ret', t)"
    and "arg_valid (arg_of info s) \<noteq> 1"
  shows "let seen = scan_seen ct info name sz pages blks s; a = arg_of info t
    in if seen = [] then a = arg_of info s
       else arg_valid a = 1 \<and> (valid_blk_addr a, timestamp a) \<in> set seen \<and> (\<forall>x\<in>set seen. snd x \<le> timestamp a)"
proof (cases "scan_seen ct info name sz pages blks s")
  case Nil
  then show ?thesis
    using store_ops.scan_blocks_noted [OF assms(1,3,2)] by (simp add: noted_def)
next
  case (Cons x obs)
  obtain b ts where x: "x = (b, ts)"
    by (cases x)
  have "arg_of info t = noted obs (note_arg b ts (arg_of info s))"
    using store_ops.scan_blocks_noted [OF assms(1,3,2)] Cons x by (simp add: noted_def)
  moreover have "note_arg b ts (arg_of info s) = (arg_of info s)\<lparr>arg_valid := 1, valid_blk_addr := b, timestamp := ts\<rparr>"
    using assms(4) by (simp add: note_arg_def)
  moreover have "y \<in> set obs \<Longrightarrow> snd y \<le> fold max (map snd obs) ts" "ts \<le> fold max (map snd obs) ts" for y
    using fold_max_ge [of ts "map snd obs"] by auto
  ultimately show ?thesis
    using noted_newest [of "note_arg b ts (arg_of info s)" obs] Cons x by (auto simp: Let_def)
qed

definition two_copies :: "nand \<Rightarrow> (int \<times> nand) option" where
  "two_copies s = Some (0, s\<lparr>mem := store_bytes 800000 (bytes_of ''nkey'' @ [if op_page_addr (ops_para s) = 1024 then 7 else 3, 0])
     (mem s)\<rparr>)"

definition two_table :: chip_operation where
  "two_table = rw_table\<lparr>ct_select_chip := (\<lambda>_ s. Some (0, s)), ct_get_chip := Some, ct_block_isbad := (\<lambda>s. Some (0, s)),
     ct_read_page := two_copies\<rparr>"

interpretation two_copies: store_ops two_table
proof unfold_locales
  fix s :: nand and blk v
  show "framed store_same s (ct_test_block_reserved two_table blk s)"
    "framed store_same s (ct_write_page two_table s)" "framed store_same s (ct_erase_block two_table s)"
    "framed store_same s (ct_blk_modify_bbt two_table v s)"
    using plain_keep.store_table.ct_test plain_keep.store_table.ct_write plain_keep.store_table.ct_erase
      plain_keep.store_table.ct_modify by (simp_all add: two_table_def)
qed (simp_all add: two_table_def two_copies_def framed_def framed1_def store_same_def arg_of_fields)

lemma demo_page: "resv_page blk s = (4 + blk - 4) * 256" "slc_page s a = a" "info_step 4096 s = 1"
  if "flash s = demo_flash" "chip_num (controller s) = 1"
proof -
  have "pages_per_blk demo_flash = 256" "ffs (8192 :: u32) = 14"
    by code_simp+
  then show "resv_page blk s = (4 + blk - 4) * 256" "slc_page s a = a" "info_step 4096 s = 1"
    using that demo_resv_start by (simp_all add: resv_page_def slc_page_def info_step_def Let_def demo_flash_def)
qed

definition two_like :: "nand \<Rightarrow> bool" where
  "two_like u \<longleftrightarrow> flash u = demo_flash \<and> chip_num (controller u) = 1 \<and> user_oob_buf u = 800000 \<and> arg_type (nand_key u) = 1"

lemma two_scan:
  assumes "two_like u"
  shows "\<exists>t. scan_pages two_table KeyInfo ''nkey'' 4096 128 blk 0 FromStart 0 0 u = Some (0, t) \<and> two_like t
    \<and> \<not> failed_read 0 t \<and> named ''nkey'' t \<and> oob_stamp (user_oob_buf t) t = (if ucast blk * 256 = (1024 :: u32) then 7 else 3)"
proof -
  let ?p = "(resv_ops (ucast blk) 0 u)\<lparr>op_data_buf := user_page_buf u, op_oob_buf := 800000, op_ooblen := 6\<rparr>"
  have addr: "op_page_addr ?p = ucast blk * 256"
    using assms by (simp add: two_like_def resv_ops_def demo_page)
  have slc: "op_ecc_err (resv_ops b i u) = 0" for b i
    by (simp add: resv_ops_def ops_zero_def)
  show ?thesis
    using assms addr slc
    by (subst scan_pages.simps)
      (simp add: two_table_def two_like_def select_resv_def two_copies_def info_bufs_def nand_release_chip_def note_block_def
        failed_read_def named_def oob_stamp_def oob_name_def mem_bytes_def upt_rec [of _ 4] bytes_of_def ld16_def Let_def
        note_arg_def)
qed

theorem scan_selects_newest_witness:
  "\<exists>t. scan_blocks two_table KeyInfo ''nkey'' 4096 128 [5, 4] 0 (rw_nand\<lparr>nand_key := (demo_arg 1)\<lparr>arg_valid := 0\<rparr>\<rparr>) = Some (0, t)
     \<and> valid_blk_addr (nand_key t) = 4 \<and> timestamp (nand_key t) = 7"
proof -
  let ?s = "rw_nand\<lparr>nand_key := (demo_arg 1)\<lparr>arg_valid := 0\<rparr>\<rparr>"
  have at: "\<exists>v. at_block two_table b u = Some v \<and> two_like v \<and> ct_block_isbad two_table v = Some (0, v)" if "two_like u" for b u
    using that by (simp add: at_block_def select_resv_def two_table_def two_like_def)
  have "two_like ?s"
    by (simp add: two_like_def rw_nand_def demo_nand_def demo_ctl_def)
  then obtain u where u: "at_block two_table 5 ?s = Some u" "two_like u" "ct_block_isbad two_table u = Some (0, u)"
    using at by blast
  obtain v where v: "scan_pages two_table KeyInfo ''nkey'' 4096 128 5 0 FromStart 0 0 u = Some (0, v)" "two_like v"
    "\<not> failed_read 0 v" "named ''nkey'' v" "oob_stamp (user_oob_buf v) v = 3"
    using two_scan [OF u(2), of 5] by auto
  obtain w where w: "at_block two_table 4 v = Some w" "two_like w" "ct_block_isbad two_table w = Some (0, w)"
    using at [OF v(2)] by blast
  obtain x where x: "scan_pages two_table KeyInfo ''nkey'' 4096 128 4 0 FromStart 0 0 w = Some (0, x)" "two_like x"
    "\<not> failed_read 0 x" "named ''nkey'' x" "oob_stamp (user_oob_buf x) x = 7"
    using two_scan [OF w(2), of 4] by auto
  have run: "scan_blocks two_table KeyInfo ''nkey'' 4096 128 [5, 4] 0 ?s = Some (0, x)"
    and seen: "scan_seen two_table KeyInfo ''nkey'' 4096 128 [5, 4] ?s = [(5, 3), (4, 7)]"
    using u v w x by (simp_all add: two_like_def)
  have "arg_valid (arg_of KeyInfo ?s) \<noteq> 1"
    by simp
  then have "valid_blk_addr (nand_key x) = 4 \<and> timestamp (nand_key x) = 7"
    using scan_selects_newest [OF two_copies.store_ops_axioms _ run, unfolded seen] by (auto simp: Let_def)
  then show ?thesis
    using run by blast
qed

end
