(* ===== verification/Ntd.thy ===== *)
theory Ntd
  imports PhyDev
begin

text \<open>
  \<open>ntd/aml_ntdpart.c\<close>, \<open>ntd/aml_ntdcore.c\<close>: the layer between the physical
  devices and the FTL.  Every physical device becomes one \<open>struct ntd_info\<close>,
  whose page and block operations fill in the request of the device and call it;
  the objects are registered in a table of numbers (an \<open>idr\<close>) and handed out
  with a use count.  The answers of the kernel (allocation of numbers and memory,
  registration of classes and devices, module references) are parameters.
\<close>

section \<open>Data\<close>

record ntd_info =
  nt_offset :: u64
  nt_size :: u64
  nt_flags :: u32
  nt_blocksize :: u32
  nt_pagesize :: u32
  nt_oobsize :: u32
  nt_blocksize_shift :: u32
  nt_pagesize_shift :: u32
  nt_blocksize_mask :: u32
  nt_pagesize_mask :: u32
  nt_name :: string
  nt_index :: int
  nt_priv :: ptr
  nt_usecount :: int
  nt_badblocks :: u32

abbreviation (input) "NTD_WRITEABLE \<equiv> (0x400 :: u32)"

record ntd_env =
  env_idr_alloc :: "(int \<times> ptr) list \<Rightarrow> int"
  env_class_register :: int
  env_device_register :: "ptr \<Rightarrow> int"
  env_module_get :: "ptr \<Rightarrow> bool"

text \<open>
  The objects live at addresses; the table maps numbers to addresses.  A null
  address is no object.
\<close>

record ntd_sys =
  ntd_obj :: "ptr \<Rightarrow> ntd_info"
  ntd_idr :: "(int \<times> ptr) list"
  ntd_init_available :: int
  ntd_registered :: "ptr list"
  ntd_partitions :: "ptr list"

definition upd_obj :: "ptr \<Rightarrow> (ntd_info \<Rightarrow> ntd_info) \<Rightarrow> ntd_sys \<Rightarrow> ntd_sys" where
  "upd_obj p f s = s\<lparr>ntd_obj := (ntd_obj s)(p := f (ntd_obj s p))\<rparr>"

section \<open>Sizes in blocks and pages\<close>

definition ntd_div_by_eb :: "u64 \<Rightarrow> ntd_info \<Rightarrow> u32" where
  "ntd_div_by_eb sz n =
     (if nt_blocksize_shift n \<noteq> 0 then ucast (drop_bit (unat (nt_blocksize_shift n)) sz)
      else ucast (sz div ucast (nt_blocksize n)))"

definition ntd_mod_by_eb :: "u64 \<Rightarrow> ntd_info \<Rightarrow> u32" where
  "ntd_mod_by_eb sz n =
     (if nt_blocksize_shift n \<noteq> 0 then ucast (sz AND ucast (nt_blocksize_mask n))
      else ucast (sz mod ucast (nt_blocksize n)))"

definition ntd_div_by_ws :: "u64 \<Rightarrow> ntd_info \<Rightarrow> u32" where
  "ntd_div_by_ws sz n =
     (if nt_pagesize_shift n \<noteq> 0 then ucast (drop_bit (unat (nt_pagesize_shift n)) sz)
      else ucast (sz div ucast (nt_pagesize n)))"

definition ntd_mod_by_ws :: "u64 \<Rightarrow> ntd_info \<Rightarrow> u32" where
  "ntd_mod_by_ws sz n =
     (if nt_pagesize_shift n \<noteq> 0 then ucast (sz AND ucast (nt_pagesize_mask n))
      else ucast (sz mod ucast (nt_pagesize n)))"

section \<open>Page and block operations\<close>

definition set_request :: "u64 \<Rightarrow> u32 \<Rightarrow> u32 \<Rightarrow> ptr \<Rightarrow> ptr \<Rightarrow> amlnand_phydev \<Rightarrow> amlnand_phydev" where
  "set_request addr len ooblen dat oob p =
     p\<lparr>pd_ops := (pd_ops p)\<lparr>do_mode := NAND_HW_ECC, do_addr := addr, do_len := ucast len, do_retlen := 0,
       do_ooblen := ooblen, do_datbuf := dat, do_oobbuf := oob\<rparr>\<rparr>"

definition page_request :: "ntd_info \<Rightarrow> u32 \<Rightarrow> ptr \<Rightarrow> ptr \<Rightarrow> amlnand_phydev \<Rightarrow> amlnand_phydev" where
  "page_request n page oob dat =
     set_request (push_bit (unat (nt_pagesize_shift n)) (ucast page)) (nt_pagesize n) (nt_oobsize n) dat oob"

definition block_request :: "ntd_info \<Rightarrow> u32 \<Rightarrow> amlnand_phydev \<Rightarrow> amlnand_phydev" where
  "block_request n block =
     set_request (push_bit (unat (nt_blocksize_shift n)) (ucast block)) (nt_blocksize n) 0 NULL NULL"

definition read_page_with_oob :: "chip_operation \<Rightarrow> ntd_info \<Rightarrow> u32 \<Rightarrow> ptr \<Rightarrow> ptr \<Rightarrow> dev \<Rightarrow> (int \<times> dev) option" where
  "read_page_with_oob ct n page oob buf d = nand_read ct (apfst (page_request n page oob buf) d)"

definition read_only_oob :: "chip_operation \<Rightarrow> ntd_info \<Rightarrow> u32 \<Rightarrow> ptr \<Rightarrow> dev \<Rightarrow> (int \<times> dev) option" where
  "read_only_oob ct n page oob d = nand_read ct (apfst (page_request n page oob NULL) d)"

definition write_page_with_oob ::
  "chip_operation \<Rightarrow> (u32 \<Rightarrow> ptr) \<Rightarrow> ntd_info \<Rightarrow> u32 \<Rightarrow> ptr \<Rightarrow> ptr \<Rightarrow> dev \<Rightarrow> (int \<times> dev) option" where
  "write_page_with_oob ct malloc n page oob buf d = nand_write ct malloc (apfst (page_request n page oob buf) d)"

definition part_erase :: "chip_operation \<Rightarrow> ntd_info \<Rightarrow> u32 \<Rightarrow> dev \<Rightarrow> (int \<times> dev) option" where
  "part_erase ct n block d = nand_erase ct (apfst (block_request n block) d)"

definition part_block_isbad :: "chip_operation \<Rightarrow> ntd_info \<Rightarrow> u32 \<Rightarrow> dev \<Rightarrow> (int \<times> dev) option" where
  "part_block_isbad ct n block d = nand_block_isbad ct (apfst (block_request n block) d)"

definition part_block_markbad :: "chip_operation \<Rightarrow> ntd_info \<Rightarrow> u32 \<Rightarrow> dev \<Rightarrow> (int \<times> dev) option" where
  "part_block_markbad ct n block d = nand_block_markbad ct (apfst (block_request n block) d)"

section \<open>The table of devices\<close>

definition idr_find :: "(int \<times> ptr) list \<Rightarrow> int \<Rightarrow> ptr" where
  "idr_find idr i = (case map_of idr i of None \<Rightarrow> NULL | Some p \<Rightarrow> p)"

definition idr_remove :: "int \<Rightarrow> (int \<times> ptr) list \<Rightarrow> (int \<times> ptr) list" where
  "idr_remove i idr = filter (\<lambda>e. fst e \<noteq> i) idr"

text \<open>
  \<open>init_ntd\<close> registers the class.  \<open>ntd_init_available\<close> starts as 1; the first
  caller takes it to 0 and runs \<open>init_ntd\<close>, every later one finds -1 and puts it back.
\<close>

definition init_ntd :: "ntd_env \<Rightarrow> int" where
  "init_ntd env = env_class_register env"

definition add_ntd_device :: "ntd_env \<Rightarrow> ptr \<Rightarrow> ntd_sys \<Rightarrow> (int \<times> ntd_sys) option" where
  "add_ntd_device env p s =
     (if nt_pagesize (ntd_obj s p) = 0 then None
      else let i = env_idr_alloc env (ntd_idr s)
           in if i < 0 then Some (1, s)
              else let s = upd_obj p (\<lambda>n. n\<lparr>nt_index := i, nt_usecount := 0\<rparr>) (s\<lparr>ntd_idr := (i, p) # ntd_idr s\<rparr>);
                       first = (ntd_init_available s - 1 = 0);
                       s = (if first then s\<lparr>ntd_init_available := 0\<rparr> else s)
                   in if first \<and> init_ntd env \<noteq> 0 then Some (1, s)
                      else if env_device_register env p \<noteq> 0
                      then Some (1, s\<lparr>ntd_idr := idr_remove i (ntd_idr s)\<rparr>)
                      else Some (0, s\<lparr>ntd_registered := p # ntd_registered s\<rparr>))"

definition del_ntd_device :: "ptr \<Rightarrow> ntd_sys \<Rightarrow> int \<times> ntd_sys" where
  "del_ntd_device p s =
     (let n = ntd_obj s p
      in if idr_find (ntd_idr s) (nt_index n) \<noteq> p then (- ENODEV, s)
         else if nt_usecount n \<noteq> 0 then (- EBUSY, s)
         else (0, s\<lparr>ntd_registered := remove1 p (ntd_registered s), ntd_idr := idr_remove (nt_index n) (ntd_idr s)\<rparr>))"

section \<open>References\<close>

text \<open>
  The \<open>get_device\<close> and \<open>put_device\<close> hooks of every object are null
  (\<open>allocate_partition\<close>).
\<close>

definition get_ntd_device_locked :: "ntd_env \<Rightarrow> ptr \<Rightarrow> ntd_sys \<Rightarrow> int \<times> ntd_sys" where
  "get_ntd_device_locked env p s =
     (if \<not> env_module_get env p then (- ENODEV, s)
      else (0, upd_obj p (\<lambda>n. n\<lparr>nt_usecount := nt_usecount n + 1\<rparr>) s))"

definition put_ntd_device_locked :: "ptr \<Rightarrow> ntd_sys \<Rightarrow> ntd_sys option" where
  "put_ntd_device_locked p s =
     (let s = upd_obj p (\<lambda>n. n\<lparr>nt_usecount := nt_usecount n - 1\<rparr>) s
      in if nt_usecount (ntd_obj s p) < 0 then None else Some s)"

definition put_ntd_device :: "ptr \<Rightarrow> ntd_sys \<Rightarrow> ntd_sys option" where
  "put_ntd_device p s = put_ntd_device_locked p s"

text \<open>
  \<open>ntd_for_each_device\<close> visits the table in the order of the numbers.  It names
  its parameter \<open>mtd\<close> and uses \<open>ntd\<close>: called as \<open>ntd_for_each_device(other)\<close> it
  walks the table with the variable \<open>ntd\<close> of the calling function, and \<open>other\<close>
  keeps the null pointer it was initialised with.
\<close>

definition ntd_devices :: "ntd_sys \<Rightarrow> ptr list" where
  "ntd_devices s = map snd (sort_key fst (ntd_idr s))"

fun walk_same :: "ptr \<Rightarrow> ptr list \<Rightarrow> ptr" where
  "walk_same other [] = NULL"
| "walk_same other (ntd # ps) = (if other = ntd then ntd else walk_same other ps)"

text \<open>Reading the name behind a null pointer stops the kernel.\<close>

fun walk_name :: "(ptr \<Rightarrow> ntd_info) \<Rightarrow> string \<Rightarrow> ptr \<Rightarrow> ptr list \<Rightarrow> ptr option" where
  "walk_name obj name other [] = Some NULL"
| "walk_name obj name other (ntd # ps) =
     (if other = NULL then None
      else if name = nt_name (obj other) then Some other
      else walk_name obj name other ps)"

definition get_ntd_device :: "ntd_env \<Rightarrow> ptr \<Rightarrow> int \<Rightarrow> ntd_sys \<Rightarrow> (int + ptr) \<times> ntd_sys" where
  "get_ntd_device env p num s =
     (let ret = (if num = - 1 then walk_same NULL (ntd_devices s)
                 else if 0 \<le> num
                 then let q = idr_find (ntd_idr s) num in if p \<noteq> NULL \<and> p \<noteq> q then NULL else q
                 else NULL)
      in if ret = NULL then (Inl (- ENODEV), s)
         else let (err, s) = get_ntd_device_locked env ret s in (if err \<noteq> 0 then Inl err else Inr ret, s))"

definition get_ntd_device_nm :: "ntd_env \<Rightarrow> string \<Rightarrow> ntd_sys \<Rightarrow> ((int + ptr) \<times> ntd_sys) option" where
  "get_ntd_device_nm env name s = do {
     ntd \<leftarrow> walk_name (ntd_obj s) name NULL (ntd_devices s);
     Some (if ntd = NULL then (Inl (- ENODEV), s)
           else let (err, s) = get_ntd_device_locked env ntd s in (if err \<noteq> 0 then Inl err else Inr ntd, s))
   }"

section \<open>Creating and deleting partitions\<close>

text \<open>The count of bad blocks: a \<open>do\<close> loop that ends when a 32-bit counter reaches 0.\<close>

fun count_bad :: "chip_operation \<Rightarrow> ntd_info \<Rightarrow> nat \<Rightarrow> u32 \<Rightarrow> dev \<Rightarrow> (ntd_info \<times> dev) option" where
  "count_bad ct n 0 block d = Some (n, d)"
| "count_bad ct n (Suc k) block d = do {
     (ret, d) \<leftarrow> part_block_isbad ct n block d;
     count_bad ct (if ret \<noteq> 0 then n\<lparr>nt_badblocks := nt_badblocks n + 1\<rparr> else n) k (block + 1) d
   }"

definition bad_turns :: "u32 \<Rightarrow> nat" where
  "bad_turns block_num = (if block_num = 0 then 2 ^ 32 else unat block_num)"

definition force_readonly :: "(ntd_info \<Rightarrow> u64) \<Rightarrow> ntd_info \<Rightarrow> ntd_info" where
  "force_readonly sz n =
     (if has (nt_flags n) NTD_WRITEABLE \<and> ntd_mod_by_eb (sz n) n \<noteq> 0
      then n\<lparr>nt_flags := nt_flags n AND NOT NTD_WRITEABLE\<rparr> else n)"

definition new_slave :: "ptr \<Rightarrow> amlnand_phydev \<Rightarrow> ntd_info" where
  "new_slave master p =
     \<lparr>nt_offset = pd_offset p, nt_size = pd_size p, nt_flags = pd_flags p, nt_blocksize = erasesize p,
      nt_pagesize = writesize p, nt_oobsize = pd_oobavail p, nt_blocksize_shift = of_nat (ffs (erasesize p)) - 1,
      nt_pagesize_shift = of_nat (ffs (writesize p)) - 1, nt_blocksize_mask = 0, nt_pagesize_mask = 0,
      nt_name = pd_name p, nt_index = 0, nt_priv = master, nt_usecount = 0, nt_badblocks = 0\<rparr>"

definition allocate_partition ::
  "chip_operation \<Rightarrow> ptr \<Rightarrow> bool \<Rightarrow> ptr \<Rightarrow> dev \<Rightarrow> ntd_sys \<Rightarrow> ((int + ptr) \<times> dev \<times> ntd_sys) option" where
  "allocate_partition ct kzalloc kstrdup_ok master d s =
     (if kzalloc = NULL \<or> \<not> kstrdup_ok then Some (Inl (- ENOMEM), d, s)
      else let n = force_readonly nt_size (force_readonly nt_offset (new_slave master (fst d)));
               block_num = ucast (drop_bit (unat (nt_blocksize_shift n)) (nt_size n)) :: u32
           in do {
             (n, d) \<leftarrow> count_bad ct n (bad_turns block_num) 0 d;
             Some (Inr kzalloc, d, upd_obj kzalloc (\<lambda>_. n) s)
           })"

definition add_ntd_partitions ::
  "chip_operation \<Rightarrow> ntd_env \<Rightarrow> ptr \<Rightarrow> bool \<Rightarrow> ptr \<Rightarrow> dev \<Rightarrow> ntd_sys \<Rightarrow> (int \<times> dev \<times> ntd_sys) option" where
  "add_ntd_partitions ct env kzalloc kstrdup_ok master d s = do {
     (slave, d, s) \<leftarrow> allocate_partition ct kzalloc kstrdup_ok master d s;
     case slave of
       Inl err \<Rightarrow> Some (err, d, s)
     | Inr p \<Rightarrow> do {
         (_, s) \<leftarrow> add_ntd_device env p (s\<lparr>ntd_partitions := p # ntd_partitions s\<rparr>);
         Some (0, d, s)
       }
   }"

fun del_parts :: "ptr \<Rightarrow> ptr list \<Rightarrow> int \<Rightarrow> ntd_sys \<Rightarrow> int \<times> ntd_sys" where
  "del_parts master [] err s = (err, s)"
| "del_parts master (p # ps) err s =
     (if nt_priv (ntd_obj s p) = master
      then let (ret, s) = del_ntd_device p s
           in if ret < 0 then del_parts master ps ret s
              else del_parts master ps err (s\<lparr>ntd_partitions := remove1 p (ntd_partitions s)\<rparr>)
      else del_parts master ps err s)"

definition del_ntd_partitions :: "ptr \<Rightarrow> ntd_sys \<Rightarrow> int \<times> ntd_sys" where
  "del_ntd_partitions master s = del_parts master (ntd_partitions s) 0 s"

section \<open>Allocating as much as possible\<close>

definition align_up :: "u32 \<Rightarrow> u32 \<Rightarrow> u32" where
  "align_up a x = (x + (a - 1)) AND NOT (a - 1)"

partial_function (option) up_to_loop :: "u32 \<Rightarrow> (u32 \<Rightarrow> ptr) \<Rightarrow> u32 \<Rightarrow> u32 \<Rightarrow> (ptr \<times> u32) option" where
  "up_to_loop pagesz kmalloc_noretry min_alloc sz =
     (if sz > min_alloc
      then let kbuf = kmalloc_noretry sz
           in if kbuf \<noteq> NULL then Some (kbuf, sz)
              else up_to_loop pagesz kmalloc_noretry min_alloc (align_up pagesz (drop_bit 1 sz))
      else Some (NULL, sz))"

declare up_to_loop.simps [code]

definition ntd_kmalloc_up_to ::
  "(u32 \<Rightarrow> ptr) \<Rightarrow> (u32 \<Rightarrow> ptr) \<Rightarrow> u32 \<Rightarrow> ntd_info \<Rightarrow> u32 \<Rightarrow> (ptr \<times> u32) option" where
  "ntd_kmalloc_up_to kmalloc_noretry kmalloc_last kmalloc_max n sz = do {
     (kbuf, sz) \<leftarrow> up_to_loop (nt_pagesize n) kmalloc_noretry (max (nt_pagesize n) 4096) (min sz kmalloc_max);
     Some (if kbuf \<noteq> NULL then kbuf else kmalloc_last sz, sz)
   }"

end
