(* ===== verification/NtdProps.thy ===== *)
theory NtdProps
  imports Ntd PhyDevProps
begin

text \<open>
  Properties of the partitions and of the device table: which page of the flash a
  page of a partition is, references and numbers, allocation of buffers.
\<close>

section \<open>Pages of a partition are pages of the device\<close>

lemma slave_shift:
  assumes "geometry_ok p"
  shows "nt_pagesize_shift (new_slave m p) = writesize_shift p" "nt_blocksize_shift (new_slave m p) = erasesize_shift p"
  using assms by (auto simp: new_slave_def geometry_ok_def ffs_power)

lemma force_readonly_same [simp]:
  "nt_pagesize_shift (force_readonly f n) = nt_pagesize_shift n" "nt_pagesize (force_readonly f n) = nt_pagesize n"
  "nt_oobsize (force_readonly f n) = nt_oobsize n" "nt_blocksize_shift (force_readonly f n) = nt_blocksize_shift n"
  "nt_blocksize (force_readonly f n) = nt_blocksize n" "nt_size (force_readonly f n) = nt_size n"
  by (simp_all add: force_readonly_def)

lemma count_bad_same: "count_bad ct n k b d = Some (n', d') \<Longrightarrow> \<exists>v. n' = n\<lparr>nt_badblocks := v\<rparr>"
proof (induction k arbitrary: n b d)
  case 0
  then show ?case
    by (metis count_bad.simps(1) ntd_info.surjective ntd_info.update_convs(15) option.inject prod.inject)
next
  case (Suc k)
  then obtain r d1 where "part_block_isbad ct n b d = Some (r, d1)"
    "count_bad ct (if r \<noteq> 0 then n\<lparr>nt_badblocks := nt_badblocks n + 1\<rparr> else n) k (b + 1) d1 = Some (n', d')"
    by (fastforce simp: bind_eq_Some_conv)
  then obtain v where "n' = (if r \<noteq> 0 then n\<lparr>nt_badblocks := nt_badblocks n + 1\<rparr> else n)\<lparr>nt_badblocks := v\<rparr>"
    using Suc.IH by blast
  then show ?case
    by (intro exI [of _ v]) simp
qed

lemma partition_fields:
  assumes "allocate_partition ct q ok m (p, s0) y = Some (Inr q', d, y')" "geometry_ok p"
  shows "nt_pagesize (ntd_obj y' q') = writesize p" "nt_pagesize_shift (ntd_obj y' q') = writesize_shift p"
    "nt_oobsize (ntd_obj y' q') = pd_oobavail p" "nt_flags (ntd_obj y' q') =
      nt_flags (force_readonly nt_size (force_readonly nt_offset (new_slave m p)))"
proof -
  let ?n = "force_readonly nt_size (force_readonly nt_offset (new_slave m p))"
  obtain k n' where n': "count_bad ct ?n k 0 (p, s0) = Some (n', d)" "ntd_obj y' q' = n'"
    using assms(1) by (auto simp: allocate_partition_def bind_eq_Some_conv Let_def upd_obj_def split: if_splits)
  obtain v where "ntd_obj y' q' = ?n\<lparr>nt_badblocks := v\<rparr>"
    using count_bad_same [OF n'(1)] n'(2) by auto
  moreover have "nt_pagesize (new_slave m p) = writesize p" "nt_oobsize (new_slave m p) = pd_oobavail p"
    by (simp_all add: new_slave_def)
  ultimately show "nt_pagesize (ntd_obj y' q') = writesize p" "nt_pagesize_shift (ntd_obj y' q') = writesize_shift p"
    "nt_oobsize (ntd_obj y' q') = pd_oobavail p" "nt_flags (ntd_obj y' q') = nt_flags ?n"
    using slave_shift [OF assms(2), of m] by simp_all
qed

lemma units_self: "0 < n \<Longrightarrow> units n n = 1"
  by (auto simp: units_def intro!: div_nat_eqI)

text \<open>What \<open>nand_read\<close> does after its loop, and after a single page.\<close>

definition read_done :: "amlnand_phydev \<Rightarrow> (int \<times> u64) \<times> nand \<Rightarrow> (int \<times> dev) option" where
  "read_done q = (\<lambda>((ret, readlen), s).
     let s = amlnand_release_device s;
         ret = (if ret \<noteq> 0 then ret else if op_ecc_err (ops_para s) \<noteq> 0 then NAND_ECC_FAILURE
                else if op_bit_flip (ops_para s) \<noteq> 0 then - EUCLEAN else ret)
     in Some (ret, set_retlen readlen q, s))"

definition after_read :: "amlnand_phydev \<Rightarrow> int \<times> nand \<Rightarrow> (int \<times> dev) option" where
  "after_read q = (\<lambda>(ret, s).
     if read_stop ret s then read_done q ((ret, 0), s) else read_done q ((ret, ucast (writesize q)), advance_buf q s))"

lemma one_page_read:
  "unit_seq f read_stop (advance_buf q) (ucast (writesize q)) [a] 0 u \<bind> read_done q = f (set_page_addr a u) \<bind> after_read q"
  by (cases "f (set_page_addr a u)") (simp_all add: after_read_def split: prod.splits)

text \<open>A request for one page, with the address and length the partitions use.\<close>

definition page_req :: "u32 \<Rightarrow> amlnand_phydev \<Rightarrow> bool" where
  "page_req page r \<longleftrightarrow> geometry_ok r \<and> do_len (pd_ops r) = ucast (writesize r)
     \<and> do_addr (pd_ops r) = of_nat (unat page) * 2 ^ unat (writesize_shift r) \<and> do_mode (pd_ops r) = NAND_HW_ECC"

lemma page_request_req:
  assumes "geometry_ok p" "allocate_partition ct q ok m (p, s0) y = Some (Inr q', d, y')"
  shows "page_req page (page_request (ntd_obj y' q') page oob buf p)"
  using assms(1) partition_fields [OF assms(2,1)]
  by (simp add: page_req_def page_request_def set_request_def push_bit_eq_mult geometry_ok_def)

lemma page_bytes:
  assumes "sh < 32"
  shows "unat (of_nat (unat (page :: u32)) * 2 ^ sh :: u64) = unat page * 2 ^ sh" "unat page * 2 ^ sh + 2 ^ sh < 2 ^ 64"
    "(2 :: nat) ^ sh \<le> 2 ^ 31"
proof -
  have "unat page < 2 ^ 32"
    using unsigned_less [of page] by simp
  moreover show le: "(2 :: nat) ^ sh \<le> 2 ^ 31"
    using assms by (intro power_increasing) auto
  ultimately have "(unat page + 1) * 2 ^ sh \<le> 2 ^ 32 * 2 ^ 31"
    by (intro mult_mono) auto
  then show small: "unat page * 2 ^ sh + 2 ^ sh < 2 ^ 64"
    by (simp add: algebra_simps)
  have "unat (2 ^ sh :: u64) = 2 ^ sh"
    using assms by (intro unat_power_2) simp
  then show "unat (of_nat (unat page) * 2 ^ sh :: u64) = unat page * 2 ^ sh"
    using unat_of_nat_mult [of "unat page" "2 ^ sh :: u64"] small by simp
qed

lemma req_geometry:
  assumes "page_req page r"
  shows "unat (writesize_shift r) < 32" "unat (writesize r) = 2 ^ unat (writesize_shift r)"
    "unat (ucast (writesize r) :: u64) = 2 ^ unat (writesize_shift r)"
  using assms geometry_unat(1) [of r] by (simp_all add: page_req_def geometry_ok_def)

lemma req_out_of_space:
  assumes "page_req page r"
  shows "out_of_space r \<longleftrightarrow> unat (pd_size r) < (unat page + 1) * unat (writesize r)"
proof -
  let ?sh = "unat (writesize_shift r)"
  note g = req_geometry [OF assms]
  have "unat (of_nat (unat page) * 2 ^ ?sh + ucast (writesize r) :: u64) = unat page * 2 ^ ?sh + 2 ^ ?sh"
    using unat_add_lem [of "of_nat (unat page) * 2 ^ ?sh :: u64" "ucast (writesize r)"] page_bytes [OF g(1)] g(3) by simp
  then show ?thesis
    using assms by (simp only: out_of_space_def page_req_def word_less_nat_alt g(2)) (simp add: algebra_simps)
qed

text \<open>Within the device the loop of the request makes one turn, at the page of the request.\<close>

lemma one_page_loop:
  assumes "hooks_keep hk" "page_req page r" "unat (pd_offset r) + unat (pd_size r) < 2 ^ 64"
    and "\<not> has (pd_option r) DEV_SLC_MODE" "\<not> out_of_space r"
  shows "read_loop (chip_table hw hk ub) r (do_len (pd_ops r)) (pd_offset r + do_addr (pd_ops r)) (clear_ops r True u) =
    unit_seq (read_page hw hk) read_stop (advance_buf r) (ucast (writesize r))
      [ucast (drop_bit (unat (writesize_shift r)) (pd_offset r)) + page] 0 (clear_ops r True u)"
proof -
  let ?sh = "unat (writesize_shift r)"
  let ?a = "pd_offset r + of_nat (unat page) * 2 ^ ?sh"
  note g = req_geometry [OF assms(2)]
  have req: "do_len (pd_ops r) = ucast (writesize r)" "do_addr (pd_ops r) = of_nat (unat page) * 2 ^ ?sh"
    "do_mode (pd_ops r) = NAND_HW_ECC" "geometry_ok r"
    using assms(2) by (simp_all add: page_req_def)
  have in_dev: "unat page * 2 ^ ?sh + 2 ^ ?sh \<le> unat (pd_size r)"
    using assms(5) req_out_of_space [OF assms(2)] g(2) by (simp add: algebra_simps)
  have a: "unat ?a + unat (ucast (writesize r) :: u64) < 2 ^ 64"
    using unat_add_lem [of "pd_offset r" "of_nat (unat page) * 2 ^ ?sh"] page_bytes [OF g(1)] in_dev assms(3) g(3) by simp
  have one: "units (2 ^ ?sh) (2 ^ ?sh) = 1"
    by (rule units_self) simp
  have pg: "ucast (drop_bit ?sh ?a) = ucast (drop_bit ?sh (pd_offset r)) + page"
    using page_step [of "pd_offset r" "unat page" ?sh] in_dev assms(3) g(1) by simp
  have slc: "\<not> has (op_option (ops_para (clear_ops r True u))) DEV_SLC_MODE"
    using assms(4) req(3) by (simp add: clear_ops_def Let_def)
  have "map (\<lambda>i. page_of r (?a + of_nat i * ucast (writesize r)) (clear_ops r True u))
      [0..<units (unat (ucast (writesize r) :: u64)) (unat (writesize r))] = [ucast (drop_bit ?sh (pd_offset r)) + page]"
    unfolding pages_consecutive [OF req(4) a slc] unfolding g(2,3) one page_run_def by (simp add: pg [simplified])
  moreover have "0 < unat (writesize r)" "unat (ucast (writesize r) :: u64) + unat (writesize r) < 2 ^ 64"
    "0 < unat (ucast (writesize r) :: u64)"
    using page_bytes(3) [OF g(1)] unfolding g(2,3) by simp_all
  ultimately show ?thesis
    using keep_hooks.read_loop_seq [OF keep_hooks.intro [OF assms(1)], of r "ucast (writesize r)" hw ub ?a] by (simp only: req)
qed

lemma one_page_nand_read:
  assumes "page_req page r" "\<not> out_of_space r"
  shows "nand_read ct (r, s) = amlnand_get_device ct CHIP_READING s \<bind> (\<lambda>s.
    read_loop ct r (do_len (pd_ops r)) (pd_offset r + do_addr (pd_ops r)) (clear_ops r True s) \<bind> read_done r)"
proof -
  have "do_len (pd_ops r) \<noteq> 0"
    using assms(1) req_geometry(3) [OF assms(1)] by (metis page_req_def power_not_zero unat_0 zero_neq_numeral)
  then show ?thesis
    using assms(2) unfolding nand_read_def read_done_def by (simp only: Let_def case_prod_conv if_False simp_thms)
qed

text \<open>
  C10.  Reading page \<open>page\<close> of a partition that \<open>allocate_partition\<close> set up is one
  \<open>read_page\<close> of the chip, of the page that many pages after the start of the
  device, with the caller's buffers; a page that does not lie within the device
  is refused and nothing is done.
\<close>

theorem partition_page_is_flash_page:
  assumes "hooks_keep hk" "geometry_ok p" "unat (pd_offset p) + unat (pd_size p) < 2 ^ 64"
    and "\<not> has (pd_option p) DEV_SLC_MODE"
    and "allocate_partition ct q ok m (p, s0) y = Some (Inr q', d, y')"
  shows "read_page_with_oob (chip_table hw hk ub) (ntd_obj y' q') page oob buf (p, s) =
    (let r = page_request (ntd_obj y' q') page oob buf p
     in if unat (pd_size p) < (unat page + 1) * unat (writesize p) then Some (- NAND_ARGUMENT_FAILURE, r, s)
        else amlnand_get_device (chip_table hw hk ub) CHIP_READING s \<bind> (\<lambda>s.
          read_page hw hk (set_page_addr (ucast (drop_bit (unat (writesize_shift p)) (pd_offset p)) + page) (clear_ops r True s))
            \<bind> after_read r))"
proof -
  let ?r = "page_request (ntd_obj y' q') page oob buf p"
  note req = page_request_req [OF assms(2,5), of page oob buf]
  have r: "writesize ?r = writesize p" "writesize_shift ?r = writesize_shift p" "pd_size ?r = pd_size p"
    "pd_offset ?r = pd_offset p" "pd_option ?r = pd_option p"
    by (simp_all add: page_request_def set_request_def)
  show ?thesis
  proof (cases "out_of_space ?r")
    case True
    then show ?thesis
      using req_out_of_space [OF req] r by (simp add: read_page_with_oob_def nand_read_def)
  next
    case False
    have "unat (pd_offset ?r) + unat (pd_size ?r) < 2 ^ 64" "\<not> has (pd_option ?r) DEV_SLC_MODE"
      using assms(3,4) r by simp_all
    note loop = one_page_loop [OF assms(1) req this False, of hw ub]
    have "nand_read (chip_table hw hk ub) (?r, s) = amlnand_get_device (chip_table hw hk ub) CHIP_READING s \<bind> (\<lambda>s.
        read_page hw hk (set_page_addr (ucast (drop_bit (unat (writesize_shift ?r)) (pd_offset ?r)) + page) (clear_ops ?r True s))
          \<bind> after_read ?r)"
      by (simp only: one_page_nand_read [OF req False] loop one_page_read)
    then show ?thesis
      using False req_out_of_space [OF req] by (simp only: read_page_with_oob_def apfst_conv r Let_def if_False)
  qed
qed

definition small_dev :: amlnand_phydev where
  "small_dev = demo_dev\<lparr>pd_size := 0x200000, pd_offset := 0x900000, pd_flags := NTD_WRITEABLE\<rparr>"

definition no_ntd :: ntd_sys where
  "no_ntd = \<lparr>ntd_obj = (\<lambda>_. new_slave 0 demo_dev), ntd_idr = [], ntd_init_available = 1, ntd_registered = [], ntd_partitions = []\<rparr>"

lemma small_geometry: "geometry_ok small_dev"
  by (simp add: geometry_ok_def small_dev_def demo_dev_def)

lemma demo_table: "block_status demo_nand \<noteq> NULL"
  by (simp add: demo_nand_def)

lemma small_allocated:
  "\<exists>d y. allocate_partition (chip_table demo_hw plain_hooks ub) 7 True 1 (small_dev, demo_nand) no_ntd = Some (Inr 7, d, y)"
proof -
  have shift: "nt_blocksize_shift (new_slave 1 small_dev) = 21"
    using slave_shift(2) [OF small_geometry] by (simp add: small_dev_def demo_dev_def)
  have "\<exists>r d. part_block_isbad (chip_table demo_hw plain_hooks ub) n 0 (small_dev, demo_nand) = Some (r, d)" for n
    using demo_facts get_device_ready [of demo_nand plain_hooks CHIP_READING demo_hw ub] demo_table
    by (simp add: clear_ops_def set_page_addr_def has_def c_consts part_block_isbad_def nand_block_isbad_def block_op_def block_request_def set_request_def Let_def
        place_block_def serial_select_def chip_table_def block_isbad_def die_adjust_def)
  then obtain r d where "part_block_isbad (chip_table demo_hw plain_hooks ub)
      (force_readonly nt_size (force_readonly nt_offset (new_slave 1 small_dev))) 0 (small_dev, demo_nand) = Some (r, d)"
    by blast
  moreover have "bad_turns (ucast (drop_bit 21 (nt_size (new_slave 1 small_dev)))) = Suc 0"
    by (simp add: new_slave_def small_dev_def bad_turns_def)
  ultimately show ?thesis
    using shift by (cases d) (simp add: allocate_partition_def Let_def)
qed

theorem partition_page_is_flash_page_witness:
  "\<exists>d y r. allocate_partition (chip_table demo_hw plain_hooks (\<lambda>s. Some (0, s))) 7 True 1 (small_dev, demo_nand) no_ntd = Some (Inr 7, d, y)
     \<and> read_page_with_oob (chip_table demo_hw plain_hooks (\<lambda>s. Some (0, s))) (ntd_obj y 7) 300 0 400000 (small_dev, demo_nand) = Some (- NAND_ARGUMENT_FAILURE, r, demo_nand)"
proof -
  obtain d y where a: "allocate_partition (chip_table demo_hw plain_hooks (\<lambda>s. Some (0, s))) 7 True 1 (small_dev, demo_nand) no_ntd = Some (Inr 7, d, y)"
    using small_allocated by blast
  have "unat (pd_offset small_dev) + unat (pd_size small_dev) < 2 ^ 64" "\<not> has (pd_option small_dev) DEV_SLC_MODE"
    "unat (pd_size small_dev) < (unat (300 :: u32) + 1) * unat (writesize small_dev)"
    by (simp_all add: small_dev_def demo_dev_def has_def c_consts)
  with partition_page_is_flash_page [OF plain_hooks_keep small_geometry this(1,2) a, of demo_hw "\<lambda>s. Some (0, s)" 300 0 400000 demo_nand]
    a show ?thesis
    by (simp add: Let_def)
qed

text \<open>
  The check that makes a partition read-only when it does not start or end
  on an erase block never fires: it masks with a field that is never set, so
  every partition keeps the flags of its device.
\<close>

theorem partition_keeps_flags:
  assumes "geometry_ok p" "2 \<le> erasesize p" "allocate_partition ct q ok m (p, s0) y = Some (Inr q', d, y')"
  shows "nt_flags (ntd_obj y' q') = pd_flags p"
proof -
  have "nt_blocksize_shift (new_slave m p) \<noteq> 0"
    using slave_shift(2) [OF assms(1), of m] assms(1,2) by (auto simp: geometry_ok_def word_le_nat_alt)
  then have "force_readonly nt_size (force_readonly nt_offset (new_slave m p)) = new_slave m p"
    by (simp add: force_readonly_def ntd_mod_by_eb_def new_slave_def)
  then show ?thesis
    using partition_fields(4) [OF assms(3,1)] by (simp add: new_slave_def)
qed

theorem partition_keeps_flags_witness:
  "\<exists>d y. allocate_partition (chip_table demo_hw plain_hooks (\<lambda>s. Some (0, s))) 7 True 1 (small_dev, demo_nand) no_ntd = Some (Inr 7, d, y)
     \<and> nt_flags (ntd_obj y 7) = NTD_WRITEABLE \<and> pd_offset small_dev mod 0x200000 \<noteq> 0"
proof -
  obtain d y where a: "allocate_partition (chip_table demo_hw plain_hooks (\<lambda>s. Some (0, s))) 7 True 1 (small_dev, demo_nand) no_ntd = Some (Inr 7, d, y)"
    using small_allocated by blast
  with partition_keeps_flags [OF small_geometry _ a] show ?thesis
    by (simp add: small_dev_def demo_dev_def word_le_nat_alt)
qed

section \<open>The table of devices\<close>

text \<open>
  What happens to the table: objects are created at fresh addresses, registered,
  looked up by number, returned and removed, in any order; \<open>held p\<close> counts the
  references to \<open>p\<close> handed out and not returned.
\<close>

inductive ntd_reach :: "ntd_env \<Rightarrow> ntd_sys \<Rightarrow> (ptr \<Rightarrow> nat) \<Rightarrow> bool" for env where
  start: "ntd_idr s = [] \<Longrightarrow> ntd_reach env s (\<lambda>_. 0)"
| create: "ntd_reach env s held \<Longrightarrow> p \<notin> snd ` set (ntd_idr s) \<Longrightarrow> ntd_reach env (upd_obj p (\<lambda>_. n) s) held"
| add: "ntd_reach env s held \<Longrightarrow> p \<noteq> NULL \<Longrightarrow> p \<notin> snd ` set (ntd_idr s) \<Longrightarrow> add_ntd_device env p s = Some (r, t)
    \<Longrightarrow> ntd_reach env t held"
| get: "ntd_reach env s held \<Longrightarrow> get_ntd_device env q num s = (Inr p, t) \<Longrightarrow> ntd_reach env t (held(p := held p + 1))"
| get_failed: "ntd_reach env s held \<Longrightarrow> get_ntd_device env q num s = (Inl e, t) \<Longrightarrow> ntd_reach env t held"
| put: "ntd_reach env s held \<Longrightarrow> 0 < held p \<Longrightarrow> put_ntd_device p s = Some t \<Longrightarrow> ntd_reach env t (held(p := held p - 1))"
| del: "ntd_reach env s held \<Longrightarrow> p \<noteq> NULL \<Longrightarrow> del_ntd_device p s = (r, t) \<Longrightarrow> ntd_reach env t held"

definition ntd_inv :: "ntd_sys \<Rightarrow> (ptr \<Rightarrow> nat) \<Rightarrow> bool" where
  "ntd_inv s held \<longleftrightarrow> distinct (map fst (ntd_idr s)) \<and> distinct (map snd (ntd_idr s))
     \<and> (\<forall>i p. (i, p) \<in> set (ntd_idr s) \<longrightarrow>
          p \<noteq> NULL \<and> nt_index (ntd_obj s p) = i \<and> nt_usecount (ntd_obj s p) = int (held p))
     \<and> (\<forall>p. 0 < held p \<longrightarrow> p \<in> snd ` set (ntd_idr s))"

lemma ntd_invD:
  assumes "ntd_inv s held"
  shows "distinct (map fst (ntd_idr s))" "distinct (map snd (ntd_idr s))" "NULL \<notin> snd ` set (ntd_idr s)"
    "(i, p) \<in> set (ntd_idr s) \<Longrightarrow> p \<noteq> NULL \<and> nt_index (ntd_obj s p) = i \<and> nt_usecount (ntd_obj s p) = int (held p)"
    "0 < held q \<Longrightarrow> \<exists>i. (i, q) \<in> set (ntd_idr s)"
proof -
  note inv = assms [unfolded ntd_inv_def]
  show "distinct (map fst (ntd_idr s))" "distinct (map snd (ntd_idr s))"
    using inv by blast+
  show "(i, p) \<in> set (ntd_idr s) \<Longrightarrow> p \<noteq> NULL \<and> nt_index (ntd_obj s p) = i \<and> nt_usecount (ntd_obj s p) = int (held p)" for i p
    using inv by blast
  then show "NULL \<notin> snd ` set (ntd_idr s)"
    by (metis imageE prod.collapse)
  show "0 < held q \<Longrightarrow> \<exists>i. (i, q) \<in> set (ntd_idr s)"
    using inv by (metis imageE prod.collapse)
qed

lemma ntd_invI:
  assumes "distinct (map fst (ntd_idr t))" "distinct (map snd (ntd_idr t))"
    "\<And>i p. (i, p) \<in> set (ntd_idr t) \<Longrightarrow> p \<noteq> NULL \<and> nt_index (ntd_obj t p) = i \<and> nt_usecount (ntd_obj t p) = int (held p)"
    "\<And>p. 0 < held p \<Longrightarrow> p \<in> snd ` set (ntd_idr t)"
  shows "ntd_inv t held"
  using assms by (simp add: ntd_inv_def)

lemma idr_find_iff: "distinct (map fst idr) \<Longrightarrow> NULL \<notin> snd ` set idr \<Longrightarrow> p \<noteq> NULL \<Longrightarrow> idr_find idr i = p \<longleftrightarrow> (i, p) \<in> set idr"
  by (auto simp: idr_find_def split: option.splits dest: map_of_SomeD eq_key_imp_eq_value)

lemma ntd_inv_find: "ntd_inv s held \<Longrightarrow> p \<noteq> NULL \<Longrightarrow> idr_find (ntd_idr s) i = p \<longleftrightarrow> (i, p) \<in> set (ntd_idr s)"
  by (rule idr_find_iff) (auto dest: ntd_invD(1,3))

lemma ntd_inv_cong:
  assumes "ntd_inv s held" "ntd_idr t = ntd_idr s" "\<And>q. q \<in> snd ` set (ntd_idr s) \<Longrightarrow> ntd_obj t q = ntd_obj s q"
  shows "ntd_inv t held"
proof (rule ntd_invI)
  fix i p
  assume "(i, p) \<in> set (ntd_idr t)"
  moreover from this have "ntd_obj t p = ntd_obj s p"
    using assms(2,3) by force
  ultimately show "p \<noteq> NULL \<and> nt_index (ntd_obj t p) = i \<and> nt_usecount (ntd_obj t p) = int (held p)"
    using ntd_invD(4) [OF assms(1)] assms(2) by simp
next
  show "0 < held p \<Longrightarrow> p \<in> snd ` set (ntd_idr t)" for p
    using ntd_invD(5) [OF assms(1)] assms(2) by force
qed (use ntd_invD(1,2) [OF assms(1)] assms(2) in simp_all)

lemma ntd_inv_insert:
  assumes "ntd_inv s held" "p \<noteq> NULL" "p \<notin> snd ` set (ntd_idr s)" "i \<notin> fst ` set (ntd_idr s)"
    and "ntd_idr t = (i, p) # ntd_idr s" "\<And>q. q \<noteq> p \<Longrightarrow> ntd_obj t q = ntd_obj s q"
    and "nt_index (ntd_obj t p) = i" "nt_usecount (ntd_obj t p) = 0"
  shows "ntd_inv t held"
proof (rule ntd_invI)
  have zero: "held p = 0"
    using ntd_invD(5) [OF assms(1)] assms(3) by force
  fix j q
  assume "(j, q) \<in> set (ntd_idr t)"
  then show "q \<noteq> NULL \<and> nt_index (ntd_obj t q) = j \<and> nt_usecount (ntd_obj t q) = int (held q)"
    using ntd_invD(4) [OF assms(1), of j q] assms zero by (cases "q = p") force+
next
  show "0 < held q \<Longrightarrow> q \<in> snd ` set (ntd_idr t)" for q
    using ntd_invD(5) [OF assms(1)] assms(5) by force
qed (use ntd_invD(1,2) [OF assms(1)] assms(3-5) in simp_all)

lemma ntd_inv_add:
  assumes "ntd_inv s held" "p \<noteq> NULL" "p \<notin> snd ` set (ntd_idr s)" "add_ntd_device env p s = Some (r, t)"
    and "0 \<le> env_idr_alloc env (ntd_idr s) \<Longrightarrow> env_idr_alloc env (ntd_idr s) \<notin> fst ` set (ntd_idr s)"
  shows "ntd_inv t held"
proof (cases "0 \<le> env_idr_alloc env (ntd_idr s)")
  case True
  let ?i = "env_idr_alloc env (ntd_idr s)"
  note fresh = assms(5) [OF True]
  then have "idr_remove ?i ((?i, p) # ntd_idr s) = ntd_idr s"
    by (auto simp: idr_remove_def image_iff intro!: filter_True)
  then have obj: "ntd_obj t = (ntd_obj s)(p := (ntd_obj s p)\<lparr>nt_index := ?i, nt_usecount := 0\<rparr>)"
    and idr: "ntd_idr t = (?i, p) # ntd_idr s \<or> ntd_idr t = ntd_idr s"
    using assms(4) True by (auto simp: add_ntd_device_def upd_obj_def Let_def split: if_splits)
  from idr show ?thesis
  proof
    assume "ntd_idr t = (?i, p) # ntd_idr s"
    then show ?thesis
      using ntd_inv_insert [OF assms(1-3) fresh] obj by simp
  next
    assume "ntd_idr t = ntd_idr s"
    then show ?thesis
      by (rule ntd_inv_cong [OF assms(1)]) (use obj assms(3) in auto)
  qed
next
  case False
  then show ?thesis
    using assms by (auto simp: add_ntd_device_def Let_def split: if_splits)
qed

lemma walk_null: "NULL \<notin> set ps \<Longrightarrow> walk_same NULL ps = NULL"
  by (induction ps) auto

lemma get_ntd_device_found:
  assumes "ntd_inv s held" "get_ntd_device env q num s = (Inr p, t)"
  shows "(num, p) \<in> set (ntd_idr s) \<and> p \<noteq> NULL \<and> t = upd_obj p (\<lambda>n. n\<lparr>nt_usecount := nt_usecount n + 1\<rparr>) s"
proof -
  have "walk_same NULL (ntd_devices s) = NULL"
    using ntd_invD(3) [OF assms(1)] by (intro walk_null) (auto simp: ntd_devices_def)
  then have "p = idr_find (ntd_idr s) num \<and> p \<noteq> NULL \<and> t = upd_obj p (\<lambda>n. n\<lparr>nt_usecount := nt_usecount n + 1\<rparr>) s"
    using assms(2) by (auto simp: get_ntd_device_def get_ntd_device_locked_def Let_def c_consts split: if_splits)
  then show ?thesis
    using ntd_inv_find [OF assms(1)] by auto
qed

lemma get_failed_same: "get_ntd_device env q num s = (Inl e, t) \<Longrightarrow> t = s"
  by (auto simp: get_ntd_device_def get_ntd_device_locked_def Let_def split: if_splits)

lemma ntd_inv_count:
  assumes "ntd_inv s held" "(i, p) \<in> set (ntd_idr s)" "int (held p) + v = int n"
  shows "ntd_inv (upd_obj p (\<lambda>m. m\<lparr>nt_usecount := nt_usecount m + v\<rparr>) s) (held(p := n))"
proof (rule ntd_invI)
  fix j q
  assume "(j, q) \<in> set (ntd_idr (upd_obj p (\<lambda>m. m\<lparr>nt_usecount := nt_usecount m + v\<rparr>) s))"
  then show "q \<noteq> NULL \<and> nt_index (ntd_obj (upd_obj p (\<lambda>m. m\<lparr>nt_usecount := nt_usecount m + v\<rparr>) s) q) = j
      \<and> nt_usecount (ntd_obj (upd_obj p (\<lambda>m. m\<lparr>nt_usecount := nt_usecount m + v\<rparr>) s) q) = int ((held(p := n)) q)"
    using ntd_invD(4) [OF assms(1), of j q] assms(3) by (auto simp: upd_obj_def)
next
  show "0 < (held(p := n)) q \<Longrightarrow> q \<in> snd ` set (ntd_idr (upd_obj p (\<lambda>m. m\<lparr>nt_usecount := nt_usecount m + v\<rparr>) s))" for q
    using ntd_invD(5) [OF assms(1), of q] assms(2) by (cases "q = p") (force simp: upd_obj_def)+
qed (use ntd_invD(1,2) [OF assms(1)] in \<open>simp_all add: upd_obj_def\<close>)

lemma ntd_inv_put:
  assumes "ntd_inv s held" "0 < held p"
  shows "\<exists>t. put_ntd_device p s = Some t \<and> ntd_inv t (held(p := held p - 1))"
proof -
  obtain i where i: "(i, p) \<in> set (ntd_idr s)"
    using ntd_invD(5) [OF assms] ..
  have "put_ntd_device p s = Some (upd_obj p (\<lambda>m. m\<lparr>nt_usecount := nt_usecount m + - 1\<rparr>) s)"
    using ntd_invD(4) [OF assms(1) i] assms(2) by (simp add: put_ntd_device_def put_ntd_device_locked_def upd_obj_def)
  then show ?thesis
    using ntd_inv_count [OF assms(1) i, of "- 1" "held p - 1"] assms(2) by simp
qed

lemma ntd_inv_del:
  assumes "ntd_inv s held" "p \<noteq> NULL" "del_ntd_device p s = (r, t)"
  shows "ntd_inv t held"
proof (cases "r = 0")
  case True
  let ?i = "nt_index (ntd_obj s p)"
  have "idr_find (ntd_idr s) ?i = p" and u: "nt_usecount (ntd_obj s p) = 0"
    and t: "ntd_idr t = idr_remove ?i (ntd_idr s)" "ntd_obj t = ntd_obj s"
    using assms(3) True by (auto simp: del_ntd_device_def Let_def c_consts split: if_splits)
  then have mem: "(?i, p) \<in> set (ntd_idr s)"
    using ntd_inv_find [OF assms(1,2)] by simp
  then have zero: "held p = 0"
    using ntd_invD(4) [OF assms(1)] u by force
  show ?thesis
  proof (rule ntd_invI)
    fix q
    assume q: "0 < held q"
    then obtain i where i: "(i, q) \<in> set (ntd_idr s)"
      using ntd_invD(5) [OF assms(1)] by blast
    have "i \<noteq> ?i"
      using i mem q zero ntd_invD(1) [OF assms(1)] eq_key_imp_eq_value by force
    then show "q \<in> snd ` set (ntd_idr t)"
      using i by (force simp: t idr_remove_def)
  next
    show "(i, q) \<in> set (ntd_idr t) \<Longrightarrow> q \<noteq> NULL \<and> nt_index (ntd_obj t q) = i \<and> nt_usecount (ntd_obj t q) = int (held q)" for i q
      using ntd_invD(4) [OF assms(1), of i q] by (simp add: t idr_remove_def)
  qed (use ntd_invD(1,2) [OF assms(1)] in \<open>simp_all add: t idr_remove_def distinct_map_filter\<close>)
next
  case False
  then show ?thesis
    using assms by (auto simp: del_ntd_device_def Let_def split: if_splits)
qed

lemma ntd_reach_inv:
  assumes "\<And>idr. 0 \<le> env_idr_alloc env idr \<Longrightarrow> env_idr_alloc env idr \<notin> fst ` set idr"
  shows "ntd_reach env s held \<Longrightarrow> ntd_inv s held"
proof (induction rule: ntd_reach.induct)
  case (create s held p n)
  then show ?case
    by (intro ntd_inv_cong [OF create.IH]) (auto simp: upd_obj_def)
next
  case (get s held q num p t)
  note found = get_ntd_device_found [OF get.IH get.hyps(2)]
  then have "ntd_inv (upd_obj p (\<lambda>m. m\<lparr>nt_usecount := nt_usecount m + 1\<rparr>) s) (held(p := held p + 1))"
    by (intro ntd_inv_count [OF get.IH]) auto
  then show ?case
    using found by blast
next
  case (put s held p t)
  then show ?case
    using ntd_inv_put [of s held p] by (metis option.inject)
next
  case (add s held p r t)
  then show ?case
    using ntd_inv_add assms by blast
next
  case (del s held p r t)
  then show ?case
    using ntd_inv_del by blast
next
  case (get_failed s held q num e t)
  then show ?case
    using get_failed_same by metis
qed (simp add: ntd_inv_def)


definition one_env :: ntd_env where
  "one_env = \<lparr>env_idr_alloc = (\<lambda>idr. if idr = [] then 0 else - ENOMEM), env_class_register = 0, env_device_register = (\<lambda>_. 0),
     env_module_get = (\<lambda>_. True)\<rparr>"


text \<open>
  Looking a device up by its address or by its name never works: the loop over
  the table runs with the wrong variable.  By address every look-up fails; by
  name it fails on an empty table and stops the kernel on any other.
\<close>

theorem lookup_by_address_or_name_broken:
  assumes "NULL \<notin> snd ` set (ntd_idr s)" "ntd_idr s \<noteq> []"
  shows "get_ntd_device env p (- 1) s = (Inl (- ENODEV), s) \<and> get_ntd_device_nm env name s = None"
proof -
  have "walk_same NULL (ntd_devices s) = NULL"
    using assms(1) by (intro walk_null) (auto simp: ntd_devices_def)
  moreover have "ntd_devices s \<noteq> []"
    using assms(2) by (metis ntd_devices_def length_0_conv length_map length_sort)
  then have "walk_name (ntd_obj s) name NULL (ntd_devices s) = None"
    by (cases "ntd_devices s") simp_all
  ultimately show ?thesis
    by (simp add: get_ntd_device_def get_ntd_device_nm_def)
qed

theorem lookup_by_address_or_name_broken_witness:
  "get_ntd_device one_env 7 (- 1) (no_ntd\<lparr>ntd_idr := [(0, 7)]\<rparr>) = (Inl (- ENODEV), no_ntd\<lparr>ntd_idr := [(0, 7)]\<rparr>)
     \<and> get_ntd_device_nm one_env ''nfcode'' (no_ntd\<lparr>ntd_idr := [(0, 7)]\<rparr>) = None"
  by (rule lookup_by_address_or_name_broken) simp_all

section \<open>Allocating as much as possible\<close>

lemma unat_clear_low: "unat (y AND NOT (mask k)) = unat y div 2 ^ k * 2 ^ k" for y :: u32
proof -
  have "y AND NOT (mask k) = push_bit k (drop_bit k y)"
    by (rule bit_word_eqI) (auto simp: bit_simps)
  then have sum: "(y AND NOT (mask k)) + take_bit k y = y"
    by (simp only: bits_ident)
  have tk: "unat (take_bit k y) = unat y mod 2 ^ k"
    by (subst unsigned_take_bit_eq) (rule take_bit_eq_mod)
  have "y AND NOT (mask k) = y - take_bit k y"
    using sum by (metis add_diff_cancel_right')
  moreover have "take_bit k y \<le> y"
    using tk by (simp add: word_le_nat_alt)
  ultimately have "unat (y AND NOT (mask k)) = unat y - unat y mod 2 ^ k"
    by (simp add: unat_sub tk)
  then show ?thesis
    by (simp add: minus_mod_eq_div_mult)
qed

lemma align_up_power:
  assumes "k < 32" "unat x + 2 ^ k \<le> 2 ^ 32"
  shows "unat (align_up (2 ^ k) x) = (unat x + (2 ^ k - 1)) div 2 ^ k * 2 ^ k"
proof -
  have m: "(2 :: u32) ^ k - 1 = mask k"
    by (simp add: mask_eq_exp_minus_1)
  have mk: "unat (mask k :: u32) = 2 ^ k - 1"
    using assms(1) unat_power_2 [of k, where 'a = 32] by (simp add: unat_sub word_le_nat_alt flip: m)
  have "unat (x + mask k) = unat x + (2 ^ k - 1)"
    using assms mk by (subst unat_plus_if_size) (simp add: word_size)
  then show ?thesis
    by (simp only: align_up_def m unat_clear_low)
qed

lemma align_half_less:
  assumes "k < 32" "2 ^ k < unat x" "unat x \<le> 2 ^ 31"
  shows "unat (align_up (2 ^ k) (drop_bit 1 x)) < unat x" "2 ^ k dvd unat (align_up (2 ^ k) (drop_bit 1 x))"
proof -
  have half: "unat (drop_bit 1 x) = unat x div 2"
    by (simp add: drop_bit_eq_div unat_div)
  have kk: "(2 :: nat) ^ k \<le> 2 ^ 31"
    using assms by linarith
  have al: "unat (align_up (2 ^ k) (drop_bit 1 x)) = (unat x div 2 + (2 ^ k - 1)) div 2 ^ k * 2 ^ k"
    using align_up_power [of k "drop_bit 1 x"] half assms kk by simp
  then show "2 ^ k dvd unat (align_up (2 ^ k) (drop_bit 1 x))"
    by simp
  show "unat (align_up (2 ^ k) (drop_bit 1 x)) < unat x"
    unfolding al
  proof (cases "unat x < 2 * 2 ^ k")
    case True
    then have "(unat x div 2 + (2 ^ k - 1)) div 2 ^ k < 2"
      by (intro less_mult_imp_div_less) linarith
    then have "(unat x div 2 + (2 ^ k - 1)) div 2 ^ k * 2 ^ k \<le> 1 * 2 ^ k"
      by (intro mult_right_mono) simp_all
    then show "(unat x div 2 + (2 ^ k - 1)) div 2 ^ k * 2 ^ k < unat x"
      using assms(2) by linarith
  next
    case False
    have "(unat x div 2 + (2 ^ k - 1)) div 2 ^ k * 2 ^ k \<le> unat x div 2 + (2 ^ k - 1)"
      by (rule div_times_less_eq_dividend)
    also have "\<dots> < unat x"
      using False assms(2) by linarith
    finally show "(unat x div 2 + (2 ^ k - 1)) div 2 ^ k * 2 ^ k < unat x" .
  qed
qed

lemma up_to_result:
  assumes k: "k < 32" "2 ^ k \<le> unat low" and "unat sz \<le> 2 ^ 31"
  shows "\<exists>b z. up_to_loop (2 ^ k) f low sz = Some (b, z) \<and> z \<le> sz \<and> (b = NULL \<longrightarrow> z \<le> low)
    \<and> (b \<noteq> NULL \<longrightarrow> low < z \<and> f z = b) \<and> (z = sz \<or> 2 ^ k dvd unat z)"
  using assms(3)
proof (induction "unat sz" arbitrary: sz rule: less_induct)
  case less
  let ?z = "align_up (2 ^ k) (drop_bit 1 sz)"
  show ?case
  proof (cases "low < sz \<and> f sz = NULL")
    case True
    then have "2 ^ k < unat sz"
      using k(2) by (simp add: word_less_nat_alt)
    note half = align_half_less [OF k(1) this less.prems]
    from less.hyps [OF half(1)] half less.prems obtain b z where "up_to_loop (2 ^ k) f low ?z = Some (b, z)" "z \<le> ?z"
      "b = NULL \<longrightarrow> z \<le> low" "b \<noteq> NULL \<longrightarrow> low < z \<and> f z = b" "2 ^ k dvd unat z"
      by (auto simp: Let_def)
    moreover have "?z \<le> sz"
      using half(1) by (simp add: word_le_nat_alt)
    ultimately show ?thesis
      using True by (subst up_to_loop.simps) auto
  next
    case False
    then show ?thesis
      by (subst up_to_loop.simps) (auto simp: Let_def)
  qed
qed

text \<open>
  C15.  \<open>ntd_kmalloc_up_to\<close> always comes back, however often the allocator refuses:
  with the size it reports at most the size asked for and the limit of the
  allocator, a whole number of pages unless it is the size asked for, and the
  buffer it returns is one the allocator gave for exactly that size.
\<close>

theorem kmalloc_up_to_total:
  assumes "nt_pagesize n = 2 ^ k" "k < 32" "unat kmalloc_max \<le> 2 ^ 31"
  shows "\<exists>b z. ntd_kmalloc_up_to f g kmalloc_max n sz = Some (b, z) \<and> z \<le> sz \<and> z \<le> kmalloc_max
    \<and> (z = min sz kmalloc_max \<or> 2 ^ k dvd unat z) \<and> b \<in> {f z, g z}"
proof -
  have low: "2 ^ k \<le> unat (max (nt_pagesize n) 4096)"
    using unat_power_2 [of k, where 'a = 32] assms(1,2) by (simp add: max_def word_le_nat_alt)
  have "unat (min sz kmalloc_max) \<le> 2 ^ 31"
    using assms(3) by (auto simp: min_def word_le_nat_alt)
  from up_to_result [OF assms(2) low this, of f] obtain b z where
    "up_to_loop (2 ^ k) f (max (nt_pagesize n) 4096) (min sz kmalloc_max) = Some (b, z)" "z \<le> min sz kmalloc_max"
    "b \<noteq> NULL \<longrightarrow> f z = b" "z = min sz kmalloc_max \<or> 2 ^ k dvd unat z"
    by auto
  then show ?thesis
    using assms(1) by (auto simp: ntd_kmalloc_up_to_def)
qed

theorem kmalloc_up_to_total_witness:
  "\<exists>b z. ntd_kmalloc_up_to (\<lambda>_. 0) (\<lambda>z. unat z) 0x400000 (new_slave 1 demo_dev) 0x900000 = Some (b, z) \<and> z \<le> 0x400000"
  using kmalloc_up_to_total [of "new_slave 1 demo_dev" 13 "0x400000" "\<lambda>_. 0" "\<lambda>z. unat z" "0x900000"]
  by (auto simp: new_slave_def demo_dev_def)

end
