(* ===== verification/BlkTrans.thy ===== *)
theory BlkTrans
  imports Nand
begin

text \<open>
  \<open>ntd/aml_ntd_blkdevs.c\<close>: block devices on top of the translation layer.
  Requests are queued and carried out one after the other by an ordered work
  queue; every device counts its openers and its references.  The translation
  layer behind the operations is a parameter (with its state \<open>'s\<close>), and so are
  the answers of the kernel's block layer.
\<close>

section \<open>Requests\<close>

datatype req_op = REQ_OP_READ | REQ_OP_WRITE | REQ_OP_FLUSH | REQ_OP_DISCARD | REQ_OP_WRITE_ZEROES | REQ_OP_OTHER

datatype blk_status = BLK_STS_OK | BLK_STS_IOERR

text \<open>A request: operation, start in units of 512 bytes, length in the same unit, memory segments.\<close>

record request =
  rq_op :: req_op
  rq_pos :: u64
  rq_sectors :: u32
  rq_segments :: "(ptr \<times> u32) list"
  rq_sync :: bool

record 's blktrans_ops =
  tr_part_bits :: nat
  tr_blksize :: u32
  tr_blkshift :: nat
  tr_do_request :: "(request \<Rightarrow> 's \<Rightarrow> int \<times> 's) option"
  tr_readsect :: "(u32 \<Rightarrow> ptr \<Rightarrow> 's \<Rightarrow> int \<times> 's) option"
  tr_writesect :: "(u32 \<Rightarrow> ptr \<Rightarrow> 's \<Rightarrow> int \<times> 's) option"
  tr_discard :: "(u32 \<Rightarrow> u32 \<Rightarrow> 's \<Rightarrow> int \<times> 's) option"
  tr_flush :: "('s \<Rightarrow> int \<times> 's) option"

fun sect_loop ::
  "(u32 \<Rightarrow> ptr \<Rightarrow> 's \<Rightarrow> int \<times> 's) \<Rightarrow> u32 \<Rightarrow> nat \<Rightarrow> u32 \<Rightarrow> ptr \<Rightarrow> 's \<Rightarrow> (bool \<times> u32) \<times> 's" where
  "sect_loop f blksize 0 block buf s = ((True, block), s)"
| "sect_loop f blksize (Suc nsect) block buf s =
     (let (ret, s) = f block buf s
      in if ret \<noteq> 0 then ((False, block), s) else sect_loop f blksize nsect (block + 1) (buf + unat blksize) s)"

fun seg_loop ::
  "(u32 \<Rightarrow> ptr \<Rightarrow> 's \<Rightarrow> int \<times> 's) \<Rightarrow> u32 \<Rightarrow> nat \<Rightarrow> (ptr \<times> u32) list \<Rightarrow> u32 \<Rightarrow> 's \<Rightarrow> blk_status \<times> 's" where
  "seg_loop f blksize blkshift [] block s = (BLK_STS_OK, s)"
| "seg_loop f blksize blkshift ((buf, len) # segs) block s =
     (let ((ok, block), s) = sect_loop f blksize (unat (drop_bit blkshift len)) block buf s
      in if ok then seg_loop f blksize blkshift segs block s else (BLK_STS_IOERR, s))"

definition first_block :: "'s blktrans_ops \<Rightarrow> request \<Rightarrow> u32" where
  "first_block tr req = ucast (drop_bit (tr_blkshift tr) (push_bit 9 (rq_pos req)))"

definition do_blktrans_request_fallback :: "'s blktrans_ops \<Rightarrow> request \<Rightarrow> 's \<Rightarrow> blk_status \<times> 's" where
  "do_blktrans_request_fallback tr req s =
     (let block = first_block tr req;
          status = (\<lambda>(ret, s). (if ret \<noteq> 0 then BLK_STS_IOERR else BLK_STS_OK, s));
          segs = (\<lambda>f. seg_loop f (tr_blksize tr) (tr_blkshift tr) (rq_segments req) block s)
      in case rq_op req of
           REQ_OP_FLUSH \<Rightarrow> (case tr_flush tr of None \<Rightarrow> (BLK_STS_OK, s) | Some f \<Rightarrow> status (f s))
         | REQ_OP_DISCARD \<Rightarrow>
             (case tr_discard tr of None \<Rightarrow> (BLK_STS_OK, s) | Some f \<Rightarrow> status (f block (rq_sectors req) s))
         | REQ_OP_WRITE_ZEROES \<Rightarrow>
             (case tr_discard tr of None \<Rightarrow> (BLK_STS_OK, s) | Some f \<Rightarrow> status (f block (rq_sectors req) s))
         | REQ_OP_READ \<Rightarrow> segs (case tr_readsect tr of None \<Rightarrow> (\<lambda>_ _ s. (1, s)) | Some f \<Rightarrow> f)
         | REQ_OP_WRITE \<Rightarrow> (case tr_writesect tr of None \<Rightarrow> (BLK_STS_IOERR, s) | Some f \<Rightarrow> segs f)
         | REQ_OP_OTHER \<Rightarrow> (BLK_STS_IOERR, s))"

definition run_request :: "'s blktrans_ops \<Rightarrow> request \<Rightarrow> 's \<Rightarrow> blk_status \<times> 's" where
  "run_request tr req s =
     (case tr_do_request tr of
        Some f \<Rightarrow> let (err, s) = f req s in (if err \<noteq> 0 then BLK_STS_IOERR else BLK_STS_OK, s)
      | None \<Rightarrow> do_blktrans_request_fallback tr req s)"

section \<open>The queue and its worker\<close>

text \<open>
  \<open>ntd_queue_rq\<close> may run at any time the queue lock is free: it appends the
  request, releases the lock and then calls \<open>queue_work\<close>, two steps, with
  \<open>bq_kicks\<close> callers between them.  The work item is idle or runs
  \<open>ntd_blktrans_work\<close>: at the top of its loop with the queue lock held, or
  carrying out a request with the lock released.  \<open>queue_work\<close> makes the item
  pending; a pending item starts when the previous run is over.
\<close>

datatype work_pc = Idle | Looping | Busy request

record 's blk_queue =
  bq_rq_list :: "request list"
  bq_work :: work_pc
  bq_pending :: bool
  bq_kicks :: nat
  bq_ftl :: 's
  bq_submitted :: "request list"
  bq_ended :: "(request \<times> blk_status) list"

definition queue_init :: "'s \<Rightarrow> 's blk_queue" where
  "queue_init u = \<lparr>bq_rq_list = [], bq_work = Idle, bq_pending = False, bq_kicks = 0, bq_ftl = u, bq_submitted = [],
     bq_ended = []\<rparr>"

text \<open>The steps of the worker and of \<open>queue_work\<close>, which need nobody outside.\<close>

inductive work_step :: "'s blktrans_ops \<Rightarrow> 's blk_queue \<Rightarrow> 's blk_queue \<Rightarrow> bool" for tr where
  queue_work: "bq_kicks q = Suc n \<Longrightarrow> work_step tr q (q\<lparr>bq_kicks := n, bq_pending := True\<rparr>)"
| start_work: "bq_work q = Idle \<Longrightarrow> bq_pending q \<Longrightarrow> work_step tr q (q\<lparr>bq_work := Looping, bq_pending := False\<rparr>)"
| next_request: "bq_work q = Looping \<Longrightarrow> bq_rq_list q = r # rs \<Longrightarrow> work_step tr q (q\<lparr>bq_work := Busy r, bq_rq_list := rs\<rparr>)"
| end_request: "bq_work q = Busy r \<Longrightarrow> run_request tr r (bq_ftl q) = (st, u) \<Longrightarrow>
    work_step tr q (q\<lparr>bq_work := Looping, bq_ftl := u, bq_ended := bq_ended q @ [(r, st)]\<rparr>)"
| end_work: "bq_work q = Looping \<Longrightarrow> bq_rq_list q = [] \<Longrightarrow> work_step tr q (q\<lparr>bq_work := Idle\<rparr>)"

inductive_cases work_stepE: "work_step tr q q'"

inductive queue_reach :: "'s blktrans_ops \<Rightarrow> 's \<Rightarrow> 's blk_queue \<Rightarrow> bool" for tr u where
  start: "queue_reach tr u (queue_init u)"
| ntd_queue_rq: "queue_reach tr u q \<Longrightarrow> bq_work q \<noteq> Looping \<Longrightarrow>
    queue_reach tr u (q\<lparr>bq_rq_list := bq_rq_list q @ [r], bq_kicks := bq_kicks q + 1, bq_submitted := bq_submitted q @ [r]\<rparr>)"
| work: "queue_reach tr u q \<Longrightarrow> work_step tr q q' \<Longrightarrow> queue_reach tr u q'"

section \<open>Openers and references\<close>

text \<open>
  The counters of one \<open>struct ntd_blktrans_dev\<close>.  Touching a freed device is
  the value \<open>None\<close>; \<open>kref_put\<close> of the last reference frees it.
\<close>

record blk_dev =
  bd_open :: int
  bd_ref :: nat
  bd_freed :: bool

definition kref_get :: "blk_dev \<Rightarrow> blk_dev option" where
  "kref_get d = (if bd_freed d then None else Some (d\<lparr>bd_ref := bd_ref d + 1\<rparr>))"

definition kref_put :: "blk_dev \<Rightarrow> blk_dev option" where
  "kref_put d =
     (if bd_freed d \<or> bd_ref d = 0 then None
      else if bd_ref d = 1 then Some (d\<lparr>bd_ref := 0, bd_freed := True\<rparr>)
      else Some (d\<lparr>bd_ref := bd_ref d - 1\<rparr>))"

definition blktrans_open :: "int \<Rightarrow> blk_dev \<Rightarrow> (int \<times> blk_dev) option" where
  "blktrans_open tr_open d = do {
     d \<leftarrow> kref_get d;
     if bd_open d \<noteq> 0
     then do { d \<leftarrow> kref_put (d\<lparr>bd_open := bd_open d + 1\<rparr>); Some (0, d) }
     else do {
       d \<leftarrow> kref_get (d\<lparr>bd_open := bd_open d + 1\<rparr>);
       if tr_open \<noteq> 0
       then do {
         d \<leftarrow> kref_put d;
         d \<leftarrow> kref_put (d\<lparr>bd_open := bd_open d - 1\<rparr>);
         Some (tr_open, d)
       }
       else do { d \<leftarrow> kref_put d; Some (0, d) }
     }
   }"

definition blktrans_release :: "blk_dev \<Rightarrow> blk_dev option" where
  "blktrans_release d = do {
     d \<leftarrow> kref_get d;
     let d = d\<lparr>bd_open := bd_open d - 1\<rparr>;
     d \<leftarrow> (if bd_open d \<noteq> 0 then Some d else kref_put d);
     kref_put d
   }"

definition blktrans_getgeo :: "int option \<Rightarrow> blk_dev \<Rightarrow> (int \<times> blk_dev) option" where
  "blktrans_getgeo tr_getgeo d = do {
     d \<leftarrow> kref_get d;
     d \<leftarrow> kref_put d;
     Some (case tr_getgeo of None \<Rightarrow> 0 | Some r \<Rightarrow> r, d)
   }"

definition del_ntd_blktrans_dev :: "blk_dev \<Rightarrow> blk_dev option" where
  "del_ntd_blktrans_dev d = kref_put d"

text \<open>
  What may happen to a device: opening (the block layer refuses it once the disk
  is deleted), closing by an opener, one deletion.
\<close>

inductive dev_reach :: "blk_dev \<Rightarrow> nat \<Rightarrow> bool \<Rightarrow> bool" where
  added: "dev_reach \<lparr>bd_open = 0, bd_ref = 1, bd_freed = False\<rparr> 0 False"
| opened: "dev_reach d n False \<Longrightarrow> blktrans_open tr_open d = Some (0, d') \<Longrightarrow> dev_reach d' (n + 1) False"
| not_opened: "dev_reach d n False \<Longrightarrow> blktrans_open tr_open d = Some (r, d') \<Longrightarrow> r \<noteq> 0 \<Longrightarrow> dev_reach d' n False"
| released: "dev_reach d (Suc n) del \<Longrightarrow> blktrans_release d = Some d' \<Longrightarrow> dev_reach d' n del"
| deleted: "dev_reach d n False \<Longrightarrow> del_ntd_blktrans_dev d = Some d' \<Longrightarrow> dev_reach d' n True"

section \<open>Adding a device\<close>

text \<open>
  The devices of a translation layer are kept in the order of their numbers;
  \<open>None\<close> is a number already taken, or one beyond the minor numbers.
\<close>

fun insert_devnum :: "int \<Rightarrow> int \<Rightarrow> int list \<Rightarrow> int list option" where
  "insert_devnum limit n [] = (if n > limit then None else Some [n])"
| "insert_devnum limit n (d # ds) =
     (if d = n then None
      else if d > n then Some (n # d # ds)
      else map_option (Cons d) (insert_devnum limit n ds))"

record blk_env =
  env_workqueue :: bool
  env_tag_set :: bool
  env_alloc_tags :: int
  env_alloc_disk :: int
  env_add_disk :: int

record blk_disk =
  gd_first_minor :: int
  gd_minors :: int
  gd_capacity :: u32
  gd_readonly :: bool

definition add_ntd_blktrans_dev ::
  "blk_env \<Rightarrow> 's blktrans_ops \<Rightarrow> int \<Rightarrow> u32 \<Rightarrow> bool \<Rightarrow> int list \<Rightarrow> int \<times> (blk_dev \<times> blk_disk) option \<times> int list" where
  "add_ntd_blktrans_dev env tr devnum sz readonly devs =
     (case insert_devnum (drop_bit (tr_part_bits tr) (2 ^ 20 - 1)) devnum devs of
        None \<Rightarrow> (- EBUSY, None, devs)
      | Some devs \<Rightarrow>
          let fail = (\<lambda>ret. (ret, None, remove1 devnum devs))
          in if \<not> env_workqueue env \<or> \<not> env_tag_set env then fail (- ENOMEM)
             else if env_alloc_tags env \<noteq> 0 then fail (env_alloc_tags env)
             else if env_alloc_disk env \<noteq> 0 then fail (env_alloc_disk env)
             else if env_add_disk env \<noteq> 0 then fail (env_add_disk env)
             else (0, Some (\<lparr>bd_open = 0, bd_ref = 1, bd_freed = False\<rparr>,
                     \<lparr>gd_first_minor = push_bit (tr_part_bits tr) devnum, gd_minors = push_bit (tr_part_bits tr) 1,
                      gd_capacity = sz, gd_readonly = (readonly \<or> tr_writesect tr = None)\<rparr>), devs))"

end
