(* ===== verification/BlkProps.thy ===== *)
theory BlkProps
  imports BlkTrans
begin

text \<open>
  Properties of the block devices: the queue carries requests out in order and
  drops none, a request of several segments is a run over its sectors, devices
  live as long as somebody uses them.
\<close>

section \<open>Requests in order\<close>

fun run_all :: "'s blktrans_ops \<Rightarrow> request list \<Rightarrow> 's \<Rightarrow> (request \<times> blk_status) list \<times> 's" where
  "run_all tr [] u = ([], u)"
| "run_all tr (r # rs) u =
     (let (st, u) = run_request tr r u; (sts, u) = run_all tr rs u in ((r, st) # sts, u))"

lemma run_all_snoc:
  "run_all tr (rs @ [r]) u =
     (let (sts, u) = run_all tr rs u; (st, u) = run_request tr r u in (sts @ [(r, st)], u))"
  by (induction rs arbitrary: u) (simp_all add: split_beta Let_def)

fun in_flight :: "work_pc \<Rightarrow> request list" where
  "in_flight (Busy r) = [r]"
| "in_flight _ = []"

definition queue_inv :: "'s blktrans_ops \<Rightarrow> 's \<Rightarrow> 's blk_queue \<Rightarrow> bool" where
  "queue_inv tr u q \<longleftrightarrow> bq_submitted q = map fst (bq_ended q) @ in_flight (bq_work q) @ bq_rq_list q
     \<and> run_all tr (map fst (bq_ended q)) u = (bq_ended q, bq_ftl q)
     \<and> (bq_rq_list q \<noteq> [] \<longrightarrow> bq_pending q \<or> 0 < bq_kicks q \<or> bq_work q \<noteq> Idle)"

lemma queue_inv_work:
  assumes "queue_inv tr u q" "work_step tr q q'"
  shows "queue_inv tr u q'"
  using assms(2,1) by cases (auto simp: queue_inv_def run_all_snoc split: work_pc.splits)

lemma queue_reach_inv: "queue_reach tr u q \<Longrightarrow> queue_inv tr u q"
proof (induction rule: queue_reach.induct)
  case start
  show ?case
    by (simp add: queue_inv_def queue_init_def)
next
  case (ntd_queue_rq q r)
  then show ?case
    by (cases "bq_work q") (simp_all add: queue_inv_def)
next
  case (work q q')
  show ?case
    by (rule queue_inv_work [OF work.IH work.hyps(2)])
qed

text \<open>
  C6.  However submissions and the worker interleave, the requests of a device
  are carried out one at a time in the order of their submission: those ended
  are a prefix of those submitted, each ended once, with the results and the
  state of the translation layer that a sequential run of them gives.
\<close>

theorem queue_refines_sequential:
  assumes "queue_reach tr u q"
  shows "run_all tr (map fst (bq_ended q)) u = (bq_ended q, bq_ftl q)
    \<and> (\<exists>rest. bq_submitted q = map fst (bq_ended q) @ rest \<and> rest = in_flight (bq_work q) @ bq_rq_list q)"
  using queue_reach_inv [OF assms] by (simp add: queue_inv_def)

definition demo_tr :: "nat blktrans_ops" where
  "demo_tr = \<lparr>tr_part_bits = 3, tr_blksize = 512, tr_blkshift = 9, tr_do_request = None,
     tr_readsect = Some (\<lambda>b p n. (if b = 9 then - EIO else 0, n + 1)), tr_writesect = None, tr_discard = None, tr_flush = None\<rparr>"

definition demo_req :: "u64 \<Rightarrow> request" where
  "demo_req pos = \<lparr>rq_op = REQ_OP_READ, rq_pos = pos, rq_sectors = 2, rq_segments = [(1000, 512), (3000, 512)], rq_sync = False\<rparr>"

definition demo_queue :: "nat blk_queue" where
  "demo_queue = (queue_init 0)\<lparr>bq_rq_list := [demo_req 4, demo_req 8], bq_kicks := 2, bq_submitted := [demo_req 4, demo_req 8]\<rparr>"

lemma demo_queue_reach: "queue_reach demo_tr 0 demo_queue"
proof -
  have q: "queue_reach demo_tr 0 (queue_init 0)" "bq_work (queue_init (0 :: nat)) = Idle"
    by (rule queue_reach.start) (simp add: queue_init_def)
  note queue_reach.ntd_queue_rq [OF this(1), of "demo_req 4"]
  then have one: "queue_reach demo_tr 0 ((queue_init 0)\<lparr>bq_rq_list := [demo_req 4], bq_kicks := 1, bq_submitted := [demo_req 4]\<rparr>)"
    by (simp add: queue_init_def)
  show ?thesis
    using queue_reach.ntd_queue_rq [OF one, of "demo_req 8"] by (simp add: queue_init_def demo_queue_def numeral_2_eq_2)
qed

theorem queue_refines_sequential_witness:
  "\<exists>rest. bq_submitted demo_queue = map fst (bq_ended demo_queue) @ rest \<and> rest = [demo_req 4, demo_req 8]"
  using queue_refines_sequential [OF demo_queue_reach] by (simp add: demo_queue_def queue_init_def)

section \<open>No request is forgotten\<close>

definition work_left :: "'s blk_queue \<Rightarrow> nat" where
  "work_left q = 3 * bq_kicks q + 2 * length (bq_rq_list q) + (if bq_pending q then 2 else 0)
     + (case bq_work q of Idle \<Rightarrow> 0 | Looping \<Rightarrow> 1 | Busy _ \<Rightarrow> 2)"

lemma work_step_left: "work_step tr q q' \<Longrightarrow> work_left q' < work_left q \<and> bq_submitted q' = bq_submitted q"
  by (cases rule: work_step.cases) (auto simp: work_left_def split: work_pc.splits)

lemma stuck_is_done:
  assumes "queue_inv tr u q" "\<And>q'. \<not> work_step tr q q'"
  shows "bq_submitted q = map fst (bq_ended q)"
proof (cases "bq_work q")
  case Idle
  then have "\<not> bq_pending q" "bq_kicks q = 0"
    using assms(2) work_step.start_work [of q tr] work_step.queue_work [of q _ tr] by (auto, meson not0_implies_Suc)
  then show ?thesis
    using assms(1) Idle by (auto simp: queue_inv_def)
next
  case Looping
  then show ?thesis
    using assms(2) work_step.end_work [of q tr] work_step.next_request [of q _ _ tr] by (cases "bq_rq_list q") blast+
next
  case (Busy r)
  then show ?thesis
    using assms(2) work_step.end_request [of q r tr] by (cases "run_request tr r (bq_ftl q)") blast
qed

text \<open>
  C7.  Every request that was submitted is carried out.  However the worker and
  the pending calls of \<open>queue_work\<close> are scheduled, they come to an end when
  nothing new is submitted (a bound decreases with every step), and where they
  can do nothing more every submitted request has been ended: there is no state
  in which a request waits and nobody is going to start the worker.
\<close>

theorem queue_drains:
  assumes "queue_reach tr u q"
  shows "(\<forall>q'. work_step tr q q' \<longrightarrow> work_left q' < work_left q \<and> bq_submitted q' = bq_submitted q)
    \<and> ((\<forall>q'. \<not> work_step tr q q') \<longrightarrow> map fst (bq_ended q) = bq_submitted q)"
  using work_step_left stuck_is_done [OF queue_reach_inv [OF assms]] by fastforce

theorem queue_drains_witness:
  "\<exists>q'. work_step demo_tr demo_queue q' \<and> work_left q' < work_left demo_queue"
proof -
  have "work_step demo_tr demo_queue (demo_queue\<lparr>bq_kicks := 1, bq_pending := True\<rparr>)"
    by (rule work_step.queue_work) (simp add: demo_queue_def)
  then show ?thesis
    using queue_drains [OF demo_queue_reach] by blast
qed

section \<open>Sectors of a request\<close>

fun do_sectors :: "(u32 \<Rightarrow> ptr \<Rightarrow> 's \<Rightarrow> int \<times> 's) \<Rightarrow> (u32 \<times> ptr) list \<Rightarrow> 's \<Rightarrow> blk_status \<times> 's" where
  "do_sectors f [] s = (BLK_STS_OK, s)"
| "do_sectors f ((b, p) # ps) s =
     (let (ret, s) = f b p s in if ret \<noteq> 0 then (BLK_STS_IOERR, s) else do_sectors f ps s)"

definition sector_bufs :: "u32 \<Rightarrow> nat \<Rightarrow> (ptr \<times> u32) list \<Rightarrow> ptr list" where
  "sector_bufs blksize sh segs =
     concat (map (\<lambda>(buf, len). map (\<lambda>i. buf + i * unat blksize) [0..<unat (drop_bit sh len)]) segs)"

definition number_from :: "u32 \<Rightarrow> ptr list \<Rightarrow> (u32 \<times> ptr) list" where
  "number_from b ps = map (\<lambda>i. (b + of_nat i, ps ! i)) [0..<length ps]"

lemma number_Cons: "number_from b (p # ps) = (b, p) # number_from (b + 1) ps"
proof -
  have "[0..<Suc (length ps)] = 0 # map Suc [0..<length ps]"
    by (simp add: map_Suc_upt upt_conv_Cons del: upt_Suc)
  then show ?thesis
    by (simp add: number_from_def del: upt_Suc)
qed

lemma number_append: "number_from b (ps @ qs) = number_from b ps @ number_from (b + of_nat (length ps)) qs"
  by (induction ps arbitrary: b) (simp_all add: number_Cons, simp add: number_from_def, simp add: add.assoc)

lemma sect_loop_do:
  "sect_loop f blksize n block buf s = ((ok, b), t) \<Longrightarrow>
     do_sectors f (number_from block (map (\<lambda>i. buf + i * unat blksize) [0..<n]) @ ps) s =
       (if ok then do_sectors f ps t else (BLK_STS_IOERR, t)) \<and> (ok \<longrightarrow> b = block + of_nat n)"
proof (induction n arbitrary: block buf s)
  case 0
  then show ?case
    by (simp add: number_from_def)
next
  case (Suc n)
  have "map (\<lambda>i. buf + i * unat blksize) [0..<Suc n] = buf # map (\<lambda>i. (buf + unat blksize) + i * unat blksize) [0..<n]"
    by (simp add: upt_conv_Cons map_Suc_upt [symmetric] del: upt_Suc)
  then show ?case
    using Suc.prems Suc.IH [of "block + 1" "buf + unat blksize"]
    by (auto simp: number_Cons Let_def add.assoc split: prod.splits if_splits)
qed

lemma seg_loop_do:
  "seg_loop f blksize sh segs block s = do_sectors f (number_from block (sector_bufs blksize sh segs)) s"
proof (induction segs arbitrary: block s)
  case Nil
  then show ?case
    by (simp add: sector_bufs_def number_from_def)
next
  case (Cons x segs)
  obtain buf len where x: "x = (buf, len)"
    by (cases x)
  let ?n = "unat (drop_bit sh len)"
  obtain ok b t where r: "sect_loop f blksize ?n block buf s = ((ok, b), t)"
    by (metis surj_pair)
  show ?case
    using sect_loop_do [OF r, of "number_from (block + of_nat ?n) (sector_bufs blksize sh segs)"] r Cons.IH [of b t]
    by (auto simp: x sector_bufs_def number_append)
qed

text \<open>
  C12.  A read or write request without its own handler is the run of the sector
  operation over consecutive block numbers from the start of the request, and
  over the buffers of its segments in order, a block apart within a segment,
  ended at the first failure.
\<close>

theorem fallback_is_sector_run:
  assumes "rq_op req = REQ_OP_READ \<and> tr_readsect tr = Some f \<or> rq_op req = REQ_OP_WRITE \<and> tr_writesect tr = Some f"
  shows "do_blktrans_request_fallback tr req s =
    do_sectors f (number_from (first_block tr req) (sector_bufs (tr_blksize tr) (tr_blkshift tr) (rq_segments req))) s"
  using assms by (auto simp: do_blktrans_request_fallback_def seg_loop_do)

theorem fallback_is_sector_run_witness:
  "do_blktrans_request_fallback demo_tr (demo_req 8) 0 =
     do_sectors (\<lambda>b p n. (if b = 9 then - EIO else 0, n + 1)) [(8, 1000), (9, 3000)] 0"
proof -
  have "number_from (first_block demo_tr (demo_req 8)) (sector_bufs (tr_blksize demo_tr) (tr_blkshift demo_tr) (rq_segments (demo_req 8)))
      = [(8, 1000), (9, 3000)]"
    by (simp add: demo_tr_def demo_req_def first_block_def sector_bufs_def number_from_def)
  moreover have "do_blktrans_request_fallback demo_tr (demo_req 8) 0 =
      do_sectors (\<lambda>b p n. (if b = 9 then - EIO else 0, n + 1))
        (number_from (first_block demo_tr (demo_req 8)) (sector_bufs (tr_blksize demo_tr) (tr_blkshift demo_tr) (rq_segments (demo_req 8)))) 0"
    by (rule fallback_is_sector_run) (simp add: demo_tr_def demo_req_def)
  ultimately show ?thesis
    by simp
qed

section \<open>Openers and references\<close>

definition dev_inv :: "blk_dev \<Rightarrow> nat \<Rightarrow> bool \<Rightarrow> bool" where
  "dev_inv d n del \<longleftrightarrow> (bd_freed d \<longleftrightarrow> del \<and> n = 0) \<and> bd_open d = int n
     \<and> bd_ref d = (if del then 0 else 1) + (if 0 < n then 1 else 0)"

lemmas dev_ops = blktrans_open_def blktrans_release_def del_ntd_blktrans_dev_def kref_get_def kref_put_def

lemma dev_reach_inv: "dev_reach d n del \<Longrightarrow> dev_inv d n del"
  by (induction rule: dev_reach.induct) (auto simp: dev_inv_def dev_ops Let_def split: if_splits)

text \<open>
  C13.  A device is freed exactly when it has been deleted and its last opener has
  closed it, in whatever order that happens and however many times opening
  failed: as long as it is open or not deleted every open, close and delete
  finds it alive and leaves the counters right.
\<close>

theorem device_lifetime:
  assumes "dev_reach d n del"
  shows "(bd_freed d \<longleftrightarrow> del \<and> n = 0) \<and> (0 < n \<longrightarrow> (\<exists>d'. blktrans_release d = Some d'))
    \<and> (\<not> del \<longrightarrow> (\<exists>d'. del_ntd_blktrans_dev d = Some d') \<and> (\<forall>r. \<exists>r' d'. blktrans_open r d = Some (r', d')))"
  using dev_reach_inv [OF assms] by (auto simp: dev_inv_def dev_ops Let_def)

theorem device_lifetime_witness:
  "\<exists>d. dev_reach d 1 True \<and> \<not> bd_freed d \<and> (\<exists>d'. blktrans_release d = Some d')"
proof -
  have "dev_reach \<lparr>bd_open = 1, bd_ref = 2, bd_freed = False\<rparr> (0 + 1) False"
    by (rule dev_reach.opened [OF dev_reach.added, of 0]) (simp add: dev_ops)
  then have "dev_reach \<lparr>bd_open = 1, bd_ref = 1, bd_freed = False\<rparr> (0 + 1) True"
    by (rule dev_reach.deleted) (simp add: dev_ops)
  then show ?thesis
    using device_lifetime [of _ "0 + 1" True] by (intro exI [of _ "\<lparr>bd_open = 1, bd_ref = 1, bd_freed = False\<rparr>"]) simp
qed

section \<open>Device numbers\<close>

lemma insert_devnum_result:
  "sorted_wrt (<) ds \<Longrightarrow> insert_devnum limit n ds = Some es \<Longrightarrow>
    sorted_wrt (<) es \<and> set es = insert n (set ds) \<and> n \<notin> set ds \<and> remove1 n es = ds"
proof (induction ds arbitrary: es)
  case (Cons d ds)
  then show ?case
    by (force split: if_splits)
qed (auto split: if_splits)

text \<open>
  The list of devices stays strictly increasing: adding a device either puts
  its number into the list, in order, or leaves the list as it was and reports
  an error, whichever step of the registration fails.
\<close>

theorem device_list_sorted:
  assumes "sorted_wrt (<) devs" "add_ntd_blktrans_dev env tr n sz ro devs = (ret, dev, devs')"
  shows "if ret = 0 \<and> dev \<noteq> None then sorted_wrt (<) devs' \<and> set devs' = insert n (set devs) \<and> n \<notin> set devs
    else devs' = devs"
  using assms insert_devnum_result [OF assms(1)]
  by (auto simp: add_ntd_blktrans_dev_def Let_def c_consts split: option.splits if_splits)

theorem device_list_sorted_witness:
  "sorted_wrt (<) (snd (snd (add_ntd_blktrans_dev \<lparr>env_workqueue = True, env_tag_set = True, env_alloc_tags = 0, env_alloc_disk = 0,
     env_add_disk = 0\<rparr> demo_tr 4 100 False [1, 6])))"
  using device_list_sorted [of "[1, 6]" "\<lparr>env_workqueue = True, env_tag_set = True, env_alloc_tags = 0, env_alloc_disk = 0,
     env_add_disk = 0\<rparr>" demo_tr 4 100 False]
  by (simp add: add_ntd_blktrans_dev_def demo_tr_def)

end
