(* ===== verification/DevInit.thy ===== *)
theory DevInit
  imports PhyDev
begin

text \<open>
  \<open>amlnand_phydev_init\<close> of \<open>dev/phydev.c\<close>: how the chip is divided into the boot,
  code and data devices.  Each device of the stored configuration gets its page
  and block size from the chip and its own options, starts where the previous
  one ends, and is made long enough that its blocks other than factory bad ones
  hold the partitions with a reserve for the FTL; the last one takes the rest
  of the chip.  The configuration compiled is that of \<open>include/amlnf_cfg.h\<close> and
  \<open>include/amlnf_type.h\<close>: \<open>NAND_ADJUST_PART_TABLE\<close> and \<open>CONFIG_NAND_AML_M8B\<close>.
\<close>

section \<open>Configuration\<close>

definition NAND_CHIP_SLC_MODE :: u32 where [c_consts]: "NAND_CHIP_SLC_MODE = 0x2000"
abbreviation (input) "ADJUST_PART_SIZE \<equiv> (10 :: u32)"
abbreviation (input) "ADJUST_BLOCK_NUM \<equiv> (4 :: u32)"
abbreviation (input) "BOOT_PAGES \<equiv> (4 * 256 :: u64)"

record dev_para =
  dp_name :: string
  dp_size :: u64
  dp_option :: u32
  dp_partitions :: "(string \<times> u64) list"

definition is_boot :: "string \<Rightarrow> bool" where
  "is_boot name \<longleftrightarrow> take 6 name = ''nfboot''"

definition plane_num :: "nand_flash \<Rightarrow> u32" where
  "plane_num f = (if has (fl_option f) NAND_MULTI_PLANE_MODE then 2 else 1)"

definition chip_bytes :: "nand \<Rightarrow> u64" where
  "chip_bytes s = push_bit 20 (ucast (chipsize (flash s) * ucast (chip_num (controller s))))"

definition slc_area :: "nand_flash \<Rightarrow> u32 \<Rightarrow> u32 \<Rightarrow> bool" where
  "slc_area f opt planes \<longleftrightarrow> has opt DEV_SLC_MODE \<and> has (fl_option f) NAND_CHIP_SLC_MODE
     \<and> \<not> has planes DEV_MULTI_PLANE_MODE"

text \<open>The space the previous device takes, as seen from a device with option \<open>opt\<close>.\<close>

definition pre_size :: "nand_flash \<Rightarrow> amlnand_phydev \<Rightarrow> u32 \<Rightarrow> u64" where
  "pre_size f pre opt = (if slc_area f (pd_option pre) opt then push_bit 1 (pd_size pre) else pd_size pre)"

section \<open>Blocks that are not factory bad\<close>

text \<open>
  The \<open>do\<close> loops: visit blocks from \<open>offset\<close> on, a step apart, until enough of
  them are not factory bad.
\<close>

partial_function (option) good_scan ::
  "chip_operation \<Rightarrow> (u64 \<Rightarrow> nand \<Rightarrow> nand) \<Rightarrow> u64 \<Rightarrow> u32 \<Rightarrow> u32 \<Rightarrow> u64 \<Rightarrow> nand \<Rightarrow> (u64 \<times> nand) option" where
  "good_scan ct place step total_blk start_blk offset s = do {
     (ret, s) \<leftarrow> ct_block_isbad ct (place offset s);
     let start_blk = (if ret = uint NAND_BLOCK_FACTORY_BAD then start_blk else start_blk + 1);
     if start_blk < total_blk then good_scan ct place step total_blk start_blk (offset + step) s
     else Some (offset + step, s)
   }"

declare good_scan.simps [code]

definition round_blocks :: "nand \<Rightarrow> u32 \<Rightarrow> u32" where
  "round_blocks s n = (let m = ucast (chip_num (controller s)) * plane_num (flash s) in ((n - 1) div m + 1) * m)"

definition resv_place :: "u32 \<Rightarrow> u64 \<Rightarrow> nand \<Rightarrow> nand" where
  "resv_place tmp_blk offset s =
     (let f = flash s; n = ucast (chip_num (controller s));
          blk = ucast (drop_bit (ffs (blocksize f) - 1) offset) :: u32;
          b = blk + tmp_blk
      in s\<lparr>ops_para := (ops_para s)\<lparr>
           op_page_addr := ((b - b mod n) div n + tmp_blk - tmp_blk div n) * pages_per_blk f,
           op_chipnr := ucast (blk mod n)\<rparr>\<rparr>)"

definition reserve_area :: "chip_operation \<Rightarrow> u32 \<Rightarrow> nand \<Rightarrow> (u32 \<times> nand) option" where
  "reserve_area ct tmp_blk s = do {
     (offset, s) \<leftarrow> good_scan ct (resv_place tmp_blk) (ucast (blocksize (flash s))) 48 0 0 (s\<lparr>ops_para := ops_zero\<rparr>);
     Some (round_blocks s (ucast (drop_bit (ffs (blocksize (flash s)) - 1) offset)), s)
   }"

text \<open>
  The length of a device: \<open>offset - tmp_offset\<close> mixes a 64-bit offset with a copy
  of its start in a 32-bit variable.
\<close>

definition dev_blocks :: "u64 \<Rightarrow> amlnand_phydev \<Rightarrow> u32" where
  "dev_blocks dev_size p =
     (let n = ucast (drop_bit (unat (erasesize_shift p)) dev_size)
      in n + (n + ADJUST_PART_SIZE - 1) div ADJUST_PART_SIZE + ADJUST_BLOCK_NUM)"

definition dev_length ::
  "chip_operation \<Rightarrow> amlnand_phydev \<Rightarrow> u64 \<Rightarrow> u64 \<Rightarrow> nand \<Rightarrow> (u64 \<times> nand) option" where
  "dev_length ct p dev_size start s = do {
     let place = (\<lambda>offset s. set_page_addr (ucast (drop_bit (unat (writesize_shift p)) offset)) s);
     let tmp_offset = (ucast start :: u32);
     (offset, s) \<leftarrow> good_scan ct place (ucast (erasesize p)) (dev_blocks dev_size p) 0 start
       (s\<lparr>ops_para := ops_zero\<lparr>op_option := pd_option p\<rparr>\<rparr>);
     let blks = (ucast (drop_bit (unat (erasesize_shift p)) (offset - ucast tmp_offset)) :: u32);
     Some (ucast (round_blocks s blks) * ucast (erasesize p), s)
   }"

section \<open>One device\<close>

definition new_dev :: "dev_para \<Rightarrow> nand \<Rightarrow> amlnand_phydev" where
  "new_dev dp s =
     \<lparr>pd_name = dp_name dp, pd_flags = 0, pd_option = 0, pd_offset = 0, pd_size = 0, erasesize = blocksize (flash s),
      writesize = pagesize (flash s), pd_oobavail = ucast (oobavail (controller s)), erasesize_shift = 0, writesize_shift = 0,
      writesize_mask = 0,
      pd_ops = \<lparr>do_mode = NAND_HW_ECC, do_addr = 0, do_len = 0, do_retlen = 0, do_ooblen = 0, do_datbuf = 0, do_oobbuf = 0\<rparr>\<rparr>"

definition set_shifts :: "amlnand_phydev \<Rightarrow> amlnand_phydev" where
  "set_shifts p = p\<lparr>writesize_shift := of_nat (ffs (writesize p)) - 1, erasesize_shift := of_nat (ffs (erasesize p)) - 1\<rparr>"

definition boot_dev :: "amlnand_phydev \<Rightarrow> nand \<Rightarrow> amlnand_phydev" where
  "boot_dev p s =
     (let p = set_shifts (p\<lparr>pd_offset := 0, pd_size := BOOT_PAGES * ucast (pagesize (flash s))\<rparr>)
      in p\<lparr>writesize_mask := ucast (drop_bit (unat (writesize_shift p)) (pd_size p) - 1)\<rparr>)"

definition set_modes :: "dev_para \<Rightarrow> nand \<Rightarrow> amlnand_phydev \<Rightarrow> amlnand_phydev" where
  "set_modes dp s p =
     (let n = ucast (chip_num (controller s));
          p = (if has (dp_option dp) DEV_MULTI_CHIP_MODE \<and> 1 < n
               then p\<lparr>pd_option := pd_option p OR DEV_MULTI_CHIP_MODE, writesize := writesize p * n,
                      erasesize := erasesize p * n, pd_oobavail := pd_oobavail p * n\<rparr> else p);
          p = (if has (dp_option dp) DEV_MULTI_PLANE_MODE \<and> has (fl_option (flash s)) NAND_MULTI_PLANE_MODE
               then p\<lparr>pd_option := pd_option p OR DEV_MULTI_PLANE_MODE, writesize := push_bit 1 (writesize p),
                      erasesize := push_bit 1 (erasesize p), pd_oobavail := push_bit 1 (pd_oobavail p)\<rparr> else p)
      in set_shifts p)"

text \<open>The size wanted; a last device with partitions and no device before it reads a null pointer.\<close>

definition wanted_size :: "bool \<Rightarrow> amlnand_phydev option \<Rightarrow> dev_para \<Rightarrow> nand \<Rightarrow> u64 option" where
  "wanted_size final pre dp s = do {
     sz \<leftarrow> (if dp_partitions dp = [] then Some (dp_size dp)
            else if \<not> final then Some (sum_list (map snd (dp_partitions dp)))
            else case pre of None \<Rightarrow> None
                 | Some q \<Rightarrow> Some (chip_bytes s - pd_offset q - pre_size (flash s) q 0));
     Some (if slc_area (flash s) (dp_option dp) (dp_option dp) then push_bit 1 sz else sz)
   }"

definition dev_start ::
  "chip_operation \<Rightarrow> bool \<Rightarrow> nat \<Rightarrow> u32 \<Rightarrow> amlnand_phydev option \<Rightarrow> amlnand_phydev \<Rightarrow> nand \<Rightarrow> (u64 \<times> nand) option" where
  "dev_start ct boot_flag i tmp_blk pre p s =
     (case pre of
        None \<Rightarrow> do {
          (total_blk, s) \<leftarrow> reserve_area ct tmp_blk s;
          Some (ucast (total_blk * blocksize (flash s)), s)
        }
      | Some q \<Rightarrow>
          if boot_flag \<and> i = 1
          then do {
            (total_blk, s) \<leftarrow> reserve_area ct tmp_blk s;
            Some (ucast (total_blk * blocksize (flash s)) + pd_size q, s)
          }
          else Some (pd_offset q + pre_size (flash s) q (pd_option p), s))"

definition scan_start :: "bool \<Rightarrow> nat \<Rightarrow> amlnand_phydev option \<Rightarrow> amlnand_phydev \<Rightarrow> u64" where
  "scan_start boot_flag i pre p =
     (case pre of None \<Rightarrow> pd_offset p
      | Some q \<Rightarrow> if boot_flag \<and> i = 1 then pd_offset p else pd_offset q + pd_size q)"

definition enter_slc :: "dev_para \<Rightarrow> nand \<Rightarrow> amlnand_phydev \<Rightarrow> amlnand_phydev" where
  "enter_slc dp s p =
     (if slc_area (flash s) (dp_option dp) (pd_option p)
      then let es = drop_bit 1 (erasesize p)
           in p\<lparr>pd_option := pd_option p OR DEV_SLC_MODE, erasesize := es, erasesize_shift := of_nat (ffs es) - 1,
                pd_size := drop_bit 1 (pd_size p)\<rparr>
      else p)"

definition plain_dev ::
  "chip_operation \<Rightarrow> bool \<Rightarrow> nat \<Rightarrow> bool \<Rightarrow> u32 \<Rightarrow> amlnand_phydev option \<Rightarrow> dev_para \<Rightarrow> u64 \<Rightarrow> nand
     \<Rightarrow> ((int \<times> amlnand_phydev) \<times> nand) option" where
  "plain_dev ct boot_flag i final tmp_blk pre dp dev_size s = do {
     let p = set_modes dp s (new_dev dp s);
     (start, s) \<leftarrow> dev_start ct boot_flag i tmp_blk pre p s;
     let p = p\<lparr>pd_offset := start\<rparr>;
     (sz, s) \<leftarrow> (if final then Some (dev_size, s) else dev_length ct p dev_size (scan_start boot_flag i pre p) s);
     let p = p\<lparr>pd_size := sz\<rparr>;
     Some ((if pd_offset p + pd_size p > chip_bytes s then - NAND_FAILED else 0, p), s)
   }"

section \<open>All devices\<close>

fun init_devs ::
  "chip_operation \<Rightarrow> (nat \<Rightarrow> bool) \<Rightarrow> bool \<Rightarrow> nat \<Rightarrow> u32 \<Rightarrow> amlnand_phydev list \<Rightarrow> dev_para list \<Rightarrow> nand
     \<Rightarrow> ((int \<times> amlnand_phydev list) \<times> nand) option" where
  "init_devs ct malloc_ok boot_flag i tmp_blk devs [] s = Some ((0, devs), s)"
| "init_devs ct malloc_ok boot_flag i tmp_blk devs (dp # dps) s =
     (let pre = (if devs = [] then None else Some (last devs))
      in if \<not> malloc_ok i then Some ((- NAND_MALLOC_FAILURE, devs), s)
         else do {
           dev_size \<leftarrow> wanted_size (dps = []) pre dp s;
           if is_boot (dp_name dp)
           then let p = boot_dev (new_dev dp s) s;
                    tmp_blk = ucast (drop_bit (unat (erasesize_shift p)) (pd_size p));
                    p = enter_slc dp s p
                in init_devs ct malloc_ok True (i + 1) tmp_blk (devs @ [p]) dps s
           else do {
             ((ret, p), s) \<leftarrow> plain_dev ct boot_flag i (dps = []) tmp_blk pre dp dev_size s;
             if ret \<noteq> 0 then Some ((ret, devs), s)
             else init_devs ct malloc_ok boot_flag (i + 1) tmp_blk (devs @ [enter_slc dp s p]) dps s
           }
         })"

text \<open>The blocks of a device that went bad in use are counted, and nothing more.\<close>

definition bad_request :: "u64 \<Rightarrow> amlnand_phydev \<Rightarrow> amlnand_phydev" where
  "bad_request addr p =
     p\<lparr>pd_ops := \<lparr>do_mode = NAND_HW_ECC, do_addr = addr, do_len = ucast (erasesize p), do_retlen = 0, do_ooblen = 0,
       do_datbuf = NULL, do_oobbuf = NULL\<rparr>\<rparr>"

partial_function (option) count_used_bad :: "chip_operation \<Rightarrow> u64 \<Rightarrow> nat \<Rightarrow> dev \<Rightarrow> (nat \<times> dev) option" where
  "count_used_bad ct off cnt d = do {
     (ret, d) \<leftarrow> nand_block_isbad ct (apfst (bad_request off) d);
     let cnt = (if ret = uint NAND_BLOCK_USED_BAD \<and> cnt < 128 then cnt + 1 else cnt);
     let off = off + ucast (erasesize (fst d));
     if off < pd_size (fst d) then count_used_bad ct off cnt d else Some (cnt, d)
   }"

declare count_used_bad.simps [code]

fun check_devs :: "chip_operation \<Rightarrow> amlnand_phydev list \<Rightarrow> nand \<Rightarrow> (amlnand_phydev list \<times> nand) option" where
  "check_devs ct [] s = Some ([], s)"
| "check_devs ct (p # ps) s = do {
     (_, p, s) \<leftarrow> count_used_bad ct 0 0 (p, s);
     (ps, s) \<leftarrow> check_devs ct ps s;
     Some (p # ps, s)
   }"

definition amlnand_phydev_init ::
  "chip_operation \<Rightarrow> bool \<Rightarrow> (nat \<Rightarrow> bool) \<Rightarrow> dev_para list \<Rightarrow> nand \<Rightarrow> ((int \<times> amlnand_phydev list) \<times> nand) option" where
  "amlnand_phydev_init ct bad_blk_ok malloc_ok config s =
     (if \<not> bad_blk_ok then Some ((- NAND_MALLOC_FAILURE, []), s)
      else if config = [] then Some ((- NAND_FAILED, []), s)
      else do {
        ((ret, devs), s) \<leftarrow> init_devs ct malloc_ok False 0 0 [] config s;
        if ret \<noteq> 0 then Some ((ret, devs), s)
        else do { (devs, s) \<leftarrow> check_devs ct devs s; Some ((NAND_SUCCESS, devs), s) }
      })"

end
