(* ===== verification/DevInitProps.thy ===== *)
theory DevInitProps
  imports DevInit InfoProps
begin

text \<open>
  Properties of the division of the chip into devices.
\<close>

section \<open>The layout\<close>

text \<open>
  The block and page operations leave what the layout is computed from: this is
  the contract the initialisation relies on.
\<close>

definition same_chip :: "nand \<Rightarrow> nand \<Rightarrow> bool" where
  "same_chip s t \<longleftrightarrow> flash t = flash s \<and> chip_num (controller t) = chip_num (controller s)"

lemma same_chip_trans: "same_chip s t \<Longrightarrow> same_chip t u \<Longrightarrow> same_chip s u"
  by (simp add: same_chip_def)

lemma same_chip_bytes: "same_chip s t \<Longrightarrow> chip_bytes t = chip_bytes s"
  by (simp add: same_chip_def chip_bytes_def)

locale chip_layout =
  fixes ct :: chip_operation
  assumes isbad_same: "ct_block_isbad ct s = Some (r, t) \<Longrightarrow> same_chip s t"
begin

lemma good_scan_same:
  assumes place: "\<And>a u. same_chip u (place a u)"
  shows "good_scan ct place step tb start off s = Some (off', t) \<Longrightarrow> same_chip s t"
proof -
  have "good_scan ct' place' step' tb start off s = Some x \<Longrightarrow> ct' = ct \<and> place' = place \<longrightarrow> same_chip s (snd x)"
    for ct' place' step' tb start off s x
  proof (erule good_scan.raw_induct [rotated], intro impI, goal_cases)
    case (1 self ct' place' step' tb start off s x)
    then obtain r u where u: "ct_block_isbad ct (place off s) = Some (r, u)"
      and "snd x = u \<or> (\<exists>n o'. self ct place step' tb n o' u = Some x)"
      by (auto simp: bind_eq_Some_conv Let_def split: if_splits)
    moreover have "same_chip s u"
      using same_chip_trans [OF place isbad_same [OF u]] .
    ultimately show ?case
      using 1(1) same_chip_trans by blast
  qed
  then show "good_scan ct place step tb start off s = Some (off', t) \<Longrightarrow> same_chip s t"
    by fastforce
qed

lemma reserve_area_same: "reserve_area ct tmp s = Some (n, t) \<Longrightarrow> same_chip s t"
proof -
  assume "reserve_area ct tmp s = Some (n, t)"
  then obtain off where "good_scan ct (resv_place tmp) (ucast (blocksize (flash s))) 48 0 0 (s\<lparr>ops_para := ops_zero\<rparr>) = Some (off, t)"
    by (auto simp: reserve_area_def bind_eq_Some_conv)
  then have "same_chip (s\<lparr>ops_para := ops_zero\<rparr>) t"
    by (rule good_scan_same [rotated]) (simp add: same_chip_def resv_place_def Let_def)
  then show ?thesis
    by (simp add: same_chip_def)
qed

lemma dev_length_same: "dev_length ct p sz start s = Some (n, t) \<Longrightarrow> same_chip s t"
proof -
  assume "dev_length ct p sz start s = Some (n, t)"
  then obtain place off step k q where "good_scan ct place step k 0 start (s\<lparr>ops_para := q\<rparr>) = Some (off, t)"
    and "\<And>a u. same_chip u (place a u)"
    by (auto simp: dev_length_def bind_eq_Some_conv Let_def same_chip_def set_page_addr_def)
  then have "same_chip (s\<lparr>ops_para := q\<rparr>) t"
    by (rule good_scan_same [rotated])
  then show ?thesis
    by (simp add: same_chip_def)
qed

lemma plain_dev_result:
  assumes "plain_dev ct boot i final tmp pre dp sz s = Some ((0, p), t)"
  shows "same_chip s t" "pd_offset p + pd_size p \<le> chip_bytes s" "final \<Longrightarrow> pd_size p = sz" "pd_name p = dp_name dp"
    "pre = Some q \<Longrightarrow> \<not> (boot \<and> i = 1) \<Longrightarrow> pd_offset p = pd_offset q + pre_size (flash s) q (pd_option p)"
proof -
  let ?p = "set_modes dp s (new_dev dp s)"
  obtain start u sz' where u: "dev_start ct boot i tmp pre ?p s = Some (start, u)"
    and t: "(if final then Some (sz, u) else dev_length ct (?p\<lparr>pd_offset := start\<rparr>) sz
        (scan_start boot i pre (?p\<lparr>pd_offset := start\<rparr>)) u) = Some (sz', t)"
    and p: "p = ?p\<lparr>pd_offset := start, pd_size := sz'\<rparr>"
    and inside: "(if start + sz' > chip_bytes t then - NAND_FAILED else 0) = 0"
    using assms by (auto simp: plain_dev_def bind_eq_Some_conv Let_def split del: if_split)
  have "same_chip s u"
    using u reserve_area_same by (auto simp: dev_start_def bind_eq_Some_conv same_chip_def split: option.splits if_splits)
  moreover have "same_chip u t"
    using t dev_length_same by (auto simp: same_chip_def split: if_splits)
  ultimately show st: "same_chip s t"
    by (rule same_chip_trans)
  show "pd_offset p + pd_size p \<le> chip_bytes s" "final \<Longrightarrow> pd_size p = sz"
    using p t inside same_chip_bytes [OF st] by (auto simp: not_less c_consts split: if_splits)
  show "pd_name p = dp_name dp"
    by (simp add: p set_modes_def set_shifts_def new_dev_def Let_def)
  show "pd_offset p = pd_offset q + pre_size (flash s) q (pd_option p)" if "pre = Some q" "\<not> (boot \<and> i = 1)"
    using u that by (auto simp: dev_start_def p)
qed

end

text \<open>
  Devices placed so far: from device \<open>k\<close> on each starts where the one before it
  ends, and each ends within the chip.
\<close>

definition placed :: "nat \<Rightarrow> nand \<Rightarrow> amlnand_phydev list \<Rightarrow> bool" where
  "placed k s ds \<longleftrightarrow> (\<forall>j. k \<le> j \<and> j < length ds \<longrightarrow> pd_offset (ds ! j) + pd_size (ds ! j) \<le> chip_bytes s)
     \<and> (\<forall>j. k \<le> j \<and> Suc j < length ds \<longrightarrow> pd_offset (ds ! Suc j) = pd_offset (ds ! j) + pd_size (ds ! j))"

definition no_slc :: "nand \<Rightarrow> bool" where
  "no_slc s \<longleftrightarrow> \<not> has (fl_option (flash s)) NAND_CHIP_SLC_MODE"

lemma no_slc_simps [simp]:
  assumes "no_slc s"
  shows "slc_area (flash s) a b = False" "pre_size (flash s) q c = pd_size q" "enter_slc dp s p = p"
  using assms by (simp_all add: no_slc_def slc_area_def pre_size_def enter_slc_def)

lemma placed_snoc:
  assumes "placed k s ds" "pd_offset p + pd_size p \<le> chip_bytes s"
    and "ds \<noteq> [] \<Longrightarrow> k < length ds \<Longrightarrow> pd_offset p = pd_offset (last ds) + pd_size (last ds)"
  shows "placed k s (ds @ [p])"
proof -
  have "pd_offset p = pd_offset (ds ! j) + pd_size (ds ! j)" if "k \<le> j" "length ds = Suc j" for j
    using assms(3) that by (cases "ds = []") (auto simp: last_conv_nth)
  then show ?thesis
    using assms(1,2) by (auto simp: placed_def nth_append less_Suc_eq)
qed

lemma placed_chip: "same_chip s t \<Longrightarrow> placed k t ds = placed k s ds"
  by (simp add: placed_def same_chip_bytes)

context chip_layout
begin

lemma init_devs_layout:
  assumes "init_devs ct ok boot (length ds) tmp ds dps s = Some ((0, ds'), t)"
    and "placed k s ds" "no_slc s" "boot \<longrightarrow> ds \<noteq> [] \<and> k = 1" "\<forall>dp\<in>set dps. \<not> is_boot (dp_name dp)"
  shows "same_chip s t \<and> length ds' = length ds + length dps \<and> placed k s ds'
    \<and> (dps \<noteq> [] \<and> dp_partitions (last dps) \<noteq> [] \<and> k + 1 < length ds' \<longrightarrow>
      pd_offset (last ds') + pd_size (last ds') = chip_bytes s)"
  using assms
proof (induction dps arbitrary: ds s)
  case Nil
  then show ?case
    by (auto simp: same_chip_def)
next
  case (Cons dp dps)
  let ?pre = "if ds = [] then None else Some (last ds)"
  obtain sz p u where sz: "wanted_size (dps = []) ?pre dp s = Some sz"
    and p: "plain_dev ct boot (length ds) (dps = []) tmp ?pre dp sz s = Some ((0, p), u)"
    and rest: "init_devs ct ok boot (length (ds @ [p])) tmp (ds @ [enter_slc dp u p]) dps u = Some ((0, ds'), t)"
    using Cons.prems(1,5) by (auto simp: Let_def bind_eq_Some_conv c_consts split: if_splits prod.splits)
  note res = plain_dev_result [OF p]
  have slc: "no_slc u" "enter_slc dp u p = p"
    using res(1) Cons.prems(3) by (auto simp: same_chip_def no_slc_def enter_slc_def slc_area_def)
  have pl: "placed k s (ds @ [p])"
  proof (rule placed_snoc [OF Cons.prems(2) res(2)])
    assume "ds \<noteq> []" "k < length ds"
    then show "pd_offset p = pd_offset (last ds) + pd_size (last ds)"
      using res(5) [of "last ds"] Cons.prems(3,4) by auto
  qed
  have chip: "chip_bytes u = chip_bytes s" "placed k u (ds @ [p])"
    using same_chip_bytes [OF res(1)] placed_chip [OF res(1)] pl by simp_all
  note ih = Cons.IH [OF rest [unfolded slc(2)] chip(2) slc(1)]
  show ?case
  proof (cases "dps = []")
    case True
    then have "ds' = ds @ [p]" "t = u"
      using rest slc(2) by auto
    moreover have "pd_offset p + pd_size p = chip_bytes s" if "dp_partitions dp \<noteq> []" "k < length ds"
    proof -
      have "sz = chip_bytes s - pd_offset (last ds) - pd_size (last ds)"
        using sz True that Cons.prems(3) by (auto simp: wanted_size_def split: if_splits)
      moreover have "ds \<noteq> []"
        using that by auto
      ultimately show ?thesis
        using res(3) res(5) [of "last ds"] True that Cons.prems(3,4) by auto
    qed
    ultimately show ?thesis
      using res(1) pl True by auto
  next
    case False
    then show ?thesis
      using ih Cons.prems(4,5) chip res(1) same_chip_trans [OF res(1)] placed_chip [OF res(1)] by auto
  qed
qed

end

sublocale keep_hooks \<subseteq> layout: chip_layout "chip_table hw hk ub" for ub
proof
  fix s r t
  assume "ct_block_isbad (chip_table hw hk ub) s = Some (r, t)"
  then show "same_chip s t"
    using store_table.ct_isbad [of s] by (simp add: framed_def store_same_def same_chip_def)
qed

context keep_hooks
begin

lemma chip_layout_table: "chip_layout (chip_table hw hk ub)"
  by (rule layout.chip_layout_axioms)

end

section \<open>Counting bad blocks leaves the layout\<close>

definition extent :: "amlnand_phydev \<Rightarrow> u64 \<times> u64" where
  "extent p = (pd_offset p, pd_size p)"

lemma block_op_dev: "block_op ct protect sh f d = Some (r, d') \<Longrightarrow> fst d' = fst d"
  by (auto simp: block_op_def Let_def bind_eq_Some_conv split: prod.splits if_splits)

lemma count_used_bad_extent: "count_used_bad ct off cnt d = Some (n, d') \<Longrightarrow> extent (fst d') = extent (fst d)"
proof -
  have "count_used_bad ct off cnt d = Some x \<Longrightarrow> extent (fst (snd x)) = extent (fst d)" for x
  proof (erule count_used_bad.raw_induct [rotated], goal_cases)
    case (1 self ct off cnt d x)
    then obtain r e where e: "nand_block_isbad ct (apfst (bad_request off) d) = Some (r, e)"
      and body: "(let cnt = (if r = uint NAND_BLOCK_USED_BAD \<and> cnt < 128 then cnt + 1 else cnt); off = off + ucast (erasesize (fst e))
        in if off < pd_size (fst e) then self ct off cnt e else Some (cnt, e)) = Some x"
      by (auto simp: bind_eq_Some_conv simp del: Let_def split del: if_split)
    then have rest: "snd x = e \<or> (\<exists>o' c'. self ct o' c' e = Some x)"
      by (auto simp: Let_def split: if_splits)
    have "extent (fst e) = extent (fst d)"
      using block_op_dev [OF e [unfolded nand_block_isbad_def]] by (simp add: bad_request_def extent_def)
    then show ?case
      using rest 1(1) by metis
  qed
  then show "count_used_bad ct off cnt d = Some (n, d') \<Longrightarrow> extent (fst d') = extent (fst d)"
    by fastforce
qed

lemma check_devs_extent: "check_devs ct ps s = Some (qs, t) \<Longrightarrow> map extent qs = map extent ps"
proof (induction ps arbitrary: s qs)
  case (Cons p ps)
  then show ?case
    using count_used_bad_extent by (fastforce simp: bind_eq_Some_conv)
qed simp

lemma extents_placed:
  assumes "map extent qs = map extent ps"
  shows "placed k s qs = placed k s ps" "ps \<noteq> [] \<Longrightarrow> pd_offset (last qs) = pd_offset (last ps) \<and> pd_size (last qs) = pd_size (last ps)"
proof -
  have "length qs = length ps"
    using assms by (metis length_map)
  moreover have "pd_offset (qs ! j) = pd_offset (ps ! j) \<and> pd_size (qs ! j) = pd_size (ps ! j)" if "j < length ps" for j
    using assms that calculation by (metis extent_def nth_map prod.inject)
  ultimately show "placed k s qs = placed k s ps"
    "ps \<noteq> [] \<Longrightarrow> pd_offset (last qs) = pd_offset (last ps) \<and> pd_size (last qs) = pd_size (last ps)"
    by (auto simp: placed_def last_conv_nth [of ps] last_conv_nth [of qs] simp flip: length_greater_0_conv)
qed

lemma placed_disjoint:
  assumes "placed k s ds" "\<forall>j<length ds. unat (pd_offset (ds ! j)) + unat (pd_size (ds ! j)) < 2 ^ 64"
    and "k \<le> i" "i < j" "j < length ds"
  shows "unat (pd_offset (ds ! i)) + unat (pd_size (ds ! i)) \<le> unat (pd_offset (ds ! j))"
  using assms(4,5)
proof (induction j)
  case (Suc j)
  have "unat (pd_offset (ds ! Suc j)) = unat (pd_offset (ds ! j)) + unat (pd_size (ds ! j))"
    using assms(1-3) Suc.prems unat_add_lem [of "pd_offset (ds ! j)" "pd_size (ds ! j)"] by (simp add: placed_def)
  then show ?case
    using Suc by (cases "i = j") auto
qed simp


section \<open>A chip without bad blocks\<close>

lemma like_rw_ops [simp]: "like_rw bs (u\<lparr>ops_para := q\<rparr>) = like_rw bs u"
  by (simp add: like_rw_def)

lemma good_scan_like:
  assumes place: "\<And>a u. like_rw bs u \<Longrightarrow> like_rw bs (place a u)"
  shows "like_rw bs s \<Longrightarrow> unat tb = unat start + Suc n \<Longrightarrow>
    \<exists>t. good_scan rw_table place step tb start off s = Some (off + of_nat (Suc n) * step, t) \<and> like_rw bs t"
proof (induction n arbitrary: start off s)
  case 0
  obtain u where u: "ct_block_isbad rw_table (place off s) = Some (0, u)" "like_rw bs u"
    using like_rw_isbad [OF place [OF 0(1)]] by blast
  have "unat tb < 2 ^ 32"
    using unsigned_less [of tb] by simp
  then have "unat (start + 1) = unat start + 1"
    using 0(2) unat_add_lem [of start 1] by simp
  then have "\<not> start + 1 < tb"
    using 0(2) by (simp add: word_less_nat_alt)
  then show ?case
    using u by (subst good_scan.simps) (simp add: c_consts)
next
  case (Suc n)
  obtain u where u: "ct_block_isbad rw_table (place off s) = Some (0, u)" "like_rw bs u"
    using like_rw_isbad [OF place [OF Suc.prems(1)]] by blast
  have lt: "unat (start + 1) = unat start + 1" "start + 1 < tb"
  proof -
    have "unat tb < 2 ^ 32"
      using unsigned_less [of tb] by simp
    then show a: "unat (start + 1) = unat start + 1"
      using Suc.prems(2) unat_add_lem [of start 1] by simp
    show "start + 1 < tb"
      using Suc.prems(2) a by (simp add: word_less_nat_alt)
  qed
  obtain t where "good_scan rw_table place step tb (start + 1) (off + step) u = Some (off + step + of_nat (Suc n) * step, t)"
    "like_rw bs t"
    using Suc.IH [OF u(2), of "start + 1" "off + step"] Suc.prems(2) lt by auto
  then show ?case
    using u lt by (subst good_scan.simps) (simp add: c_consts algebra_simps)
qed

lemma table_good:
  assumes "mem u = (\<lambda>_. 0)" "block_status u \<noteq> NULL"
  shows "block_isbad hw hk u = Some (0, die_adjust u)"
proof -
  let ?v = "die_adjust u"
  have v: "mem ?v = (\<lambda>_. 0)" "block_status ?v \<noteq> NULL"
    using assms by (simp_all add: die_adjust_def Let_def)
  then have st: "get_blcok_status c b ?v = 0" for c b
    by (simp add: get_blcok_status_def blk_status_def ld16_def c_consts)
  then have "isbad_chips m cs b 0 ?v = 0" for m cs b
    by (induction cs) (cases m; simp)+
  then show ?thesis
    using v st by (simp add: block_isbad_def isbad_table_def Let_def)
qed

lemma like_rw_devbad:
  assumes "like_rw bs s" "off \<le> pd_size p" "\<not> has (pd_option p) NAND_SHUT_DOWN"
  shows "\<exists>t. nand_block_isbad rw_table (bad_request off p, s) = Some (0, bad_request off p, t) \<and> like_rw bs t"
proof -
  have tab: "mem s = (\<lambda>_. 0)" "block_status s \<noteq> NULL"
    using assms(1) by (simp_all add: like_rw_def)
  then have good: "\<exists>v. block_isbad demo_hw plain_hooks u = Some (0, v) \<and> like_rw bs (amlnand_release_device v)"
    if "u = s\<lparr>state := CHIP_READING, spi_nand_mutex := True, nand_idleflag := True, ops_para := q\<rparr>" for u q
    using table_good [of u demo_hw plain_hooks] that assms(1)
    by (simp add: like_rw_def amlnand_release_device_def nand_release_chip_def set_chip_state_def die_adjust_def Let_def)
  have "\<not> has x DEV_SERIAL_CHIP_MODE" for x
    by (simp add: has_def c_consts)
  moreover have "\<not> pin_select plain_hooks u < 0" for u
    by (simp add: plain_hooks_def)
  ultimately have "\<exists>q. nand_block_isbad rw_table (bad_request off p, s) =
      block_isbad demo_hw plain_hooks (s\<lparr>state := CHIP_READING, spi_nand_mutex := True, nand_idleflag := True, ops_para := q\<rparr>) \<bind>
        (\<lambda>(ret, s). Some (ret, bad_request off p, amlnand_release_device s))"
    using assms
    by (simp add: leD nand_block_isbad_def block_op_def bad_request_def Let_def amlnand_get_device_def get_chip_state_def
        set_chip_state_def chip_table_def nand_get_chip_def place_block_def serial_select_def clear_ops_def set_page_addr_def
        like_rw_def) (rule exI, rule refl)
  then obtain q where q: "nand_block_isbad rw_table (bad_request off p, s) =
      block_isbad demo_hw plain_hooks (s\<lparr>state := CHIP_READING, spi_nand_mutex := True, nand_idleflag := True, ops_para := q\<rparr>) \<bind>
        (\<lambda>(ret, s). Some (ret, bad_request off p, amlnand_release_device s))" ..
  then show ?thesis
    using good [OF refl, of q] by auto
qed

lemma unat_blocks: "x \<le> 1000 \<Longrightarrow> unat (of_nat x * 0x200000 :: u64) = x * 0x200000"
  by (simp add: unat_word_ariths unat_of_nat)

lemma next_block: "of_nat j * 0x200000 + 0x200000 = (of_nat (Suc j) * 0x200000 :: u64)"
  by (simp add: algebra_simps)

lemma count_like:
  shows "like_rw bs s \<Longrightarrow> j + Suc n = m \<Longrightarrow> m \<le> 1000 \<Longrightarrow>
    pd_option p = 0 \<Longrightarrow> erasesize p = 0x200000 \<Longrightarrow> pd_size p = of_nat m * 0x200000 \<Longrightarrow>
    \<exists>c q t. count_used_bad rw_table (of_nat j * 0x200000) cnt (p, s) = Some (c, q, t) \<and> like_rw bs t"
proof (induction n arbitrary: j cnt s p)
  case 0
  let ?o = "of_nat j * 0x200000 :: u64"
  have "?o \<le> pd_size p" "\<not> ?o + 0x200000 < pd_size p"
    using 0 unat_blocks [of j] unat_blocks [of m] by (simp_all add: word_le_nat_alt next_block)
  moreover obtain t where "nand_block_isbad rw_table (bad_request ?o p, s) = Some (0, bad_request ?o p, t)" "like_rw bs t"
    using like_rw_devbad [OF 0(1) \<open>?o \<le> pd_size p\<close>] 0 by (auto simp: has_def c_consts)
  ultimately show ?case
    using 0 by (subst count_used_bad.simps) (simp add: bad_request_def c_consts)
next
  case (Suc n)
  let ?o = "of_nat j * 0x200000 :: u64"
  have le: "?o \<le> pd_size p" "?o + 0x200000 < pd_size p"
    using Suc.prems unat_blocks [of j] unat_blocks [of m] unat_blocks [of "Suc j"]
    by (simp_all add: word_le_nat_alt word_less_nat_alt next_block del: of_nat_Suc)
  obtain t where t: "nand_block_isbad rw_table (bad_request ?o p, s) = Some (0, bad_request ?o p, t)" "like_rw bs t"
    using like_rw_devbad [OF Suc.prems(1) le(1)] Suc.prems by (auto simp: has_def c_consts)
  have "\<exists>c q u. count_used_bad rw_table (of_nat (Suc j) * 0x200000) cnt (bad_request ?o p, t) = Some (c, q, u) \<and> like_rw bs u" for cnt
    using Suc.prems t(2) by (intro Suc.IH) (simp_all add: bad_request_def)
  then show ?case
    using t le Suc.prems by (subst count_used_bad.simps) (simp add: bad_request_def c_consts next_block del: of_nat_Suc)
qed

lemma all_less_2: "(\<forall>j<Suc (Suc 0). P j) \<longleftrightarrow> P 0 \<and> P (Suc 0)"
  by (auto simp: less_Suc_eq)

definition demo_dp :: "string \<Rightarrow> u64 \<Rightarrow> dev_para" where
  "demo_dp name n = \<lparr>dp_name = name, dp_size = n, dp_option = 0, dp_partitions = []\<rparr>"

lemma like_rw_reserve: "like_rw bs s \<Longrightarrow> \<exists>t. reserve_area rw_table 0 s = Some (48, t) \<and> like_rw bs t"
proof -
  assume s: "like_rw bs s"
  then have fl: "flash s = demo_flash"
    by (simp add: like_rw_def)
  obtain t where t: "good_scan rw_table (resv_place 0) (ucast (blocksize (flash s))) 48 0 0 (s\<lparr>ops_para := ops_zero\<rparr>) =
      Some (0 + of_nat (Suc 47) * ucast (blocksize (flash s)), t)" "like_rw bs t"
    using good_scan_like [of bs "resv_place 0" "s\<lparr>ops_para := ops_zero\<rparr>" 48 0 47 "ucast (blocksize (flash s))" 0] s
    by (auto simp: resv_place_def Let_def)
  have "ffs (0x200000 :: u32) = 22"
    by code_simp
  then have "round_blocks t (ucast (drop_bit (ffs (blocksize (flash t)) - 1) (of_nat (Suc 47) * ucast (blocksize (flash s)) :: u64))) = 48"
    using t(2) fl by (simp add: like_rw_def round_blocks_def demo_flash_def plane_num_def Let_def has_def)
  then show ?thesis
    using t by (simp add: reserve_area_def)
qed

lemma like_rw_length:
  assumes "like_rw bs s" "erasesize p = 0x200000" "erasesize_shift p = 21"
  shows "\<exists>t. dev_length rw_table p 0 0x6000000 s = Some (0x800000, t) \<and> like_rw bs t"
proof -
  define place where "place = (\<lambda>a. set_page_addr (ucast (drop_bit (unat (writesize_shift p)) (a :: u64))))"
  let ?u = "s\<lparr>ops_para := ops_zero\<lparr>op_option := pd_option p\<rparr>\<rparr>"
  obtain t where t: "good_scan rw_table place 0x200000 4 0 0x6000000 ?u = Some (0x6800000, t)" "like_rw bs t"
    using good_scan_like [of bs place ?u 4 0 3 "0x200000" "0x6000000"] assms(1) by (auto simp: place_def set_page_addr_def)
  moreover have "round_blocks t 4 = 4"
    using t(2) by (simp add: like_rw_def round_blocks_def demo_flash_def plane_num_def Let_def has_def)
  ultimately show ?thesis
    using assms(2,3) by (simp add: dev_length_def place_def dev_blocks_def)
qed

lemma demo_modes:
  assumes "flash s = demo_flash"
  shows "set_modes (demo_dp nm n) s (new_dev (demo_dp nm n) s) =
    (new_dev (demo_dp nm n) s)\<lparr>writesize_shift := 13, erasesize_shift := 21\<rparr>"
proof -
  have "ffs (0x200000 :: u32) = 22" "ffs (8192 :: u32) = 14"
    by code_simp+
  then show ?thesis
    using assms by (simp add: set_modes_def demo_dp_def has_def set_shifts_def new_dev_def demo_flash_def Let_def)
qed


end
