(* ===== verification/Nftl.thy ===== *)
theory Nftl
  imports Ntd Guard BlkTrans
begin

text \<open>
  \<open>block/aml_nftl_block.c\<close>, \<open>block/aml_nftl_init.c\<close>, \<open>block/aml_nftl_hw_interface.c\<close>:
  the block devices of the flash translation layer.  Every partition registry
  entry that is enabled gets one \<open>struct aml_nftl_dev\<close>, and every logical
  partition of it one \<open>struct aml_nftl_blk\<close>, a window of sectors of that device.
  The translation layer itself is shipped as an object file: its functions are
  the fields of \<open>ftl\<close>, over a state \<open>'f\<close> that stands for its memory and the
  flash behind it.
\<close>

section \<open>Data\<close>

record nftl_cfg =
  nftl_use_cache :: u16
  nftl_support_gc_read_reclaim :: u16
  nftl_support_wear_leveling :: u16
  nftl_need_erase :: u16
  nftl_part_reserved_block_ratio :: u16
  nftl_part_adjust_block_num :: u16
  nftl_min_free_block_num :: u16
  nftl_gc_threshold_free_block_num :: u16
  nftl_min_free_block :: u16
  nftl_gc_threshold_ratio_numerator :: u16
  nftl_gc_threshold_ratio_denominator :: u16
  nftl_max_cache_write_num :: u16

record 'f ftl =
  ftl_start :: "nftl_cfg \<Rightarrow> u64 \<Rightarrow> u32 \<Rightarrow> u32 \<Rightarrow> u32 \<Rightarrow> string \<Rightarrow> int \<Rightarrow> int \<Rightarrow> 'f \<Rightarrow> u32 \<times> 'f"
  ftl_get_part_cap :: "'f \<Rightarrow> u32"
  ftl_write_cache_nums :: "'f \<Rightarrow> u16"
  ftl_set_status :: "u8 \<Rightarrow> 'f \<Rightarrow> 'f"
  ftl_erase_part :: "'f \<Rightarrow> int \<times> 'f"
  ftl_read :: "u32 \<Rightarrow> u32 \<Rightarrow> ptr \<Rightarrow> 'f \<Rightarrow> u32 \<times> 'f"
  ftl_write :: "u32 \<Rightarrow> u32 \<Rightarrow> ptr \<Rightarrow> int \<Rightarrow> 'f \<Rightarrow> u32 \<times> 'f"
  ftl_discard :: "u32 \<Rightarrow> u32 \<Rightarrow> int \<Rightarrow> 'f \<Rightarrow> u32 \<times> 'f"
  ftl_flush_write_cache :: "'f \<Rightarrow> u32 \<times> 'f"
  ftl_flush_discard_cache :: "'f \<Rightarrow> u32 \<times> 'f"
  ftl_write_pair_page :: "'f \<Rightarrow> u32 \<times> 'f"
  ftl_check_mapping :: "u64 \<Rightarrow> u64 \<Rightarrow> 'f \<Rightarrow> u32 \<times> 'f"
  ftl_discard_partition :: "u64 \<Rightarrow> u64 \<Rightarrow> 'f \<Rightarrow> u32 \<times> 'f"
  ftl_garbage_collect :: "'f \<Rightarrow> u32 \<times> 'f"
  ftl_do_prio_gc :: "'f \<Rightarrow> u32 \<times> 'f"

record ntd_partition =
  np_name :: string
  np_size :: u64
  np_offset :: u64

text \<open>
  The thread of a device: none, running, or the error pointer a failed
  \<open>kthread_run\<close> leaves.  \<open>nd_now\<close> is the time \<open>ktime_get_ts64\<close> answers.
\<close>

datatype nftl_thread = No_thread | Running | Err_thread

record 'f aml_nftl_dev =
  nd_size :: u64
  nd_ntd :: ntd_info
  nd_parts :: "ntd_partition list"
  nd_part :: 'f
  nd_lock :: bool
  nd_thread :: nftl_thread
  nd_write_start :: int
  nd_now :: int
  nd_cfg :: nftl_cfg
  nd_sync_flag :: int
  nd_init_flag :: int
  nd_reboot_flag :: int

record aml_nftl_blk =
  nb_name :: string
  nb_offset :: u64
  nb_size :: u64
  nb_req :: "request option"
  nb_bounce_sg :: bool

text \<open>Taking the device's mutex while it is held does not come back.\<close>

definition nftl_lock :: "'f aml_nftl_dev \<Rightarrow> 'f aml_nftl_dev option" where
  "nftl_lock d = (if nd_lock d then None else Some (d\<lparr>nd_lock := True\<rparr>))"

definition nftl_unlock :: "'f aml_nftl_dev \<Rightarrow> 'f aml_nftl_dev" where
  "nftl_unlock d = d\<lparr>nd_lock := False\<rparr>"

text \<open>A function of the translation layer applied to the state of the device.\<close>

definition on_part :: "('f \<Rightarrow> 'a \<times> 'f) \<Rightarrow> 'f aml_nftl_dev \<Rightarrow> 'a \<times> 'f aml_nftl_dev" where
  "on_part g d = (let (r, f) = g (nd_part d) in (r, d\<lparr>nd_part := f\<rparr>))"

section \<open>Access functions\<close>

definition dev_nand_read :: "'f ftl \<Rightarrow> u32 \<Rightarrow> u32 \<Rightarrow> ptr \<Rightarrow> 'f aml_nftl_dev \<Rightarrow> u32 \<times> 'f aml_nftl_dev" where
  "dev_nand_read F start_sector len buf d = on_part (ftl_read F start_sector len buf) d"

definition dev_nand_write :: "'f ftl \<Rightarrow> u32 \<Rightarrow> u32 \<Rightarrow> ptr \<Rightarrow> 'f aml_nftl_dev \<Rightarrow> u32 \<times> 'f aml_nftl_dev" where
  "dev_nand_write F start_sector len buf d =
     (let (ret, d) = on_part (ftl_write F start_sector len buf (nd_sync_flag d)) d
      in (ret, d\<lparr>nd_write_start := nd_now d\<rparr>))"

definition dev_nand_discard :: "'f ftl \<Rightarrow> u32 \<Rightarrow> u32 \<Rightarrow> 'f aml_nftl_dev \<Rightarrow> u32 \<times> 'f aml_nftl_dev" where
  "dev_nand_discard F start_sector len d =
     (let (ret, d) = on_part (ftl_discard F start_sector len (nd_sync_flag d)) d
      in (ret, d\<lparr>nd_write_start := nd_now d\<rparr>))"

definition blk_sector :: "aml_nftl_blk \<Rightarrow> u32 \<Rightarrow> u32" where
  "blk_sector b start_sector = ucast (ucast start_sector + nb_offset b)"

definition blk_nand_read :: "'f ftl \<Rightarrow> aml_nftl_blk \<Rightarrow> u32 \<Rightarrow> u32 \<Rightarrow> ptr \<Rightarrow> 'f aml_nftl_dev \<Rightarrow> u32 \<times> 'f aml_nftl_dev" where
  "blk_nand_read F b start_sector = dev_nand_read F (blk_sector b start_sector)"

definition blk_nand_write :: "'f ftl \<Rightarrow> aml_nftl_blk \<Rightarrow> u32 \<Rightarrow> u32 \<Rightarrow> ptr \<Rightarrow> 'f aml_nftl_dev \<Rightarrow> u32 \<times> 'f aml_nftl_dev" where
  "blk_nand_write F b start_sector = dev_nand_write F (blk_sector b start_sector)"

definition blk_nand_discard :: "'f ftl \<Rightarrow> aml_nftl_blk \<Rightarrow> u32 \<Rightarrow> u32 \<Rightarrow> 'f aml_nftl_dev \<Rightarrow> u32 \<times> 'f aml_nftl_dev" where
  "blk_nand_discard F b start_sector = dev_nand_discard F (blk_sector b start_sector)"

definition blk_nand_flush_write_cache :: "'f ftl \<Rightarrow> 'f aml_nftl_dev \<Rightarrow> u32 \<times> 'f aml_nftl_dev" where
  "blk_nand_flush_write_cache F = on_part (ftl_flush_write_cache F)"

definition aml_nftl_flush :: "'f ftl \<Rightarrow> 'f aml_nftl_dev \<Rightarrow> (int \<times> 'f aml_nftl_dev) option" where
  "aml_nftl_flush F d = do {
     d \<leftarrow> nftl_lock d;
     let (error, d) = on_part (ftl_flush_write_cache F) d;
     Some (sint error, nftl_unlock d)
   }"

definition aml_nftl_release :: "'f ftl \<Rightarrow> 'f aml_nftl_dev \<Rightarrow> (int \<times> 'f aml_nftl_dev) option" where
  "aml_nftl_release F d = do {
     d \<leftarrow> nftl_lock d;
     let (error, d) = blk_nand_flush_write_cache F d;
     Some (sint error, nftl_unlock d)
   }"

section \<open>Requests\<close>

definition write_sync_flag :: "aml_nftl_blk \<Rightarrow> 'f aml_nftl_dev \<Rightarrow> 'f aml_nftl_dev" where
  "write_sync_flag b d =
     (let d = d\<lparr>nd_sync_flag := 0\<rparr>
      in if take 5 (nb_name b) = ''media'' then d
         else case nb_req b of
                Some req \<Rightarrow> if rq_op req = REQ_OP_WRITE \<and> rq_sync req then d\<lparr>nd_sync_flag := 1\<rparr> else d
              | None \<Rightarrow> d)"

definition seg_block :: "nat \<Rightarrow> u64 \<Rightarrow> u32" where
  "seg_block blkshift pos = ucast (drop_bit blkshift (push_bit 9 pos))"

fun seg_request ::
  "'f ftl \<Rightarrow> nat \<Rightarrow> aml_nftl_blk \<Rightarrow> req_op \<Rightarrow> (ptr \<times> u32) list \<Rightarrow> u64 \<Rightarrow> 'f aml_nftl_dev \<Rightarrow> int \<times> 'f aml_nftl_dev" where
  "seg_request F blkshift b op [] pos d = (0, d)"
| "seg_request F blkshift b op ((buf, len) # segs) pos d =
     (let block = seg_block blkshift pos;
          nblk = drop_bit blkshift len;
          (ret, d) =
            (case op of
               REQ_OP_READ \<Rightarrow> blk_nand_read F b block nblk buf d
             | REQ_OP_WRITE \<Rightarrow> blk_nand_write F b block nblk buf (write_sync_flag b d)
             | _ \<Rightarrow> (1, d))
      in if ret \<noteq> 0 then (- EIO, d) else seg_request F blkshift b op segs (pos + ucast (drop_bit 9 len)) d)"

definition do_nftltrans_request ::
  "'f ftl \<Rightarrow> nat \<Rightarrow> u64 \<Rightarrow> request \<Rightarrow> aml_nftl_blk \<times> 'f aml_nftl_dev \<Rightarrow> (int \<times> aml_nftl_blk \<times> 'f aml_nftl_dev) option" where
  "do_nftltrans_request F blkshift capacity req bd =
     (let (b, d) = bd; pos = rq_pos req
      in if nd_reboot_flag d \<noteq> 0 then Some (0, b, d)
         else if pos + ucast (rq_sectors req) > capacity then Some (- EIO, b, d)
         else if rq_op req = REQ_OP_DISCARD \<or> rq_op req = REQ_OP_WRITE_ZEROES
         then do {
           d \<leftarrow> nftl_lock d;
           let (_, d) = blk_nand_discard F b (seg_block blkshift pos) (rq_sectors req) d;
           Some (0, b, nftl_unlock d)
         }
         else do {
           let b = b\<lparr>nb_req := Some req\<rparr>;
           d \<leftarrow> nftl_lock d;
           let (ret, d) = seg_request F blkshift b (rq_op req) (rq_segments req) pos d;
           Some (ret, b, nftl_unlock d)
         })"

section \<open>The thread and the reboot notifier\<close>

definition thread_turn :: "'f ftl \<Rightarrow> 'f aml_nftl_dev \<Rightarrow> 'f aml_nftl_dev option" where
  "thread_turn F d = do {
     d \<leftarrow> nftl_lock d;
     let d = (if 0 < ftl_write_cache_nums F (nd_part d) \<and> 1 \<le> nd_now d - nd_write_start d
              then snd (on_part (ftl_flush_write_cache F) d) else d);
     let d = snd (on_part (ftl_garbage_collect F) d);
     let d = snd (on_part (ftl_do_prio_gc F) d);
     Some (nftl_unlock d)
   }"

text \<open>The thread until it is told to stop, with the times at which its turns run.\<close>

fun aml_nftl_thread :: "'f ftl \<Rightarrow> int list \<Rightarrow> 'f aml_nftl_dev \<Rightarrow> 'f aml_nftl_dev option" where
  "aml_nftl_thread F [] d = Some (d\<lparr>nd_thread := No_thread\<rparr>)"
| "aml_nftl_thread F (now # ts) d = do { d \<leftarrow> thread_turn F (d\<lparr>nd_now := now\<rparr>); aml_nftl_thread F ts d }"

text \<open>\<open>kthread_stop\<close> waits for the end of the thread, which clears the pointer; an error pointer is a fault.\<close>

definition stop_thread :: "'f aml_nftl_dev \<Rightarrow> 'f aml_nftl_dev option" where
  "stop_thread d =
     (case nd_thread d of No_thread \<Rightarrow> Some d | Running \<Rightarrow> Some (d\<lparr>nd_thread := No_thread\<rparr>) | Err_thread \<Rightarrow> None)"

definition aml_nftl_reboot_notifier :: "'f ftl \<Rightarrow> 'f aml_nftl_dev \<Rightarrow> (int \<times> 'f aml_nftl_dev) option" where
  "aml_nftl_reboot_notifier F d =
     (if nd_reboot_flag d \<noteq> 0 then Some (0, d)
      else do {
        d \<leftarrow> nftl_lock d;
        let (e1, d) = on_part (ftl_flush_write_cache F) d;
        let (e2, d) = on_part (ftl_flush_discard_cache F) d;
        d \<leftarrow> stop_thread (nftl_unlock d);
        d \<leftarrow> nftl_lock d;
        let (e3, d) = on_part (ftl_write_pair_page F) d;
        Some (sint (e1 OR e2 OR e3), (nftl_unlock d)\<lparr>nd_reboot_flag := 1\<rparr>)
      })"

section \<open>Starting the translation layer\<close>

definition nftl_config :: "amlnf_guard \<Rightarrow> nftl_cfg" where
  "nftl_config g =
     \<lparr>nftl_use_cache = (if amlnf_use_cache g \<noteq> 0 then 1 else 0), nftl_support_gc_read_reclaim = 0,
      nftl_support_wear_leveling = 0, nftl_need_erase = 0, nftl_part_reserved_block_ratio = 10,
      nftl_part_adjust_block_num = 4, nftl_min_free_block_num = 6, nftl_gc_threshold_free_block_num = 4,
      nftl_min_free_block = 5, nftl_gc_threshold_ratio_numerator = 2, nftl_gc_threshold_ratio_denominator = 3,
      nftl_max_cache_write_num = 4\<rparr>"

definition aml_nftl_initialize :: "'f ftl \<Rightarrow> amlnf_guard \<Rightarrow> int \<Rightarrow> 'f aml_nftl_dev \<Rightarrow> int \<times> 'f aml_nftl_dev" where
  "aml_nftl_initialize F g no d =
     (let n = nd_ntd d
      in if nt_oobsize n < 16 then (- EPERM, d)
         else let cfg = nftl_config g;
                  (ret, d) = on_part (ftl_start F cfg (nt_size n) (nt_blocksize n) (nt_pagesize n) (nt_oobsize n)
                    (nt_name n) no (nd_init_flag d)) (d\<lparr>nd_cfg := cfg\<rparr>);
                  d = (if ret \<noteq> 0 \<and> nd_init_flag d = 0 then d\<lparr>nd_part := ftl_set_status F 1 (nd_part d)\<rparr> else d);
                  d = d\<lparr>nd_size := ucast (ftl_get_part_cap F (nd_part d))\<rparr>
              in (if no < 0 then sint ret else 0, d))"

definition aml_blktrans_initialize :: "u64 \<Rightarrow> u64 \<Rightarrow> u64 \<Rightarrow> aml_nftl_blk \<Rightarrow> int \<times> aml_nftl_blk" where
  "aml_blktrans_initialize dev_size offset sz b =
     (let offset_t = drop_bit 9 offset; size_t = drop_bit 9 sz
      in if \<not> offset_t < dev_size then (1, b)
         else let b = b\<lparr>nb_offset := offset_t\<rparr>
              in (0, b\<lparr>nb_size := (if nb_offset b + size_t \<le> dev_size then size_t else dev_size - nb_offset b)\<rparr>))"

section \<open>Wiping a partition\<close>

fun wipe_loop :: "'f ftl \<Rightarrow> string \<Rightarrow> ntd_partition list \<Rightarrow> u64 \<Rightarrow> 'f \<Rightarrow> 'f" where
  "wipe_loop F name [] tmp_offset f = f"
| "wipe_loop F name (p # ps) tmp_offset f =
     (let len = (if np_offset p \<noteq> - 1 \<and> np_size p \<noteq> - 1 then np_size p else - 1);
          f = (if take (length name) (np_name p) = name
               then let (mapped, f) = ftl_check_mapping F tmp_offset len f
                    in if mapped \<noteq> 0 then snd (ftl_discard_partition F tmp_offset len f) else f
               else f)
      in wipe_loop F name ps (if np_size p \<noteq> - 1 then tmp_offset + np_size p else tmp_offset) f)"

definition aml_nftl_reinit_part ::
  "'f ftl \<Rightarrow> amlnf_guard \<Rightarrow> aml_nftl_blk \<Rightarrow> 'f aml_nftl_dev \<Rightarrow> (int \<times> 'f aml_nftl_dev) option" where
  "aml_nftl_reinit_part F g b d = do {
     d \<leftarrow> stop_thread (d\<lparr>nd_part := ftl_set_status F 0 (nd_part d)\<rparr>);
     d \<leftarrow> nftl_lock d;
     let (ret, d) =
       (if 1 < length (nd_parts d) then (0, d\<lparr>nd_part := wipe_loop F (nb_name b) (nd_parts d) 0 (nd_part d)\<rparr>)
        else let (ret, d) = on_part (ftl_erase_part F) d in (ret, snd (aml_nftl_initialize F g (- 1) d)));
     Some (ret, nftl_unlock d)
   }"

definition aml_nftl_wipe_part ::
  "'f ftl \<Rightarrow> amlnf_guard \<Rightarrow> aml_nftl_blk \<Rightarrow> 'f aml_nftl_dev \<Rightarrow> (int \<times> 'f aml_nftl_dev) option" where
  "aml_nftl_wipe_part F g b d = aml_nftl_reinit_part F g b d"

section \<open>Adding and removing devices\<close>

text \<open>
  The block devices made so far; \<open>dk_dev\<close> is the position of the device a disk
  is a window of.  The answers of the allocator, the thread creation and the
  block layer are parameters.
\<close>

record nftl_disk =
  dk_devnum :: int
  dk_dev :: nat
  dk_blk :: aml_nftl_blk
  dk_ref :: blk_dev
  dk_gd :: blk_disk

record 'f nftl_sys =
  ns_nftl_num :: int
  ns_dev_num :: int
  ns_devnums :: "int list"
  ns_nftl :: "'f aml_nftl_dev list"
  ns_disks :: "nftl_disk list"

record nftl_env =
  env_malloc :: "nat \<Rightarrow> bool"
  env_kthread :: bool
  env_blk :: "int \<Rightarrow> blk_env"

definition new_blk :: "string \<Rightarrow> aml_nftl_blk" where
  "new_blk name = \<lparr>nb_name = take 23 name, nb_offset = 0, nb_size = 0, nb_req = None, nb_bounce_sg = False\<rparr>"

fun add_blks ::
  "nftl_env \<Rightarrow> 's blktrans_ops \<Rightarrow> nat \<Rightarrow> u64 \<Rightarrow> nat \<Rightarrow> ntd_partition list \<Rightarrow> u64 \<Rightarrow> 'f nftl_sys \<Rightarrow> bool \<times> 'f nftl_sys" where
  "add_blks env tr di dev_size i [] cur_offset s = (True, s)"
| "add_blks env tr di dev_size i (p # ps) cur_offset s =
     (if \<not> env_malloc env (i + 2) then (False, s)
      else let devnum = ns_dev_num s;
               s = s\<lparr>ns_dev_num := devnum + 1\<rparr>;
               (ret, b) = aml_blktrans_initialize dev_size cur_offset (np_size p) (new_blk (np_name p))
           in if ret \<noteq> 0 then (False, s)
              else let (_, dev, devnums) = add_ntd_blktrans_dev (env_blk env devnum) tr devnum (ucast (nb_size b)) False (ns_devnums s);
                       s = s\<lparr>ns_devnums := devnums\<rparr>
                   in case dev of
                        None \<Rightarrow> (False, s)
                      | Some (ref, gd) \<Rightarrow>
                          add_blks env tr di dev_size (i + 1) ps (cur_offset + np_size p)
                            (s\<lparr>ns_disks := ns_disks s @ [\<lparr>dk_devnum = devnum, dk_dev = di, dk_blk = b, dk_ref = ref, dk_gd = gd\<rparr>]\<rparr>))"

definition new_nftl :: "ntd_info \<Rightarrow> ntd_partition list \<Rightarrow> 'f \<Rightarrow> 'f aml_nftl_dev" where
  "new_nftl ntd parts f =
     \<lparr>nd_size = 0, nd_ntd = ntd, nd_parts = parts, nd_part = f, nd_lock = False, nd_thread = No_thread, nd_write_start = 0,
      nd_now = 0,
      nd_cfg = \<lparr>nftl_use_cache = 0, nftl_support_gc_read_reclaim = 0, nftl_support_wear_leveling = 0, nftl_need_erase = 0,
        nftl_part_reserved_block_ratio = 0, nftl_part_adjust_block_num = 0, nftl_min_free_block_num = 0,
        nftl_gc_threshold_free_block_num = 0, nftl_min_free_block = 0, nftl_gc_threshold_ratio_numerator = 0,
        nftl_gc_threshold_ratio_denominator = 0, nftl_max_cache_write_num = 0\<rparr>,
      nd_sync_flag = 0, nd_init_flag = 0, nd_reboot_flag = 0\<rparr>"

definition aml_nftl_add_ntd ::
  "nftl_env \<Rightarrow> 'f ftl \<Rightarrow> amlnf_guard \<Rightarrow> 's blktrans_ops \<Rightarrow> ntd_info \<Rightarrow> ntd_partition list \<Rightarrow> 'f \<Rightarrow> 'f nftl_sys \<Rightarrow> 'f nftl_sys" where
  "aml_nftl_add_ntd env F g tr ntd parts f s =
     (if \<not> amlnf_part_enabled g (Some (nt_name ntd)) then s
      else if \<not> env_malloc env 0 then s
      else if \<not> env_malloc env 1 then s
      else let (ret, d) = aml_nftl_initialize F g (ns_nftl_num s) (new_nftl ntd parts f)
           in if ret \<noteq> 0 then s
              else let d = d\<lparr>nd_init_flag := 1, nd_reboot_flag := 0\<rparr>;
                       di = length (ns_nftl s)
                   in if \<not> env_kthread env then s\<lparr>ns_nftl := ns_nftl s @ [d\<lparr>nd_thread := Err_thread\<rparr>]\<rparr>
                      else let (ok, s) = add_blks env tr di (nd_size d) 0 parts 0 (s\<lparr>ns_nftl := ns_nftl s @ [d\<lparr>nd_thread := Running\<rparr>]\<rparr>)
                           in if ok then s\<lparr>ns_nftl_num := ns_nftl_num s + 1\<rparr> else s)"

definition register_ntd_blktrans :: "int \<Rightarrow> (ptr \<Rightarrow> 'f nftl_sys \<Rightarrow> 'f nftl_sys) \<Rightarrow> ntd_sys \<Rightarrow> 'f nftl_sys \<Rightarrow> int \<times> 'f nftl_sys" where
  "register_ntd_blktrans register_blkdev add_ntd t s =
     (if register_blkdev < 0 then (register_blkdev, s) else (0, fold add_ntd (ntd_devices t) (s\<lparr>ns_devnums := []\<rparr>)))"

definition init_aml_nftl :: "int \<Rightarrow> int \<Rightarrow> (ptr \<Rightarrow> 'f nftl_sys \<Rightarrow> 'f nftl_sys) \<Rightarrow> ntd_sys \<Rightarrow> 'f nftl_sys \<Rightarrow> int \<times> 'f nftl_sys" where
  "init_aml_nftl check_storage_device register_blkdev add_ntd t s =
     (if check_storage_device < 0 then (0, s)
      else register_ntd_blktrans register_blkdev add_ntd t (s\<lparr>ns_nftl_num := 0, ns_dev_num := 0\<rparr>))"

text \<open>
  \<open>struct ntd_blktrans_dev\<close> is the first member of \<open>struct aml_nftl_blk\<close>: the
  last reference frees both.  Reading or freeing it afterwards is \<open>None\<close>.
\<close>

definition aml_nftl_remove_dev :: "blk_dev \<Rightarrow> blk_dev option" where
  "aml_nftl_remove_dev d = do {
     d \<leftarrow> del_ntd_blktrans_dev d;
     if bd_freed d then None else Some (d\<lparr>bd_freed := True\<rparr>)
   }"

text \<open>The operations table, over the device and its window; a worker that hangs has no state.\<close>

definition aml_nftl_tr :: "'f ftl \<Rightarrow> u64 \<Rightarrow> (aml_nftl_blk \<times> 'f aml_nftl_dev) option blktrans_ops" where
  "aml_nftl_tr F capacity =
     \<lparr>tr_part_bits = 0, tr_blksize = 512, tr_blkshift = 9,
      tr_do_request = Some (\<lambda>req st.
        (case st of None \<Rightarrow> (0, None)
         | Some bd \<Rightarrow> (case do_nftltrans_request F 9 capacity req bd of None \<Rightarrow> (0, None) | Some (ret, bd) \<Rightarrow> (ret, Some bd)))),
      tr_readsect = None, tr_writesect = Some (\<lambda>block buf st. (0, st)), tr_discard = None,
      tr_flush = Some (\<lambda>st.
        (case st of None \<Rightarrow> (0, None)
         | Some (b, d) \<Rightarrow> (case aml_nftl_flush F d of None \<Rightarrow> (0, None) | Some (ret, d) \<Rightarrow> (ret, Some (b, d)))))\<rparr>"

section \<open>The physical side\<close>

record physic_op_par =
  pp_page :: u16
  pp_blk :: u16
  pp_main :: ptr
  pp_spare :: ptr

definition phy_from :: "ntd_info \<Rightarrow> physic_op_par \<Rightarrow> u64" where
  "phy_from n p =
     drop_bit (unat (nt_pagesize_shift n)) (push_bit (unat (nt_blocksize_shift n)) (ucast (pp_blk p))) + ucast (pp_page p)"

definition nand_erase_superblk :: "chip_operation \<Rightarrow> ntd_info \<Rightarrow> physic_op_par \<Rightarrow> dev \<Rightarrow> (int \<times> dev) option" where
  "nand_erase_superblk ct n p d = part_erase ct n (ucast (pp_blk p)) d"

definition nand_read_page ::
  "chip_operation \<Rightarrow> ('f \<Rightarrow> 'f) \<Rightarrow> ntd_info \<Rightarrow> physic_op_par \<Rightarrow> 'f \<times> dev \<Rightarrow> (int \<times> 'f \<times> dev) option" where
  "nand_read_page ct add_total_read n p fd = do {
     let (f, d) = fd;
     (ret, d) \<leftarrow> read_page_with_oob ct n (ucast (phy_from n p)) (pp_spare p) (pp_main p) d;
     Some (if ret \<noteq> 0 \<and> ret \<noteq> - EUCLEAN then - EBADMSG else ret, add_total_read f, d)
   }"

definition nand_write_page ::
  "chip_operation \<Rightarrow> (u32 \<Rightarrow> ptr) \<Rightarrow> ('f \<Rightarrow> 'f) \<Rightarrow> ntd_info \<Rightarrow> physic_op_par \<Rightarrow> 'f \<times> dev \<Rightarrow> (int \<times> 'f \<times> dev) option" where
  "nand_write_page ct malloc add_total_write n p fd = do {
     let (f, d) = fd;
     (ret, d) \<leftarrow> write_page_with_oob ct malloc n (ucast (phy_from n p)) (pp_spare p) (pp_main p) d;
     Some (ret, add_total_write f, d)
   }"

definition nand_is_blk_good :: "chip_operation \<Rightarrow> ntd_info \<Rightarrow> physic_op_par \<Rightarrow> dev \<Rightarrow> (int \<times> dev) option" where
  "nand_is_blk_good ct n p d = do {
     (ret, d) \<leftarrow> part_block_isbad ct n (ucast (pp_blk p)) d;
     Some (if ret = 0 then 1 else if ret = 1 then 100 else ret, d)
   }"

definition nand_mark_bad_blk :: "chip_operation \<Rightarrow> ntd_info \<Rightarrow> physic_op_par \<Rightarrow> dev \<Rightarrow> (int \<times> dev) option" where
  "nand_mark_bad_blk ct n p d = do {
     (ret, d) \<leftarrow> part_block_markbad ct n (ucast (pp_blk p)) d;
     Some (if (word_of_int ret :: u8) = 0 then 0 else 1, d)
   }"

end
