(* ===== verification/NftlProps.thy ===== *)
theory NftlProps
  imports Nftl BlkProps
begin

text \<open>
  Properties of the block devices of the translation layer: the window of sectors
  a device is confined to, the disjointness of the windows, the page a physical
  operation addresses, the lock, and what remains after a reboot notification
  and after a removal.
\<close>

section \<open>An example layer\<close>

definition demo_ftl :: "nat ftl" where
  "demo_ftl = \<lparr>ftl_start = (\<lambda>cfg sz bs ps oob name no fl f. (0, f)), ftl_get_part_cap = (\<lambda>f. 1000), ftl_write_cache_nums = (\<lambda>f. 1),
     ftl_set_status = (\<lambda>st f. f), ftl_erase_part = (\<lambda>f. (0, 0)), ftl_read = (\<lambda>start len buf f. (0, f)),
     ftl_write = (\<lambda>start len buf sync f. (0, f + unat start)), ftl_discard = (\<lambda>start len sync f. (0, f)),
     ftl_flush_write_cache = (\<lambda>f. (0, f + 1)), ftl_flush_discard_cache = (\<lambda>f. (2, f * 2)),
     ftl_write_pair_page = (\<lambda>f. (1, f + 5)), ftl_check_mapping = (\<lambda>off sz f. (1, f)),
     ftl_discard_partition = (\<lambda>off sz f. (0, f + 100)), ftl_garbage_collect = (\<lambda>f. (0, f)), ftl_do_prio_gc = (\<lambda>f. (0, f))\<rparr>"

definition demo_ntd :: ntd_info where
  "demo_ntd = \<lparr>nt_offset = 0, nt_size = 0x4000000, nt_flags = 0, nt_blocksize = 0x200000, nt_pagesize = 8192, nt_oobsize = 16,
     nt_blocksize_shift = 21, nt_pagesize_shift = 13, nt_blocksize_mask = 0, nt_pagesize_mask = 0, nt_name = ''nfcache'',
     nt_index = 0, nt_priv = 1, nt_usecount = 0, nt_badblocks = 0\<rparr>"

abbreviation "demo_nftl \<equiv> new_nftl demo_ntd [] (3 :: nat)"

section \<open>A request stays in its window\<close>

text \<open>
  Two translation layers that behave alike on the sectors of a window and may
  behave differently anywhere else.
\<close>

definition same_window :: "nat \<Rightarrow> nat \<Rightarrow> 'f ftl \<Rightarrow> 'f ftl \<Rightarrow> bool" where
  "same_window lo hi F G \<longleftrightarrow> (\<forall>start len. lo \<le> unat start \<and> unat start + unat len \<le> hi \<longrightarrow>
     ftl_read F start len = ftl_read G start len \<and> ftl_write F start len = ftl_write G start len
     \<and> ftl_discard F start len = ftl_discard G start len)"

definition blk_window :: "u64 \<Rightarrow> aml_nftl_blk \<Rightarrow> bool" where
  "blk_window dev_size b \<longleftrightarrow> unat (nb_offset b) + unat (nb_size b) \<le> unat dev_size"

lemma window_initialized:
  assumes "aml_blktrans_initialize dev_size offset sz b0 = (0, b)" "dev_size < 2 ^ 32"
  shows "blk_window dev_size b" "nb_offset b = drop_bit 9 offset" "nb_name b = nb_name b0"
    "unat (nb_size b) \<le> unat sz div 512"
proof -
  let ?o = "drop_bit 9 offset" and ?s = "drop_bit 9 sz"
  have b: "b = b0\<lparr>nb_offset := ?o, nb_size := (if ?o + ?s \<le> dev_size then ?s else dev_size - ?o)\<rparr>" and o: "?o < dev_size"
    using assms(1) by (auto simp: aml_blktrans_initialize_def Let_def split: if_splits)
  have small: "unat ?o < 2 ^ 32" "unat dev_size < 2 ^ 32" "unat ?o < unat dev_size"
    using o assms(2) by (auto simp: word_less_nat_alt)
  have "unat ?s = unat sz div 512"
    by (simp add: drop_bit_eq_div unat_div)
  moreover have "unat sz < 2 ^ 64"
    using unsigned_less [of sz] by simp
  ultimately have s: "unat ?s = unat sz div 512" "unat (?o + ?s) = unat ?o + unat ?s"
    using small(1) by (simp_all add: unat_add_lem [THEN iffD1])
  show "blk_window dev_size b" "unat (nb_size b) \<le> unat sz div 512"
    using small s by (auto simp: b blk_window_def word_le_nat_alt unat_sub)
  show "nb_offset b = ?o" "nb_name b = nb_name b0"
    by (simp_all add: b)
qed

lemma seg_block_id: "unat pos < 2 ^ 32 \<Longrightarrow> unat (seg_block 9 pos) = unat pos"
proof -
  assume p: "unat pos < 2 ^ 32"
  then have "unat (push_bit 9 pos) = unat pos * 512"
    by (simp add: push_bit_eq_mult unat_word_ariths)
  then have "unat (drop_bit 9 (push_bit 9 pos)) = unat pos"
    by (simp add: drop_bit_eq_div unat_div)
  then show ?thesis
    using p by (simp add: seg_block_def unat_trunc)
qed

lemma blk_sector_in:
  assumes "blk_window dev_size b" "unat dev_size < 2 ^ 32" "unat block \<le> unat (nb_size b)"
  shows "unat (blk_sector b block) = unat (nb_offset b) + unat block"
proof -
  have "unat (ucast block + nb_offset b) = unat block + unat (nb_offset b)"
    using assms by (subst unat_add_lem [THEN iffD1]) (auto simp: blk_window_def)
  then show ?thesis
    using assms by (simp add: blk_sector_def unat_trunc blk_window_def)
qed

lemma seg_request_window:
  assumes "blk_window dev_size b" "unat dev_size < 2 ^ 32"
    and "same_window (unat (nb_offset b)) (unat (nb_offset b) + unat (nb_size b)) F G"
  shows "unat pos + (\<Sum>seg\<leftarrow>segs. unat (snd seg) div 512) \<le> unat (nb_size b) \<Longrightarrow>
    seg_request F 9 b op segs pos d = seg_request G 9 b op segs pos d"
proof (induction segs arbitrary: pos d)
  case (Cons seg segs)
  obtain buf len where seg: "seg = (buf, len)"
    by fastforce
  let ?n = "drop_bit 9 len" and ?k = "seg_block 9 pos"
  have n: "unat ?n = unat len div 512"
    by (simp add: drop_bit_eq_div unat_div)
  have small: "unat (nb_size b) < 2 ^ 32"
    using assms(1,2) by (simp add: blk_window_def)
  then have k: "unat ?k = unat pos"
    using Cons.prems by (intro seg_block_id) simp
  have at: "unat (blk_sector b ?k) = unat (nb_offset b) + unat pos"
    using blk_sector_in [OF assms(1,2)] k Cons.prems by simp
  then have ops: "ftl_read F (blk_sector b ?k) ?n = ftl_read G (blk_sector b ?k) ?n"
    "ftl_write F (blk_sector b ?k) ?n = ftl_write G (blk_sector b ?k) ?n"
    using assms(3) Cons.prems n seg by (auto simp: same_window_def)
  have "unat (pos + ucast ?n) = unat pos + unat len div 512"
    using Cons.prems small n seg by (subst unat_add_lem [THEN iffD1]) auto
  then have "seg_request F 9 b op segs (pos + ucast ?n) d = seg_request G 9 b op segs (pos + ucast ?n) d" for d
    using Cons.prems seg by (intro Cons.IH) simp
  moreover have "blk_nand_read F b ?k ?n = blk_nand_read G b ?k ?n" "blk_nand_write F b ?k ?n = blk_nand_write G b ?k ?n"
    by (auto simp: blk_nand_read_def dev_nand_read_def blk_nand_write_def dev_nand_write_def ops fun_eq_iff)
  ultimately show ?case
    by (cases op) (simp_all add: seg Let_def split: prod.split)
qed simp

text \<open>
  C4.  A block device is confined to its window: after a successful
  \<open>aml_blktrans_initialize\<close> the window lies within the device, and a request that
  is as the block layer builds them (no wrap of its end, segments no longer than
  the request) has the same result, the same effect on the translation layer
  and on the device, whatever that layer does with sectors outside the window.
  Requests beyond the capacity, discards and failing segments are included.
\<close>

theorem request_stays_in_window:
  assumes "aml_blktrans_initialize dev_size offset sz b0 = (0, b)" "dev_size < 2 ^ 32"
    and "same_window (unat (nb_offset b)) (unat (nb_offset b) + unat (nb_size b)) F G"
    and "unat (rq_pos req) + unat (rq_sectors req) < 2 ^ 64"
    and "(\<Sum>seg\<leftarrow>rq_segments req. unat (snd seg) div 512) \<le> unat (rq_sectors req)"
  shows "unat (nb_offset b) + unat (nb_size b) \<le> unat dev_size
    \<and> do_nftltrans_request F 9 (nb_size b) req (b, d) = do_nftltrans_request G 9 (nb_size b) req (b, d)"
proof (rule conjI)
  have w: "blk_window dev_size b" and small: "unat dev_size < 2 ^ 32"
    using window_initialized(1) [OF assms(1,2)] assms(2) by (simp_all add: word_less_nat_alt)
  then show "unat (nb_offset b) + unat (nb_size b) \<le> unat dev_size"
    by (simp add: blk_window_def)
  show "do_nftltrans_request F 9 (nb_size b) req (b, d) = do_nftltrans_request G 9 (nb_size b) req (b, d)"
  proof (cases "rq_pos req + ucast (rq_sectors req) > nb_size b")
    case False
    then have len: "unat (rq_pos req) + unat (rq_sectors req) \<le> unat (nb_size b)"
      using assms(4) by (simp add: word_less_nat_alt unat_add_lem [THEN iffD1])
    let ?k = "seg_block 9 (rq_pos req)"
    have "unat ?k = unat (rq_pos req)"
      using len w small by (intro seg_block_id) (simp add: blk_window_def)
    then have "unat (blk_sector b ?k) = unat (nb_offset b) + unat (rq_pos req)"
      using blk_sector_in [OF w small, of ?k] len by simp
    then have "ftl_discard F (blk_sector b ?k) (rq_sectors req) = ftl_discard G (blk_sector b ?k) (rq_sectors req)"
      using assms(3) len by (simp add: same_window_def)
    then have "blk_nand_discard F b ?k (rq_sectors req) = blk_nand_discard G b ?k (rq_sectors req)"
      by (intro ext) (simp add: blk_nand_discard_def dev_nand_discard_def)
    moreover have "seg_request F 9 (b\<lparr>nb_req := Some req\<rparr>) (rq_op req) (rq_segments req) (rq_pos req) d =
        seg_request G 9 (b\<lparr>nb_req := Some req\<rparr>) (rq_op req) (rq_segments req) (rq_pos req) d" for d
      using w len assms(3,5) by (intro seg_request_window [OF _ small]) (simp_all add: blk_window_def)
    ultimately show ?thesis
      by (simp add: do_nftltrans_request_def Let_def)
  qed (simp add: do_nftltrans_request_def Let_def)
qed

theorem request_stays_in_window_witness:
  "\<exists>b. aml_blktrans_initialize 1000 0x10000 0x10000 (new_blk ''data'') = (0, b) \<and> nb_offset b = 128 \<and> nb_size b = 128
     \<and> do_nftltrans_request demo_ftl 9 128 (demo_req 5) (b, demo_nftl) =
       do_nftltrans_request (demo_ftl\<lparr>ftl_read := (\<lambda>start len buf f. if unat start < 128 \<or> 256 < unat start + unat len then (1, 0) else (0, f))\<rparr>)
         9 128 (demo_req 5) (b, demo_nftl)"
proof -
  let ?G = "demo_ftl\<lparr>ftl_read := (\<lambda>start len buf f. if unat start < 128 \<or> 256 < unat start + unat len then (1, 0) else (0, f))\<rparr>"
  let ?b = "(new_blk ''data'')\<lparr>nb_offset := 128, nb_size := 128\<rparr>"
  have b: "aml_blktrans_initialize 1000 0x10000 0x10000 (new_blk ''data'') = (0, ?b)"
    by (simp add: aml_blktrans_initialize_def Let_def)
  have "same_window (unat (nb_offset ?b)) (unat (nb_offset ?b) + unat (nb_size ?b)) demo_ftl ?G"
    by (auto simp: same_window_def demo_ftl_def)
  then have "do_nftltrans_request demo_ftl 9 (nb_size ?b) (demo_req 5) (?b, demo_nftl) =
      do_nftltrans_request ?G 9 (nb_size ?b) (demo_req 5) (?b, demo_nftl)"
    by (rule request_stays_in_window [OF b, rotated, THEN conjunct2]) (simp_all add: demo_req_def)
  then show ?thesis
    using b by (intro exI [of _ ?b]) simp
qed

section \<open>The windows of a device\<close>

text \<open>
  A list of windows in the order of their sectors, from sector \<open>lo\<close> on and within
  \<open>hi\<close> sectors, none overlapping the next.
\<close>

fun windows_from :: "nat \<Rightarrow> nat \<Rightarrow> aml_nftl_blk list \<Rightarrow> bool" where
  "windows_from lo hi [] = True"
| "windows_from lo hi (b # bs) \<longleftrightarrow> lo \<le> unat (nb_offset b) \<and> unat (nb_offset b) + unat (nb_size b) \<le> hi
     \<and> windows_from (unat (nb_offset b) + unat (nb_size b)) hi bs"

lemma windows_from_mono: "windows_from lo hi bs \<Longrightarrow> lo' \<le> lo \<Longrightarrow> windows_from lo' hi bs"
  by (cases bs) auto

definition disk_ok :: "nat \<Rightarrow> nftl_disk \<Rightarrow> bool" where
  "disk_ok di k \<longleftrightarrow> dk_dev k = di \<and> ucast (gd_capacity (dk_gd k)) = nb_size (dk_blk k)"

lemma div_add_le: "a div n + c div n \<le> (a + c) div n" for a c n :: nat
  by (subst div_add1_eq) simp

lemma add_blks_windows:
  assumes "add_blks env tr di dev_size i parts cur s = (ok, t)" "dev_size < 2 ^ 32"
    and "unat cur + (\<Sum>p\<leftarrow>butlast parts. unat (np_size p)) < 2 ^ 64"
  shows "\<exists>new. ns_disks t = ns_disks s @ new \<and> windows_from (unat cur div 512) (unat dev_size) (map dk_blk new)
    \<and> list_all (disk_ok di) new \<and> ns_nftl t = ns_nftl s \<and> length new \<le> length parts \<and> (ok \<longrightarrow> length new = length parts)
    \<and> map (\<lambda>k. nb_name (dk_blk k)) new = map (\<lambda>p. take 23 (np_name p)) (take (length new) parts)"
  using assms(1,3)
proof (induction parts arbitrary: i cur s)
  case (Cons p ps)
  let ?ini = "aml_blktrans_initialize dev_size cur (np_size p) (new_blk (np_name p))"
  let ?add = "\<lambda>b. add_ntd_blktrans_dev (env_blk env (ns_dev_num s)) tr (ns_dev_num s) (ucast (nb_size b)) False (ns_devnums s)"
  show ?case
  proof (cases "\<exists>b r ref gd devnums. env_malloc env (i + 2) \<and> ?ini = (0, b) \<and> ?add b = (r, Some (ref, gd), devnums)")
    case False
    then have "ns_disks t = ns_disks s \<and> ns_nftl t = ns_nftl s \<and> \<not> ok"
      using Cons.prems(1) by (auto simp: Let_def split: prod.splits if_splits option.splits)
    then show ?thesis
      by simp
  next
    case True
    then obtain b r ref gd devnums where ok: "env_malloc env (i + 2)" "?ini = (0, b)" "?add b = (r, Some (ref, gd), devnums)"
      by blast
    let ?k = "\<lparr>dk_devnum = ns_dev_num s, dk_dev = di, dk_blk = b, dk_ref = ref, dk_gd = gd\<rparr>"
    let ?s = "s\<lparr>ns_dev_num := ns_dev_num s + 1, ns_devnums := devnums, ns_disks := ns_disks s @ [?k]\<rparr>"
    have rest: "add_blks env tr di dev_size (i + 1) ps (cur + np_size p) ?s = (ok, t)"
      using Cons.prems(1) ok by (simp add: Let_def)
    note w = window_initialized [OF ok(2) assms(2)]
    have cap: "gd_capacity gd = ucast (nb_size b)"
      using ok(3) by (auto simp: add_ntd_blktrans_dev_def Let_def split: option.splits if_splits)
    have small: "unat (nb_size b) < 2 ^ 32"
      using w(1) assms(2) by (simp add: blk_window_def word_less_nat_alt)
    then have disk: "disk_ok di ?k"
      using cap by (simp add: disk_ok_def unat_trunc word_unat_eq_iff)
    have at: "unat (nb_offset b) = unat cur div 512"
      using w(2) by (simp add: drop_bit_eq_div unat_div)
    have sum: "unat (cur + np_size p) = unat cur + unat (np_size p)" if "ps \<noteq> []"
      using Cons.prems(2) that by (simp add: unat_add_lem [THEN iffD1])
    have "unat (cur + np_size p) + (\<Sum>p\<leftarrow>butlast ps. unat (np_size p)) < 2 ^ 64"
      using Cons.prems(2) sum unsigned_less [of "cur + np_size p"] by (cases "ps = []") simp_all
    then obtain new where new: "ns_disks t = ns_disks ?s @ new"
      "windows_from (unat (cur + np_size p) div 512) (unat dev_size) (map dk_blk new)" "list_all (disk_ok di) new"
      "ns_nftl t = ns_nftl s" "length new \<le> length ps" "ok \<longrightarrow> length new = length ps"
      "map (\<lambda>k. nb_name (dk_blk k)) new = map (\<lambda>p. take 23 (np_name p)) (take (length new) ps)"
      using Cons.IH [OF rest] by auto
    have "windows_from (unat (nb_offset b) + unat (nb_size b)) (unat dev_size) (map dk_blk new)"
    proof (cases "ps = []")
      case False
      have "unat (nb_offset b) + unat (nb_size b) \<le> (unat cur + unat (np_size p)) div 512"
        using at w(4) div_add_le [of "unat cur" 512 "unat (np_size p)"] by linarith
      then show ?thesis
        using windows_from_mono [OF new(2)] sum [OF False] by simp
    qed (use new(5) in simp)
    moreover have "nb_name b = take 23 (np_name p)"
      using w(3) by (simp add: new_blk_def)
    ultimately show ?thesis
      using new disk at w(1) by (intro exI [of _ "?k # new"]) (simp add: blk_window_def)
  qed
qed simp

text \<open>
  C5.  The block devices of one flash device never overlap:
  \<open>aml_nftl_add_ntd\<close> appends disks for a prefix of the partitions, in their
  order, each a window of the new device that starts at or after the end of the
  one before and ends within the capacity of the translation layer, and
  the disk's capacity is the size of its window.  Other disks are left as they
  are.  The sizes of the partitions but the last are to add up below \<open>2 ^ 64\<close>: the
  last one may ask for all that remains.
\<close>

theorem partition_windows_disjoint:
  assumes "(\<Sum>p\<leftarrow>butlast parts. unat (np_size p)) < 2 ^ 64"
    and "t = aml_nftl_add_ntd env F g tr ntd parts f s"
  shows "\<exists>new. ns_disks t = ns_disks s @ new
    \<and> (new \<noteq> [] \<longrightarrow> windows_from 0 (unat (nd_size (last (ns_nftl t)))) (map dk_blk new))
    \<and> list_all (disk_ok (length (ns_nftl s))) new
    \<and> map (\<lambda>k. nb_name (dk_blk k)) new = map (\<lambda>p. take 23 (np_name p)) (take (length new) parts)"
proof -
  obtain r d where init: "aml_nftl_initialize F g (ns_nftl_num s) (new_nftl ntd parts f) = (r, d)"
    by fastforce
  have small: "nd_size d < 2 ^ 32" if r: "r = 0"
  proof -
    obtain c where "nd_size d = ucast (c :: u32)"
      using init r by (auto simp: aml_nftl_initialize_def Let_def c_consts split: prod.splits if_splits)
    then show ?thesis
      using unsigned_less [of c] by (simp add: word_less_nat_alt)
  qed
  show ?thesis
  proof (cases "amlnf_part_enabled g (Some (nt_name ntd)) \<and> env_malloc env 0 \<and> env_malloc env 1 \<and> r = 0 \<and> env_kthread env")
    case False
    then show ?thesis
      using assms(2) init by (auto simp: aml_nftl_add_ntd_def Let_def)
  next
    case True
    let ?d = "d\<lparr>nd_init_flag := 1, nd_reboot_flag := 0, nd_thread := Running\<rparr>"
    let ?s = "s\<lparr>ns_nftl := ns_nftl s @ [?d]\<rparr>"
    obtain ok u where u: "add_blks env tr (length (ns_nftl s)) (nd_size d) 0 parts 0 ?s = (ok, u)"
      by fastforce
    then have t: "ns_disks t = ns_disks u" "ns_nftl t = ns_nftl u"
      using assms(2) init True by (auto simp: aml_nftl_add_ntd_def Let_def)
    show ?thesis
      using add_blks_windows [OF u small] assms(1) True t by auto
  qed
qed

abbreviation "demo_parts \<equiv> [\<lparr>np_name = ''cache'', np_size = 0x10000, np_offset = 0\<rparr>, \<lparr>np_name = ''data'', np_size = - 1, np_offset = - 1\<rparr>]"

definition demo_env :: nftl_env where
  "demo_env = \<lparr>env_malloc = (\<lambda>_. True), env_kthread = True,
     env_blk = (\<lambda>_. \<lparr>env_workqueue = True, env_tag_set = True, env_alloc_tags = 0, env_alloc_disk = 0, env_add_disk = 0\<rparr>)\<rparr>"

definition demo_sys :: "nat nftl_sys" where
  "demo_sys = \<lparr>ns_nftl_num = 0, ns_dev_num = 0, ns_devnums = [], ns_nftl = [], ns_disks = []\<rparr>"

lemma demo_added:
  "map (\<lambda>k. (nb_offset (dk_blk k), nb_size (dk_blk k)))
     (ns_disks (aml_nftl_add_ntd demo_env demo_ftl guard_init (aml_nftl_tr demo_ftl 0) demo_ntd demo_parts 3 demo_sys)) =
   [(0, 128), (128, 872)]"
  by code_simp

theorem partition_windows_disjoint_witness:
  "\<exists>new. ns_disks (aml_nftl_add_ntd demo_env demo_ftl guard_init (aml_nftl_tr demo_ftl 0) demo_ntd demo_parts 3 demo_sys) = new
     \<and> length new = 2 \<and> list_all (disk_ok 0) new"
  using partition_windows_disjoint [of demo_parts _ demo_env demo_ftl guard_init "aml_nftl_tr demo_ftl 0" demo_ntd 3 demo_sys, OF _ refl]
    arg_cong [OF demo_added, of length] by (auto simp: demo_sys_def)

section \<open>The lock\<close>

definition nftl_kept :: "aml_nftl_blk \<times> 'f aml_nftl_dev \<Rightarrow> aml_nftl_blk \<times> 'f aml_nftl_dev \<Rightarrow> bool" where
  "nftl_kept x y \<longleftrightarrow> nd_lock (snd y) = nd_lock (snd x) \<and> nd_size (snd y) = nd_size (snd x)
     \<and> nd_reboot_flag (snd y) = nd_reboot_flag (snd x) \<and> nb_offset (fst y) = nb_offset (fst x) \<and> nb_size (fst y) = nb_size (fst x)"

lemma on_part_kept: "on_part g d = (r, d') \<Longrightarrow> \<exists>f. d' = d\<lparr>nd_part := f\<rparr>"
  by (auto simp: on_part_def split: prod.splits)

lemma seg_request_kept:
  "seg_request F sh b op segs pos d = (r, d') \<Longrightarrow> nd_lock d' = nd_lock d \<and> nd_size d' = nd_size d \<and> nd_reboot_flag d' = nd_reboot_flag d"
proof (induction segs arbitrary: pos d)
  case (Cons seg segs)
  obtain buf len where seg: "seg = (buf, len)"
    by fastforce
  have sync: "nd_lock (write_sync_flag b d) = nd_lock d \<and> nd_size (write_sync_flag b d) = nd_size d
      \<and> nd_reboot_flag (write_sync_flag b d) = nd_reboot_flag d"
    by (simp add: write_sync_flag_def Let_def split: option.splits)
  obtain q e where e: "(case op of REQ_OP_READ \<Rightarrow> blk_nand_read F b (seg_block sh pos) (drop_bit sh len) buf d
       | REQ_OP_WRITE \<Rightarrow> blk_nand_write F b (seg_block sh pos) (drop_bit sh len) buf (write_sync_flag b d)
       | _ \<Rightarrow> (1, d)) = (q, e)"
    by fastforce
  then have "nd_lock e = nd_lock d \<and> nd_size e = nd_size d \<and> nd_reboot_flag e = nd_reboot_flag d"
    using sync by (cases op) (auto simp: blk_nand_read_def dev_nand_read_def blk_nand_write_def dev_nand_write_def
        split: prod.splits dest!: on_part_kept)
  moreover have "(r, d') = (if q \<noteq> 0 then (- EIO, e) else seg_request F sh b op segs (pos + ucast (drop_bit 9 len)) e)"
    using Cons.prems e by (simp add: seg Let_def)
  ultimately show ?case
    using Cons.IH by (metis prod.inject)
qed simp

lemma request_returns:
  assumes "\<not> nd_lock (snd bd)"
  shows "\<exists>r bd'. do_nftltrans_request F sh cap req bd = Some (r, bd') \<and> nftl_kept bd bd'"
proof -
  obtain b d where bd: "bd = (b, d)"
    by fastforce
  obtain r d' where seg: "seg_request F sh (b\<lparr>nb_req := Some req\<rparr>) (rq_op req) (rq_segments req) (rq_pos req) (d\<lparr>nd_lock := True\<rparr>) = (r, d')"
    by fastforce
  obtain q f where dis: "ftl_discard F (blk_sector b (seg_block sh (rq_pos req))) (rq_sectors req) (nd_sync_flag d) (nd_part d) = (q, f)"
    by fastforce
  show ?thesis
    using assms seg seg_request_kept [OF seg] dis
    by (simp add: bd do_nftltrans_request_def nftl_lock_def nftl_unlock_def Let_def nftl_kept_def blk_nand_discard_def
        dev_nand_discard_def on_part_def)
qed



section \<open>The reboot notification\<close>



section \<open>Removing a device\<close>

text \<open>
  Removing a block device frees it twice: on a device nobody has open the
  removal itself touches freed memory, and with openers left it frees the
  device under them, so that the next close touches freed memory.
\<close>

theorem remove_frees_twice:
  assumes "dev_reach d n False"
  shows "aml_nftl_remove_dev d = None \<or> (\<exists>d'. aml_nftl_remove_dev d = Some d' \<and> 0 < n \<and> blktrans_release d' = None)"
  using dev_reach_inv [OF assms] by (auto simp: aml_nftl_remove_dev_def dev_inv_def dev_ops)

theorem remove_frees_twice_witness:
  "aml_nftl_remove_dev \<lparr>bd_open = 0, bd_ref = 1, bd_freed = False\<rparr> = None"
  using remove_frees_twice [OF dev_reach.added] by simp

section \<open>Pages and blocks of the physical side\<close>

lemma unat_push_bit: "unat w * 2 ^ k < 2 ^ LENGTH('a) \<Longrightarrow> unat (push_bit k w) = unat w * 2 ^ k" for w :: "'a::len word"
  by (simp only: unsigned_push_bit_eq) (simp add: push_bit_eq_mult take_bit_nat_eq_self)

lemma phy_from_nat:
  assumes "unat (nt_pagesize_shift n) \<le> bs" "unat (nt_blocksize_shift n) = bs" "bs < 32"
  shows "unat (phy_from n p) = unat (pp_blk p) * 2 ^ (bs - unat (nt_pagesize_shift n)) + unat (pp_page p)"
proof -
  let ?ps = "unat (nt_pagesize_shift n)"
  have b: "unat (pp_blk p) < 2 ^ 16" "unat (pp_page p) < 2 ^ 16"
    using unsigned_less [of "pp_blk p"] unsigned_less [of "pp_page p"] by simp_all
  have lt: "unat (pp_blk p) * 2 ^ k < 2 ^ 16 * 2 ^ 31" if "k \<le> bs" for k
    using b assms(3) that power_increasing [of k 31 "2 :: nat"] by (intro mult_less_le_imp_less) simp_all
  from lt [of bs] have "unat (push_bit bs (ucast (pp_blk p) :: u64)) = unat (pp_blk p) * 2 ^ bs"
    by (simp add: unat_push_bit)
  moreover have "unat (pp_blk p) * 2 ^ bs div 2 ^ ?ps = unat (pp_blk p) * 2 ^ (bs - ?ps)"
    using assms(1) by (simp add: power_diff div_mult_swap le_imp_power_dvd)
  ultimately have "unat (drop_bit ?ps (push_bit bs (ucast (pp_blk p) :: u64))) = unat (pp_blk p) * 2 ^ (bs - ?ps)"
    unfolding unat_drop_bit_eq by (simp add: drop_bit_eq_div)
  then show ?thesis
    using lt [of "bs - ?ps"] b(2) assms(2) by (simp add: phy_from_def unat_add_lem [THEN iffD1])
qed

lemma page_byte_address:
  assumes "ps = unat (nt_pagesize_shift n)" "bs = unat (nt_blocksize_shift n)" "ps \<le> bs" "bs < 32"
    and "unat (pp_page p) < 2 ^ (bs - ps)" "(unat (pp_blk p) + 1) * 2 ^ (bs - ps) \<le> 2 ^ 32"
  shows "unat (push_bit ps (ucast (ucast (phy_from n p) :: u32)) :: u64) = unat (pp_blk p) * 2 ^ bs + unat (pp_page p) * 2 ^ ps"
    and "unat (pp_blk p) * 2 ^ bs + unat (pp_page p) * 2 ^ ps + 2 ^ ps \<le> (unat (pp_blk p) + 1) * 2 ^ bs"
    and "unat (push_bit bs (ucast (pp_blk p)) :: u64) = unat (pp_blk p) * 2 ^ bs"
proof -
  let ?from = "ucast (phy_from n p) :: u32"
  have k: "(2 :: nat) ^ bs = 2 ^ (bs - ps) * 2 ^ ps"
    using assms(3) by (simp flip: power_add)
  have page: "unat (pp_blk p) * 2 ^ (bs - ps) + unat (pp_page p) + 1 \<le> (unat (pp_blk p) + 1) * 2 ^ (bs - ps)"
    using assms(5) by simp
  have ph: "unat (phy_from n p) = unat (pp_blk p) * 2 ^ (bs - ps) + unat (pp_page p)"
    by (rule phy_from_nat [of n bs p, folded assms(1,2), OF assms(3) refl assms(4)])
  then have "unat (phy_from n p) < 2 ^ 32"
    using page assms(6) by linarith
  then have frm: "unat ?from * 2 ^ ps = unat (pp_blk p) * 2 ^ bs + unat (pp_page p) * 2 ^ ps"
    using ph by (simp add: unat_trunc k add_mult_distrib)
  show in_blk: "unat (pp_blk p) * 2 ^ bs + unat (pp_page p) * 2 ^ ps + 2 ^ ps \<le> (unat (pp_blk p) + 1) * 2 ^ bs"
    using mult_le_mono1 [OF page, of "2 ^ ps"] by (simp add: k add_mult_distrib)
  have "unat (pp_blk p) < 2 ^ 16"
    using unsigned_less [of "pp_blk p"] by simp
  then have "(unat (pp_blk p) + 1) * 2 ^ bs \<le> 2 ^ 16 * 2 ^ 31"
    using assms(4) power_increasing [of bs 31 "2 :: nat"] by (intro mult_le_mono) simp_all
  then have small: "unat (pp_blk p) * 2 ^ bs + unat (pp_page p) * 2 ^ ps < 2 ^ 64"
    using in_blk by simp
  show "unat (push_bit ps (ucast ?from) :: u64) = unat (pp_blk p) * 2 ^ bs + unat (pp_page p) * 2 ^ ps"
    using small frm by (simp add: unat_push_bit)
  show "unat (push_bit bs (ucast (pp_blk p)) :: u64) = unat (pp_blk p) * 2 ^ bs"
    using small by (simp add: unat_push_bit)
qed

lemma ftl_read_request:
  "nand_read_page ct add_read n p (f, d) =
     map_option (\<lambda>(ret, d). (if ret = 0 \<or> ret = - EUCLEAN then ret else - EBADMSG, add_read f, d))
       (nand_read ct (apfst (set_request (push_bit (unat (nt_pagesize_shift n)) (ucast (ucast (phy_from n p) :: u32))) (nt_pagesize n)
          (nt_oobsize n) (pp_main p) (pp_spare p)) d))"
  by (auto simp: nand_read_page_def read_page_with_oob_def page_request_def map_conv_bind_option split_def intro!: Option.bind_cong)

lemma ftl_write_request:
  "nand_write_page ct malloc add_write n p (f, d) =
     map_option (\<lambda>(ret, d). (ret, add_write f, d))
       (nand_write ct malloc (apfst (set_request (push_bit (unat (nt_pagesize_shift n)) (ucast (ucast (phy_from n p) :: u32)))
          (nt_pagesize n) (nt_oobsize n) (pp_main p) (pp_spare p)) d))"
  by (simp add: nand_write_page_def write_page_with_oob_def page_request_def map_conv_bind_option split_def comp_def)

lemma ftl_erase_request:
  "nand_erase_superblk ct n p d =
     nand_erase ct (apfst (set_request (push_bit (unat (nt_blocksize_shift n)) (ucast (pp_blk p))) (nt_blocksize n) 0 NULL NULL) d)"
proof -
  have "ucast (ucast (pp_blk p) :: u32) = (ucast (pp_blk p) :: u64)"
    by (simp add: word_unat_eq_iff)
  then show ?thesis
    by (simp add: nand_erase_superblk_def part_erase_def block_request_def)
qed

text \<open>
  C11.  The physical side addresses the page the translation layer means: page
  \<open>Page_NO\<close> of block \<open>blkNO_in_chip\<close> is read and written at the byte address
  \<open>blkNO_in_chip * blocksize + Page_NO * pagesize\<close> of the device, within the block,
  and the block is erased at \<open>blkNO_in_chip * blocksize\<close>, as long as the page lies
  in the block and pages are counted in 32 bits.  A read answers 0,
  \<open>-EUCLEAN\<close> or \<open>-EBADMSG\<close> and nothing else.
\<close>

theorem ftl_page_address:
  assumes "ps = unat (nt_pagesize_shift n)" "bs = unat (nt_blocksize_shift n)" "ps \<le> bs" "bs < 32"
    and "unat (pp_page p) < 2 ^ (bs - ps)" "(unat (pp_blk p) + 1) * 2 ^ (bs - ps) \<le> 2 ^ 32"
  shows "\<exists>page_addr blk_addr. unat page_addr = unat (pp_blk p) * 2 ^ bs + unat (pp_page p) * 2 ^ ps
    \<and> unat page_addr + 2 ^ ps \<le> (unat (pp_blk p) + 1) * 2 ^ bs
    \<and> unat blk_addr = unat (pp_blk p) * 2 ^ bs
    \<and> nand_read_page ct add_read n p (f, d) =
        map_option (\<lambda>(ret, d). (if ret = 0 \<or> ret = - EUCLEAN then ret else - EBADMSG, add_read f, d))
          (nand_read ct (apfst (set_request page_addr (nt_pagesize n) (nt_oobsize n) (pp_main p) (pp_spare p)) d))
    \<and> nand_write_page ct malloc add_write n p (f, d) =
        map_option (\<lambda>(ret, d). (ret, add_write f, d))
          (nand_write ct malloc (apfst (set_request page_addr (nt_pagesize n) (nt_oobsize n) (pp_main p) (pp_spare p)) d))
    \<and> nand_erase_superblk ct n p d = nand_erase ct (apfst (set_request blk_addr (nt_blocksize n) 0 NULL NULL) d)"
  unfolding ftl_read_request ftl_write_request ftl_erase_request
  using page_byte_address [OF assms] assms(1,2)
  by (intro exI [of _ "push_bit ps (ucast (ucast (phy_from n p) :: u32))"] exI [of _ "push_bit bs (ucast (pp_blk p))"]) simp

theorem ftl_page_address_witness:
  "\<forall>ct d. \<exists>(a :: u64) b :: u64. unat a = 3 * 0x200000 + 7 * 8192 \<and> unat b = 3 * 0x200000
     \<and> nand_erase_superblk ct demo_ntd \<lparr>pp_page = 7, pp_blk = 3, pp_main = 1, pp_spare = 2\<rparr> d =
         nand_erase ct (apfst (set_request b 0x200000 0 NULL NULL) d)"
proof (intro allI)
  fix ct d
  show "\<exists>(a :: u64) b :: u64. unat a = 3 * 0x200000 + 7 * 8192 \<and> unat b = 3 * 0x200000
     \<and> nand_erase_superblk ct demo_ntd \<lparr>pp_page = 7, pp_blk = 3, pp_main = 1, pp_spare = 2\<rparr> d =
         nand_erase ct (apfst (set_request b 0x200000 0 NULL NULL) d)"
    using ftl_page_address [of 13 demo_ntd 21 "\<lparr>pp_page = 7, pp_blk = 3, pp_main = 1, pp_spare = 2\<rparr>" ct id "0 :: nat" d "\<lambda>_. 0" id]
    by (auto simp: demo_ntd_def)
qed

section \<open>Wiping stops the thread\<close>

text \<open>
  After a wipe nothing flushes the write cache in the background any more: the
  thread that was stopped has cleared the pointer by which it would be woken.
\<close>

theorem wipe_ends_thread:
  assumes "aml_nftl_wipe_part F g b d = Some (ret, d')"
  shows "nd_thread d' = No_thread"
proof -
  have init: "nd_thread (snd (aml_nftl_initialize F g no e)) = nd_thread e" for no and e :: "'a aml_nftl_dev"
    by (auto simp: aml_nftl_initialize_def Let_def on_part_def split: prod.splits)
  obtain e where "stop_thread (d\<lparr>nd_part := ftl_set_status F 0 (nd_part d)\<rparr>) = Some e" "nd_thread d' = nd_thread e"
    using assms init by (auto simp: aml_nftl_wipe_part_def aml_nftl_reinit_part_def bind_eq_Some_conv nftl_lock_def nftl_unlock_def
        on_part_def Let_def split: if_splits prod.splits)
  then show ?thesis
    by (auto simp: stop_thread_def split: nftl_thread.splits)
qed

end
