(* ===== verification/VendorTables.thy ===== *)
theory VendorTables
  imports Nand
begin

text \<open>
  The parameters of \<open>phy/new_nand.c\<close> for the supported flash types: which
  registers hold the read thresholds, which values the attempts of a read
  retry load into them, which registers switch a block to SLC programming, and
  which pages of a block are used then.  The arrays of the code are lists;
  assigning to the first elements of one leaves the others as they are, and a
  list that is shorter than its array stands for one whose other elements are
  still zero, as the driver's structure is when it is allocated.
\<close>

section \<open>Flash types\<close>

definition HYNIX_26NM_4GB :: u8 where [c_consts]: "HYNIX_26NM_4GB = 1"
definition HYNIX_26NM_8GB :: u8 where [c_consts]: "HYNIX_26NM_8GB = 2"
definition HYNIX_20NM_4GB :: u8 where [c_consts]: "HYNIX_20NM_4GB = 3"
definition HYNIX_20NM_8GB :: u8 where [c_consts]: "HYNIX_20NM_8GB = 4"
definition TOSHIBA_2XNM :: u8 where [c_consts]: "TOSHIBA_2XNM = 20"
definition TOSHIBA_A19NM :: u8 where [c_consts]: "TOSHIBA_A19NM = 21"
definition SUMSUNG_2XNM :: u8 where [c_consts]: "SUMSUNG_2XNM = 30"
definition SANDISK_A19NM :: u8 where [c_consts]: "SANDISK_A19NM = 42"
definition MICRON_20NM :: u8 where [c_consts]: "MICRON_20NM = 50"
definition SANDISK_A19NM_4G :: u8 where [c_consts]: "SANDISK_A19NM_4G = 53"
definition INTEL_20NM :: u8 where [c_consts]: "INTEL_20NM = 60"

section \<open>Arrays\<close>

definition at :: "u8 list \<Rightarrow> nat \<Rightarrow> u8" where
  "at xs i = (if i < length xs then xs ! i else 0)"

definition row_at :: "u8 list list \<Rightarrow> nat \<Rightarrow> u8 list" where
  "row_at xs i = (if i < length xs then xs ! i else [])"

definition table_at :: "u8 list list list \<Rightarrow> nat \<Rightarrow> u8 list list" where
  "table_at xs i = (if i < length xs then xs ! i else [])"

definition set_prefix :: "u8 list \<Rightarrow> u8 list \<Rightarrow> u8 list" where
  "set_prefix vs xs = vs @ drop (length vs) xs"

fun set_rows :: "u8 list list \<Rightarrow> u8 list list \<Rightarrow> u8 list list" where
  "set_rows [] tab = tab"
| "set_rows (v # vs) [] = v # set_rows vs []"
| "set_rows (v # vs) (r # tab) = set_prefix v r # set_rows vs tab"

fun set_tables :: "u8 list list list \<Rightarrow> u8 list list list \<Rightarrow> u8 list list list" where
  "set_tables [] tabs = tabs"
| "set_tables (v # vs) [] = v # set_tables vs []"
| "set_tables (v # vs) (t # tabs) = set_rows v t # set_tables vs tabs"

section \<open>Pages used in SLC mode\<close>

definition pagelist_hynix256 :: "u8 list" where
  "pagelist_hynix256 =
     [0, 1, 2, 3, 6, 7, 0x0a, 0x0b, 0x0e, 0x0f, 0x12, 0x13, 0x16, 0x17, 0x1a, 0x1b,
     0x1e, 0x1f, 0x22, 0x23, 0x26, 0x27, 0x2a, 0x2b, 0x2e, 0x2f, 0x32, 0x33, 0x36, 0x37, 0x3a, 0x3b,
     0x3e, 0x3f, 0x42, 0x43, 0x46, 0x47, 0x4a, 0x4b, 0x4e, 0x4f, 0x52, 0x53, 0x56, 0x57, 0x5a, 0x5b,
     0x5e, 0x5f, 0x62, 0x63, 0x66, 0x67, 0x6a, 0x6b, 0x6e, 0x6f, 0x72, 0x73, 0x76, 0x77, 0x7a, 0x7b,
     0x7e, 0x7f, 0x82, 0x83, 0x86, 0x87, 0x8a, 0x8b, 0x8e, 0x8f, 0x92, 0x93, 0x96, 0x97, 0x9a, 0x9b,
     0x9e, 0x9f, 0xa2, 0xa3, 0xa6, 0xa7, 0xaa, 0xab, 0xae, 0xaf, 0xb2, 0xb3, 0xb6, 0xb7, 0xba, 0xbb,
     0xbe, 0xbf, 0xc2, 0xc3, 0xc6, 0xc7, 0xca, 0xcb, 0xce, 0xcf, 0xd2, 0xd3, 0xd6, 0xd7, 0xda, 0xdb,
     0xde, 0xdf, 0xe2, 0xe3, 0xe6, 0xe7, 0xea, 0xeb, 0xee, 0xef, 0xf2, 0xf3, 0xf6, 0xf7, 0xfa, 0xfb]"

definition pagelist_1ynm_hynix256 :: "u8 list" where
  "pagelist_1ynm_hynix256 =
     [0, 1, 3, 5, 7, 9, 0x0b, 0x0d, 0x0f, 0x11, 0x13, 0x15, 0x17, 0x19, 0x1b, 0x1d,
     0x1f, 0x21, 0x23, 0x25, 0x27, 0x29, 0x2b, 0x2d, 0x2f, 0x31, 0x33, 0x35, 0x37, 0x39, 0x3b, 0x3d,
     0x3f, 0x41, 0x43, 0x45, 0x47, 0x49, 0x4b, 0x4d, 0x4f, 0x51, 0x53, 0x55, 0x57, 0x59, 0x5b, 0x5d,
     0x5f, 0x61, 0x63, 0x65, 0x67, 0x69, 0x6b, 0x6d, 0x6f, 0x71, 0x73, 0x75, 0x77, 0x79, 0x7b, 0x7d,
     0x7f, 0x81, 0x83, 0x85, 0x87, 0x89, 0x8b, 0x8d, 0x8f, 0x91, 0x93, 0x95, 0x97, 0x99, 0x9b, 0x9d,
     0x9f, 0xa1, 0xa3, 0xa5, 0xa7, 0xa9, 0xab, 0xad, 0xaf, 0xb1, 0xb3, 0xb5, 0xb7, 0xb9, 0xbb, 0xbd,
     0xbf, 0xc1, 0xc3, 0xc5, 0xc7, 0xc9, 0xcb, 0xcd, 0xcf, 0xd1, 0xd3, 0xd5, 0xd7, 0xd9, 0xdb, 0xdd,
     0xdf, 0xe1, 0xe3, 0xe5, 0xe7, 0xe9, 0xeb, 0xed, 0xef, 0xf1, 0xf3, 0xf5, 0xf7, 0xf9, 0xfb, 0xfd]"

section \<open>Parameters of the flash types\<close>

definition hynix_26nm_4gb_retry :: "u8 list list" where
  "hynix_26nm_4gb_retry =
     [[0, 6, 0x0a, 6], [0xff, 0xfd, 0xf9, 0xf8], [0xff, 0xfa, 0xf3, 0xf1], [0xff, 0xf7, 0xec, 0xe9],
      [0xff, 0xff, 0xe6, 0xe2], [0xff, 0xff, 0xe0, 0xdb]]"

definition set_hynix_26nm_4gb :: "read_retry_info \<Rightarrow> read_retry_info" where
  "set_hynix_26nm_4gb r =
     r\<lparr>rr_flag := 1, reg_cnt_lp := 4, retry_cnt_lp := 6,
       reg_addr_lp := set_prefix [0xa7, 0xad, 0xae, 0xaf] (reg_addr_lp r),
       reg_offs_val_lp := set_tables [hynix_26nm_4gb_retry] (reg_offs_val_lp r)\<rparr>"

definition slc_hynix_26nm_4gb :: "en_slc_info \<Rightarrow> en_slc_info" where
  "slc_hynix_26nm_4gb e =
     e\<lparr>slc_flag := 1, slc_reg_cnt := 5,
       slc_reg_addr := set_prefix [0xa0, 0xa1, 0xb0, 0xb1, 0xc9] (slc_reg_addr e),
       slc_offs_val := set_prefix [0x26, 0x26, 0x26, 0x26, 1] (slc_offs_val e), pagelist := pagelist_hynix256\<rparr>"

definition hynix_26nm_8gb_retry :: "u8 list list" where
  "hynix_26nm_8gb_retry =
     [[0, 6, 0x0a, 6], [0xff, 0xfd, 0xf9, 0xf8], [0xff, 0xfa, 0xf3, 0xf1], [0xff, 0xf5, 0xec, 0xe9],
      [0xff, 0xff, 0xe6, 0xe2], [0xff, 0xff, 0xe0, 0xdb]]"

definition set_hynix_26nm_8gb :: "read_retry_info \<Rightarrow> read_retry_info" where
  "set_hynix_26nm_8gb r =
     r\<lparr>rr_flag := 1, reg_cnt_lp := 4, retry_cnt_lp := 6,
       reg_addr_lp := set_prefix [0xac, 0xad, 0xae, 0xaf] (reg_addr_lp r),
       reg_offs_val_lp := set_tables [hynix_26nm_8gb_retry] (reg_offs_val_lp r)\<rparr>"

definition slc_hynix_26nm_8gb :: "en_slc_info \<Rightarrow> en_slc_info" where
  "slc_hynix_26nm_8gb e =
     e\<lparr>slc_flag := 1, slc_reg_cnt := 5,
       slc_reg_addr := set_prefix [0xa4, 0xa5, 0xb0, 0xb1, 0xc9] (slc_reg_addr e),
       slc_offs_val := set_prefix [0x25, 0x25, 0x25, 0x25, 1] (slc_offs_val e), pagelist := pagelist_hynix256\<rparr>"

definition set_hynix_20nm_4gb :: "read_retry_info \<Rightarrow> read_retry_info" where
  "set_hynix_20nm_4gb r =
     r\<lparr>rr_flag := 1, reg_cnt_lp := 8, retry_cnt_lp := 7,
       reg_addr_lp := set_prefix [0xb0, 0xb1, 0xb2, 0xb3, 0xb4, 0xb5, 0xb6, 0xb7] (reg_addr_lp r)\<rparr>"

definition slc_hynix_20nm_4gb :: "en_slc_info \<Rightarrow> en_slc_info" where
  "slc_hynix_20nm_4gb e =
     e\<lparr>slc_flag := 1, slc_reg_cnt := 4, slc_reg_addr := set_prefix [0xa0, 0xa1, 0xa7, 0xa8] (slc_reg_addr e),
       slc_offs_val := set_prefix [0x0a, 0x0a, 0x0a, 0x0a] (slc_offs_val e), pagelist := pagelist_hynix256\<rparr>"

definition set_hynix_20nm_8gb :: "read_retry_info \<Rightarrow> read_retry_info" where
  "set_hynix_20nm_8gb r =
     r\<lparr>rr_flag := 1, reg_cnt_lp := 8, retry_cnt_lp := 7,
       reg_addr_lp := set_prefix [0xcc, 0xbf, 0xaa, 0xab, 0xcd, 0xad, 0xae, 0xaf] (reg_addr_lp r)\<rparr>"

definition slc_hynix_20nm_8gb :: "en_slc_info \<Rightarrow> en_slc_info" where
  "slc_hynix_20nm_8gb e =
     e\<lparr>slc_flag := 1, slc_reg_cnt := 4, slc_reg_addr := set_prefix [0xb0, 0xb1, 0xa0, 0xa1] (slc_reg_addr e),
       slc_offs_val := set_prefix [0x0a, 0x0a, 0x0a, 0x0a] (slc_offs_val e), pagelist := pagelist_hynix256\<rparr>"

definition set_hynix_1ynm_8gb :: "read_retry_info \<Rightarrow> read_retry_info" where
  "set_hynix_1ynm_8gb r =
     r\<lparr>rr_flag := 1, reg_cnt_lp := 4, retry_cnt_lp := 7,
       reg_addr_lp := set_prefix [0x38, 0x39, 0x3a, 0x3b] (reg_addr_lp r)\<rparr>"

definition slc_hynix_1ynm_8gb :: "en_slc_info \<Rightarrow> en_slc_info" where
  "slc_hynix_1ynm_8gb e =
     e\<lparr>pagelist := pagelist_1ynm_hynix256\<rparr>"

definition toshiba_2xnm_retry :: "u8 list list" where
  "toshiba_2xnm_retry =
     [[0, 0, 0, 0], [4, 4, 4, 4], [0x7c, 0x7c, 0x7c, 0x7c], [0x78, 0x78, 0x78, 0x78], [0x74, 0x74, 0x74, 0x74],
      [8, 8, 8, 8]]"

definition set_toshiba_2xnm :: "read_retry_info \<Rightarrow> read_retry_info" where
  "set_toshiba_2xnm r =
     r\<lparr>rr_flag := 1, reg_cnt_lp := 4, retry_cnt_lp := 6,
       reg_addr_lp := set_prefix [4, 5, 6, 7] (reg_addr_lp r),
       reg_offs_val_lp := set_tables [toshiba_2xnm_retry] (reg_offs_val_lp r)\<rparr>"

definition toshiba_a19nm_retry :: "u8 list list" where
  "toshiba_a19nm_retry =
     [[0, 0, 0, 0, 0], [4, 4, 4, 4, 0], [0x7c, 0x7c, 0x7c, 0x7c, 0], [0x78, 0x78, 0x78, 0x78, 0],
      [0x74, 0x74, 0x74, 0x74, 0], [8, 8, 8, 8, 0], [0x78, 0x78, 0x78, 0x78, 0]]"

definition set_toshiba_a19nm :: "read_retry_info \<Rightarrow> read_retry_info" where
  "set_toshiba_a19nm r =
     r\<lparr>rr_flag := 1, reg_cnt_lp := 5, retry_cnt_lp := 7,
       reg_addr_lp := set_prefix [4, 5, 6, 0x0d] (reg_addr_lp r),
       reg_offs_val_lp := set_tables [toshiba_a19nm_retry] (reg_offs_val_lp r)\<rparr>"

definition sumsung_2xnm_retry :: "u8 list list" where
  "sumsung_2xnm_retry =
     [[0, 0, 0, 0], [5, 0x0a, 0, 0], [0x28, 0, 0xec, 0xd8], [0xed, 0xf5, 0xed, 0xe6], [0x0a, 0x0f, 5, 0],
      [0x0f, 0x0a, 0xfb, 0xec], [0xe8, 0xef, 0xe8, 0xdc], [0xf1, 0xfb, 0xfe, 0xf0], [0x0a, 0, 0xfb, 0xec],
      [0xd0, 0xe2, 0xd0, 0xc2], [0x14, 0x0f, 0xfb, 0xec], [0xe8, 0xfb, 0xe8, 0xdc], [0x1e, 0x14, 0xfb, 0xec],
      [0xfb, 0xff, 0xfb, 0xf8], [7, 0x0c, 2, 0]]"

definition set_sumsung_2xnm :: "read_retry_info \<Rightarrow> read_retry_info" where
  "set_sumsung_2xnm r =
     r\<lparr>rr_flag := 1, reg_cnt_lp := 4, retry_cnt_lp := 15,
       reg_addr_lp := set_prefix [0xa7, 0xa4, 0xa5, 0xa6] (reg_addr_lp r),
       reg_offs_val_lp := set_tables [sumsung_2xnm_retry] (reg_offs_val_lp r)\<rparr>"

definition sandisk_19nm_retry :: "u8 list list" where
  "sandisk_19nm_retry =
     [[0xf0, 0xf0], [0xe0, 0xe0], [0xd0, 0xd0], [0x10, 0x10], [0x20, 0x20], [0x30, 0x30], [0xc0, 0xd0], [0, 0x10],
      [0, 0x20], [0x10, 0x20], [0xb0, 0xd0], [0xa0, 0xd0], [0x90, 0xd0], [0xb0, 0xc0], [0xa0, 0xc0], [0x90, 0xc0]]"

definition sandisk_19nm_up_retry :: "u8 list list" where
  "sandisk_19nm_up_retry =
     [[0, 0xf0], [0x0f, 0xe0], [0x0f, 0xd0], [0x0e, 0xe0], [0x0e, 0xd0], [0x0d, 0xf0], [0x0d, 0xe0], [0x0d, 0xd0],
      [1, 0x10], [2, 0x20], [2, 0x10], [3, 0x20], [0x0f, 0], [0x0e, 0xf0], [0x0d, 0xc0], [0x0f, 0xf0], [1, 0],
      [0x20, 0], [0x0d, 0xb0], [0x0c, 0xa0]]"

definition set_sandisk_19nm :: "read_retry_info \<Rightarrow> read_retry_info" where
  "set_sandisk_19nm r =
     r\<lparr>rr_flag := 1, reg_cnt_lp := 2, reg_cnt_up := 2, retry_cnt_lp := 16, retry_cnt_up := 20,
       reg_addr_lp := set_prefix [4, 7] (reg_addr_lp r), reg_addr_up := set_prefix [4, 5] (reg_addr_up r),
       reg_offs_val_lp := set_tables [sandisk_19nm_retry] (reg_offs_val_lp r),
       reg_offs_val_up := set_tables [sandisk_19nm_up_retry] (reg_offs_val_up r)\<rparr>"

definition sandisk_a19nm_lower :: "u8 list list" where
  "sandisk_a19nm_lower =
     [[0x7c, 0, 0x7c, 0], [4, 0, 4, 0], [0x78, 0, 0x78, 0], [8, 0, 8, 0], [0, 0, 0, 0], [0x7c, 0, 0x7c, 0],
      [4, 0, 4, 0], [0, 0, 0x78, 0], [0, 0, 0x74, 0], [0, 0, 0, 0], [0, 0, 0x7c, 0], [0, 0, 0x78, 0],
      [0, 0, 0x74, 0], [0, 0, 0x70, 0], [0, 0, 0, 0], [0, 0, 0x7c, 0], [0x10, 0, 4, 0], [0x7c, 0, 0x7c, 0],
      [0x78, 0, 0x78, 0], [0x78, 0, 0x74, 0], [0x78, 0, 0x70, 0], [0x78, 0, 0x6c, 0], [0x78, 0, 0x78, 0],
      [0x78, 0, 0x74, 0], [0x78, 0, 0x70, 0], [0x78, 0, 0x6c, 0], [0x78, 0, 0x74, 0], [0x78, 0, 0x70, 0],
      [0x78, 0, 0x6c, 0]]"

definition sandisk_a19nm_upper :: "u8 list list" where
  "sandisk_a19nm_upper =
     [[0, 0, 0, 0x7c], [0, 0, 0, 4], [0, 0, 0, 0x78], [0, 0, 0, 8], [0, 0x7c, 0, 0], [0, 0x7c, 0, 0x7c],
      [0, 0x7c, 0, 4], [0, 0x7c, 0, 0x78], [0, 0x7c, 0, 0x74], [0, 0x78, 0, 0], [0, 0x78, 0, 0x7c],
      [0, 0x78, 0, 0x78], [0, 0x78, 0, 0x74], [0, 0x78, 0, 0x70], [0, 4, 0, 0], [0, 4, 0, 0x7c], [0, 4, 0, 4],
      [0, 0x74, 0, 0x7c], [0, 0x74, 0, 0x78], [0, 0x74, 0, 0x74], [0, 0x74, 0, 0x70], [0, 0x74, 0, 0x6c],
      [0, 0x70, 0, 0x78], [0, 0x70, 0, 0x74], [0, 0x70, 0, 0x70], [0, 0x70, 0, 0x6c], [0, 0x6c, 0, 0x74],
      [0, 0x6c, 0, 0x70], [0, 0x6c, 0, 0x6c]]"

definition set_sandisk_a19nm :: "read_retry_info \<Rightarrow> read_retry_info" where
  "set_sandisk_a19nm r =
     r\<lparr>rr_flag := 1, reg_cnt_lp := 4, retry_cnt_lp := 29, reg_addr_lp := set_prefix [0x11] (reg_addr_lp r),
       reg_offs_val_lp := set_tables [sandisk_a19nm_lower, sandisk_a19nm_upper] (reg_offs_val_lp r)\<rparr>"

definition sandisk_a19nm_4g_lower :: "u8 list list" where
  "sandisk_a19nm_4g_lower =
     [[0x7c, 0, 0, 0], [4, 0, 0x7c, 0], [0x78, 0, 0x78, 0], [8, 0, 0, 0], [0, 0, 0x7c, 0], [0x7c, 0, 0x78, 0],
      [0, 0, 0x74, 0], [0, 0, 0, 0], [0, 0, 0x7c, 0], [0, 0, 0x78, 0], [0, 0, 0x74, 0], [0, 0, 0x70, 0],
      [0, 0, 4, 0], [0, 0, 0, 0], [0x0c, 0, 0x7c, 0], [0x0c, 0, 0x78, 0], [0x10, 0, 0, 0], [0x10, 0, 4, 0],
      [0x78, 0, 0x78, 0], [0x78, 0, 0x74, 0], [0x78, 0, 0x70, 0], [0x78, 0, 0x6c, 0], [0x78, 0, 0x78, 0],
      [0x78, 0, 0x74, 0], [0x78, 0, 0x6c, 0], [0x78, 0, 0x70, 0], [0x78, 0, 0x70, 0], [0x78, 0, 0x6c, 0],
      [0x78, 0, 0x68, 0], [0x74, 0, 0x6c, 0]]"

definition sandisk_a19nm_4g_upper :: "u8 list list" where
  "sandisk_a19nm_4g_upper =
     [[0, 0, 0, 0x7c], [0, 0, 0, 0x78], [0, 0, 0, 0x74], [0, 0x7c, 0, 0x7c], [0, 0x7c, 0, 0x78], [0, 0x7c, 0, 0x74],
      [0, 0x7c, 0, 0x70], [0, 0x78, 0, 0x7c], [0, 0x78, 0, 0x78], [0, 0x78, 0, 0x74], [0, 0x78, 0, 0x70],
      [0, 0x78, 0, 0x6c], [0, 4, 0, 0], [0, 4, 0, 0x7c], [0, 4, 0, 0x78], [0, 4, 0, 0x74], [0, 8, 0, 0x7c],
      [0, 8, 0, 0], [0, 0x74, 0, 0x74], [0, 0x74, 0, 0x70], [0, 0x74, 0, 0x6c], [0, 0x74, 0, 0x68],
      [0, 0x70, 0, 0x74], [0, 0x70, 0, 0x70], [0, 0x70, 0, 0x68], [0, 0x70, 0, 0x6c], [0, 0x6c, 0, 0x6c],
      [0, 0x6c, 0, 0x68], [0, 0x6c, 0, 0x64], [0, 0x68, 0, 0x68]]"

definition set_sandisk_a19nm_4g :: "read_retry_info \<Rightarrow> read_retry_info" where
  "set_sandisk_a19nm_4g r =
     r\<lparr>rr_flag := 1, reg_cnt_lp := 4, retry_cnt_lp := 30, reg_addr_lp := set_prefix [0x11] (reg_addr_lp r),
       reg_offs_val_lp := set_tables [sandisk_a19nm_4g_lower, sandisk_a19nm_4g_upper] (reg_offs_val_lp r)\<rparr>"

definition micron_20nm_retry :: "u8 list list" where
  "micron_20nm_retry =
     [[1], [2], [3], [4], [5], [6], [7]]"

definition set_micron_20nm :: "read_retry_info \<Rightarrow> read_retry_info" where
  "set_micron_20nm r =
     r\<lparr>rr_flag := 1, reg_cnt_lp := 1, retry_cnt_lp := 7, reg_addr_lp := set_prefix [0x89] (reg_addr_lp r),
       rr_def_val := set_rows [[0, 0, 0, 0, 0, 0, 0]] (rr_def_val r),
       reg_offs_val_lp := set_tables [micron_20nm_retry] (reg_offs_val_lp r)\<rparr>"

definition intel_20nm_retry :: "u8 list list" where
  "intel_20nm_retry =
     [[1], [2], [3], [0], [1], [2], [3]]"

definition set_intel_20nm :: "read_retry_info \<Rightarrow> read_retry_info" where
  "set_intel_20nm r =
     r\<lparr>rr_flag := 1, reg_cnt_lp := 2, retry_cnt_lp := 7, reg_addr_lp := set_prefix [0x93] (reg_addr_lp r),
       rr_def_val := set_rows [[0, 0, 0, 0, 0, 0, 0]] (rr_def_val r),
       reg_offs_val_lp := set_tables [intel_20nm_retry] (reg_offs_val_lp r)\<rparr>"

end
