(* ===== verification/Vendor.thy ===== *)
theory Vendor
  imports InfoStore VendorTables
begin

text \<open>
  The vendor specific part of \<open>phy/new_nand.c\<close>: the routines a chip of a new
  type installs for the read retry (load other read thresholds and read again)
  and for the SLC mode, and the configuration that chooses them by
  \<open>flash->new_type\<close>.  A hook is a routine of the model that may not return; a
  pointer the configuration leaves null is one that never does.
\<close>

section \<open>The retry and SLC structures\<close>

definition upd_retry :: "(read_retry_info \<Rightarrow> read_retry_info) \<Rightarrow> nand \<Rightarrow> nand" where
  "upd_retry f s = s\<lparr>controller := (controller s)\<lparr>retry_info := f (retry_info (controller s))\<rparr>\<rparr>"

definition upd_slc :: "(en_slc_info \<Rightarrow> en_slc_info) \<Rightarrow> nand \<Rightarrow> nand" where
  "upd_slc f s = s\<lparr>controller := (controller s)\<lparr>slc_info := f (slc_info (controller s))\<rparr>\<rparr>"

abbreviation retry_of :: "nand \<Rightarrow> read_retry_info" where
  "retry_of s \<equiv> retry_info (controller s)"

abbreviation slc_of :: "nand \<Rightarrow> en_slc_info" where
  "slc_of s \<equiv> slc_info (controller s)"

definition reg_pairs :: "u8 list \<Rightarrow> u8 list \<Rightarrow> u8 \<Rightarrow> (u8 \<times> u8) list" where
  "reg_pairs buf addr cnt = map (\<lambda>i. (at addr i, at buf i)) [0..<unat cnt]"

fun each_reg :: "(u8 \<Rightarrow> u8 \<Rightarrow> nand \<Rightarrow> nand) \<Rightarrow> (u8 \<times> u8) list \<Rightarrow> nand \<Rightarrow> nand" where
  "each_reg f [] s = s"
| "each_reg f ((a, b) # rs) s = each_reg f rs (f a b s)"

text \<open>
  The register routines wait for the chip, send their cycles and wait for the
  chip again.
\<close>

definition between_rb :: "nfc \<Rightarrow> u8 \<Rightarrow> (nand \<Rightarrow> nand) \<Rightarrow> nand \<Rightarrow> (int \<times> nand) option" where
  "between_rb hw chipnr f s = do {
     (ret, s) \<leftarrow> controller_quene_rb hw chipnr s;
     if ret \<noteq> 0 then Some (- NAND_FAILED, s)
     else do {
       (ret, s) \<leftarrow> controller_quene_rb hw chipnr (f s);
       Some (if ret \<noteq> 0 then - NAND_FAILED else NAND_SUCCESS, s)
     }
   }"

definition next_cnt :: "u8 \<Rightarrow> u8 \<Rightarrow> u8" where
  "next_cnt n c = (if uint c + 1 > uint n - 1 then 0 else c + 1)"

definition lp_cnt :: "u8 \<Rightarrow> nand \<Rightarrow> u8" where
  "lp_cnt chipnr s = at (cur_cnt_lp (retry_of s)) (unat chipnr)"

definition up_cnt :: "u8 \<Rightarrow> nand \<Rightarrow> u8" where
  "up_cnt chipnr s = at (cur_cnt_up (retry_of s)) (unat chipnr)"

definition set_lp_cnt :: "u8 \<Rightarrow> u8 \<Rightarrow> nand \<Rightarrow> nand" where
  "set_lp_cnt chipnr v = upd_retry (\<lambda>r. r\<lparr>cur_cnt_lp := (cur_cnt_lp r)[unat chipnr := v]\<rparr>)"

definition set_up_cnt :: "u8 \<Rightarrow> u8 \<Rightarrow> nand \<Rightarrow> nand" where
  "set_up_cnt chipnr v = upd_retry (\<lambda>r. r\<lparr>cur_cnt_up := (cur_cnt_up r)[unat chipnr := v]\<rparr>)"

definition clear_lp_cnt :: "nand \<Rightarrow> nand" where
  "clear_lp_cnt = upd_retry (\<lambda>r. r\<lparr>cur_cnt_lp := replicate MAX_CHIP_NUM 0\<rparr>)"

definition clear_up_cnt :: "nand \<Rightarrow> nand" where
  "clear_up_cnt = upd_retry (\<lambda>r. r\<lparr>cur_cnt_up := replicate MAX_CHIP_NUM 0\<rparr>)"

section \<open>Hynix\<close>

definition no_hynix :: "nand \<Rightarrow> bool" where
  "no_hynix s \<longleftrightarrow> new_type (flash s) = 0 \<or> 10 < new_type (flash s)"

fun get_regs :: "nfc \<Rightarrow> u8 list \<Rightarrow> nand \<Rightarrow> u8 list \<times> nand" where
  "get_regs hw [] s = ([], s)"
| "get_regs hw (a # as) s =
     (let s = ale hw (ucast a) s;
          s = idle hw 10 s;
          (b, s) = controller_read_byte hw s;
          s = idle hw 10 s;
          (bs, s) = get_regs hw as s
      in (b # bs, s))"

definition get_reg_value_hynix :: "nfc \<Rightarrow> u8 list \<Rightarrow> u8 \<Rightarrow> u8 \<Rightarrow> nand \<Rightarrow> ((int \<times> u8 list) \<times> nand) option" where
  "get_reg_value_hynix hw addr chipnr cnt s =
     (if no_hynix s then Some ((NAND_SUCCESS, []), s)
      else do {
        (ret, s) \<leftarrow> controller_quene_rb hw chipnr s;
        if ret \<noteq> 0 then Some ((- NAND_FAILED, []), s)
        else do {
          let s = cle hw 0x37 s;
          let (bs, s) = get_regs hw (map (at addr) [0..<unat cnt]) s;
          (ret, s) \<leftarrow> controller_quene_rb hw chipnr s;
          Some ((if ret \<noteq> 0 then - NAND_FAILED else NAND_SUCCESS, bs), s)
        }
      })"

definition put_reg_hynix :: "nfc \<Rightarrow> u8 \<Rightarrow> u8 \<Rightarrow> nand \<Rightarrow> nand" where
  "put_reg_hynix hw a b s =
     (let s = ale hw (ucast a) s;
          s = idle hw 15 s;
          s = controller_write_byte hw b s
      in idle hw 0 s)"

definition set_reg_value_hynix :: "nfc \<Rightarrow> u8 list \<Rightarrow> u8 list \<Rightarrow> u8 \<Rightarrow> u8 \<Rightarrow> nand \<Rightarrow> (int \<times> nand) option" where
  "set_reg_value_hynix hw buf addr chipnr cnt s =
     (if no_hynix s then Some (NAND_SUCCESS, s)
      else between_rb hw chipnr
        (\<lambda>s. cle hw 0x16 (each_reg (put_reg_hynix hw) (reg_pairs buf addr cnt) (cle hw 0x36 s))) s)"

text \<open>
  The scan for the stored retry values (\<open>aml_nand_scan_hynix_info\<close>,
  \<open>phy/chipenv.c\<close>) runs with \<open>new_type\<close> cleared around the page operations.
\<close>

definition as_plain_type :: "(nand \<Rightarrow> (int \<times> nand) option) \<Rightarrow> nand \<Rightarrow> (int \<times> nand) option" where
  "as_plain_type f s = do {
     let nand_type = new_type (flash s);
     (ret, s) \<leftarrow> f (s\<lparr>flash := (flash s)\<lparr>new_type := 0\<rparr>\<rparr>);
     Some (ret, s\<lparr>flash := (flash s)\<lparr>new_type := nand_type\<rparr>\<rparr>)
   }"

definition rows_of :: "nat \<Rightarrow> nat \<Rightarrow> memory \<Rightarrow> ptr \<Rightarrow> u8 list list" where
  "rows_of n w m p = map (\<lambda>i. mem_bytes m (p + i * w) w) [0..<n]"

definition take_hynix_info :: "nand \<Rightarrow> nand" where
  "take_hynix_info s =
     (let p = user_page_buf s; t = new_type (flash s);
          s = upd_retry (\<lambda>r. r\<lparr>rr_def_val := rows_of 4 8 (mem s) p\<rparr>) s;
          s = (if t = HYNIX_20NM_8GB \<or> t = HYNIX_20NM_4GB \<or> t = HYNIX_1YNM_8GB
               then upd_retry (\<lambda>r. r\<lparr>reg_offs_val_lp :=
                      map (\<lambda>c. rows_of 30 8 (mem s) (p + 32 + c * 240)) [0..<4]\<rparr>) s
               else s)
      in upd_retry (\<lambda>r. r\<lparr>default_flag := 1, rr_flag := 1\<rparr>) s)"

definition hynix_bufs :: "nand \<Rightarrow> nand" where
  "hynix_bufs s =
     s\<lparr>ops_para := (ops_para s)\<lparr>op_data_buf := user_page_buf s, op_oob_buf := user_oob_buf s, op_ooblen := 8\<rparr>,
       mem := memset (user_oob_buf s) 0 8 (memset (user_page_buf s) 0 (unat (pagesize (flash s))) (mem s))\<rparr>"

fun hynix_pages :: "chip_operation \<Rightarrow> u32 \<Rightarrow> nat list \<Rightarrow> int \<Rightarrow> nand \<Rightarrow> (int \<times> nand) option" where
  "hynix_pages ct blk [] ret s = Some (ret, s)"
| "hynix_pages ct blk (i # is) ret s = do {
     s \<leftarrow> select_resv ct blk (resv_ops blk (of_nat i) s) s;
     (ret, s) \<leftarrow> as_plain_type (locked_call ct (ct_read_page ct)) (hynix_bufs s);
     if failed_read ret s then hynix_pages ct blk is ret s
     else Some (ret, if named ''nhix'' s then take_hynix_info s else s)
   }"

fun hynix_blocks :: "chip_operation \<Rightarrow> nat \<Rightarrow> nat list \<Rightarrow> int \<Rightarrow> nand \<Rightarrow> ((int \<times> nat option) \<times> nand) option" where
  "hynix_blocks ct n [] ret s = Some ((ret, None), s)"
| "hynix_blocks ct n (b # bs) ret s = do {
     s \<leftarrow> at_block ct (of_nat b) s;
     (ret, s) \<leftarrow> as_plain_type (ct_block_isbad ct) s;
     if ret = uint NAND_BLOCK_FACTORY_BAD then hynix_blocks ct n bs ret s
     else do {
       (ret, s) \<leftarrow> hynix_pages ct (of_nat b) [0..<n] ret s;
       if default_flag (retry_of s) \<noteq> 0 then Some ((ret, Some b), s) else hynix_blocks ct n bs ret s
     }
   }"

definition aml_nand_scan_hynix_info :: "chip_operation \<Rightarrow> nand \<Rightarrow> (int \<times> nand) option" where
  "aml_nand_scan_hynix_info ct s =
     (if no_hynix s then Some (NAND_SUCCESS, s)
      else do {
        let s = slc_option (s\<lparr>ops_para := ops_zero\<rparr>);
        let n = unat (pages_read s);
        let s = upd_retry (\<lambda>r. r\<lparr>default_flag := 0, rr_flag := 0\<rparr>) s;
        let start_blk = unat (resv_start (flash s));
        ((ret, found), s) \<leftarrow> hynix_blocks ct n [start_blk..<start_blk + RESERVED_BLOCK_CNT] 0 s;
        Some (ret, case found of None \<Rightarrow> s
          | Some b \<Rightarrow> reserve_blk (of_nat b) (upd_retry (\<lambda>r. r\<lparr>info_save_blk := of_nat b\<rparr>) s))
      })"

definition readretry_init_hynix :: "chip_operation \<Rightarrow> nand \<Rightarrow> (int \<times> nand) option" where
  "readretry_init_hynix ct s = do {
     (ret, s) \<leftarrow> aml_nand_scan_hynix_info ct s;
     Some (if default_flag (retry_of s) = 0 then - NAND_FAILED else ret, s)
   }"

definition hynix_row :: "u8 \<Rightarrow> u8 \<Rightarrow> nat" where
  "hynix_row n c =
     (if c < n then unat c else (unat c div unat n + unat c mod unat n) mod unat n)"

definition hynix_value :: "u8 \<Rightarrow> nat \<Rightarrow> nand \<Rightarrow> nat \<Rightarrow> u8" where
  "hynix_value chipnr row s i =
     (let t = new_type (flash s); r = retry_of s;
          offs = (\<lambda>c. at (row_at (table_at (reg_offs_val_lp r) c) row) i)
      in if t = HYNIX_26NM_8GB \<or> t = HYNIX_26NM_4GB
         then if offs 0 = 0xff then 0 else at (row_at (rr_def_val r) (unat chipnr)) i + offs 0
         else if t = HYNIX_20NM_8GB \<or> t = HYNIX_20NM_4GB \<or> t = HYNIX_1YNM_8GB then offs (unat chipnr)
         else 0)"

definition readretry_handle_hynix :: "nfc \<Rightarrow> u8 \<Rightarrow> nand \<Rightarrow> (int \<times> nand) option" where
  "readretry_handle_hynix hw chipnr s =
     (if no_hynix s then Some (NAND_SUCCESS, s)
      else if retry_cnt_lp (retry_of s) = 0 then None
      else do {
        let r = retry_of s;
        let row = hynix_row (retry_cnt_lp r) (lp_cnt chipnr s);
        let reg_value = map (hynix_value chipnr row s) [0..<unat (reg_cnt_lp r)];
        (_, s) \<leftarrow> set_reg_value_hynix hw reg_value (reg_addr_lp r) chipnr (reg_cnt_lp r) s;
        Some (0, set_lp_cnt chipnr (lp_cnt chipnr s + 1) s)
      })"

definition set_slc_regs_hynix :: "nfc \<Rightarrow> (nat \<Rightarrow> u8) \<Rightarrow> u8 \<Rightarrow> nand \<Rightarrow> (int \<times> nand) option" where
  "set_slc_regs_hynix hw val chipnr s =
     (let e = slc_of s
      in set_reg_value_hynix hw (map val [0..<unat (slc_reg_cnt e)]) (slc_reg_addr e) chipnr (slc_reg_cnt e) s)"

definition slc_def :: "u8 \<Rightarrow> nand \<Rightarrow> nat \<Rightarrow> u8" where
  "slc_def chipnr s j = at (row_at (slc_def_val (slc_of s)) (unat chipnr)) j"

definition slc_on :: "u8 \<Rightarrow> nand \<Rightarrow> nat \<Rightarrow> u8" where
  "slc_on chipnr s j = slc_def chipnr s j + at (slc_offs_val (slc_of s)) j"

definition readretry_set_def_val_hynix :: "nfc \<Rightarrow> u8 \<Rightarrow> nand \<Rightarrow> (int \<times> nand) option" where
  "readretry_set_def_val_hynix hw chipnr s =
     (if no_hynix s then Some (NAND_SUCCESS, s)
      else do {
        let s = clear_lp_cnt s;
        let r = retry_of s;
        (ret, s) \<leftarrow> set_reg_value_hynix hw (row_at (rr_def_val r) (unat chipnr)) (reg_addr_lp r) chipnr (reg_cnt_lp r) s;
        if new_type (flash s) \<noteq> HYNIX_1YNM_8GB then set_slc_regs_hynix hw (slc_def chipnr s) chipnr s
        else Some (ret, s)
      })"

definition no_hynix_slc :: "nand \<Rightarrow> bool" where
  "no_hynix_slc s \<longleftrightarrow>
     new_type (flash s) = 0 \<or> HYNIX_20NM_8GB < new_type (flash s) \<or> new_type (flash s) = HYNIX_1YNM_8GB"

fun enslc_init_chips :: "nfc \<Rightarrow> u8 list \<Rightarrow> int \<Rightarrow> nand \<Rightarrow> (int \<times> nand) option" where
  "enslc_init_chips hw [] ret s = Some (ret, s)"
| "enslc_init_chips hw (i # is) ret s = do {
     let e = slc_of s;
     ((ret, bs), s) \<leftarrow> get_reg_value_hynix hw (slc_reg_addr e) i (slc_reg_cnt e) s;
     let s = upd_slc (\<lambda>e. e\<lparr>slc_def_val :=
               (slc_def_val e)[unat i := set_prefix bs (row_at (slc_def_val e) (unat i))]\<rparr>) s;
     enslc_init_chips hw is ret s
   }"

definition all_chips :: "nand \<Rightarrow> u8 list" where
  "all_chips s = map of_nat [0..<unat (chip_num (controller s))]"

definition enslc_init_hynix :: "nfc \<Rightarrow> chip_operation \<Rightarrow> nand \<Rightarrow> (int \<times> nand) option" where
  "enslc_init_hynix hw ct s =
     (if no_hynix_slc s then Some (NAND_SUCCESS, s)
      else do {
        s \<leftarrow> ct_get_chip ct s;
        (ret, s) \<leftarrow> enslc_init_chips hw (all_chips s) 0 s;
        Some (ret, nand_release_chip s)
      })"

fun enslc_chips :: "nfc \<Rightarrow> (u8 \<Rightarrow> nand \<Rightarrow> nat \<Rightarrow> u8) \<Rightarrow> u8 list \<Rightarrow> int \<Rightarrow> nand \<Rightarrow> (int \<times> nand) option" where
  "enslc_chips hw val [] ret s = Some (ret, s)"
| "enslc_chips hw val (i # is) ret s = do {
     (ret, s) \<leftarrow> set_slc_regs_hynix hw (val i s) i s;
     enslc_chips hw val is ret s
   }"

definition enslc_enter_hynix :: "nfc \<Rightarrow> nand \<Rightarrow> (int \<times> nand) option" where
  "enslc_enter_hynix hw s =
     (if no_hynix_slc s then Some (NAND_SUCCESS, s) else enslc_chips hw slc_on (all_chips s) 0 s)"

definition enslc_exit_hynix :: "nfc \<Rightarrow> nand \<Rightarrow> (int \<times> nand) option" where
  "enslc_exit_hynix hw s =
     (if no_hynix_slc s then Some (NAND_SUCCESS, s) else enslc_chips hw slc_def (all_chips s) 0 s)"

section \<open>Toshiba\<close>

definition put_reg_toshiba :: "nfc \<Rightarrow> u8 \<Rightarrow> u8 \<Rightarrow> nand \<Rightarrow> nand" where
  "put_reg_toshiba hw a b s =
     (let s = cle hw 0x55 s;
          s = idle hw 2 s;
          s = ale hw (ucast a) s;
          s = idle hw 2 s;
          s = controller_write_byte hw b s
      in idle hw 2 s)"

definition set_reg_value_toshiba :: "nfc \<Rightarrow> u8 list \<Rightarrow> u8 list \<Rightarrow> u8 \<Rightarrow> u8 \<Rightarrow> nand \<Rightarrow> (int \<times> nand) option" where
  "set_reg_value_toshiba hw buf addr chipnr cnt =
     between_rb hw chipnr (\<lambda>s.
       let s = (if lp_cnt chipnr s = 0 then idle hw 2 (cle hw 0xc5 (idle hw 2 (cle hw 0x5c s))) else s);
           s = each_reg (put_reg_toshiba hw) (reg_pairs buf addr cnt) s;
           s = idle hw 2 (cle hw 0x26 s)
       in idle hw 2 (cle hw 0x5d s))"

text \<open>The retry tables of the lower pages are walked cyclically, one row per attempt.\<close>

definition lp_row :: "u8 \<Rightarrow> nand \<Rightarrow> u8 list" where
  "lp_row chipnr s = row_at (table_at (reg_offs_val_lp (retry_of s)) 0) (unat (lp_cnt chipnr s))"

definition lp_step ::
  "(u8 list \<Rightarrow> u8 list \<Rightarrow> u8 \<Rightarrow> u8 \<Rightarrow> nand \<Rightarrow> (int \<times> nand) option) \<Rightarrow> u8 \<Rightarrow> nand \<Rightarrow> (int \<times> nand) option" where
  "lp_step set_reg chipnr s = do {
     let r = retry_of s;
     let cur_cnt = lp_cnt chipnr s;
     (ret, s) \<leftarrow> set_reg (lp_row chipnr s) (reg_addr_lp r) chipnr (reg_cnt_lp r) s;
     if ret \<noteq> 0 then Some (- NAND_FAILED, s)
     else Some (NAND_SUCCESS, set_lp_cnt chipnr (next_cnt (retry_cnt_lp (retry_of s)) cur_cnt) s)
   }"

definition readretry_handle_toshiba :: "nfc \<Rightarrow> u8 \<Rightarrow> nand \<Rightarrow> (int \<times> nand) option" where
  "readretry_handle_toshiba hw = lp_step (set_reg_value_toshiba hw)"

definition reset_or_fail :: "nfc \<Rightarrow> u8 \<Rightarrow> nand \<Rightarrow> (int \<times> nand) option" where
  "reset_or_fail hw chipnr s = do {
     (ret, s) \<leftarrow> nand_reset hw chipnr s;
     Some (if ret < 0 then - NAND_FAILED else NAND_SUCCESS, s)
   }"

definition after_rb :: "nfc \<Rightarrow> u8 \<Rightarrow> (nand \<Rightarrow> (int \<times> nand) option) \<Rightarrow> nand \<Rightarrow> (int \<times> nand) option" where
  "after_rb hw chipnr f s = do {
     (ret, s) \<leftarrow> controller_quene_rb hw chipnr s;
     if ret \<noteq> 0 then Some (- NAND_FAILED, s) else f s
   }"

definition readretry_exit_toshiba :: "nfc \<Rightarrow> u8 \<Rightarrow> nand \<Rightarrow> (int \<times> nand) option" where
  "readretry_exit_toshiba hw chipnr = after_rb hw chipnr (\<lambda>s.
     let s = clear_lp_cnt s; r = retry_of s;
         s = (if new_type (flash s) \<noteq> TOSHIBA_A19NM
              then each_reg (put_reg_toshiba hw) (reg_pairs (replicate 5 0) (reg_addr_lp r) (reg_cnt_lp r)) s else s)
     in reset_or_fail hw chipnr s)"

section \<open>Samsung, Micron and Intel\<close>

definition put_reg_samsung :: "nfc \<Rightarrow> u8 \<Rightarrow> u8 \<Rightarrow> nand \<Rightarrow> nand" where
  "put_reg_samsung hw a b s =
     (let s = cle hw 0xa1 s;
          s = idle hw 2 s;
          s = ale hw 0 s;
          s = idle hw 0 s;
          s = ale hw (ucast a) s;
          s = idle hw 0 s;
          s = controller_write_byte hw b s
      in idle hw 20 s)"

definition set_reg_value_samsung :: "nfc \<Rightarrow> u8 list \<Rightarrow> u8 list \<Rightarrow> u8 \<Rightarrow> u8 \<Rightarrow> nand \<Rightarrow> (int \<times> nand) option" where
  "set_reg_value_samsung hw buf addr chipnr cnt s =
     (if new_type (flash s) \<noteq> SUMSUNG_2XNM then Some (NAND_SUCCESS, s)
      else between_rb hw chipnr (each_reg (put_reg_samsung hw) (reg_pairs buf addr cnt)) s)"

definition readretry_handle_samsung :: "nfc \<Rightarrow> u8 \<Rightarrow> nand \<Rightarrow> (int \<times> nand) option" where
  "readretry_handle_samsung hw chipnr s =
     (if new_type (flash s) \<noteq> SUMSUNG_2XNM then Some (NAND_SUCCESS, s)
      else lp_step (set_reg_value_samsung hw) chipnr s)"

definition fail_or_ok :: "(int \<times> nand) option \<Rightarrow> (int \<times> nand) option" where
  "fail_or_ok x = do { (ret, s) \<leftarrow> x; Some (if ret \<noteq> 0 then - NAND_FAILED else NAND_SUCCESS, s) }"

definition readretry_exit_samsung :: "nfc \<Rightarrow> u8 \<Rightarrow> nand \<Rightarrow> (int \<times> nand) option" where
  "readretry_exit_samsung hw chipnr s =
     (if new_type (flash s) \<noteq> SUMSUNG_2XNM then Some (NAND_SUCCESS, s)
      else after_rb hw chipnr (\<lambda>s.
        let s = clear_lp_cnt s; r = retry_of s
        in fail_or_ok (set_reg_value_samsung hw (row_at (table_at (reg_offs_val_lp r) 0) 0) (reg_addr_lp r) chipnr
             (reg_cnt_lp r) s)) s)"

definition put_reg_micron :: "nfc \<Rightarrow> u8 \<Rightarrow> u8 \<Rightarrow> nand \<Rightarrow> nand" where
  "put_reg_micron hw a b s =
     (let s = cle hw 0xef s;
          s = idle hw 2 s;
          s = ale hw (ucast a) s;
          s = idle hw 10 s;
          s = controller_write_byte hw b s;
          s = idle hw 1 s;
          s = controller_write_byte hw 0 s;
          s = idle hw 1 s;
          s = controller_write_byte hw 0 s;
          s = idle hw 1 s;
          s = controller_write_byte hw 0 s
      in idle hw 100 s)"

definition set_reg_value_micron :: "nfc \<Rightarrow> u8 list \<Rightarrow> u8 list \<Rightarrow> u8 \<Rightarrow> u8 \<Rightarrow> nand \<Rightarrow> (int \<times> nand) option" where
  "set_reg_value_micron hw buf addr chipnr cnt s =
     (if new_type (flash s) \<noteq> MICRON_20NM then Some (NAND_SUCCESS, s)
      else between_rb hw chipnr (each_reg (put_reg_micron hw) (reg_pairs buf addr cnt)) s)"

definition readretry_handle_micron :: "nfc \<Rightarrow> u8 \<Rightarrow> nand \<Rightarrow> (int \<times> nand) option" where
  "readretry_handle_micron hw chipnr s =
     (if new_type (flash s) \<noteq> MICRON_20NM then Some (NAND_SUCCESS, s)
      else lp_step (set_reg_value_micron hw) chipnr s)"

definition set_def_micron :: "nfc \<Rightarrow> nat \<Rightarrow> u8 \<Rightarrow> nand \<Rightarrow> (int \<times> nand) option" where
  "set_def_micron hw first chipnr s =
     (let r = retry_of s
      in fail_or_ok (set_reg_value_micron hw (row_at (rr_def_val r) 0) (drop first (reg_addr_lp r)) chipnr (reg_cnt_lp r) s))"

definition readretry_exit_micron :: "nfc \<Rightarrow> u8 \<Rightarrow> nand \<Rightarrow> (int \<times> nand) option" where
  "readretry_exit_micron hw chipnr s =
     (if new_type (flash s) \<noteq> MICRON_20NM then Some (NAND_SUCCESS, s)
      else after_rb hw chipnr (\<lambda>s. set_def_micron hw 0 chipnr (clear_lp_cnt s)) s)"

definition readretry_handle_intel :: "nfc \<Rightarrow> u8 \<Rightarrow> nand \<Rightarrow> (int \<times> nand) option" where
  "readretry_handle_intel hw chipnr s =
     (if new_type (flash s) \<noteq> INTEL_20NM then Some (NAND_SUCCESS, s)
      else do {
        let r = retry_of s;
        let cur_cnt = lp_cnt chipnr s;
        (ret, s) \<leftarrow> (if cur_cnt = 3 then set_reg_value_micron hw [1, 0, 0, 0] (drop 1 (reg_addr_lp r)) chipnr (reg_cnt_lp r) s
                     else Some (0, s));
        if ret \<noteq> 0 then Some (- NAND_FAILED, s)
        else do {
          (ret, s) \<leftarrow> set_reg_value_micron hw (lp_row chipnr s) (reg_addr_lp r) chipnr (reg_cnt_lp r) s;
          if ret \<noteq> 0 then Some (- NAND_FAILED, s)
          else Some (NAND_SUCCESS, set_lp_cnt chipnr (next_cnt (retry_cnt_lp r) cur_cnt) (idle hw 10 s))
        }
      })"

definition readretry_exit_intel :: "nfc \<Rightarrow> u8 \<Rightarrow> nand \<Rightarrow> (int \<times> nand) option" where
  "readretry_exit_intel hw chipnr s =
     (if new_type (flash s) \<noteq> INTEL_20NM then Some (NAND_SUCCESS, s)
      else after_rb hw chipnr (\<lambda>s. do {
        (ret, s) \<leftarrow> set_def_micron hw 0 chipnr (clear_lp_cnt s);
        if ret \<noteq> 0 then Some (- NAND_FAILED, s) else set_def_micron hw 1 chipnr s
      }) s)"

section \<open>SanDisk\<close>

definition put_reg_sandisk :: "nfc \<Rightarrow> u8 \<Rightarrow> u8 \<Rightarrow> nand \<Rightarrow> nand" where
  "put_reg_sandisk hw a b s =
     (let s = cle hw 0x53 s;
          s = idle hw 10 s;
          s = ale hw (ucast a) s;
          s = idle hw 10 s;
          s = controller_write_byte hw b s
      in idle hw 10 s)"

definition open_sandisk :: "nfc \<Rightarrow> nand \<Rightarrow> nand" where
  "open_sandisk hw s = idle hw 2 (cle hw 0xb9 (idle hw 2 (cle hw 0x3b s)))"

fun init_sandisk_chips :: "nfc \<Rightarrow> nat \<Rightarrow> nand \<Rightarrow> nand" where
  "init_sandisk_chips hw 0 s = s"
| "init_sandisk_chips hw (Suc n) s =
     init_sandisk_chips hw n (each_reg (put_reg_sandisk hw)
       (reg_pairs [] [0x04, 0x05, 0x06, 0x07, 0x08, 0x09, 0x0a, 0x0b, 0x0c] 9) (open_sandisk hw s))"

definition readretry_init_sandisk :: "nfc \<Rightarrow> nand \<Rightarrow> int \<times> nand" where
  "readretry_init_sandisk hw s = (NAND_SUCCESS, init_sandisk_chips hw (unat (chip_num (controller s))) s)"

definition set_reg_value_sandisk :: "nfc \<Rightarrow> u8 list \<Rightarrow> u8 list \<Rightarrow> u8 \<Rightarrow> u8 \<Rightarrow> nand \<Rightarrow> (int \<times> nand) option" where
  "set_reg_value_sandisk hw buf addr chipnr cnt =
     between_rb hw chipnr (\<lambda>s.
       idle hw 10 (cle hw 0xb6 (each_reg (put_reg_sandisk hw) (reg_pairs buf addr cnt) (open_sandisk hw s))))"

definition upper_page :: "nand \<Rightarrow> bool" where
  "upper_page s =
     (let c = controller s; f = flash s;
          tmp_page = page_addr c mod push_bit (blk_shift c) 1
      in tmp_page \<noteq> 0 \<and> tmp_page mod 2 = 0 \<or> tmp_page = blocksize f div pagesize f - 1)"

definition up_row :: "u8 \<Rightarrow> nand \<Rightarrow> u8 list" where
  "up_row chipnr s = row_at (table_at (reg_offs_val_up (retry_of s)) 0) (unat (up_cnt chipnr s))"

definition readretry_handle_sandisk :: "nfc \<Rightarrow> u8 \<Rightarrow> nand \<Rightarrow> (int \<times> nand) option" where
  "readretry_handle_sandisk hw chipnr s =
     (if upper_page s
      then do {
        let r = retry_of s;
        let cur_cnt = up_cnt chipnr s;
        (ret, s) \<leftarrow> set_reg_value_sandisk hw (up_row chipnr s) (reg_addr_up r) chipnr (reg_cnt_up r) s;
        if ret \<noteq> 0 then Some (- NAND_FAILED, s)
        else Some (NAND_SUCCESS, set_up_cnt chipnr (next_cnt (retry_cnt_up r) cur_cnt) s)
      }
      else lp_step (set_reg_value_sandisk hw) chipnr s)"

definition readretry_exit_sandisk :: "nfc \<Rightarrow> u8 \<Rightarrow> nand \<Rightarrow> (int \<times> nand) option" where
  "readretry_exit_sandisk hw chipnr = after_rb hw chipnr (\<lambda>s.
     let s = clear_up_cnt (clear_lp_cnt s);
         s = idle hw 2 (cle hw 0xd6 s);
         (ret, s) = readretry_init_sandisk hw s
     in if ret \<noteq> 0 then Some (- NAND_FAILED, s) else after_rb hw chipnr (reset_or_fail hw chipnr) s)"

definition set_a19_reg_value_sandisk :: "nfc \<Rightarrow> u8 list \<Rightarrow> u8 \<Rightarrow> u8 \<Rightarrow> u8 \<Rightarrow> nand \<Rightarrow> (int \<times> nand) option" where
  "set_a19_reg_value_sandisk hw buf addr chipnr cnt =
     between_rb hw chipnr (\<lambda>s.
       each_reg (\<lambda>_ b s. idle hw 10 (controller_write_byte hw b s)) (reg_pairs buf [] cnt)
         (idle hw 10 (ale hw (ucast addr) (idle hw 2 (cle hw 0xef s)))))"

definition a19_row :: "u8 \<Rightarrow> nand \<Rightarrow> u8 list" where
  "a19_row chipnr s =
     row_at (table_at (reg_offs_val_lp (retry_of s)) (if upper_page s then 1 else 0)) (unat (up_cnt chipnr s))"

definition readretry_handle_a19_sandisk :: "nfc \<Rightarrow> u8 \<Rightarrow> nand \<Rightarrow> (int \<times> nand) option" where
  "readretry_handle_a19_sandisk hw chipnr s = do {
     let r = retry_of s;
     let cur_cnt = up_cnt chipnr s;
     (_, s) \<leftarrow> set_a19_reg_value_sandisk hw (a19_row chipnr s) (at (reg_addr_lp r) 0) chipnr (reg_cnt_lp r) s;
     let s = idle hw 5 (cle hw 0x25 s);
     let s = (if new_type (flash s) \<noteq> SANDISK_A19NM then idle hw 5 (cle hw 0x26 s) else s);
     let s = idle hw 5 (cle hw 0x5d s);
     Some (NAND_SUCCESS, set_up_cnt chipnr (next_cnt (retry_cnt_up r) cur_cnt) s)
   }"

definition readretry_exit_a19_sandisk :: "nfc \<Rightarrow> u8 \<Rightarrow> nand \<Rightarrow> (int \<times> nand) option" where
  "readretry_exit_a19_sandisk hw chipnr = after_rb hw chipnr (\<lambda>s. do {
     let s = clear_lp_cnt s;
     let r = retry_of s;
     (_, s) \<leftarrow> set_a19_reg_value_sandisk hw (replicate 4 0) (at (reg_addr_lp r) 0) chipnr (reg_cnt_lp r) s;
     after_rb hw chipnr (reset_or_fail hw chipnr) s
   })"

definition enslc_enter_sandisk :: "nfc \<Rightarrow> nand \<Rightarrow> (int \<times> nand) option" where
  "enslc_enter_sandisk hw s = Some (NAND_SUCCESS, cle hw 0xa2 s)"

section \<open>Configuration\<close>

definition hynix_types :: "u8 list" where
  "hynix_types = [HYNIX_26NM_4GB, HYNIX_26NM_8GB, HYNIX_20NM_4GB, HYNIX_20NM_8GB, HYNIX_1YNM_8GB]"

text \<open>The hooks installed for a flash type, and what the configuration writes.\<close>

definition vendor_slc_enter :: "nfc \<Rightarrow> u8 \<Rightarrow> nand \<Rightarrow> (int \<times> nand) option" where
  "vendor_slc_enter hw t s =
     (if t \<in> set hynix_types then enslc_enter_hynix hw s
      else if t = SANDISK_19NM then enslc_enter_sandisk hw s else None)"

definition vendor_slc_exit :: "nfc \<Rightarrow> u8 \<Rightarrow> nand \<Rightarrow> (int \<times> nand) option" where
  "vendor_slc_exit hw t s = (if t \<in> set hynix_types then enslc_exit_hynix hw s else None)"

definition vendor_retry ::
  "nfc \<Rightarrow> u8 \<Rightarrow> ((u8 \<Rightarrow> nand \<Rightarrow> (int \<times> nand) option) \<times> (u8 \<Rightarrow> nand \<Rightarrow> (int \<times> nand) option)) option" where
  "vendor_retry hw t =
     (if t \<in> set hynix_types then Some (readretry_handle_hynix hw, readretry_set_def_val_hynix hw)
      else if t = TOSHIBA_2XNM \<or> t = TOSHIBA_A19NM then Some (readretry_handle_toshiba hw, readretry_exit_toshiba hw)
      else if t = SUMSUNG_2XNM then Some (readretry_handle_samsung hw, readretry_exit_samsung hw)
      else if t = SANDISK_19NM then Some (readretry_handle_sandisk hw, readretry_exit_sandisk hw)
      else if t = SANDISK_A19NM \<or> t = SANDISK_A19NM_4G
      then Some (readretry_handle_a19_sandisk hw, readretry_exit_a19_sandisk hw)
      else if t = MICRON_20NM then Some (readretry_handle_micron hw, readretry_exit_micron hw)
      else if t = INTEL_20NM then Some (readretry_handle_intel hw, readretry_exit_intel hw)
      else None)"

definition vendor_hooks :: "nfc \<Rightarrow> (nand \<Rightarrow> int) \<Rightarrow> (u32 \<Rightarrow> ptr) \<Rightarrow> u8 \<Rightarrow> nand_hooks" where
  "vendor_hooks hw pins alloc t =
     \<lparr>slc_enter = vendor_slc_enter hw t, slc_exit = vendor_slc_exit hw t,
      retry_handle = (case vendor_retry hw t of None \<Rightarrow> \<lambda>_ _. None | Some (handle, _) \<Rightarrow> handle),
      retry_exit = map_option snd (vendor_retry hw t), pin_select = pins, kmalloc = alloc\<rparr>"

definition retry_paras :: "(u8 \<times> (read_retry_info \<Rightarrow> read_retry_info) \<times> (en_slc_info \<Rightarrow> en_slc_info)) list" where
  "retry_paras =
     [(HYNIX_26NM_4GB, set_hynix_26nm_4gb, slc_hynix_26nm_4gb), (HYNIX_26NM_8GB, set_hynix_26nm_8gb, slc_hynix_26nm_8gb),
      (HYNIX_20NM_4GB, set_hynix_20nm_4gb, slc_hynix_20nm_4gb), (HYNIX_20NM_8GB, set_hynix_20nm_8gb, slc_hynix_20nm_8gb),
      (HYNIX_1YNM_8GB, set_hynix_1ynm_8gb, slc_hynix_1ynm_8gb), (TOSHIBA_2XNM, set_toshiba_2xnm, id),
      (TOSHIBA_A19NM, set_toshiba_a19nm, id), (SUMSUNG_2XNM, set_sumsung_2xnm, id),
      (SANDISK_19NM, set_sandisk_19nm, id), (SANDISK_A19NM, set_sandisk_a19nm, id),
      (SANDISK_A19NM_4G, set_sandisk_a19nm_4g, id), (MICRON_20NM, set_micron_20nm, id),
      (INTEL_20NM, set_intel_20nm, id)]"

definition amlnand_set_readretry_slc_para :: "nfc \<Rightarrow> chip_operation \<Rightarrow> nand \<Rightarrow> (int \<times> nand) option" where
  "amlnand_set_readretry_slc_para hw ct s =
     (let t = new_type (flash s)
      in if t = 0 then Some (NAND_SUCCESS, s)
         else case map_of retry_paras t of None \<Rightarrow> Some (- NAND_FAILED, s)
         | Some (f, g) \<Rightarrow>
           let s = upd_slc g (upd_retry f s);
               (ret, s) = (if t = SANDISK_19NM then readretry_init_sandisk hw s else (0, s))
           in if ret \<noteq> 0 then Some (- NAND_FAILED, s)
              else if t < 10 then do {
                (ret, s) \<leftarrow> enslc_init_hynix hw ct s;
                if ret \<noteq> 0 then Some (- NAND_FAILED, s)
                else fail_or_ok (readretry_init_hynix ct s)
              }
              else Some (NAND_SUCCESS, s))"

end
