(* ===== verification/VendorProps.thy ===== *)
theory VendorProps
  imports PhyDevProps Vendor
begin

text \<open>
  The vendor hooks keep to what the chip operations rely on: whatever the flash
  type, a read retry and a switch to SLC mode send no program and no erase
  command and leave the chip structure alone.  The interpretations at the end
  of the first section replace the parameter of the chip operations by the
  code's own hooks.
\<close>

section \<open>The hooks stay within the frame\<close>

lemma vendor_opcodes:
  "0x16 AND 0xff \<notin> program_opcodes" "0x36 AND 0xff \<notin> program_opcodes" "0x37 AND 0xff \<notin> program_opcodes"
  "0x55 AND 0xff \<notin> program_opcodes" "0x5c AND 0xff \<notin> program_opcodes" "0xc5 AND 0xff \<notin> program_opcodes"
  "0x26 AND 0xff \<notin> program_opcodes" "0x5d AND 0xff \<notin> program_opcodes" "0xa1 AND 0xff \<notin> program_opcodes"
  "0xef AND 0xff \<notin> program_opcodes" "0x53 AND 0xff \<notin> program_opcodes" "0x3b AND 0xff \<notin> program_opcodes"
  "0xb9 AND 0xff \<notin> program_opcodes" "0xb6 AND 0xff \<notin> program_opcodes" "0xd6 AND 0xff \<notin> program_opcodes"
  "0xa2 AND 0xff \<notin> program_opcodes" "0x25 AND 0xff \<notin> program_opcodes"
  by (simp_all add: program_opcodes_def)

context nand_frame
begin

lemma R_each: "(\<And>a b t. R s t \<Longrightarrow> R s (f a b t)) \<Longrightarrow> R s t \<Longrightarrow> R s (each_reg f rs t)"
  by (induction f rs t rule: each_reg.induct) simp_all

lemma R_put_reg:
  "R s t \<Longrightarrow> R s (put_reg_hynix hw a b t)" "R s t \<Longrightarrow> R s (put_reg_toshiba hw a b t)"
  "R s t \<Longrightarrow> R s (put_reg_samsung hw a b t)" "R s t \<Longrightarrow> R s (put_reg_micron hw a b t)"
  "R s t \<Longrightarrow> R s (put_reg_sandisk hw a b t)" "R s t \<Longrightarrow> R s (open_sandisk hw t)"
  unfolding put_reg_hynix_def put_reg_toshiba_def put_reg_samsung_def put_reg_micron_def put_reg_sandisk_def
    open_sandisk_def Let_def
  by (intro R_rules vendor_opcodes; assumption)+

lemma R_between: "(\<And>t. R s t \<Longrightarrow> R s (f t)) \<Longrightarrow> R s t \<Longrightarrow> framed R s (between_rb hw n f t)"
  unfolding between_rb_def
  by (auto intro!: framed_bind [OF R_quene_rb] framed_Some)

lemma R_after: "(\<And>t. R s t \<Longrightarrow> framed R s (f t)) \<Longrightarrow> R s t \<Longrightarrow> framed R s (after_rb hw n f t)"
  unfolding after_rb_def by (auto intro!: framed_bind [OF R_quene_rb] framed_Some)

lemma R_set_reg:
  "R s t \<Longrightarrow> framed R s (set_reg_value_hynix hw buf addr n c t)"
  "R s t \<Longrightarrow> framed R s (set_reg_value_toshiba hw buf addr n c t)"
  "R s t \<Longrightarrow> framed R s (set_reg_value_samsung hw buf addr n c t)"
  "R s t \<Longrightarrow> framed R s (set_reg_value_micron hw buf addr n c t)"
  "R s t \<Longrightarrow> framed R s (set_reg_value_sandisk hw buf addr n c t)"
  "R s t \<Longrightarrow> framed R s (set_a19_reg_value_sandisk hw buf a n c t)"
  unfolding set_reg_value_hynix_def set_reg_value_toshiba_def set_reg_value_samsung_def set_reg_value_micron_def
    set_reg_value_sandisk_def set_a19_reg_value_sandisk_def Let_def
  by (intro framed_if framed_Some R_between R_each R_put_reg R_rules R_if vendor_opcodes; assumption)+

lemma R_hynix_pre: "R s t \<Longrightarrow> framed R s (set_slc_regs_hynix hw val n t)"
  by (simp add: set_slc_regs_hynix_def Let_def R_set_reg)

lemma R_enslc_chips: "R s t \<Longrightarrow> framed R s (enslc_chips hw val cs ret t)"
proof (induction cs arbitrary: ret t)
  case (Cons c cs)
  then show ?case
    by (auto intro!: framed_bind [OF R_hynix_pre])
qed (simp add: framed_Some)

lemma R_slc:
  "R s t \<Longrightarrow> framed R s (vendor_slc_enter hw ty t)" "R s t \<Longrightarrow> framed R s (vendor_slc_exit hw ty t)"
  unfolding vendor_slc_enter_def vendor_slc_exit_def enslc_enter_hynix_def enslc_exit_hynix_def enslc_enter_sandisk_def
  by (intro framed_if framed_Some framed_None R_enslc_chips R_rules vendor_opcodes; assumption)+

lemma R_fail_or_ok: "framed R s x \<Longrightarrow> framed R s (fail_or_ok x)"
  unfolding fail_or_ok_def by (auto intro!: framed_bind [where x = x] framed_Some)

lemma R_reset_or_fail: "R s t \<Longrightarrow> framed R s (reset_or_fail hw n t)"
  unfolding reset_or_fail_def by (auto intro!: framed_bind [OF R_reset] framed_Some)

lemma R_init_sandisk: "R s t \<Longrightarrow> R s (init_sandisk_chips hw k t)"
  by (induction k arbitrary: t) (simp_all add: R_each R_put_reg)

end

locale vendor_frame = nand_frame +
  assumes up_retry: "R s (s\<lparr>controller := (controller s)\<lparr>retry_info := r\<rparr>\<rparr>)"
begin

lemma R_upd: "R s t \<Longrightarrow> R s (upd_retry f t)"
  unfolding upd_retry_def using trans [OF _ up_retry] by blast

lemma R_counters:
  "R s t \<Longrightarrow> R s (set_lp_cnt n v t)" "R s t \<Longrightarrow> R s (set_up_cnt n v t)"
  "R s t \<Longrightarrow> R s (clear_lp_cnt t)" "R s t \<Longrightarrow> R s (clear_up_cnt t)"
  by (simp_all add: set_lp_cnt_def set_up_cnt_def clear_lp_cnt_def clear_up_cnt_def R_upd)

lemma R_lp_step:
  assumes "\<And>t. R s t \<Longrightarrow> framed R s (f (lp_row n t) (reg_addr_lp (retry_of t)) n (reg_cnt_lp (retry_of t)) t)" "R s t"
  shows "framed R s (lp_step f n t)"
  unfolding lp_step_def Let_def
  using assms by (auto intro!: framed_bind [OF assms(1)] framed_Some R_counters)

lemma R_handles:
  "R s t \<Longrightarrow> framed R s (readretry_handle_hynix hw n t)"
  "R s t \<Longrightarrow> framed R s (readretry_handle_toshiba hw n t)"
  "R s t \<Longrightarrow> framed R s (readretry_handle_samsung hw n t)"
  "R s t \<Longrightarrow> framed R s (readretry_handle_micron hw n t)"
  "R s t \<Longrightarrow> framed R s (readretry_handle_sandisk hw n t)"
  unfolding readretry_handle_hynix_def readretry_handle_toshiba_def readretry_handle_samsung_def
    readretry_handle_micron_def readretry_handle_sandisk_def Let_def
  by (auto intro!: framed_if framed_None framed_Some framed_bind [OF R_set_reg(1)] framed_bind [OF R_set_reg(5)] R_lp_step
      R_set_reg R_counters)

lemma R_handle_intel: "R s t \<Longrightarrow> framed R s (readretry_handle_intel hw n t)"
  unfolding readretry_handle_intel_def Let_def
  by (auto intro!: framed_if framed_Some framed_bind [OF R_set_reg(4)] R_counters R_idle split: if_splits)

lemma R_handle_a19: "R s t \<Longrightarrow> framed R s (readretry_handle_a19_sandisk hw n t)"
  unfolding readretry_handle_a19_sandisk_def Let_def
  by (intro framed_bind [OF R_set_reg(6)] framed_case_prod framed_Some R_counters R_rules R_if vendor_opcodes)
    (simp_all add: R_idle R_cle vendor_opcodes)

lemma R_set_def: "R s t \<Longrightarrow> framed R s (set_def_micron hw k n t)"
  unfolding set_def_micron_def Let_def by (intro R_fail_or_ok R_set_reg)

lemma R_exit_hynix: "R s t \<Longrightarrow> framed R s (readretry_set_def_val_hynix hw n t)"
  unfolding readretry_set_def_val_hynix_def Let_def
  by (auto intro!: framed_if framed_Some framed_bind [OF R_set_reg(1)] R_hynix_pre R_counters)

lemma R_exit_toshiba: "R s t \<Longrightarrow> framed R s (readretry_exit_toshiba hw n t)"
  unfolding readretry_exit_toshiba_def Let_def
  by (auto intro!: R_after R_reset_or_fail R_each R_put_reg R_counters)

lemma R_exits:
  "R s t \<Longrightarrow> framed R s (readretry_exit_samsung hw n t)"
  "R s t \<Longrightarrow> framed R s (readretry_exit_micron hw n t)"
  "R s t \<Longrightarrow> framed R s (readretry_exit_intel hw n t)"
  unfolding readretry_exit_samsung_def readretry_exit_micron_def readretry_exit_intel_def Let_def
  by (auto intro!: framed_if framed_Some R_after R_fail_or_ok R_set_reg R_counters R_set_def framed_bind [OF R_set_def])

lemma R_exit_sandisk: "R s t \<Longrightarrow> framed R s (readretry_exit_sandisk hw n t)"
  unfolding readretry_exit_sandisk_def readretry_init_sandisk_def Let_def
  by (intro R_after; simp add: c_consts)
    (intro R_after R_reset_or_fail R_init_sandisk R_rules R_counters vendor_opcodes; assumption)

lemma R_exit_a19: "R s t \<Longrightarrow> framed R s (readretry_exit_a19_sandisk hw n t)"
  unfolding readretry_exit_a19_sandisk_def Let_def
  by (auto intro!: R_after R_reset_or_fail framed_bind [OF R_set_reg(6)] R_counters)

lemma R_vendor_retry:
  assumes "vendor_retry hw ty = Some (h, e)"
  shows "framed R s (h n s) \<and> framed R s (e n s)"
  using assms R_handles [OF refl] R_handle_intel [OF refl] R_handle_a19 [OF refl] R_exit_hynix [OF refl]
    R_exit_toshiba [OF refl] R_exits [OF refl] R_exit_sandisk [OF refl] R_exit_a19 [OF refl]
  by (auto simp: vendor_retry_def split: if_splits)

lemma R_vendor_handle: "framed R s (retry_handle (vendor_hooks hw pins alloc ty) n s)"
  using R_vendor_retry
  by (auto simp: vendor_hooks_def framed_None split: option.splits)

lemma R_vendor_exit: "retry_exit (vendor_hooks hw pins alloc ty) = Some ex \<Longrightarrow> framed R s (ex n s)"
  using R_vendor_retry by (cases "vendor_retry hw ty") (auto simp: vendor_hooks_def)

end

interpretation vendor_safe: vendor_frame bus_safe hw plain_hooks for hw
  by unfold_locales (simp add: bus_safe_def ce_ok_def)

interpretation vendor_kept: vendor_frame kept hw plain_hooks for hw
  by unfold_locales (simp add: kept_def)

lemma vendor_hooks_safe: "hooks_safe (vendor_hooks hw pins alloc ty)"
  using plain.R_slc [OF bus_safe_refl] vendor_safe.R_vendor_handle vendor_safe.R_vendor_exit
  by (auto simp: hooks_safe_def) (simp add: vendor_hooks_def)

lemma vendor_hooks_keep: "hooks_keep (vendor_hooks hw pins alloc ty)"
  using plain_keep.kept.R_slc [OF kept_refl] vendor_kept.R_vendor_handle vendor_kept.R_vendor_exit
  by (auto simp: hooks_keep_def) (simp_all add: vendor_hooks_def)

interpretation vendor: safe_hooks hw "vendor_hooks hw pins alloc ty" for hw pins alloc ty
  by unfold_locales (rule vendor_hooks_safe)

interpretation vendor_keep: keep_hooks hw "vendor_hooks hw pins alloc ty" for hw pins alloc ty
  by unfold_locales (rule vendor_hooks_keep)

section \<open>The walk through the retry tables\<close>

text \<open>
  The register routines change neither the flash description nor the retry and
  SLC structures; only the handlers move the counters.
\<close>

definition tables_same :: "nand \<Rightarrow> nand \<Rightarrow> bool" where
  "tables_same s t \<longleftrightarrow> flash t = flash s \<and> retry_of t = retry_of s \<and> slc_of t = slc_of s
     \<and> chip_num (controller t) = chip_num (controller s) \<and> ctl_option (controller t) = ctl_option (controller s)"

interpretation tables: nand_frame tables_same hw plain_hooks for hw
  by unfold_locales (simp_all add: tables_same_def plain_hooks_def framed_def)

lemma lp_row_same: "tables_same s t \<Longrightarrow> lp_row n t = lp_row n s"
  by (simp add: tables_same_def lp_row_def lp_cnt_def)

text \<open>What one successful attempt does, for the types whose table is walked cyclically.\<close>

lemma lp_step_next:
  assumes "\<And>b a n c s. framed tables_same s (f b a n c s)" "lp_step f n s = Some (0, t)"
  obtains u where "f (lp_row n s) (reg_addr_lp (retry_of s)) n (reg_cnt_lp (retry_of s)) s = Some (0, u)"
    and "tables_same s u" "t = set_lp_cnt n (next_cnt (retry_cnt_lp (retry_of s)) (lp_cnt n s)) u"
proof -
  from assms(2) obtain r u where u: "f (lp_row n s) (reg_addr_lp (retry_of s)) n (reg_cnt_lp (retry_of s)) s = Some (r, u)"
    and r: "r = 0" and t: "t = set_lp_cnt n (next_cnt (retry_cnt_lp (retry_of u)) (lp_cnt n s)) u"
    by (auto simp: lp_step_def Let_def bind_eq_Some_conv c_consts split: if_splits)
  have same: "tables_same s u"
    using assms(1) u unfolding framed_def by blast
  then have "retry_cnt_lp (retry_of u) = retry_cnt_lp (retry_of s)"
    by (simp add: tables_same_def)
  then show thesis
    using that u r t same by simp
qed

lemma next_cnt_nat:
  assumes "c < n"
  shows "unat (next_cnt n c) = (unat c + 1) mod unat n"
proof -
  have le: "unat c + 1 \<le> unat n" "unat n < 2 ^ LENGTH(8)"
    using assms unsigned_less [of n] by (auto simp: word_less_nat_alt)
  have cond: "uint c + 1 > uint n - 1 \<longleftrightarrow> unat n \<le> unat c + 1"
    unfolding uint_nat by linarith
  show ?thesis
  proof (cases "unat n = unat c + 1")
    case True
    then show ?thesis
      unfolding next_cnt_def cond by simp
  next
    case False
    then have "unat (c + 1) = unat c + 1"
      using le by (simp add: unat_word_ariths)
    then show ?thesis
      unfolding next_cnt_def cond using le False by simp
  qed
qed

fun attempts :: "(u8 \<Rightarrow> nand \<Rightarrow> (int \<times> nand) option) \<Rightarrow> u8 \<Rightarrow> nat \<Rightarrow> nand \<Rightarrow> nand option" where
  "attempts h n 0 s = Some s"
| "attempts h n (Suc k) s = do { s \<leftarrow> attempts h n k s; (ret, s) \<leftarrow> h n s; if ret = 0 then Some s else None }"

definition cyclic_setters where
  "cyclic_setters hw = [set_reg_value_toshiba hw, set_reg_value_samsung hw, set_reg_value_micron hw, set_reg_value_sandisk hw]"

lemma setters_same: "f \<in> set (cyclic_setters hw) \<Longrightarrow> framed tables_same s (f b a n c s)"
  using tables.R_set_reg [OF tables.refl] by (auto simp: cyclic_setters_def)

lemma attempts_count:
  assumes "f \<in> set (cyclic_setters hw)" "attempts (lp_step f) n k s = Some t"
    and "unat n < length (cur_cnt_lp (retry_of s))" "lp_cnt n s < retry_cnt_lp (retry_of s)"
  shows "unat (lp_cnt n t) = (unat (lp_cnt n s) + k) mod unat (retry_cnt_lp (retry_of s))
    \<and> (retry_of t)\<lparr>cur_cnt_lp := []\<rparr> = (retry_of s)\<lparr>cur_cnt_lp := []\<rparr>
    \<and> length (cur_cnt_lp (retry_of t)) = length (cur_cnt_lp (retry_of s)) \<and> flash t = flash s"
  using assms(2)
proof (induction k arbitrary: t)
  case 0
  then show ?case
    using assms(4) by (simp add: word_less_nat_alt)
next
  case (Suc k)
  then obtain u where u: "attempts (lp_step f) n k s = Some u" and step: "lp_step f n u = Some (0, t)"
    by (auto simp: bind_eq_Some_conv split: if_splits)
  note IH = Suc.IH [OF u]
  from lp_step_next [OF setters_same [OF assms(1)] step] obtain v where v: "tables_same u v"
    and t: "t = set_lp_cnt n (next_cnt (retry_cnt_lp (retry_of u)) (lp_cnt n u)) v"
    by metis
  have cnt: "retry_cnt_lp (retry_of u) = retry_cnt_lp (retry_of s)"
    using arg_cong [OF IH [THEN conjunct2, THEN conjunct1], of retry_cnt_lp] by simp
  have lt: "lp_cnt n u < retry_cnt_lp (retry_of s)"
    using IH assms(4) by (simp add: word_less_nat_alt)
  have r: "retry_of t = (retry_of u)\<lparr>cur_cnt_lp := (cur_cnt_lp (retry_of u))[unat n := next_cnt (retry_cnt_lp (retry_of s)) (lp_cnt n u)]\<rparr>"
    and fl: "flash t = flash u"
    using v by (simp_all add: t cnt tables_same_def set_lp_cnt_def upd_retry_def)
  have "lp_cnt n t = next_cnt (retry_cnt_lp (retry_of s)) (lp_cnt n u)"
    using IH assms(3) by (simp add: lp_cnt_def r at_def)
  then have "unat (lp_cnt n t) = (unat (lp_cnt n s) + Suc k) mod unat (retry_cnt_lp (retry_of s))"
    using next_cnt_nat [OF lt] IH by (simp add: mod_Suc_eq)
  then show ?case
    using IH fl by (simp add: r)
qed

section \<open>Properties\<close>

lemma attempts_transfer:
  assumes "f \<in> set (cyclic_setters hw)" "\<And>u. flash u = flash s \<Longrightarrow> h n u = lp_step f n u"
    and "unat n < length (cur_cnt_lp (retry_of s))" "lp_cnt n s < retry_cnt_lp (retry_of s)"
  shows "attempts h n k s = Some t \<Longrightarrow> attempts (lp_step f) n k s = Some t"
proof (induction k arbitrary: t)
  case (Suc k)
  then obtain u where u: "attempts (lp_step f) n k s = Some u" and h: "h n u = Some (0, t)"
    by (auto simp: bind_eq_Some_conv split: if_splits)
  have "flash u = flash s"
    using attempts_count [OF assms(1) u assms(3,4)] by simp
  then show ?case
    using u h assms(2) by simp
qed simp

lemma cyclic_handler:
  assumes "vendor_retry hw ty = Some (h, e)" "new_type (flash u) = ty"
    and "ty \<in> {TOSHIBA_2XNM, TOSHIBA_A19NM, SUMSUNG_2XNM, MICRON_20NM}"
  shows "\<exists>f\<in>set (cyclic_setters hw). \<forall>v. flash v = flash u \<longrightarrow> h n v = lp_step f n v"
proof -
  consider "ty = TOSHIBA_2XNM \<or> ty = TOSHIBA_A19NM" | "ty = SUMSUNG_2XNM" | "ty = MICRON_20NM"
    using assms(3) by blast
  then show ?thesis
  proof cases
    case 1
    then have "h = readretry_handle_toshiba hw"
      using assms(1) by (auto simp: vendor_retry_def hynix_types_def c_consts)
    then show ?thesis
      by (intro bexI [of _ "set_reg_value_toshiba hw"]) (simp_all add: readretry_handle_toshiba_def cyclic_setters_def)
  next
    case 2
    then have "h = readretry_handle_samsung hw"
      using assms(1) by (auto simp: vendor_retry_def hynix_types_def c_consts)
    then show ?thesis
      using 2 assms(2)
      by (intro bexI [of _ "set_reg_value_samsung hw"]) (simp_all add: readretry_handle_samsung_def cyclic_setters_def)
  next
    case 3
    then have "h = readretry_handle_micron hw"
      using assms(1) by (auto simp: vendor_retry_def hynix_types_def c_consts)
    then show ?thesis
      using 3 assms(2)
      by (intro bexI [of _ "set_reg_value_micron hw"]) (simp_all add: readretry_handle_micron_def cyclic_setters_def)
  qed
qed


lemma demo_quene_any:
  assumes "has (ctl_option (controller s)) NAND_CTRL_NONE_RB"
  shows "\<exists>t. controller_quene_rb demo_hw 0 s = Some (0, t) \<and> tables_same s t"
proof -
  have "\<exists>t. controller_quene_rb demo_hw 0 s = Some (0, t)"
    using assms by (simp add: controller_quene_rb_def controller_select_chip_def Let_def ctl_option_kept
        demo_poll_status busy_limit_def)
  then show ?thesis
    using tables.R_quene_rb [OF tables.refl, of s demo_hw 0] by (auto simp: framed_def)
qed

lemma demo_between:
  assumes "has (ctl_option (controller s)) NAND_CTRL_NONE_RB" "\<And>t. tables_same t (f t)"
  shows "\<exists>t. between_rb demo_hw 0 f s = Some (0, t) \<and> tables_same s t"
proof -
  obtain u where u: "controller_quene_rb demo_hw 0 s = Some (0, u)" "tables_same s u"
    using demo_quene_any [OF assms(1)] by blast
  then have same: "tables_same s (f u)"
    using assms(2) tables.trans by blast
  then have "has (ctl_option (controller (f u))) NAND_CTRL_NONE_RB"
    using assms(1) by (simp add: tables_same_def)
  then obtain v where "controller_quene_rb demo_hw 0 (f u) = Some (0, v)" "tables_same (f u) v"
    using demo_quene_any by blast
  then show ?thesis
    using u tables.trans [OF same] by (simp add: between_rb_def c_consts)
qed

lemma demo_samsung:
  assumes "has (ctl_option (controller s)) NAND_CTRL_NONE_RB" "new_type (flash s) = SUMSUNG_2XNM"
  shows "\<exists>t. readretry_handle_samsung demo_hw 0 s = Some (0, t) \<and> has (ctl_option (controller t)) NAND_CTRL_NONE_RB
    \<and> new_type (flash t) = SUMSUNG_2XNM"
proof -
  have "tables_same t (each_reg (put_reg_samsung demo_hw) rs t)" for rs t
    by (rule tables.R_each) (auto intro: tables.R_put_reg tables.refl)
  then have "\<exists>t. set_reg_value_samsung demo_hw (lp_row 0 s) (reg_addr_lp (retry_of s)) 0 (reg_cnt_lp (retry_of s)) s =
      Some (0, t) \<and> tables_same s t"
    using demo_between [OF assms(1)] assms(2) by (simp add: set_reg_value_samsung_def)
  then obtain t where "set_reg_value_samsung demo_hw (lp_row 0 s) (reg_addr_lp (retry_of s)) 0 (reg_cnt_lp (retry_of s)) s =
      Some (0, t)" "tables_same s t"
    by blast
  then show ?thesis
    using assms by (simp add: readretry_handle_samsung_def lp_step_def tables_same_def set_lp_cnt_def upd_retry_def Let_def
        c_consts)
qed

lemma demo_attempts:
  assumes "has (ctl_option (controller s)) NAND_CTRL_NONE_RB" "new_type (flash s) = SUMSUNG_2XNM"
  shows "\<exists>t. attempts (readretry_handle_samsung demo_hw) 0 k s = Some t \<and> has (ctl_option (controller t)) NAND_CTRL_NONE_RB
    \<and> new_type (flash t) = SUMSUNG_2XNM"
proof (induction k)
  case (Suc k)
  then obtain u where "attempts (readretry_handle_samsung demo_hw) 0 k s = Some u"
    "has (ctl_option (controller u)) NAND_CTRL_NONE_RB" "new_type (flash u) = SUMSUNG_2XNM"
    by blast
  then show ?case
    using demo_samsung [of u] by fastforce
qed (use assms in simp)

definition samsung_nand :: nand where
  "samsung_nand = upd_retry set_sumsung_2xnm (demo_nand\<lparr>flash := demo_flash\<lparr>new_type := SUMSUNG_2XNM\<rparr>\<rparr>)"




text \<open>
  The tables of SLC pages in closed form: of every two word lines the pages
  programmed first.
\<close>

definition slc_page_no :: "bool \<Rightarrow> nat \<Rightarrow> nat" where
  "slc_page_no y i = (if y then 2 * i - 1 else if i < 2 then i else if even i then 2 * i - 2 else 2 * i - 3)"

lemma pagelists:
  "pagelist_hynix256 = map (\<lambda>i. of_nat (slc_page_no False i)) [0..<128]"
  "pagelist_1ynm_hynix256 = map (\<lambda>i. of_nat (slc_page_no True i)) [0..<128]"
  by code_simp+

lemma slc_page_no_less: "i < j \<Longrightarrow> slc_page_no y i < slc_page_no y j"
  by (auto simp: slc_page_no_def elim!: evenE oddE split: if_splits)

lemma slc_page_no_bound: "i < 128 \<Longrightarrow> slc_page_no y i < 256"
  by (auto simp: slc_page_no_def)

lemma hynix_pagelist:
  assumes "map_of retry_paras ty = Some (f, g)" "ty \<in> set hynix_types"
  shows "pagelist (g e) = map (\<lambda>i. of_nat (slc_page_no (ty = HYNIX_1YNM_8GB) i)) [0..<128]"
  using assms
  by (auto simp: retry_paras_def hynix_types_def c_consts pagelists slc_hynix_26nm_4gb_def slc_hynix_26nm_8gb_def
      slc_hynix_20nm_4gb_def slc_hynix_20nm_8gb_def slc_hynix_1ynm_8gb_def)

lemma page_in_block:
  fixes b :: u32 and v w :: u8
  shows "256 * b + ucast v = push_bit 8 b OR ucast v" "(256 * b + ucast v) AND NOT 255 OR ucast w = 256 * b + ucast w"
    "(256 * b + ucast v) mod 256 = ucast v"
proof -
  have sum: "256 * b + ucast x = push_bit 8 b OR ucast x" for x :: u8
  proof -
    have "push_bit 8 b AND ucast x = (0 :: u32)"
      by (rule bit_word_eqI) (auto simp: bit_simps dest: bit_imp_le_length)
    then show ?thesis
      by (simp add: push_bit_eq_mult disjunctive_add_eq_or mult.commute)
  qed
  have m: "(255 :: u32) = mask 8"
    by (simp add: mask_eq_exp_minus_1)
  show "256 * b + ucast v = push_bit 8 b OR ucast v"
    by (rule sum)
  show "(256 * b + ucast v) AND NOT 255 OR ucast w = 256 * b + ucast w"
    unfolding sum m by (rule bit_word_eqI) (auto simp: bit_simps dest: bit_imp_le_length)
  have "(256 * b + ucast v) mod 256 = take_bit 8 (256 * b + ucast v)"
    by (simp add: take_bit_eq_mod)
  also have "\<dots> = ucast v"
    unfolding sum by (rule bit_word_eqI) (auto simp: bit_simps dest: bit_imp_le_length)
  finally show "(256 * b + ucast v) mod 256 = ucast v" .
qed

lemma ucast_of_nat_byte: "i < 256 \<Longrightarrow> ucast (of_nat i :: u8) = (of_nat i :: u32)"
  by (simp add: unsigned_of_nat take_bit_nat_eq_self)

lemma slc_page_hynix:
  assumes "0 < new_type (flash s)" "new_type (flash s) < 10" "pages_per_blk (flash s) = 256" "i < 128"
    and "pagelist (slc_of s) = map (\<lambda>i. of_nat (slc_page_no y i)) [0..<128]"
  shows "slc_page s (256 * blk + of_nat i) = 256 * blk + of_nat (slc_page_no y i)"
proof -
  have i: "of_nat i = (ucast (of_nat i :: u8) :: u32)" "of_nat (slc_page_no y i) = (ucast (of_nat (slc_page_no y i) :: u8) :: u32)"
    using assms(4) slc_page_no_bound [OF assms(4)] by (simp_all add: ucast_of_nat_byte)
  have "unat ((256 * blk + of_nat i) mod 256) = i"
    unfolding i(1) page_in_block(3) using assms(4) by simp
  then show ?thesis
    unfolding slc_page_def Let_def
    using assms page_in_block(2) [of blk "of_nat i" "of_nat (slc_page_no y i)"] by (simp add: i)
qed

text \<open>
  C34.  The pages that hold the records of a Hynix chip in SLC mode are
  different pages of the block: for the page table its type configures, the
  page addresses computed for the 128 entries of a block of 256 pages are
  strictly increasing and all lie in that block.
\<close>

theorem slc_pages_distinct:
  assumes "ty \<in> set hynix_types" "map_of retry_paras ty = Some (f, g)" "slc_of s = g e" "new_type (flash s) = ty"
    and "pages_per_blk (flash s) = 256" "blk < 2 ^ 24"
  shows "sorted_wrt (<) (map (\<lambda>i. slc_page s (256 * blk + of_nat i)) [0..<128])
    \<and> (\<forall>i<128. slc_page s (256 * blk + of_nat i) div 256 = blk)"
proof -
  let ?y = "ty = HYNIX_1YNM_8GB"
  have ty: "0 < new_type (flash s)" "new_type (flash s) < 10"
    using assms(1,4) by (auto simp: hynix_types_def c_consts)
  have page: "slc_page s (256 * blk + of_nat i) = 256 * blk + of_nat (slc_page_no ?y i)" if "i < 128" for i
    using slc_page_hynix [OF ty assms(5) that] hynix_pagelist [OF assms(2,1)] assms(3) by simp
  have no: "unat (256 * blk + of_nat (slc_page_no ?y i)) = 256 * unat blk + slc_page_no ?y i" if "i < 128" for i
  proof -
    have "unat blk < 2 ^ 24"
      using assms(6) by (simp add: word_less_nat_alt)
    then show ?thesis
      using slc_page_no_bound [OF that, of ?y] by (simp add: unat_word_ariths)
  qed
  have "sorted_wrt (<) (map (\<lambda>i. slc_page s (256 * blk + of_nat i)) [0..<128])"
    by (auto simp: sorted_wrt_iff_nth_less page no word_less_nat_alt slc_page_no_less)
  moreover have "slc_page s (256 * blk + of_nat i) div 256 = blk" if "i < 128" for i
    using slc_page_no_bound [OF that, of ?y]
    by (intro word_unat_eq_iff [THEN iffD2]) (simp add: unat_div page that no)
  ultimately show ?thesis
    by blast
qed

theorem slc_pages_distinct_witness:
  "\<exists>s. new_type (flash s) = HYNIX_20NM_8GB \<and> slc_page s (256 * 5 + 3) div 256 = 5"
proof -
  let ?s = "upd_slc slc_hynix_20nm_8gb (demo_nand\<lparr>flash := demo_flash\<lparr>new_type := HYNIX_20NM_8GB\<rparr>\<rparr>)"
  have s: "map_of retry_paras HYNIX_20NM_8GB = Some (set_hynix_20nm_8gb, slc_hynix_20nm_8gb)"
    "slc_of ?s = slc_hynix_20nm_8gb (slc_of demo_nand)" "new_type (flash ?s) = HYNIX_20NM_8GB"
    by (simp_all add: retry_paras_def c_consts upd_slc_def)
  have "flash ?s = demo_flash\<lparr>new_type := HYNIX_20NM_8GB\<rparr>" "pages_per_blk demo_flash = 256"
    by (simp add: upd_slc_def, code_simp)
  then have p: "pages_per_blk (flash ?s) = 256"
    by (simp add: pages_per_blk_def)
  show ?thesis
    using slc_pages_distinct [OF _ s p, of 5, THEN conjunct2, rule_format, of 3] s(3)
    by (intro exI [of _ ?s]) (simp add: hynix_types_def)
qed

lemma table_rows:
  "length hynix_26nm_4gb_retry = 6"
  "length hynix_26nm_8gb_retry = 6"
  "length toshiba_2xnm_retry = 6"
  "length toshiba_a19nm_retry = 7"
  "length sumsung_2xnm_retry = 15"
  "length sandisk_19nm_retry = 16"
  "length sandisk_a19nm_lower = 29"
  "length sandisk_a19nm_4g_lower = 30"
  "length micron_20nm_retry = 7"
  "length intel_20nm_retry = 7"
  by code_simp+

lemmas retry_settings = set_hynix_26nm_4gb_def set_hynix_26nm_8gb_def set_hynix_20nm_4gb_def set_hynix_20nm_8gb_def set_hynix_1ynm_8gb_def set_toshiba_2xnm_def set_toshiba_a19nm_def set_sumsung_2xnm_def set_sandisk_19nm_def set_sandisk_a19nm_def set_sandisk_a19nm_4g_def set_micron_20nm_def set_intel_20nm_def

lemma no_config_no_handler: "map_of retry_paras ty = None \<Longrightarrow> vendor_retry hw ty = None"
  by (auto simp: retry_paras_def vendor_retry_def hynix_types_def split: if_splits)

definition setting_ok :: "u8 \<Rightarrow> read_retry_info \<Rightarrow> bool" where
  "setting_ok ty r \<longleftrightarrow> rr_flag r = 1 \<and> 1 \<le> reg_cnt_lp r \<and> reg_cnt_lp r \<le> 8 \<and> reg_cnt_up r \<le> 8
     \<and> 1 \<le> retry_cnt_lp r \<and> retry_cnt_lp r \<le> 30 \<and> retry_cnt_up r \<le> 30
     \<and> (ty \<notin> {HYNIX_20NM_4GB, HYNIX_20NM_8GB, HYNIX_1YNM_8GB} \<longrightarrow>
          length (table_at (reg_offs_val_lp r) 0) = unat (retry_cnt_lp r))"

lemma settings_ok:
  assumes "reg_cnt_up r = 0" "retry_cnt_up r = 0" "reg_offs_val_lp r = []"
  shows "list_all (\<lambda>(ty, f, g). setting_ok ty (f r)) retry_paras"
  using assms unfolding retry_paras_def list.pred_inject prod.case
  by (intro conjI; simp add: setting_ok_def c_consts retry_settings table_at_def table_rows)

lemma config_has_handler: "list_all (\<lambda>(ty, f, g). vendor_retry hw ty \<noteq> None) retry_paras"
  unfolding retry_paras_def list.pred_inject prod.case
  by (intro conjI; simp add: vendor_retry_def hynix_types_def c_consts)



section \<open>Types whose retry does not vary\<close>

text \<open>
  The Intel handlers go through the register routine of the Micron type, which
  does nothing for any other type: no attempt of a read retry changes a
  register, and leaving the retry only waits for the chip.
\<close>

theorem intel_retry_loads_nothing:
  assumes "new_type (flash s) = INTEL_20NM"
  shows "readretry_handle_intel hw n s =
      Some (0, set_lp_cnt n (next_cnt (retry_cnt_lp (retry_of s)) (lp_cnt n s)) (idle hw 10 s))
    \<and> readretry_exit_intel hw n s =
        (case controller_quene_rb hw n s of None \<Rightarrow> None
         | Some (ret, t) \<Rightarrow> Some (if ret \<noteq> 0 then (- NAND_FAILED, t) else (0, clear_lp_cnt t)))"
proof -
  have "INTEL_20NM \<noteq> MICRON_20NM"
    by (simp add: c_consts)
  then have set_none: "set_reg_value_micron hw b a n c t = Some (0, t)" if "new_type (flash t) = INTEL_20NM" for b a c t
    using that by (simp add: set_reg_value_micron_def c_consts)
  have keep: "new_type (flash t) = INTEL_20NM" if "controller_quene_rb hw n s = Some (r, t)" for r t
    using tables.R_quene_rb [OF tables.refl, of s hw n] that assms by (simp add: framed_def tables_same_def)
  have "readretry_handle_intel hw n s =
      Some (0, set_lp_cnt n (next_cnt (retry_cnt_lp (retry_of s)) (lp_cnt n s)) (idle hw 10 s))"
    using assms by (simp add: readretry_handle_intel_def Let_def set_none c_consts)
  moreover have "readretry_exit_intel hw n s =
        (case controller_quene_rb hw n s of None \<Rightarrow> None
         | Some (ret, t) \<Rightarrow> Some (if ret \<noteq> 0 then (- NAND_FAILED, t) else (0, clear_lp_cnt t)))"
    using assms keep
    by (auto simp: readretry_exit_intel_def after_rb_def set_def_micron_def set_none fail_or_ok_def clear_lp_cnt_def
        upd_retry_def Let_def c_consts split: option.splits)
  ultimately show ?thesis
    by blast
qed

text \<open>
  The handler of the SanDisk A19 types counts with the fields of the upper
  pages, whose number of attempts the configuration leaves at zero: every
  attempt loads the first row.
\<close>

theorem a19_retry_same_row:
  assumes "up_cnt n s = 0" "retry_cnt_up (retry_of s) = 0" "readretry_handle_a19_sandisk hw n s = Some (r, t)"
    and "unat n < length (cur_cnt_up (retry_of s))"
  shows "up_cnt n t = 0 \<and> retry_cnt_up (retry_of t) = 0 \<and> reg_offs_val_lp (retry_of t) = reg_offs_val_lp (retry_of s)"
proof -
  have zero: "next_cnt 0 0 = 0"
    by (simp add: next_cnt_def)
  from assms obtain q u where u: "set_a19_reg_value_sandisk hw (a19_row n s) (at (reg_addr_lp (retry_of s)) 0) n
      (reg_cnt_lp (retry_of s)) s = Some (q, u)"
    and t: "t = set_up_cnt n 0 (idle hw 5 (cle hw 0x5d
      (if new_type (flash (idle hw 5 (cle hw 0x25 u))) \<noteq> SANDISK_A19NM
       then idle hw 5 (cle hw 0x26 (idle hw 5 (cle hw 0x25 u))) else idle hw 5 (cle hw 0x25 u))))"
    by (auto simp: readretry_handle_a19_sandisk_def Let_def bind_eq_Some_conv zero)
  have "tables_same s u"
    using tables.R_set_reg(6) [OF tables.refl] u unfolding framed_def by blast
  then have "tables_same s (idle hw 5 (cle hw 0x5d
      (if new_type (flash (idle hw 5 (cle hw 0x25 u))) \<noteq> SANDISK_A19NM
       then idle hw 5 (cle hw 0x26 (idle hw 5 (cle hw 0x25 u))) else idle hw 5 (cle hw 0x25 u))))"
    by (intro tables.R_rules tables.R_if vendor_opcodes)
  then show ?thesis
    using assms(2,4) by (simp add: t tables_same_def set_up_cnt_def upd_retry_def up_cnt_def at_def)
qed

text \<open>
  The initialisation of the SanDisk type counts over the chips and selects none
  of them: its cycles go to the chip that happens to be selected.
\<close>

lemma fifo_spin_controller: "controller (fifo_spin hw k s) = controller s"
  by (induction k arbitrary: s)
    (simp_all add: NFC_CMDFIFO_SIZE_def aml_read_reg32_def nfc_event_def Let_def split_beta)

lemma cycle_controller:
  "controller (idle hw n s) = controller s" "controller (cle hw c s) = controller s"
  "controller (ale hw a s) = controller s" "controller (controller_write_byte hw b s) = controller s"
  by (simp_all add: idle_def cle_def ale_def controller_write_byte_def NFC_SEND_CMD_IDLE_def NFC_WAIT_FIFO_EMPTY_def
      controller_cmd_ctrl_def NFC_SEND_CMD_def aml_write_reg32_def nfc_event_def fifo_spin_controller Let_def)

lemma each_reg_controller:
  "(\<And>a b s. controller (f a b s) = controller s) \<Longrightarrow> controller (each_reg f rs s) = controller s"
  by (induction f rs s rule: each_reg.induct) simp_all

theorem sandisk_init_selects_no_chip: "controller (snd (readretry_init_sandisk hw s)) = controller s"
proof -
  have "controller (init_sandisk_chips hw k s) = controller s" for k
    by (induction k arbitrary: s)
      (simp_all add: each_reg_controller put_reg_sandisk_def open_sandisk_def cycle_controller Let_def)
  then show ?thesis
    by (simp add: readretry_init_sandisk_def)
qed

end
