(* ===== verification/ChipId.thy ===== *)
theory ChipId
  imports VendorTables InfoStore
begin

text \<open>
  Identification and set-up of the flash: the table of supported parts
  (\<open>phy/id_table.c\<close>), the look-up by the id bytes, the search for further chips,
  the buffers, and \<open>amlnand_chip_init\<close> which composes them (\<open>phy/chip.c\<close>).
  Division by zero and a chip that cannot be selected do not return.
\<close>

section \<open>The table of supported parts\<close>

definition SANDISK_24NM :: u8 where [c_consts]: "SANDISK_24NM = 41"

definition flash_id ::
  "u8 list \<Rightarrow> u32 \<Rightarrow> u32 \<Rightarrow> u32 \<Rightarrow> u32 \<Rightarrow> u8 \<Rightarrow> u8 \<Rightarrow> u8 \<Rightarrow> u8 \<Rightarrow> u8 \<Rightarrow> u32 \<Rightarrow> nand_flash" where
  "flash_id i page chip blk oob dies rea rhoh onfi new opt =
     \<lparr>fl_id = i, pagesize = page, chipsize = chip, blocksize = blk, oobsize = oob, internal_chipnr = dies,
      T_REA = rea, T_RHOH = rhoh, fl_onfi_mode = onfi, new_type = new, fl_option = opt\<rparr>"

definition flash_ids_slc :: "nand_flash list" where
  "flash_ids_slc =
     [flash_id [0, 0x79, 0, 0, 0, 0, 0, 0] 512 128 0x4000 0 0 0 0 0 0 0,
      flash_id [0, 0x71, 0, 0, 0, 0, 0, 0] 512 256 0x4000 0 0 0 0 0 0 0,
      flash_id [0, 0xf2, 0, 0, 0, 0, 0, 0] 0 64 0 0 0 0 0 0 0 0,
      flash_id [0, 0xf1, 0, 0, 0, 0, 0, 0] 0 128 0 0 0 0 0 0 0 0,
      flash_id [0, 0xda, 0, 0, 0, 0, 0, 0] 0 256 0 0 0 0 0 0 0 0,
      flash_id [0, 0xdc, 0, 0, 0, 0, 0, 0] 0 512 0 0 0 0 0 0 0 0,
      flash_id [0, 0xd3, 0, 0, 0, 0, 0, 0] 0 1024 0 0 0 0 0 0 0 0]"

definition flash_ids_mlc :: "nand_flash list" where
  "flash_ids_mlc =
     [flash_id [0xad, 0xd5, 0x94, 0x25, 0x44, 0x41, 0, 0] 4096 2048 0x80000 224 1 20 15 0 0 NAND_MULTI_PLANE_MODE,
      flash_id [0xad, 0xd7, 0x94, 0x9a, 0x74, 0x42, 0, 0] 8192 4096 0x200000 448 1 20 15 0 0 NAND_MULTI_PLANE_MODE,
      flash_id [0xad, 0xd5, 0x94, 0x9a, 0x74, 0x42, 0, 0] 8192 2048 0x200000 448 1 20 15 0 0 NAND_MULTI_PLANE_MODE,
      flash_id [0xad, 0xd7, 0x94, 0xda, 0x74, 0xc3, 0, 0] 8192 4096 0x200000 640 1 16 15 0 HYNIX_26NM_4GB NAND_MULTI_PLANE_MODE,
      flash_id [0xad, 0xde, 0x94, 0xd2, 0x04, 0x43, 0, 0] 8192 8192 0x200000 448 1 16 15 0 HYNIX_26NM_8GB NAND_MULTI_PLANE_MODE,
      flash_id [0xad, 0xd7, 0x94, 0x91, 0x60, 0x44, 0, 0] 8192 4096 0x200000 640 1 16 15 0 HYNIX_20NM_4GB NAND_MULTI_PLANE_MODE,
      flash_id [0xad, 0xde, 0x94, 0xda, 0x74, 0xc4, 0, 0] 8192 8192 0x200000 640 1 16 15 0 HYNIX_20NM_8GB NAND_MULTI_PLANE_MODE,
      flash_id [0xad, 0xde, 0x94, 0xeb, 0x74, 0x44, 0, 0] 16384 8192 0x400000 1280 1 16 15 0 HYNIX_20NM_4GB NAND_MULTI_PLANE_MODE,
      flash_id [0xad, 0xde, 0x14, 0xa7, 0x42, 0x4a, 0, 0] 16384 8192 0x400000 1664 1 16 15 0 HYNIX_1YNM_8GB NAND_MULTI_PLANE_MODE,
      flash_id [0x2c, 0x64, 0x44, 0x4b, 0xa9, 0, 0, 0] 8192 8192 0x200000 744 1 16 15 5 MICRON_20NM NAND_MULTI_PLANE_MODE,
      flash_id [0x2c, 0x44, 0x44, 0x4b, 0xa9, 0, 0, 0] 8192 4096 0x200000 744 1 16 15 5 MICRON_20NM NAND_MULTI_PLANE_MODE,
      flash_id [0x89, 0x88, 0x24, 0x4b, 0xa9, 0x84, 0, 0] 8192 8192 0x200000 448 1 20 15 0 INTEL_20NM NAND_MULTI_PLANE_MODE,
      flash_id [0x89, 0x88, 0x24, 0x4b, 0xa9, 0x84, 0, 0] 8192 16384 0x200000 448 1 20 15 0 INTEL_20NM NAND_MULTI_PLANE_MODE,
      flash_id [0x2c, 0xd7, 0x94, 0x3e, 0x84, 0, 0, 0] 4096 4096 0x80000 218 1 16 15 0 0 NAND_MULTI_PLANE_MODE,
      flash_id [0x2c, 0xd9, 0xd5, 0x3e, 0x88, 0, 0, 0] 4096 16384 0x80000 218 1 16 15 0 0 NAND_MULTI_PLANE_MODE,
      flash_id [0x2c, 0x68, 0x04, 0x46, 0x89, 0, 0, 0] 4096 4096 0x100000 224 1 20 15 4 0 NAND_MULTI_PLANE_MODE,
      flash_id [0x2c, 0x88, 0x05, 0xc6, 0x89, 0, 0, 0] 4096 8192 0x100000 224 1 20 15 4 0 NAND_MULTI_PLANE_MODE,
      flash_id [0x2c, 0x68, 0x04, 0x4a, 0xa9, 0, 0, 0] 4096 4096 0x100000 224 1 16 15 5 0 NAND_MULTI_PLANE_MODE,
      flash_id [0x2c, 0x88, 0x04, 0x4b, 0xa9, 0, 0, 0] 8192 8192 0x200000 448 1 16 15 5 0 NAND_MULTI_PLANE_MODE,
      flash_id [0x2c, 0xa8, 0x05, 0xcb, 0xa9, 0, 0, 0] 8192 16384 0x200000 448 2 16 15 5 0 NAND_MULTI_PLANE_MODE,
      flash_id [0x89, 0x68, 0x04, 0x46, 0xa9, 0, 0, 0] 4096 4096 0x100000 218 1 20 15 0 0 NAND_MULTI_PLANE_MODE,
      flash_id [0x89, 0x88, 0x24, 0x4b, 0xa9, 0, 0, 0] 8192 8192 0x200000 448 1 20 15 0 0 NAND_MULTI_PLANE_MODE,
      flash_id [0x98, 0xd5, 0x94, 0x32, 0x76, 0x54, 0, 0] 8192 2048 0x100000 376 1 20 25 0 0 NAND_MULTI_PLANE_MODE,
      flash_id [0x98, 0xd7, 0x94, 0x32, 0x76, 0x54, 0, 0] 8192 4096 0x100000 376 1 20 25 0 0 NAND_MULTI_PLANE_MODE,
      flash_id [0x98, 0xd5, 0x94, 0x32, 0x76, 0x55, 0, 0] 8192 2076 0x100000 448 1 20 25 0 0 NAND_MULTI_PLANE_MODE,
      flash_id [0x98, 0xd7, 0x94, 0x32, 0x76, 0x55, 0, 0] 8192 4096 0x100000 448 1 20 25 0 0 NAND_MULTI_PLANE_MODE,
      flash_id [0x98, 0xde, 0x94, 0x32, 0x76, 0x55, 0, 0] 8192 8192 0x100000 448 1 20 25 0 0 NAND_MULTI_PLANE_MODE,
      flash_id [0x98, 0xde, 0x95, 0x32, 0x7a, 0x55, 0, 0] 8192 8200 0x100000 448 2 20 25 0 0 NAND_MULTI_PLANE_MODE,
      flash_id [0x98, 0xd7, 0x94, 0x32, 0x76, 0x56, 0, 0] 8192 4096 0x100000 640 1 20 25 0 TOSHIBA_2XNM NAND_MULTI_PLANE_MODE,
      flash_id [0x98, 0xde, 0x94, 0x82, 0x76, 0x56, 0, 0] 8192 8192 0x200000 640 1 20 25 0 TOSHIBA_2XNM NAND_MULTI_PLANE_MODE,
      flash_id [0x98, 0xde, 0x84, 0x93, 0x72, 0x57, 0, 0] 16384 8192 0x400000 1280 1 20 25 0 TOSHIBA_2XNM 0,
      flash_id [0x98, 0xd7, 0x84, 0x93, 0x72, 0x57, 0, 0] 16384 4096 0x400000 1280 1 20 25 0 TOSHIBA_2XNM 0,
      flash_id [0x98, 0x3a, 0x85, 0x93, 0x76, 0x57, 0, 0] 16384 16384 0x400000 1280 2 20 25 0 TOSHIBA_2XNM 0,
      flash_id [0x98, 0xd7, 0x84, 0x93, 0x72, 0x50, 0, 0] 16384 4096 0x400000 1280 1 20 25 0 TOSHIBA_A19NM 0,
      flash_id [0x98, 0xde, 0x94, 0x93, 0x76, 0x50, 0, 0] 16384 8192 0x400000 1280 1 20 25 0 TOSHIBA_A19NM NAND_MULTI_PLANE_MODE,
      flash_id [0x45, 0xde, 0x94, 0x93, 0x76, 0x57, 0, 0] 16384 8192 0x400000 1280 1 20 25 0 SANDISK_19NM NAND_MULTI_PLANE_MODE,
      flash_id [0x45, 0xd7, 0x84, 0x93, 0x72, 0x57, 0, 0] 16384 4096 0x400000 1280 1 20 25 0 SANDISK_19NM 0,
      flash_id [0x45, 0xde, 0xa4, 0x82, 0x76, 0x56, 0, 0] 8192 8192 0x200000 640 1 20 25 0 SANDISK_24NM 0,
      flash_id [0x45, 0xde, 0x94, 0x93, 0x76, 0x50, 0, 0] 16384 8192 0x400000 1280 1 20 25 0 SANDISK_A19NM NAND_MULTI_PLANE_MODE,
      flash_id [0x45, 0xd7, 0x84, 0x93, 0x72, 0x50, 0, 0] 16384 4096 0x400000 1280 1 20 25 0 SANDISK_A19NM_4G 0,
      flash_id [0xec, 0xd5, 0x14, 0xb6, 0x74, 0, 0, 0] 4096 2048 0x80000 128 1 20 15 0 0 0,
      flash_id [0xec, 0xd5, 0x94, 0x29, 0x34, 0x41, 0, 0] 4096 2048 0x80000 218 1 20 15 0 0 NAND_MULTI_PLANE_MODE,
      flash_id [0xec, 0xd5, 0x84, 0x72, 0x50, 0x42, 0, 0] 8192 2048 0x100000 436 1 25 15 0 0 0,
      flash_id [0xec, 0xd5, 0x94, 0x76, 0x54, 0x43, 0, 0] 8192 2048 0x100000 512 1 25 15 0 0 NAND_MULTI_PLANE_MODE,
      flash_id [0xec, 0xd7, 0xc5, 0x72, 0x54, 0x42, 0, 0] 8192 4096 0x100000 436 1 20 15 0 0 NAND_MULTI_PLANE_MODE,
      flash_id [0xec, 0xde, 0xc5, 0x72, 0x54, 0x42, 0, 0] 8192 8192 0x100000 436 1 20 15 0 0 NAND_MULTI_PLANE_MODE,
      flash_id [0xec, 0xd7, 0x94, 0x7a, 0x54, 0x43, 0, 0] 8192 4152 0x100000 640 1 20 15 0 0 NAND_MULTI_PLANE_MODE,
      flash_id [0xec, 0xde, 0xd5, 0x7a, 0x58, 0x43, 0, 0] 8192 8304 0x100000 640 1 20 15 0 0 NAND_MULTI_PLANE_MODE,
      flash_id [0xec, 0xd7, 0x94, 0x7e, 0x64, 0x44, 0, 0] 8192 4096 0x100000 640 1 20 15 0 SUMSUNG_2XNM NAND_MULTI_PLANE_MODE,
      flash_id [0xec, 0xde, 0xa4, 0x7a, 0x68, 0xc4, 0, 0] 8192 8192 0x100000 640 1 20 15 0 SUMSUNG_2XNM NAND_MULTI_PLANE_MODE,
      flash_id [0xec, 0xde, 0xd5, 0x7e, 0x68, 0x44, 0, 0] 8192 8192 0x100000 640 1 20 15 0 SUMSUNG_2XNM NAND_MULTI_PLANE_MODE]"

section \<open>Identification\<close>

definition find_slc :: "u8 list \<Rightarrow> nand_flash option" where
  "find_slc dev_id = find (\<lambda>f. dev_id ! 1 = fl_id f ! 1) flash_ids_slc"

text \<open>The id of an entry ends at its first zero byte (\<open>strlen\<close>).\<close>

definition id_prefix :: "nand_flash \<Rightarrow> u8 list" where
  "id_prefix f = takeWhile (\<lambda>b. b \<noteq> 0) (fl_id f)"

definition find_mlc :: "u8 list \<Rightarrow> nand_flash option" where
  "find_mlc dev_id = find (\<lambda>f. take (length (id_prefix f)) dev_id = id_prefix f) flash_ids_mlc"

definition find_flash :: "u8 list \<Rightarrow> (u8 \<times> nand_flash) option" where
  "find_flash dev_id =
     (case find_slc dev_id of Some f \<Rightarrow> Some (1, f) | None \<Rightarrow> map_option (Pair 0) (find_mlc dev_id))"

text \<open>
  A part listed without a page size describes itself in further id bytes, of
  which the second one read is used.
\<close>

definition ext_flash :: "u8 \<Rightarrow> nand_flash \<Rightarrow> nand_flash" where
  "ext_flash extid f =
     (let page = push_bit (unat (extid AND 3)) 1024; e = drop_bit 2 extid;
          oob = push_bit (unat (e AND 1)) 8 * drop_bit 9 page; e = drop_bit 2 e
      in f\<lparr>pagesize := page, oobsize := oob, blocksize := push_bit (unat (e AND 3)) 0x10000\<rparr>)"

definition ext_id :: "nfc \<Rightarrow> nand \<Rightarrow> int \<times> nand" where
  "ext_id hw s =
     (if pagesize (flash s) \<noteq> 0 then (0, s)
      else let (_, s) = controller_read_byte hw s;
               (extid, s) = controller_read_byte hw s;
               s = s\<lparr>flash := ext_flash extid (flash s)\<rparr>
           in (if has (drop_bit 6 extid) 2 then - NAND_ID_FAILURE else 0, s))"

definition set_geometry :: "nand \<Rightarrow> nand option" where
  "set_geometry s =
     (let f = flash s; ps = ffs (pagesize f) - 1
      in if internal_chipnr f = 0 then None
         else Some (s\<lparr>controller := (controller s)
                \<lparr>page_shift := of_nat ps, block_shift := of_nat (ffs (blocksize f) - 1),
                 internal_page_nums := push_bit (20 - ps) (chipsize f) div ucast (internal_chipnr f)\<rparr>\<rparr>))"

text \<open>\<open>dev_id\<close> is the address of the caller's buffer for the id bytes.\<close>

definition get_flash_type :: "nfc \<Rightarrow> ptr \<Rightarrow> nand \<Rightarrow> (int \<times> nand) option" where
  "get_flash_type hw dev_id s = do {
     (ret, s) \<leftarrow> read_id hw 0 0 dev_id (s\<lparr>mem := memset dev_id 0 8 (mem s)\<rparr>);
     if ret < 0 then Some (ret, s)
     else case find_flash (mem_bytes (mem s) dev_id 8) of None \<Rightarrow> Some (- NAND_ID_FAILURE, s)
     | Some (t, f) \<Rightarrow>
       let s = s\<lparr>flash := f, controller := (controller s)\<lparr>flash_type := t, mfr_type := fl_id f ! 0\<rparr>\<rparr>;
           (ret, s) = ext_id hw s
       in if ret < 0 then Some (ret, s)
          else do {
            (ret, s) \<leftarrow> read_id hw 0 0x20 dev_id s;
            if ret < 0 then Some (ret, s)
            else do {
              s \<leftarrow> set_geometry s;
              Some (ret, if mem_bytes (mem s) dev_id 4 = bytes_of ''ONFI''
                then s\<lparr>controller := (controller s)\<lparr>onfi_mode := ucast (fl_onfi_mode (flash s))\<rparr>\<rparr> else s)
            }
          }
   }"

section \<open>Further chips\<close>

text \<open>
  Chips that answer with the device byte of the first one are numbered
  consecutively; their select lines are moved up in the tables.
\<close>

definition same_flash :: "ptr \<Rightarrow> nand \<Rightarrow> bool" where
  "same_flash dev_id s \<longleftrightarrow>
     (flash_type (controller s) = 1 \<or> flash_type (controller s) = 0) \<and> fl_id (flash s) ! 1 = mem s (dev_id + 1)"

definition note_chip :: "nat \<Rightarrow> nat \<Rightarrow> nand \<Rightarrow> nand" where
  "note_chip i n s =
     s\<lparr>controller := (controller s)\<lparr>ce_enable := (ce_enable (controller s))[n := pad_select CE_PAD_DEFAULT i],
         rb_enable := (rb_enable (controller s))[n := pad_select RB_PAD_DEFAULT i]\<rparr>\<rparr>"

fun scan_chips :: "nfc \<Rightarrow> ptr \<Rightarrow> nat list \<Rightarrow> nat \<Rightarrow> u8 \<Rightarrow> nand \<Rightarrow> ((nat \<times> u8) \<times> nand) option" where
  "scan_chips hw dev_id [] n ce_mask s = Some ((n, ce_mask), s)"
| "scan_chips hw dev_id (i # is) n ce_mask s = do {
     (ret, s) \<leftarrow> read_id hw (of_nat i) 0 dev_id (s\<lparr>mem := memset dev_id 0 8 (mem s)\<rparr>);
     if ret < 0 \<or> \<not> same_flash dev_id s then scan_chips hw dev_id is n ce_mask s
     else scan_chips hw dev_id is (n + 1) (ce_mask OR push_bit i 1) (note_chip i n s)
   }"

record scan_bufs =
  sb_dev_id :: ptr
  sb_onfi_mode :: ptr
  sb_onfi_features :: ptr

definition set_onfi_timing :: "nfc \<Rightarrow> scan_bufs \<Rightarrow> nand \<Rightarrow> nand option" where
  "set_onfi_timing hw b s =
     (let m = onfi_mode (controller s)
      in if m = 0 then Some s
         else do {
           (_, s) \<leftarrow> set_onfi_features hw (sb_onfi_mode b) 1 (s\<lparr>mem := st32 (sb_onfi_mode b) m (mem s)\<rparr>);
           (_, s) \<leftarrow> get_onfi_features hw (sb_onfi_features b) 1 s;
           Some (if ucast (mem s (sb_onfi_features b)) \<noteq> onfi_mode (controller s)
                 then s\<lparr>flash := (flash s)\<lparr>T_REA := 20, T_RHOH := 25\<rparr>\<rparr> else s)
         })"

definition amlnand_chip_scan :: "nfc \<Rightarrow> nand_hooks \<Rightarrow> scan_bufs \<Rightarrow> nand \<Rightarrow> ((int \<times> u8) \<times> nand) option" where
  "amlnand_chip_scan hw hk b s = do {
     s \<leftarrow> nand_get_chip hk s;
     (ret, s) \<leftarrow> get_flash_type hw (sb_dev_id b) s;
     if ret < 0 then Some ((ret, 0), nand_release_chip s)
     else do {
       let s = s\<lparr>controller := (controller s)\<lparr>chip_num := 4, ctl_option := ctl_option (controller s) OR NAND_CTRL_NONE_RB\<rparr>\<rparr>;
       ((n, ce_mask), s) \<leftarrow> scan_chips hw (sb_dev_id b) [1..<MAX_CHIP_NUM] 1 1 s;
       let s = s\<lparr>controller := (controller s)\<lparr>chip_num := of_nat n\<rparr>\<rparr>;
       let s = (if n = MAX_CHIP_NUM then s\<lparr>flash := (flash s)\<lparr>fl_option := fl_option (flash s) AND NOT NAND_MULTI_PLANE_MODE\<rparr>\<rparr> else s);
       s \<leftarrow> set_onfi_timing hw b s;
       Some ((NAND_SUCCESS, ce_mask), nand_release_chip s)
     }
   }"

section \<open>Buffers\<close>

text \<open>
  What the allocators answer is a parameter; \<open>freed\<close> in the results below lists
  the buffers given back.  The DMA buffer of the user bytes is given back with
  a size computed by a division by \<open>ecc_bytes\<close>.
\<close>

record buf_answers =
  ba_data :: ptr
  ba_data_dma :: u32
  ba_user :: ptr
  ba_user_dma :: u32
  ba_page :: "u32 \<Rightarrow> ptr"
  ba_oob :: "u32 \<Rightarrow> ptr"

definition buf_scale :: "nand \<Rightarrow> u32 \<Rightarrow> u32" where
  "buf_scale s len =
     (let n = len * ucast (chip_num (controller s))
      in if has (fl_option (flash s)) NAND_MULTI_PLANE_MODE then push_bit 1 n else n)"

definition free_user :: "nand \<Rightarrow> ptr list \<Rightarrow> ptr list option" where
  "free_user s freed = (if ecc_bytes (controller s) = 0 then None else Some (user_buf (controller s) # freed))"

definition nand_buf_init :: "buf_answers \<Rightarrow> nand \<Rightarrow> ((int \<times> ptr list) \<times> nand) option" where
  "nand_buf_init a s =
     (let f = flash s;
          s = s\<lparr>controller := (controller s)\<lparr>ecc_unit := 512, data_buf := ba_data a, data_dma_addr := ba_data_dma a\<rparr>\<rparr>
      in if data_buf (controller s) = NULL then Some ((- NAND_MALLOC_FAILURE, []), s)
         else let s = s\<lparr>controller := (controller s)\<lparr>user_buf := ba_user a, info_dma_addr := ba_user_dma a\<rparr>\<rparr>
         in if user_buf (controller s) = NULL then Some ((- NAND_MALLOC_FAILURE, [data_buf (controller s)]), s)
         else let s = s\<lparr>controller := (controller s)\<lparr>page_buf := ba_page a (buf_scale s (pagesize f + oobsize f))\<rparr>\<rparr>
         in if page_buf (controller s) = NULL
            then do { fr \<leftarrow> free_user s [data_buf (controller s)]; Some ((- NAND_MALLOC_FAILURE, fr), s) }
         else let s = s\<lparr>controller := (controller s)\<lparr>oob_buf := ba_oob a (buf_scale s (oobsize f))\<rparr>\<rparr>
         in if oob_buf (controller s) = NULL
            then do { fr \<leftarrow> free_user s [data_buf (controller s)]; Some ((- NAND_MALLOC_FAILURE, page_buf (controller s) # fr), s) }
         else Some ((NAND_SUCCESS, []), s))"

definition nand_buf_free :: "nand \<Rightarrow> ptr list option" where
  "nand_buf_free s =
     (let c = controller s
      in free_user s [data_buf c] \<bind> (\<lambda>fr. Some (oob_buf c # page_buf c # fr)))"

section \<open>Ready line and initialisation\<close>

text \<open>The power-on configuration register reads as zero here (\<open>READ_CBUS_REG\<close>).\<close>

definition aml_chip_rb_mode_confirm :: "nand \<Rightarrow> nand" where
  "aml_chip_rb_mode_confirm s =
     (let c = controller s
      in s\<lparr>controller := (if 2 < chip_num c
           then c\<lparr>rb_enable := (rb_enable c)[0 := 0], ctl_option := ctl_option c OR NAND_CTRL_NONE_RB\<rparr>
           else c\<lparr>ctl_option := ctl_option c AND NOT NAND_CTRL_NONE_RB\<rparr>)\<rparr>)"

definition amlnand_chip_init ::
  "nfc \<Rightarrow> nand_hooks \<Rightarrow> scan_bufs \<Rightarrow> buf_answers \<Rightarrow> nand \<Rightarrow> ((int \<times> ptr list) \<times> nand) option" where
  "amlnand_chip_init hw hk b a s = do {
     ((ret, _), s) \<leftarrow> amlnand_chip_scan hw hk b s;
     if ret \<noteq> 0 then Some ((ret, []), s)
     else do {
       ((ret, freed), s) \<leftarrow> nand_buf_init a s;
       if ret \<noteq> 0 then Some ((ret, freed), s)
       else let (ret, s) = controller_adjust_timing hw s
            in if ret \<noteq> 0 then do { fr \<leftarrow> nand_buf_free s; Some ((ret, fr), s) }
               else let (ret, s) = controller_ecc_confirm (aml_chip_rb_mode_confirm s)
                    in if ret \<noteq> 0 then do { fr \<leftarrow> nand_buf_free s; Some ((ret, fr), s) }
                       else Some ((NAND_SUCCESS, []), s)
     }
   }"

end
