(* ===== verification/ChipIdProps.thy ===== *)
theory ChipIdProps
  imports VendorProps ChipId
begin

text \<open>
  What the table of parts promises: the parts are told apart by their id bytes
  and fit the rest of the driver.
\<close>

section \<open>The table\<close>


definition blocks_of :: "nand_flash \<Rightarrow> u64" where
  "blocks_of f = ucast (chipsize f) * 0x100000 div ucast (blocksize f)"

definition part_ok :: "nand_flash \<Rightarrow> bool" where
  "part_ok f \<longleftrightarrow> pagesize f = 2 ^ (ffs (pagesize f) - 1) \<and> blocksize f = 2 ^ (ffs (blocksize f) - 1)
     \<and> pages_per_blk f = blocksize f div pagesize f \<and> pages_per_blk f \<in> {128, 256}
     \<and> internal_chipnr f \<noteq> 0 \<and> (ucast (chipsize f) :: u64) * 2 ^ (20 - (ffs (pagesize f) - 1)) < 0x100000000
     \<and> ecc_search bch_list f 8 \<noteq> 0 \<and> (0 < new_type f \<and> new_type f < 10 \<longrightarrow> pages_per_blk f = 256)"

definition part_sizes :: "nand_flash \<Rightarrow> bool" where
  "part_sizes f \<longleftrightarrow>
     (pagesize f, blocksize f) \<in> set [(0x1000, 0x80000), (0x1000, 0x100000), (0x2000, 0x100000), (0x2000, 0x200000), (0x4000, 0x400000)]
     \<and> chipsize f \<le> 0x4000 \<and> internal_chipnr f \<noteq> 0 \<and> pagesize f div 32 \<le> oobsize f
     \<and> (0 < new_type f \<and> new_type f < 10 \<longrightarrow> blocksize f = 256 * pagesize f)"

lemma parts_sizes: "list_all part_sizes flash_ids_mlc"
  by code_simp

lemma ffs_sizes: "ffs 0x1000 = 13" "ffs 0x2000 = 14" "ffs 0x4000 = 15" "ffs 0x80000 = 20" "ffs 0x100000 = 21"
  "ffs 0x200000 = 22" "ffs 0x400000 = 23"
  using ffs_power [of 12] ffs_power [of 13] ffs_power [of 14] ffs_power [of 19] ffs_power [of 20] ffs_power [of 21] ffs_power [of 22]
  by simp_all

lemma ecc_search_found:
  assumes "oobsize f div (pagesize f div unit_size (ds ! 1)) \<ge> bytes (ds ! 1) + usr_mode (ds ! 1)" "list_all (\<lambda>d. mode d \<noteq> 0) (tl ds)"
  shows "0 < k \<Longrightarrow> k < length ds \<Longrightarrow> ecc_search ds f k \<noteq> 0"
proof (induction k)
  case (Suc k)
  have "mode (ds ! Suc k) \<noteq> 0"
    using assms(2) Suc.prems by (auto simp: list_all_length nth_tl)
  then show ?case
    using assms(1) Suc by (cases k) (auto simp: Let_def)
qed simp

lemma ecc_fits:
  assumes "16 \<le> oobsize f div (pagesize f div 512)"
  shows "ecc_search bch_list f 8 \<noteq> 0"
  by (rule ecc_search_found) (use assms in \<open>simp_all add: bch_list_def\<close>)

lemma spare_per_step:
  fixes p x :: u32
  assumes "p \<in> {0x1000, 0x2000, 0x4000}" "p div 32 \<le> x"
  shows "16 \<le> x div (p div 512)"
proof -
  have "unat p div 32 div (unat p div 512) \<le> unat x div (unat p div 512)"
    using assms(2) by (intro div_le_mono) (simp add: word_le_nat_alt unat_div)
  then show ?thesis
    using assms(1) by (auto simp: word_le_nat_alt unat_div)
qed

lemma part_sizes_ok: "part_sizes f \<Longrightarrow> part_ok f"
proof -
  assume f: "part_sizes f"
  then have e: "ecc_search bch_list f 8 \<noteq> 0"
    by (intro ecc_fits spare_per_step) (auto simp: part_sizes_def)
  have c: "(ucast (chipsize f) :: u64) \<le> 0x4000"
    using f by (simp add: part_sizes_def word_le_nat_alt)
  have m: "(ucast (chipsize f) :: u64) * 2 ^ k < 0x100000000" if "k \<in> {6, 7, 8}" for k
    using c that by (auto simp: word_less_nat_alt word_le_nat_alt unat_word_ariths)
  have dies: "internal_chipnr f \<noteq> 0" and slc: "0 < new_type f \<and> new_type f < 10 \<longrightarrow> blocksize f = 256 * pagesize f"
    using f by (simp_all add: part_sizes_def)
  consider "pagesize f = 0x1000" "blocksize f = 0x80000" | "pagesize f = 0x1000" "blocksize f = 0x100000"
    | "pagesize f = 0x2000" "blocksize f = 0x100000" | "pagesize f = 0x2000" "blocksize f = 0x200000"
    | "pagesize f = 0x4000" "blocksize f = 0x400000"
    using f by (auto simp: part_sizes_def)
  then show ?thesis
    by cases (use e m [of 6] m [of 7] m [of 8] dies slc in \<open>simp_all add: part_ok_def pages_per_blk_def ffs_sizes\<close>)
qed

lemma parts_too_many_blocks:
  "map fl_id (filter (\<lambda>f. 8192 < blocks_of f) flash_ids_mlc) =
     [[0x2c, 0xd9, 0xd5, 0x3e, 0x88, 0, 0, 0], [0x98, 0xde, 0x95, 0x32, 0x7a, 0x55, 0, 0], [0xec, 0xde, 0xd5, 0x7a, 0x58, 0x43, 0, 0]]"
  by code_simp

lemma parts_not_configured:
  "map fl_id (filter (\<lambda>f. new_type f \<noteq> 0 \<and> map_of retry_paras (new_type f) = None) flash_ids_mlc) =
     [[0x45, 0xde, 0xa4, 0x82, 0x76, 0x56, 0, 0]]"
  by code_simp

text \<open>
  C29.  Every MLC part of the table fits the driver: page and block sizes are
  powers of two with 128 or 256 pages to a block (256 for the Hynix types
  with an SLC page list), the page count of a die does not overflow, and an
  ECC mode fits its spare area.  Exactly three parts have more blocks than the
  bad block table has entries, and exactly one has a type that no retry
  configuration knows.
\<close>

theorem parts_fit_driver:
  "list_all part_ok flash_ids_mlc
   \<and> map fl_id (filter (\<lambda>f. 8192 < blocks_of f) flash_ids_mlc) =
       [[0x2c, 0xd9, 0xd5, 0x3e, 0x88, 0, 0, 0], [0x98, 0xde, 0x95, 0x32, 0x7a, 0x55, 0, 0], [0xec, 0xde, 0xd5, 0x7a, 0x58, 0x43, 0, 0]]
   \<and> map fl_id (filter (\<lambda>f. new_type f \<noteq> 0 \<and> map_of retry_paras (new_type f) = None) flash_ids_mlc) =
       [[0x45, 0xde, 0xa4, 0x82, 0x76, 0x56, 0, 0]]"
  using parts_sizes parts_too_many_blocks parts_not_configured by (auto simp: list_all_iff part_sizes_ok)

end
