(* ===== verification/BootOp.thy ===== *)
theory BootOp
  imports DevInit InfoStore
begin

text \<open>
  \<open>phy/boot_operation.c\<close>: the \<open>bootloader\<close> character device.  A write erases
  the boot area and stores four copies of the image, each of 256 pages: a page
  with the parameters the boot ROM needs (in the short ECC layout, not
  scrambled), then the image.  \<open>nand_boot_info_prepare\<close> and
  \<open>uboot_set_ran_mode\<close> (\<open>dev/amlnf_ctrl.c\<close>) prepare that first page.  The
  addresses the allocator returns are parameters; \<open>None\<close> is a division by
  zero, a loop that does not end, or a chip operation that does not return.
\<close>

section \<open>The first page\<close>

abbreviation (input) "BOOT_COPY_NUM \<equiv> (4 :: nat)"

abbreviation (input) "BOOT_PAGES_PER_COPY \<equiv> (256 :: u32)"

abbreviation (input) "NAND_ECC_UNIT_SHORT \<equiv> (384 :: u16)"

abbreviation (input) "NAND_BCH60_1K_ECC_SIZE \<equiv> (106 :: u16)"

abbreviation (input) "NAND_ECC_BCH_SHORT \<equiv> (8 :: u8)"

definition uboot_set_ran_mode :: "nand \<Rightarrow> nand" where
  "uboot_set_ran_mode s = s\<lparr>controller := (controller s)\<lparr>ran_mode := 0\<rparr>\<rparr>"

definition configure_data :: "nand \<Rightarrow> u32" where
  "configure_data s =
     (let c = controller s
      in NFC_CMD_N2M (ran_mode c) (ucast (bch_mode c)) 0 (ucast (drop_bit 3 (ecc_unit c))) (ucast (ecc_steps c)))"

definition nand_boot_info_prepare :: "ptr \<Rightarrow> nand \<Rightarrow> nand" where
  "nand_boot_info_prepare page0_buf s =
     (let f = flash s;
          m = memset page0_buf 0xbb (unat (pagesize f)) (mem s);
          m = st32 page0_buf (configure_data s) m;
          m = st32 (page0_buf + 4) (pages_per_blk f) m;
          m = st32 (page0_buf + 8) (ucast (new_type f)) m;
          m = st32 (page0_buf + 12) (ucast (chip_num (controller s))) m
      in s\<lparr>mem := m\<rparr>)"

section \<open>One copy\<close>

text \<open>The ECC settings that are put aside, used for the first page, and put back.\<close>

definition short_ecc :: "nand_flash \<Rightarrow> hw_controller \<Rightarrow> hw_controller" where
  "short_ecc f c =
     c\<lparr>ecc_unit := NAND_ECC_UNIT_SHORT, ecc_bytes := NAND_BCH60_1K_ECC_SIZE, bch_mode := NAND_ECC_BCH_SHORT, user_mode := 2,
       ecc_cnt_limit := 55, ecc_max := 60, ecc_steps := ucast ((pagesize f + oobsize f) div 512)\<rparr>"

definition restore_ecc :: "hw_controller \<Rightarrow> hw_controller \<Rightarrow> hw_controller" where
  "restore_ecc saved c =
     c\<lparr>ecc_unit := ecc_unit saved, ecc_bytes := ecc_bytes saved, bch_mode := bch_mode saved, user_mode := user_mode saved,
       ecc_cnt_limit := ecc_cnt_limit saved, ecc_max := ecc_max saved, ecc_steps := ecc_steps saved\<rparr>"

record boot_job =
  bj_saved :: hw_controller
  bj_writesize :: u32
  bj_len :: u64
  bj_oob :: ptr
  bj_page0 :: ptr
  bj_fill :: ptr

definition set_data_buf :: "ptr \<Rightarrow> nand \<Rightarrow> nand" where
  "set_data_buf b s = s\<lparr>ops_para := (ops_para s)\<lparr>op_data_buf := b\<rparr>\<rparr>"

definition first_page :: "u64 \<Rightarrow> nand \<Rightarrow> bool" where
  "first_page addr s \<longleftrightarrow> (ucast addr div pagesize (flash s)) mod BOOT_PAGES_PER_COPY = 0"

definition enter_page0 :: "boot_job \<Rightarrow> dev \<Rightarrow> dev" where
  "enter_page0 j d =
     (let (p, s) = d; f = flash s; s = set_data_buf (bj_page0 j) (uboot_set_ran_mode s)
      in (p\<lparr>writesize := pagesize f div 512 * 384\<rparr>, s\<lparr>controller := short_ecc f (controller s)\<rparr>))"

definition leave_page0 :: "boot_job \<Rightarrow> dev \<Rightarrow> dev" where
  "leave_page0 j d =
     (let (p, s) = d; s = set_data_buf (do_datbuf (pd_ops p)) s
      in (p\<lparr>writesize := bj_writesize j\<rparr>, s\<lparr>controller := restore_ecc (bj_saved j) ((controller s)\<lparr>ran_mode := 1\<rparr>)\<rparr>))"

definition boot_page :: "u64 \<Rightarrow> nand \<Rightarrow> nand" where
  "boot_page addr s =
     (let a = ucast addr div pagesize (flash s)
      in set_page_addr (if has (op_option (ops_para s)) DEV_SLC_MODE then slc_page s a else a) s)"

text \<open>The pages between two pages used in SLC mode are filled; failures are not looked at.\<close>

fun fill_pages :: "chip_operation \<Rightarrow> ptr \<Rightarrow> u32 list \<Rightarrow> nand \<Rightarrow> nand option" where
  "fill_pages ct fill_buf [] s = Some s"
| "fill_pages ct fill_buf (a # as) s = do {
     let s = set_data_buf fill_buf s;
     let s = s\<lparr>controller := (controller s)\<lparr>bch_mode := 0, ran_mode := 0\<rparr>\<rparr>;
     (_, s) \<leftarrow> ct_write_page ct (set_page_addr a s);
     fill_pages ct fill_buf as s
   }"

definition fill_gap :: "chip_operation \<Rightarrow> boot_job \<Rightarrow> u64 \<Rightarrow> dev \<Rightarrow> dev option" where
  "fill_gap ct j addr d =
     (let (p, s) = d; a = ucast addr div pagesize (flash s)
      in if new_type (flash s) = HYNIX_1YNM_8GB \<and> 1 < a mod 256
         then let priv_lsb = (a AND NOT (pages_per_blk (flash s) - 1))
                OR ucast (pagelist (slc_info (controller s)) ! unat (a mod 256 - 1));
                  here = op_page_addr (ops_para s)
              in do {
                s \<leftarrow> fill_pages ct (bj_fill j) (map of_nat [unat (priv_lsb + 1)..<unat here]) s;
                let s = set_data_buf (do_datbuf (pd_ops p)) (set_page_addr here s);
                Some (p\<lparr>writesize := bj_writesize j\<rparr>,
                  s\<lparr>controller := (restore_ecc (bj_saved j) (controller s))\<lparr>ran_mode := ran_mode (bj_saved j)\<rparr>\<rparr>)
              }
         else Some (p, s))"

definition next_data :: "boot_job \<Rightarrow> u64 \<Rightarrow> amlnand_phydev \<Rightarrow> amlnand_phydev" where
  "next_data j writelen p =
     (let q = pd_ops p
      in p\<lparr>pd_ops := q\<lparr>do_datbuf := (if do_len q \<le> writelen \<and> writelen < ucast (erasesize p) then bj_fill j
              else do_datbuf q + unat (writesize p))\<rparr>\<rparr>)"

definition boot_unit :: "nand \<Rightarrow> u32" where
  "boot_unit s = (if has (op_option (ops_para s)) DEV_SLC_MODE then drop_bit 1 (blocksize (flash s)) else blocksize (flash s))"

text \<open>
  The \<open>while (1)\<close> loop over the pages of one copy: whether it failed, and how
  much of the image it stored.
\<close>

partial_function (option) boot_copy ::
  "chip_operation \<Rightarrow> boot_job \<Rightarrow> u64 \<Rightarrow> u64 \<Rightarrow> dev \<Rightarrow> ((bool \<times> u64) \<times> dev) option" where
  "boot_copy ct j addr writelen d = do {
     let first = first_page addr (snd d);
     let (p, s) = (if first then enter_page0 j d else d);
     (p, s) \<leftarrow> fill_gap ct j addr (p, boot_page addr s);
     (ret, s) \<leftarrow> ct_write_page ct (if first then s else set_data_buf (do_datbuf (pd_ops p)) s);
     let addr = addr + ucast (pagesize (flash s));
     if ret < 0 then Some ((True, writelen), p, s)
     else if first then boot_copy ct j addr writelen (leave_page0 j (p, s))
     else let writelen = writelen + ucast (writesize p); p = next_data j writelen p
          in if bj_len j - ucast (pagesize (flash s)) \<le> writelen then Some ((False, writelen), p, s)
             else if boot_unit s = 0 then None
             else if ucast addr mod boot_unit s = 0 then Some ((False, writelen), p, s)
             else boot_copy ct j addr writelen (p, s)
   }"

declare boot_copy.simps [code]

section \<open>The image\<close>

fun boot_copies :: "chip_operation \<Rightarrow> boot_job \<Rightarrow> ptr \<Rightarrow> nat list \<Rightarrow> nat \<Rightarrow> u64 \<Rightarrow> dev \<Rightarrow> ((nat \<times> u64) \<times> dev) option" where
  "boot_copies ct j lazy_buf [] err writelen d = Some ((err, writelen), d)"
| "boot_copies ct j lazy_buf (i # is) err _ d = do {
     let (p, s) = d;
     let addr = ucast (pagesize (flash s) * (BOOT_PAGES_PER_COPY * of_nat i));
     let d = (p\<lparr>pd_ops := (pd_ops p)\<lparr>do_datbuf := lazy_buf\<rparr>\<rparr>, set_data_buf lazy_buf s);
     ((failed, writelen), d) \<leftarrow> boot_copy ct j addr 0 d;
     boot_copies ct j lazy_buf is (if failed then err + 1 else err) writelen d
   }"

definition boot_done :: "boot_job \<Rightarrow> dev \<Rightarrow> dev" where
  "boot_done j d =
     (let (p, s) = d
      in (p\<lparr>writesize := bj_writesize j\<rparr>, s\<lparr>controller := restore_ecc (bj_saved j) ((controller s)\<lparr>ran_mode := 1\<rparr>)\<rparr>))"

definition oob_pattern :: "nat \<Rightarrow> ptr \<Rightarrow> memory \<Rightarrow> memory" where
  "oob_pattern n b m = (\<lambda>a. if b \<le> a \<and> a < b + 2 * ((n + 1) div 2) then (if even (a - b) then 0x55 else 0xaa) else m a)"

definition boot_ops :: "boot_job \<Rightarrow> amlnand_phydev \<Rightarrow> nand \<Rightarrow> nand" where
  "boot_ops j p s =
     s\<lparr>ops_para := ops_zero\<lparr>op_data_buf := do_datbuf (pd_ops p), op_oob_buf := bj_oob j,
         op_option := (if slc_type (flash s) then pd_option p OR DEV_SLC_MODE else pd_option p)\<rparr>\<rparr>"

record boot_bufs =
  bb_oob :: ptr
  bb_page0 :: ptr
  bb_fill :: ptr

definition write_uboot :: "chip_operation \<Rightarrow> boot_bufs \<Rightarrow> dev \<Rightarrow> (int \<times> dev) option" where
  "write_uboot ct b d =
     (let (p, s) = d; c = controller s; f = flash s; q = pd_ops p; n = unat (ecc_steps c) * unat (user_mode c);
          j = \<lparr>bj_saved = c, bj_writesize = writesize p, bj_len = do_len q, bj_oob = bb_oob b, bj_page0 = bb_page0 b,
               bj_fill = bb_fill b\<rparr>
      in if out_of_space p then Some (- NAND_ARGUMENT_FAILURE, d)
         else if do_len q = 0 \<and> do_ooblen q = 0 then Some (NAND_SUCCESS, d)
         else if do_addr q \<noteq> 0 then Some (NAND_SUCCESS, d)
         else if bb_oob b = NULL then Some (- NAND_MALLOC_FAILURE, boot_done j d)
         else let s = s\<lparr>mem := memset (bb_oob b) 0 n (mem s)\<rparr>
         in if bb_page0 b = NULL then Some (- NAND_MALLOC_FAILURE, boot_done j (p, s))
         else let s = s\<lparr>mem := oob_pattern n (bb_oob b) (memset (bb_page0 b) 0 (unat (pagesize f)) (mem s))\<rparr>
         in if bb_fill b = NULL then Some (- NAND_MALLOC_FAILURE, boot_done j (p, s))
         else if pagesize f = 0 then None
         else do {
           let s = boot_ops j p (s\<lparr>mem := memset (bb_fill b) 0xff (unat (pagesize f)) (mem s)\<rparr>);
           let s = nand_boot_info_prepare (bb_page0 b) s;
           ((err, writelen), d) \<leftarrow> boot_copies ct j (do_datbuf q) [0..<BOOT_COPY_NUM] 0 0 (p, s);
           let (p, s) = boot_done j d;
           Some (if err < 2 then 0 else 1, set_retlen writelen p, s)
         })"

section \<open>Erasing and writing the boot area\<close>

partial_function (option) boot_erase :: "chip_operation \<Rightarrow> amlnand_phydev \<Rightarrow> u64 \<Rightarrow> nand \<Rightarrow> nand option" where
  "boot_erase ct p addr s = do {
     let s = set_page_addr (ucast addr div pagesize (flash s)) s;
     (_, s) \<leftarrow> ct_select_chip ct (op_chipnr (ops_para s)) s;
     (ret, s) \<leftarrow> ct_block_isbad ct s;
     s \<leftarrow> (if ret = uint NAND_BLOCK_FACTORY_BAD then Some s
       else do {
         let s = (if new_type (flash s) = SANDISK_19NM \<and> has (op_option (ops_para s)) DEV_SLC_MODE
           then set_page_addr (slc_page s (op_page_addr (ops_para s))) s else s);
         (_, s) \<leftarrow> ct_erase_block ct s;
         Some s
       });
     let addr = addr + ucast (erasesize p);
     if addr < ucast (1024 * pagesize (flash s)) then boot_erase ct p addr s else Some s
   }"

declare boot_erase.simps [code]

definition boot_len :: "amlnand_phydev \<Rightarrow> nand \<Rightarrow> u64" where
  "boot_len p s =
     (let n = do_len (pd_ops p);
          n = (if n < ucast (erasesize p) then ucast (erasesize p) else n);
          n = (if slc_type (flash s) then ucast (drop_bit 1 (erasesize p)) else n)
      in ucast ((ucast n + writesize p - 1) div writesize p * writesize p))"

definition boot_request :: "u64 \<Rightarrow> ptr \<Rightarrow> phydev_ops" where
  "boot_request n buf = \<lparr>do_mode = NAND_HW_ECC, do_addr = 0, do_len = n, do_retlen = 0, do_ooblen = 0, do_datbuf = buf, do_oobbuf = NULL\<rparr>"

definition set_oob_mod :: "u8 \<Rightarrow> nand \<Rightarrow> nand" where
  "set_oob_mod m s = s\<lparr>controller := (controller s)\<lparr>oob_mod := m\<rparr>\<rparr>"

definition roomboot_nand_write :: "nfc \<Rightarrow> chip_operation \<Rightarrow> boot_bufs \<Rightarrow> dev \<Rightarrow> (int \<times> dev) option" where
  "roomboot_nand_write hw ct b d =
     (let (p, s) = d; q = pd_ops p; oob_set = oob_mod (controller s)
      in if do_addr q \<noteq> 0 then Some (- 1, d)
         else if writesize p = 0 then None
         else let n = boot_len p s
         in if n AND ucast (writesize p - 1) \<noteq> 0 then Some (- NAND_WRITE_FAILED, d)
         else if pd_size p div 4 < n then Some (- NAND_WRITE_FAILED, d)
         else do {
           let s = (if oob_set \<noteq> 0 then set_oob_mod 0 (aml_clr_reg32_mask hw P_NAND_CFG (push_bit 26 3) s) else s);
           s \<leftarrow> (if pagesize (flash s) = 0 then None else Some s);
           let s = s\<lparr>ops_para := ops_zero\<lparr>op_option :=
             (if new_type (flash s) = SANDISK_19NM then pd_option p OR DEV_SLC_MODE else pd_option p)\<rparr>\<rparr>;
           s \<leftarrow> boot_erase ct p (pd_offset p + do_addr q) s;
           (ret, p, s) \<leftarrow> write_uboot ct b (p\<lparr>pd_ops := boot_request n (do_datbuf q)\<rparr>, s);
           let s = (if 0 \<le> ret \<and> oob_set \<noteq> 0
             then aml_set_reg32_mask hw P_NAND_CFG (push_bit 26 3) (set_oob_mod oob_set s) else s);
           Some (ret, p, s)
         })"

section \<open>The character device\<close>

text \<open>
  \<open>data\<close> is what \<open>copy_from_user\<close> leaves in the buffer: the caller's bytes.
\<close>

definition uboot_write :: "nfc \<Rightarrow> chip_operation \<Rightarrow> boot_bufs \<Rightarrow> ptr \<Rightarrow> u8 list \<Rightarrow> dev \<Rightarrow> (nat \<times> dev) option" where
  "uboot_write hw ct b buf data d =
     (let (p, s) = d; cnt = of_nat (length data) :: u32
      in if writesize p = 0 then None
         else let align_count = (cnt + writesize p - 1) div writesize p * writesize p
         in if buf = NULL then Some (length data, d)
         else do {
           let s = s\<lparr>mem := store_bytes buf data (memset buf 0 (unat align_count) (mem s))\<rparr>;
           let p = p\<lparr>pd_ops := boot_request (ucast align_count) buf\<rparr>;
           s \<leftarrow> amlnand_get_device ct CHIP_WRITING s;
           (ret, p, s) \<leftarrow> roomboot_nand_write hw ct b (p, s);
           Some (if ret < 0 then 0 else length data, p, amlnand_release_device s)
         })"

text \<open>
  Registering the device: what has been obtained stays so when a later step fails.
\<close>

record boot_answers =
  bo_region :: int
  bo_cdev :: int
  bo_class :: int
  bo_device :: int

datatype boot_res = BootRegion | BootCdev | BootClass | BootDevice

definition boot_device_register :: "boot_answers \<Rightarrow> amlnand_phydev \<Rightarrow> int \<times> boot_res list" where
  "boot_device_register a p =
     (if \<not> is_boot (pd_name p) then (NAND_SUCCESS, [])
      else if bo_region a < 0 then (bo_region a, [])
      else if bo_cdev a \<noteq> 0 then (bo_cdev a, [BootRegion])
      else if bo_class a < 0 then (bo_class a, [BootRegion, BootCdev])
      else if bo_device a < 0 then (bo_device a, [BootRegion, BootCdev, BootClass])
      else (NAND_SUCCESS, [BootRegion, BootCdev, BootClass, BootDevice]))"

end
