(* ===== verification/BootProps.thy ===== *)
theory BootProps
  imports VendorProps InfoProps PhyDevProps BootOp
begin

text \<open>
  The \<open>bootloader\<close> device: under the guard a write to it sends nothing to the
  flash that programs or erases, and is reported as complete.
\<close>

section \<open>What a boot write preserves\<close>

lemma framed2_bind2:
  assumes "framed2 R s x" "\<And>r p t. R s t \<Longrightarrow> framed2 R s (f (r, p, t))"
  shows "framed2 R s (x \<bind> f)"
  using assms by (auto simp: framed2_def bind_eq_Some_conv)

lemma framed2_None: "framed2 R s None"
  by (simp add: framed2_def)

locale boot_frame = info_frame +
  fixes hw :: nfc
  assumes up_ctl: "chip_selected c = chip_selected (controller s) \<Longrightarrow> ce_enable c = ce_enable (controller s) \<Longrightarrow> R s (s\<lparr>controller := c\<rparr>)"
    and up_cfg: "R s (nfc_event hw (Wr P_NAND_CFG v) s)"
    and up_rd: "R s (nfc_event hw (Rd P_NAND_CFG) s)"
begin

lemma B_ctl: "R s t \<Longrightarrow> chip_selected c = chip_selected (controller t) \<Longrightarrow> ce_enable c = ce_enable (controller t) \<Longrightarrow> R s (t\<lparr>controller := c\<rparr>)"
  using trans up_ctl by blast

lemma B_data: "R s t \<Longrightarrow> R s (set_data_buf b t)"
  unfolding set_data_buf_def by (rule D_ops)

lemma B_ran: "R s t \<Longrightarrow> R s (uboot_set_ran_mode t)"
  unfolding uboot_set_ran_mode_def by (rule I_ran)

lemma B_page0: "R s (snd d) \<Longrightarrow> R s (snd (enter_page0 j d))" "R s (snd d) \<Longrightarrow> R s (snd (leave_page0 j d))"
  "R s (snd d) \<Longrightarrow> R s (snd (boot_done j d))"
  by (auto simp: enter_page0_def leave_page0_def boot_done_def Let_def split_beta short_ecc_def restore_ecc_def
      intro!: B_ctl B_data B_ran)

lemma B_page: "R s t \<Longrightarrow> R s (boot_page a t)"
  unfolding boot_page_def Let_def by (rule D_set_page)

lemma B_fill: "R s t \<Longrightarrow> framed1 R s (fill_pages ct b as t)"
proof (induction as arbitrary: t)
  case (Cons a as)
  then show ?case
    unfolding fill_pages.simps Let_def
    by (auto intro!: framed1_bind [OF framed_call [OF _ ct_write]] D_set_page B_ctl B_data)
qed (simp add: framed1_Some)

lemma B_gap: "R s (snd d) \<Longrightarrow> framed R s (fill_gap ct j a d)"
  using B_fill
  by (fastforce simp: fill_gap_def framed_def framed1_def Let_def split_beta bind_eq_Some_conv restore_ecc_def
      intro!: B_ctl B_data D_set_page split: if_splits)

lemma B_write: "R s t \<Longrightarrow> framed R s (ct_write_page ct t)"
  by (rule framed_call [OF _ ct_write])

lemma boot_copy_R: "boot_copy ct j a n d = Some x \<Longrightarrow> R (snd d) (snd (snd x))"
proof -
  have "boot_copy ct' j a n d = Some x \<Longrightarrow> ct' = ct \<longrightarrow> R (snd d) (snd (snd x))" for ct' x
  proof (erule boot_copy.raw_induct [rotated], intro impI, goal_cases)
    case (1 self ct' j a n d x)
    have self: "framed2 R (snd d) (self ct j a n e)" if "R (snd d) (snd e)" for a n e
      using 1(1) that trans by (fastforce simp: framed2_def)
    have "framed2 R (snd d) (Some x)"
      unfolding 1(2) [symmetric] 1(3) Let_def split_beta
      by (rule framed2_bind [OF B_gap])
        (auto intro!: framed2_bind [OF B_write] framed2_if framed2_Some framed2_None self B_page B_data B_page0(1,2) refl simp: split_beta Let_def)
    then show ?case
      by (cases x) (auto simp: framed2_def)
  qed
  then show "boot_copy ct j a n d = Some x \<Longrightarrow> R (snd d) (snd (snd x))"
    by blast
qed

lemma B_copy: "R s (snd d) \<Longrightarrow> framed2 R s (boot_copy ct j a n d)"
  using boot_copy_R trans by (fastforce simp: framed2_def)

lemma B_copies: "R s (snd d) \<Longrightarrow> framed2 R s (boot_copies ct j b is e n d)"
proof (induction "is" arbitrary: e n d)
  case (Cons i "is")
  obtain p t where d: "d = (p, t)" "R s t"
    using Cons.prems by (cases d) auto
  let ?d = "(p\<lparr>pd_ops := (pd_ops p)\<lparr>do_datbuf := b\<rparr>\<rparr>, set_data_buf b t)"
  have c: "framed2 R s (boot_copy ct j (ucast (pagesize (flash t) * (256 * of_nat i))) 0 ?d)"
    by (rule B_copy) (simp add: B_data d(2))
  show ?case
    unfolding d(1) boot_copies.simps Let_def prod.case
    using c by (rule framed2_bind2) (auto intro: Cons.IH)
qed (auto simp: framed2_def)

lemma B_ops: "R s t \<Longrightarrow> R s (boot_ops j p t)" "R s t \<Longrightarrow> R s (nand_boot_info_prepare b t)"
  unfolding boot_ops_def nand_boot_info_prepare_def Let_def by (intro D_ops I_mem; assumption)+

lemma B_uboot:
  assumes "R s t"
  shows "framed2 R s (write_uboot ct b (p, t))"
proof -
  have fin: "framed2 R s (Some (r, boot_done j (q, u)))" if "R s u" for r j q u
    using B_page0(3) [of s "(q, u)" j] that by (cases "boot_done j (q, u)") (simp add: framed2_def)
  show ?thesis
    unfolding write_uboot_def Let_def prod.case split_beta
    using B_page0(3)
    by (intro framed2_if framed2_None framed2_Some framed2_bind2 [OF B_copies] fin)
      (auto intro!: assms I_mem B_ops simp: framed2_def split_beta)
qed

lemma boot_erase_R: "boot_erase ct p a t = Some u \<Longrightarrow> R t u"
proof -
  have "boot_erase ct' p a t = Some u \<Longrightarrow> ct' = ct \<longrightarrow> R t u" for ct'
  proof (erule boot_erase.raw_induct [rotated], intro impI, goal_cases)
    case (1 self ct' p a t u)
    have self: "framed1 R t (self ct p a v)" if "R t v" for a v
      using 1(1) that trans by (fastforce simp: framed1_def)
    have "framed1 R t (Some u)"
      unfolding 1(2) [symmetric] 1(3) Let_def
      by (rule framed1_bind [OF framed_call [OF _ ct_select]])
        (auto intro!: framed1_bind [OF framed_call [OF _ ct_isbad]] framed1_bind1 framed1_if framed1_Some
          framed1_bind [OF framed_call [OF _ ct_erase]] D_set_page self refl)
    then show ?case
      by (simp add: framed1_def)
  qed
  then show "boot_erase ct p a t = Some u \<Longrightarrow> R t u"
    by blast
qed

lemma B_erase: "R s t \<Longrightarrow> framed1 R s (boot_erase ct p a t)"
  using boot_erase_R trans by (fastforce simp: framed1_def)

lemma B_oob:
  "R s t \<Longrightarrow> R s (set_oob_mod m t)" "R s t \<Longrightarrow> R s (aml_clr_reg32_mask hw P_NAND_CFG v t)"
  "R s t \<Longrightarrow> R s (aml_set_reg32_mask hw P_NAND_CFG v t)"
  using trans [OF trans [OF _ up_rd] up_cfg]
  by (auto simp: set_oob_mod_def aml_clr_reg32_mask_def aml_set_reg32_mask_def aml_read_reg32_def aml_write_reg32_def Let_def
      intro!: B_ctl)

lemma B_roomboot: "R s t \<Longrightarrow> framed2 R s (roomboot_nand_write hw ct b (p, t))"
  unfolding roomboot_nand_write_def Let_def prod.case
  by (auto intro!: framed2_if framed2_None framed2_Some framed2_bind1 [where R = R] framed1_if framed1_Some framed1_None B_erase
      B_uboot framed2_bind2 [OF B_uboot] B_oob D_ops)

lemma B_uboot_write: "R s t \<Longrightarrow> framed2 R s (uboot_write hw ct b buf data (p, t))"
  unfolding uboot_write_def Let_def prod.case
  by (auto intro!: framed2_if framed2_None framed2_Some framed2_bind1 [OF D_get_device] framed2_bind2 [OF B_roomboot]
      D_release_device I_mem)

end

section \<open>A refused boot write\<close>

definition boot_same :: "nand \<Rightarrow> nand \<Rightarrow> bool" where
  "boot_same s t \<longleftrightarrow> flash t = flash s \<and> block_status t = block_status s \<and> amlnf_readonly (amlnf t) = amlnf_readonly (amlnf s)
     \<and> same_lock s t"

lemma boot_same_trans: "boot_same s t \<Longrightarrow> boot_same t u \<Longrightarrow> boot_same s u"
  by (simp add: boot_same_def same_lock_def)

lemma boot_same_fields [simp]:
  "boot_same s s" "boot_same s (t\<lparr>controller := c\<rparr>) = boot_same s t" "boot_same s (t\<lparr>ops_para := q\<rparr>) = boot_same s t"
  "boot_same s (t\<lparr>mem := m\<rparr>) = boot_same s t" "boot_same s (set_page_addr a t) = boot_same s t"
  "boot_same s (set_data_buf b t) = boot_same s t" "boot_same s (die_adjust t) = boot_same s t"
  "boot_same s (t\<lparr>amlnf := amlnf_refuse_write w a (amlnf t)\<rparr>) = boot_same s t"
  by (simp_all add: boot_same_def same_lock_def set_page_addr_def set_data_buf_def die_adjust_def Let_def)

lemma boot_same_dev [simp]:
  "boot_same s (snd (enter_page0 j (p, t))) = boot_same s t" "boot_same s (snd (boot_done j (p, t))) = boot_same s t"
  "boot_same s (boot_page a t) = boot_same s t"
  by (simp_all add: enter_page0_def boot_done_def uboot_set_ran_mode_def boot_page_def Let_def)

interpretation boot_same: nand_frame boot_same hw plain_hooks for hw
  by unfold_locales (simp_all add: boot_same_def same_lock_def plain_hooks_def framed_def)

abbreviation "refusing s \<equiv> amlnf_readonly (amlnf s) \<noteq> 0"

lemma refused_writing: "refusing t \<Longrightarrow> boot_same s t \<Longrightarrow> \<exists>u. ct_write_page (chip_table hw hk ub) t = Some (- EROFS, u) \<and> boot_same s u"
  by (simp add: chip_table_def write_page_refused)

lemma refused_erasing: "refusing t \<Longrightarrow> boot_same s t \<Longrightarrow> \<exists>u. ct_erase_block (chip_table hw hk ub) t = Some (- EROFS, u) \<and> boot_same s u"
  by (simp add: chip_table_def erase_block_refused)

lemma refused_copy:
  assumes "refusing s" "boot_same s t" "first_page a t"
  shows "\<exists>q u. boot_copy (chip_table hw hk ub) j a n (p, t) = Some ((True, n), q, u) \<and> boot_same s u"
proof -
  obtain q v where v: "enter_page0 j (p, t) = (q, v)"
    by (cases "enter_page0 j (p, t)")
  then have sv: "boot_same s v"
    using boot_same_dev(1) [of s j p t] assms(2) by simp
  have fl: "flash v = flash t" "refusing v"
    using sv assms(1,2) by (auto simp: boot_same_def)
  have gap: "fill_gap ct j a (q, boot_page a v) = Some (q, boot_page a v)" for ct
    using assms(3) fl by (auto simp: fill_gap_def first_page_def boot_page_def set_page_addr_def Let_def)
  obtain u where "ct_write_page (chip_table hw hk ub) (boot_page a v) = Some (- EROFS, u)" "boot_same s u"
    using refused_writing [of "boot_page a v" s hw hk ub] sv fl by (auto simp: boot_page_def set_page_addr_def Let_def)
  then show ?thesis
    using assms(3) v gap by (subst boot_copy.simps) (simp add: EROFS_def)
qed

lemma wide_narrow: "ucast (ucast (x :: u32) :: u64) = x"
  by (rule bit_word_eqI) (simp add: bit_simps)

lemma copy_starts:
  assumes "pagesize (flash t) \<noteq> 0" "pagesize (flash t) \<le> 0x10000" "i < 4"
  shows "first_page (ucast (pagesize (flash t) * (256 * of_nat i))) t"
proof -
  let ?p = "pagesize (flash t)"
  have le: "unat ?p \<le> 0x10000"
    using assms(2) by (simp add: word_le_nat_alt)
  have i: "unat (256 * of_nat i :: u32) = 256 * i"
    using assms(3) by (subst unat_word_ariths) (simp add: unat_of_nat)
  have "unat ?p * (256 * i) < 2 ^ 32"
    using mult_le_mono [OF le, of "256 * i" "256 * 3"] assms(3) by simp
  then have "unat (?p * (256 * of_nat i)) = unat ?p * (256 * i)"
    by (subst unat_word_ariths) (simp add: i)
  then have "unat (?p * (256 * of_nat i) div ?p) = 256 * i"
    using assms(1) by (simp add: unat_div unat_gt_0)
  then have "unat ((?p * (256 * of_nat i) div ?p) mod 256) = 0"
    by (simp add: unat_mod)
  then show ?thesis
    by (simp add: first_page_def unat_eq_zero wide_narrow)
qed

lemma refused_copies:
  assumes "refusing s" "boot_same s t" "pagesize (flash s) \<noteq> 0" "pagesize (flash s) \<le> 0x10000" "\<forall>i\<in>set is. i < 4"
  shows "\<exists>n' q u. boot_copies (chip_table hw hk ub) j b is e n (p, t) = Some ((e + length is, n'), q, u) \<and> boot_same s u"
  using assms(2,5)
proof (induction "is" arbitrary: e n p t)
  case (Cons i "is")
  let ?t = "set_data_buf b t" and ?p = "p\<lparr>pd_ops := (pd_ops p)\<lparr>do_datbuf := b\<rparr>\<rparr>"
  have fl: "flash t = flash s" "flash ?t = flash s"
    using Cons.prems(1) by (simp_all add: boot_same_def set_data_buf_def)
  obtain q u where u: "boot_copy (chip_table hw hk ub) j (ucast (pagesize (flash t) * (256 * of_nat i))) 0 (?p, ?t) = Some ((True, 0), q, u)"
    "boot_same s u"
    using refused_copy [OF assms(1), of ?t "ucast (pagesize (flash t) * (256 * of_nat i))" hw hk ub j 0 ?p]
      copy_starts [of ?t i] Cons.prems assms(3,4) fl by auto
  moreover obtain n' q' v where "boot_copies (chip_table hw hk ub) j b is (e + 1) 0 (q, u) = Some ((e + 1 + length is, n'), q', v)" "boot_same s v"
    using Cons.IH [OF u(2), of "e + 1" 0 q] Cons.prems(2) by auto
  ultimately show ?case
    by simp
qed auto

text \<open>The erase loop runs to the end of the boot area, refused at every block.\<close>

definition chipnr_same :: "nand \<Rightarrow> nand \<Rightarrow> bool" where
  "chipnr_same s t \<longleftrightarrow> op_chipnr (ops_para t) = op_chipnr (ops_para s)"

interpretation chipnr_same: nand_frame chipnr_same hw plain_hooks for hw
  by unfold_locales (simp_all add: chipnr_same_def plain_hooks_def framed_def)

lemma select_zero:
  assumes "boot_same s t"
  shows "\<exists>u. ct_select_chip (chip_table hw hk ub) 0 t = Some (0, u) \<and> boot_same s u \<and> op_chipnr (ops_para u) = op_chipnr (ops_para t)"
proof -
  obtain u where u: "controller_select_chip hw 0 t = Some (0, u)"
    by (simp add: controller_select_chip_def Let_def)
  then show ?thesis
    using boot_same.R_select [OF assms, of hw 0] chipnr_same.R_select [OF chipnr_same.refl, of t hw 0]
    by (simp add: chip_table_def framed_def chipnr_same_def)
qed

lemma isbad_known:
  assumes "boot_same s t" "block_status s \<noteq> NULL"
  shows "\<exists>r u. ct_block_isbad (chip_table hw hk ub) t = Some (r, u) \<and> boot_same s u \<and> ops_para u = ops_para t"
proof -
  have "block_status (die_adjust t) \<noteq> NULL"
    using assms by (simp add: boot_same_def die_adjust_def Let_def)
  then show ?thesis
    using assms(1) by (simp add: chip_table_def block_isbad_def Let_def) (simp add: die_adjust_def Let_def)
qed

lemma refused_block:
  assumes "refusing s" "block_status s \<noteq> NULL" "boot_same s t" "op_chipnr (ops_para t) = 0"
  shows "\<exists>u. boot_same s u \<and> op_chipnr (ops_para u) = 0 \<and> boot_erase (chip_table hw hk ub) p a t =
     (if a + ucast (erasesize p) < ucast (1024 * pagesize (flash s))
      then boot_erase (chip_table hw hk ub) p (a + ucast (erasesize p)) u else Some u)"
proof -
  let ?ct = "chip_table hw hk ub" and ?t = "set_page_addr (ucast a div pagesize (flash t)) t"
  have t: "boot_same s ?t" "op_chipnr (ops_para ?t) = 0"
    using assms by simp_all (simp add: set_page_addr_def)
  obtain v where v: "ct_select_chip ?ct 0 ?t = Some (0, v)" "boot_same s v" "op_chipnr (ops_para v) = op_chipnr (ops_para ?t)"
    using select_zero [OF t(1)] by blast
  obtain r w where w: "ct_block_isbad ?ct v = Some (r, w)" "boot_same s w" "ops_para w = ops_para v"
    using isbad_known [OF v(2) assms(2)] by blast
  let ?w = "if new_type (flash w) = SANDISK_19NM \<and> has (op_option (ops_para w)) DEV_SLC_MODE
    then set_page_addr (slc_page w (op_page_addr (ops_para w))) w else w"
  have w': "boot_same s ?w" "op_chipnr (ops_para ?w) = 0"
    using w v(3) t(2) by (simp_all add: set_page_addr_def)
  then have "refusing ?w"
    using assms(1) by (simp add: boot_same_def)
  then obtain x where x: "ct_erase_block ?ct ?w = Some (- EROFS, x)" "boot_same s x" "ops_para x = ops_para ?w"
    using w'(1) by (simp add: chip_table_def erase_block_refused)
  let ?u = "if r = uint NAND_BLOCK_FACTORY_BAD then w else x"
  have "boot_same s ?u" "op_chipnr (ops_para ?u) = 0"
    using w w' x v(3) t(2) by simp_all
  moreover have "flash ?u = flash s"
    using \<open>boot_same s ?u\<close> by (simp add: boot_same_def)
  moreover have "boot_erase ?ct p a t = (if a + ucast (erasesize p) < ucast (1024 * pagesize (flash ?u))
      then boot_erase ?ct p (a + ucast (erasesize p)) ?u else Some ?u)"
    using v w x t(2) by (subst boot_erase.simps) (simp add: Let_def)
  ultimately show ?thesis
    by metis
qed

lemma unat_bound: "unat (w :: u32) < 2 ^ 32"
  using unsigned_less [of w] by simp

lemma next_block_less:
  assumes "e \<noteq> 0" "a + ucast e < (ucast lim :: u64)" "unat a < 2 ^ 33"
  shows "unat (ucast lim :: u64) - unat (a + ucast (e :: u32)) < unat (ucast (lim :: u32) :: u64) - unat a \<and> unat (a + ucast e) < 2 ^ 33"
proof -
  have e: "unat (ucast e :: u64) = unat e" "0 < unat e" "unat e < 2 ^ 32" "unat lim < 2 ^ 32" "unat (ucast lim :: u64) = unat lim"
    using assms(1) unat_bound [of e] unat_bound [of lim] by (simp_all add: unat_gt_0)
  have "unat (a + ucast e) = unat a + unat e"
    using e assms(3) by (subst unat_word_ariths) simp
  then show ?thesis
    using e assms(2) by (simp add: word_less_nat_alt)
qed

lemma refused_erase:
  assumes "refusing s" "block_status s \<noteq> NULL" "erasesize p \<noteq> 0"
  shows "boot_same s t \<Longrightarrow> op_chipnr (ops_para t) = 0 \<Longrightarrow> unat a < 2 ^ 33 \<Longrightarrow>
     \<exists>u. boot_erase (chip_table hw hk ub) p a t = Some u \<and> boot_same s u"
proof (induction "unat (ucast (1024 * pagesize (flash s)) :: u64) - unat a" arbitrary: a t rule: less_induct)
  case less
  obtain u where u: "boot_same s u" "op_chipnr (ops_para u) = 0" "boot_erase (chip_table hw hk ub) p a t =
     (if a + ucast (erasesize p) < ucast (1024 * pagesize (flash s))
      then boot_erase (chip_table hw hk ub) p (a + ucast (erasesize p)) u else Some u)"
    using refused_block [OF assms(1,2) less.prems(1,2)] by blast
  show ?case
  proof (cases "a + ucast (erasesize p) < (ucast (1024 * pagesize (flash s)) :: u64)")
    case True
    then show ?thesis
      using less.hyps [OF _ u(1,2)] next_block_less [OF assms(3) True less.prems(3)] u(3) by simp
  qed (use u in simp)
qed

lemma refused_uboot:
  assumes "refusing s" "boot_same s t" "pagesize (flash s) \<noteq> 0" "pagesize (flash s) \<le> 0x10000" "\<not> out_of_space p"
    and "bb_oob b \<noteq> NULL" "bb_page0 b \<noteq> NULL" "bb_fill b \<noteq> NULL"
  shows "\<exists>r q u. write_uboot (chip_table hw hk ub) b (p, t) = Some (r, q, u) \<and> 0 \<le> r \<and> boot_same s u"
proof (cases "do_len (pd_ops p) = 0 \<and> do_ooblen (pd_ops p) = 0 \<or> do_addr (pd_ops p) \<noteq> 0")
  case True
  then show ?thesis
    using assms by (auto simp: write_uboot_def Let_def c_consts)
next
  case False
  let ?n = "unat (ecc_steps (controller t)) * unat (user_mode (controller t))"
  let ?j = "\<lparr>bj_saved = controller t, bj_writesize = writesize p, bj_len = do_len (pd_ops p), bj_oob = bb_oob b,
     bj_page0 = bb_page0 b, bj_fill = bb_fill b\<rparr> :: boot_job"
  let ?m = "memset (bb_fill b) 0xff (unat (pagesize (flash t)))
     (oob_pattern ?n (bb_oob b) (memset (bb_page0 b) 0 (unat (pagesize (flash t))) (memset (bb_oob b) 0 ?n (mem t))))"
  let ?t = "nand_boot_info_prepare (bb_page0 b) (boot_ops ?j p (t\<lparr>mem := ?m\<rparr>))"
  have fl: "flash t = flash s" and t: "boot_same s ?t"
    using assms(2) by (simp_all add: nand_boot_info_prepare_def boot_ops_def Let_def) (simp add: boot_same_def)
  obtain n q u where u: "boot_copies (chip_table hw hk ub) ?j (do_datbuf (pd_ops p)) [0..<4] 0 0 (p, ?t) = Some ((0 + length [0..<4], n), q, u)"
    "boot_same s u"
    using refused_copies [OF assms(1) t assms(3,4), of "[0..<4]" hw hk ub ?j "do_datbuf (pd_ops p)" 0 0 p] by auto
  obtain q' v where v: "boot_done ?j (q, u) = (q', v)" "boot_same s v"
    using boot_same_dev(2) [of s ?j q u] u(2) by (cases "boot_done ?j (q, u)") simp
  have "write_uboot (chip_table hw hk ub) b (p, t) = Some (1, set_retlen n q', v)"
    unfolding write_uboot_def using assms(3,5-8) False u(1) v(1) fl by (auto simp: Let_def)
  then show ?thesis
    using v(2) by simp
qed

text \<open>
  What \<open>uboot_write\<close> asks \<open>roomboot_nand_write\<close> to store for an image of
  \<open>n\<close> bytes.
\<close>

definition image_dev :: "nat \<Rightarrow> ptr \<Rightarrow> amlnand_phydev \<Rightarrow> amlnand_phydev" where
  "image_dev n buf p = p\<lparr>pd_ops := boot_request (ucast ((of_nat n + writesize p - 1) div writesize p * writesize p)) buf\<rparr>"

definition image_fits :: "amlnand_phydev \<Rightarrow> nand \<Rightarrow> bool" where
  "image_fits p s \<longleftrightarrow> boot_len p s AND ucast (writesize p - 1) = 0 \<and> boot_len p s \<le> pd_size p div 4"

lemma image_dev_fields [simp]:
  "writesize (image_dev n b p) = writesize p" "pd_offset (image_dev n b p) = pd_offset p" "erasesize (image_dev n b p) = erasesize p"
  "pd_size (image_dev n b p) = pd_size p" "do_addr (pd_ops (image_dev n b p)) = 0"
  by (simp_all add: image_dev_def boot_request_def)

lemma boot_len_same: "boot_same s t \<Longrightarrow> boot_len p t = boot_len p s"
  by (simp add: boot_len_def boot_same_def)

lemma refused_roomboot:
  assumes "refusing s" "boot_same s t" "block_status s \<noteq> NULL" "oob_mod (controller t) = 0"
    and "pagesize (flash s) \<noteq> 0" "pagesize (flash s) \<le> 0x10000" "erasesize p \<noteq> 0" "writesize p \<noteq> 0" "pd_offset p = 0"
    and "do_addr (pd_ops p) = 0" "image_fits p s"
    and "bb_oob b \<noteq> NULL" "bb_page0 b \<noteq> NULL" "bb_fill b \<noteq> NULL"
  shows "\<exists>r q u. roomboot_nand_write hw (chip_table hw hk ub) b (p, t) = Some (r, q, u) \<and> 0 \<le> r \<and> boot_same s u"
proof -
  let ?ops = "ops_zero\<lparr>op_option := (if new_type (flash t) = SANDISK_19NM then pd_option p OR DEV_SLC_MODE else pd_option p)\<rparr>"
  have fl: "flash t = flash s" and len: "boot_len p t = boot_len p s"
    using assms(2) by (simp_all add: boot_same_def boot_len_same [OF assms(2)])
  obtain u where u: "boot_erase (chip_table hw hk ub) p 0 (t\<lparr>ops_para := ?ops\<rparr>) = Some u" "boot_same s u"
    using refused_erase [OF assms(1,3,7), of "t\<lparr>ops_para := ?ops\<rparr>" 0 hw hk ub] assms(2) by (auto simp: ops_zero_def)
  let ?p = "p\<lparr>pd_ops := boot_request (boot_len p s) (do_datbuf (pd_ops p))\<rparr>"
  have "pd_size p div 4 \<le> pd_size p"
    by (simp add: word_le_nat_alt unat_div)
  then have "\<not> out_of_space ?p"
    using assms(11) by (auto simp: out_of_space_def boot_request_def image_fits_def)
  then obtain r q v where "write_uboot (chip_table hw hk ub) b (?p, u) = Some (r, q, v)" "0 \<le> r" "boot_same s v"
    using refused_uboot [OF assms(1) u(2) assms(5,6)] assms(12-14) by blast
  then show ?thesis
    using u(1) assms(4,5,8-11) fl len by (auto simp: roomboot_nand_write_def Let_def image_fits_def not_less)
qed

lemma refused_uboot_write:
  assumes "refusing s" "chip_idle s" "\<forall>u. 0 \<le> pin_select hk u" "block_status s \<noteq> NULL" "oob_mod (controller s) = 0"
    and "pagesize (flash s) \<noteq> 0" "pagesize (flash s) \<le> 0x10000" "erasesize p \<noteq> 0" "writesize p \<noteq> 0" "pd_offset p = 0"
    and "image_fits (image_dev (length data) buf p) s"
    and "buf \<noteq> NULL" "bb_oob b \<noteq> NULL" "bb_page0 b \<noteq> NULL" "bb_fill b \<noteq> NULL"
  shows "\<exists>q t. uboot_write hw (chip_table hw hk ub) b buf data (p, s) = Some (length data, q, t) \<and> chip_idle t"
proof -
  define m where "m = store_bytes buf data (memset buf 0 (unat ((of_nat (length data) + writesize p - 1) div writesize p * writesize p)) (mem s))"
  let ?s = "s\<lparr>mem := m, state := CHIP_WRITING, spi_nand_mutex := True, nand_idleflag := True\<rparr>"
  have get: "amlnand_get_device (chip_table hw hk ub) CHIP_WRITING (s\<lparr>mem := m\<rparr>) = Some ?s"
    using get_device_ready [of "s\<lparr>mem := m\<rparr>" hk CHIP_WRITING hw ub] assms(2,3) by (simp add: chip_idle_def)
  have fits: "image_fits (image_dev (length data) buf p) ?s"
    using assms(11) by (simp add: image_fits_def boot_len_def)
  obtain r q u where u: "roomboot_nand_write hw (chip_table hw hk ub) b (image_dev (length data) buf p, ?s) = Some (r, q, u)"
    "0 \<le> r" "boot_same ?s u"
    using refused_roomboot [of ?s ?s "image_dev (length data) buf p" b hw hk ub] assms fits by auto
  have "uboot_write hw (chip_table hw hk ub) b buf data (p, s) = Some (length data, q, amlnand_release_device u)"
    using assms(9,12) get u(1,2) by (simp add: uboot_write_def Let_def image_dev_def m_def)
  moreover have "chip_idle (amlnand_release_device u)"
    using u(3) by (simp add: boot_same_def same_lock_def chip_idle_def amlnand_release_device_def nand_release_chip_def set_chip_state_def)
  ultimately show ?thesis
    by blast
qed

sublocale guarded_table \<subseteq> boot: boot_frame guarded "chip_table hw hk ub" hw
proof unfold_locales
  fix s :: nand and c v
  show "chip_selected c = chip_selected (controller s) \<Longrightarrow> ce_enable c = ce_enable (controller s) \<Longrightarrow> guarded s (s\<lparr>controller := c\<rparr>)"
    by (simp add: guarded_def bus_safe_def ce_ok_def)
  show "guarded s (nfc_event hw (Wr P_NAND_CFG v) s)" "guarded s (nfc_event hw (Rd P_NAND_CFG) s)"
    by (simp_all add: guarded_def bus_safe_event)
qed

context guarded_table
begin

lemma boot_guarded: "uboot_write hw (chip_table hw hk ub) b buf data (p, s) = Some (r, q, t) \<Longrightarrow> guarded s t"
  using boot.B_uboot_write [OF guarded_refl] by (fastforce simp: framed2_def)

end


definition demo_boot :: amlnand_phydev where
  "demo_boot = demo_dev\<lparr>pd_name := ''nfboot'', pd_offset := 0, pd_size := 0x800000\<rparr>"

definition demo_boot_bufs :: boot_bufs where
  "demo_boot_bufs = \<lparr>bb_oob = 1000000, bb_page0 = 1100000, bb_fill = 1200000\<rparr>"

lemma demo_image_fits: "image_fits (image_dev (length [1, 2, 3 :: u8]) 1300000 demo_boot) demo_nand"
  by (simp add: image_fits_def image_dev_def boot_len_def boot_request_def demo_boot_def demo_dev_def demo_nand_def demo_flash_def
      slc_type_def)

lemma all_less_4: "(\<forall>i<4. P i) \<longleftrightarrow> P 0 \<and> P 1 \<and> P 2 \<and> P (3 :: nat)"
  by (auto simp: less_Suc_eq eval_nat_numeral)

lemma demo_ce_ok: "ce_ok demo_nand"
  by (simp add: ce_ok_def ce_word_def demo_nand_def demo_ctl_def all_less_4)


end
