(* ===== verification/ProbeProps.thy ===== *)
theory ProbeProps
  imports VendorProps InfoProps ChipId
begin

text \<open>
  Identification: it sends no command that programs or erases, leaves the
  select lines valid, and numbers the chips it finds without gaps.
\<close>

section \<open>Starting programs nothing\<close>

context nand_frame
begin

lemma R_read_bytes: "R s t \<Longrightarrow> R s (read_bytes hw n buf t)"
  by (induction n arbitrary: buf t) (simp_all add: Let_def split_beta R_mem R_read_byte)

lemma R_write_bytes: "R s t \<Longrightarrow> R s (write_bytes hw n buf t)"
  by (induction n arbitrary: buf t) (simp_all add: R_write_byte)

lemma R_read_id: "R s t \<Longrightarrow> framed R s (read_id hw n a buf t)"
  unfolding read_id_def Let_def
  by (intro framed_if framed_Some framed_bind [OF R_select] framed_bind [OF R_reset] framed_case_prod R_read_bytes R_idle R_ale
      R_cle opcodes; (assumption | simp)?)

lemma R_get_onfi: "R s t \<Longrightarrow> framed R s (get_onfi_chips hw cs buf a t)"
proof (induction cs arbitrary: t)
  case (Cons c cs)
  show ?case
    unfolding get_onfi_chips.simps Let_def
    by (rule framed_bind [OF R_select [OF Cons.prems]]) (auto intro!: Cons.IH R_read_bytes R_idle R_ale R_cle opcodes)
qed (simp add: framed_Some)

lemma R_set_onfi: "R s t \<Longrightarrow> framed R s (set_onfi_chips hw cs k buf a t)"
proof (induction cs arbitrary: k t)
  case (Cons c cs)
  show ?case
    unfolding set_onfi_chips.simps Let_def
    by (rule framed_bind [OF R_select [OF Cons.prems]])
      (auto intro!: framed_case_prod framed_if framed_Some Cons.IH R_poll_fifo R_write_bytes R_idle R_ale R_cle opcodes)
qed (simp add: framed_Some)

end

lemma bus_safe_ctl:
  "chip_selected c = chip_selected (controller s) \<Longrightarrow> ce_enable c = ce_enable (controller s) \<Longrightarrow> bus_safe s (s\<lparr>controller := c\<rparr>)"
  "bus_safe s (s\<lparr>flash := f\<rparr>)"
  by (simp_all add: bus_safe_def ce_ok_def)

lemmas safe_step = bus_safe_trans [OF _ bus_safe_ctl(1)] bus_safe_trans [OF _ bus_safe_ctl(2)]

lemma bus_safe_cfg:
  "bus_safe s t \<Longrightarrow> bus_safe s (aml_write_reg32 hw P_NAND_CFG v t)"
  "bus_safe s t \<Longrightarrow> bus_safe s (snd (aml_read_reg32 hw r t))"
  unfolding aml_write_reg32_def aml_read_reg32_def Let_def
  by (auto intro!: bus_safe_trans [OF _ bus_safe_event])

lemma ext_id_safe: "bus_safe s t \<Longrightarrow> bus_safe s (snd (ext_id hw t))"
  by (simp add: ext_id_def Let_def split_beta safe_step plain.R_read_byte)

lemma mem_safe: "bus_safe s t \<Longrightarrow> bus_safe s (t\<lparr>mem := m\<rparr>)"
  by (rule plain.R_mem)

lemma framed_case_option:
  "(x = None \<Longrightarrow> framed R s y) \<Longrightarrow> (\<And>a. x = Some a \<Longrightarrow> framed R s (f a)) \<Longrightarrow> framed R s (case x of None \<Rightarrow> y | Some a \<Rightarrow> f a)"
  by (cases x) simp_all

lemma set_geometry_safe: "bus_safe s t \<Longrightarrow> framed1 bus_safe s (set_geometry t)"
  by (auto simp: set_geometry_def Let_def framed1_def intro: safe_step)

lemma flash_type_tail_safe:
  assumes "bus_safe s t"
  shows "framed bus_safe s (do {
            (ret, u) \<leftarrow> read_id hw 0 0x20 dev_id t;
            if ret < 0 then Some (ret, u)
            else do {
              u \<leftarrow> set_geometry u;
              Some (ret, if mem_bytes (mem u) dev_id 4 = bytes_of ''ONFI''
                then u\<lparr>controller := (controller u)\<lparr>onfi_mode := ucast (fl_onfi_mode (flash u))\<rparr>\<rparr> else u)
            }
          })"
  by (rule framed_bind [OF plain.R_read_id [OF assms]])
    (auto intro!: framed_if framed_Some framed_bind1 [OF set_geometry_safe] safe_step)

lemma get_flash_type_safe:
  assumes "bus_safe s t"
  shows "framed bus_safe s (get_flash_type hw b t)"
  unfolding get_flash_type_def Let_def
  by (rule framed_bind [OF plain.R_read_id [OF mem_safe [OF assms]]])
    (auto intro!: framed_if framed_Some framed_case_option framed_case_prod ext_id_safe safe_step flash_type_tail_safe split: prod.splits)

lemma pad_select_ce: "ce_word (pad_select pads i)"
  unfolding ce_word_def pad_select_def
proof (rule bit_word_eqI)
  have "(15 :: u32) = mask 4" "(0x3c00 :: u32) = push_bit 10 (mask 4)"
    by (simp_all add: mask_eq_exp_minus_1)
  then show "bit (push_bit 10 (drop_bit (i * 4) pads AND 15) AND 0x3c00) n = bit (push_bit 10 (drop_bit (i * 4) pads AND 15)) n" for n
    by (auto simp: bit_simps)
qed

lemma nth_update: "xs[n := w] ! i = (if i = n \<and> n < length xs then w else xs ! i)"
  by (cases "n < length xs") (auto simp: nth_list_update list_update_beyond)

lemma note_chip_safe:
  assumes "bus_safe s t"
  shows "bus_safe s (note_chip i n t)"
proof (rule bus_safe_trans [OF assms])
  show "bus_safe t (note_chip i n t)"
    by (auto simp: bus_safe_def note_chip_def ce_ok_def nth_update pad_select_ce)
qed

lemma scan_chips_safe: "bus_safe s t \<Longrightarrow> framed bus_safe s (scan_chips hw b cs n m t)"
proof (induction cs arbitrary: n m t)
  case (Cons c cs)
  show ?case
    unfolding scan_chips.simps
    by (rule framed_bind [OF plain.R_read_id [OF mem_safe [OF Cons.prems]]])
      (auto intro!: framed_if Cons.IH note_chip_safe)
qed (simp add: framed_Some)

lemma onfi_timing_safe: "bus_safe s t \<Longrightarrow> framed1 bus_safe s (set_onfi_timing hw b t)"
  unfolding set_onfi_timing_def set_onfi_features_def get_onfi_features_def Let_def
  by (auto intro!: framed1_if framed1_Some framed1_bind [OF plain.R_set_onfi] framed1_bind [OF plain.R_get_onfi] mem_safe safe_step
      split: prod.splits)

lemma get_chip_safe: "bus_safe s t \<Longrightarrow> framed1 bus_safe s (nand_get_chip hk t)"
  unfolding nand_get_chip_def Let_def by (intro framed1_if framed1_None framed1_Some plain.R_idleflag plain.R_mutex)

lemma chip_scan_safe:
  assumes "bus_safe s t"
  shows "framed bus_safe s (amlnand_chip_scan hw hk b t)"
  unfolding amlnand_chip_scan_def Let_def
  by (rule framed_bind1 [OF get_chip_safe [OF assms]], rule framed_bind [OF get_flash_type_safe], assumption)
    (auto intro!: framed_if framed_Some framed_bind [OF scan_chips_safe] framed_bind1 [OF onfi_timing_safe]
      plain.R_release_chip safe_step)

lemma buf_init_safe: "bus_safe s t \<Longrightarrow> framed bus_safe s (nand_buf_init a t)"
  by (auto simp: nand_buf_init_def Let_def framed_def free_user_def bind_eq_Some_conv split: if_splits intro!: safe_step)

lemma send_safe: "bus_safe s t \<Longrightarrow> drop_bit 14 w \<noteq> 5 \<Longrightarrow> bus_safe s (NFC_SEND_CMD hw w t)"
  unfolding NFC_SEND_CMD_def aml_write_reg32_def by (rule bus_safe_trans [OF _ bus_safe_cmd])

lemma cfg_safe:
  "bus_safe s t \<Longrightarrow> bus_safe s (aml_set_reg32_mask hw P_NAND_CFG m t)"
  "bus_safe s t \<Longrightarrow> bus_safe s (NFC_SET_TIMING_ASYC hw x y t)"
  by (simp_all add: aml_set_reg32_mask_def NFC_SET_TIMING_ASYC_def aml_set_reg32_bits_def Let_def split_beta bus_safe_cfg)

lemma adjust_timing_safe: "bus_safe s t \<Longrightarrow> bus_safe s (snd (controller_adjust_timing hw t))"
  unfolding controller_adjust_timing_def Let_def snd_conv
  by (intro send_safe plain.R_if safe_step cfg_safe bus_safe_cfg) simp_all

lemma confirm_safe:
  "bus_safe s t \<Longrightarrow> bus_safe s (aml_chip_rb_mode_confirm t)" "bus_safe s t \<Longrightarrow> bus_safe s (snd (controller_ecc_confirm t))"
  by (auto simp: aml_chip_rb_mode_confirm_def controller_ecc_confirm_def ecc_select_def ecc_setup_def ecc_layout_def Let_def
      intro!: safe_step split: option.splits if_splits)

lemma freed_safe: "bus_safe s t \<Longrightarrow> framed bus_safe s (nand_buf_free t \<bind> (\<lambda>fr. Some ((r, fr), t)))"
  by (auto simp: framed_def bind_eq_Some_conv)

lemma chip_init_safe:
  assumes "bus_safe s t"
  shows "framed bus_safe s (amlnand_chip_init hw hk b a t)"
  unfolding amlnand_chip_init_def Let_def
  by (rule framed_bind [OF chip_scan_safe [OF assms]])
    (auto intro!: framed_if framed_Some freed_safe framed_bind [OF buf_init_safe] framed_case_prod adjust_timing_safe
      confirm_safe split: prod.splits)

lemma hwcontroller_init_ce:
  assumes "chip_selected (controller s) = 0" "amlnand_hwcontroller_init hw s = (r, t)"
  shows "ce_ok t \<and> (\<exists>evs. bus t = evs @ bus s \<and> list_all safe_ev evs)"
proof -
  let ?c = "(controller s)\<lparr>ce_enable := map (pad_select CE_PAD_DEFAULT) [0..<MAX_CHIP_NUM],
     rb_enable := map (pad_select RB_PAD_DEFAULT) [0..<MAX_CHIP_NUM],
     ctl_option := (ctl_option (controller s) OR NAND_CTRL_NONE_RB) OR 0xc0\<rparr>"
  let ?s = "s\<lparr>controller := ?c\<rparr>"
  have ce: "ce_ok ?s"
    using assms(1) by (auto simp: ce_ok_def pad_select_ce ce_word_def [of 0])
  have "bus_safe ?s (snd (controller_hw_init hw ?s))"
    unfolding controller_hw_init_def Let_def snd_conv by (intro send_safe cfg_safe bus_safe_cfg bus_safe_refl) simp
  then have "bus_safe ?s t"
    using assms(2) by (auto simp: amlnand_hwcontroller_init_def Let_def split_beta intro: safe_step)
  then show ?thesis
    using ce by (simp add: bus_safe_def)
qed

section \<open>Chip numbers\<close>

definition pads_same :: "nand \<Rightarrow> nand \<Rightarrow> bool" where
  "pads_same s t \<longleftrightarrow> ce_enable (controller t) = ce_enable (controller s)
     \<and> flash_type (controller t) = flash_type (controller s)"

interpretation pads: nand_frame pads_same hw plain_hooks for hw
  by unfold_locales (simp_all add: pads_same_def plain_hooks_def framed_def)

lemma scan_chips_numbers:
  assumes "scan_chips hw b is n m s = Some ((n', m'), t)" "distinct is" "\<forall>i\<in>set is. i < 8 \<and> \<not> bit m i"
    and "length (ce_enable (controller s)) = 4" "length cs + length is \<le> 4" "n = length cs"
    and "take n (ce_enable (controller s)) = map (pad_select CE_PAD_DEFAULT) cs"
  shows "n' = n + length (filter (bit m') is) \<and> (\<forall>j. j \<notin> set is \<longrightarrow> bit m' j = bit m j)
    \<and> take n' (ce_enable (controller t)) = map (pad_select CE_PAD_DEFAULT) (cs @ filter (bit m') is)"
  using assms
proof (induction "is" arbitrary: n m s cs)
  case (Cons i "is")
  from Cons.prems(1) obtain r u where u: "read_id hw (of_nat i) 0 b (s\<lparr>mem := memset b 0 8 (mem s)\<rparr>) = Some (r, u)"
    by (auto simp: bind_eq_Some_conv)
  have same: "ce_enable (controller u) = ce_enable (controller s)"
    using pads.R_read_id [OF pads.refl, of "s\<lparr>mem := memset b 0 8 (mem s)\<rparr>" hw "of_nat i" 0 b] u
    by (simp add: framed_def pads_same_def)
  show ?case
  proof (cases "r < 0 \<or> \<not> same_flash b u")
    case True
    then have run: "scan_chips hw b is n m u = Some ((n', m'), t)"
      using Cons.prems(1) u by simp
    have IH: "n' = n + length (filter (bit m') is) \<and> (\<forall>j. j \<notin> set is \<longrightarrow> bit m' j = bit m j)
      \<and> take n' (ce_enable (controller t)) = map (pad_select CE_PAD_DEFAULT) (cs @ filter (bit m') is)"
      by (rule Cons.IH [OF run]) (use Cons.prems same in auto)
    have "\<not> bit m' i"
      using IH Cons.prems(2,3) by auto
    then show ?thesis
      using IH by auto
  next
    case False
    then have run: "scan_chips hw b is (n + 1) (m OR push_bit i 1) (note_chip i n u) = Some ((n', m'), t)"
      using Cons.prems(1) u by simp
    have ce: "ce_enable (controller (note_chip i n u)) = (ce_enable (controller s))[n := pad_select CE_PAD_DEFAULT i]"
      by (simp add: note_chip_def same)
    have tk: "take (n + 1) ((ce_enable (controller s))[n := pad_select CE_PAD_DEFAULT i]) = map (pad_select CE_PAD_DEFAULT) (cs @ [i])"
      using Cons.prems(4-7) by (simp add: take_Suc_conv_app_nth take_update_cancel)
    have IH: "n' = (n + 1) + length (filter (bit m') is) \<and> (\<forall>j. j \<notin> set is \<longrightarrow> bit m' j = bit (m OR push_bit i 1) j)
      \<and> take n' (ce_enable (controller t)) = map (pad_select CE_PAD_DEFAULT) ((cs @ [i]) @ filter (bit m') is)"
      by (rule Cons.IH [OF run]) (use Cons.prems ce tk in \<open>auto simp: bit_simps\<close>)
    have "bit m' i"
      using IH Cons.prems(2,3) by (auto simp: bit_simps)
    moreover have "bit (m OR push_bit i 1) j = bit m j" if "j \<noteq> i" for j
      using that by (auto simp: bit_simps)
    ultimately show ?thesis
      using IH by auto
  qed
qed simp

lemma demo_buf: "fst (nandphy_readb demo_hw s) = 0xe0"
  by (simp add: nandphy_readb_def aml_read_reg32_def demo_hw_def Let_def)

lemma demo_read_byte: "fst (controller_read_byte demo_hw s) = 0xe0" "mem (snd (controller_read_byte demo_hw s)) = mem s"
  by (simp_all only: controller_read_byte_def Let_def demo_buf)
    (simp add: nandphy_readb_def aml_read_reg32_def NFC_SEND_CMD_def aml_write_reg32_def idle_def
      NFC_SEND_CMD_IDLE_def demo_wait nfc_event_def Let_def demo_dma)

lemma demo_read_bytes: "mem (read_bytes demo_hw n b s) = memset b 0xe0 n (mem s)"
  by (induction n arbitrary: b s)
    (auto simp: memset_def Let_def split_beta demo_read_byte fun_eq_iff)

lemma demo_quene_rb:
  assumes "has (ctl_option (controller s)) NAND_CTRL_NONE_RB" "c < 4"
  shows "\<exists>t. controller_quene_rb demo_hw c s = Some (0, t)"
  using assms by (simp add: controller_quene_rb_def controller_select_chip_def Let_def ctl_option_kept
        demo_poll_status busy_limit_def)

lemma demo_reset:
  assumes "has (ctl_option (controller s)) NAND_CTRL_NONE_RB" "c < 4"
  shows "\<exists>t. nand_reset demo_hw c s = Some (0, t)"
proof -
  have "tables_same s (idle demo_hw 0 (idle demo_hw 10 (cle demo_hw 0xff (idle demo_hw 0 s))))"
    by (intro tables.R_rules tables.opcodes tables.refl)
  then have "has (ctl_option (controller (idle demo_hw 0 (idle demo_hw 10 (cle demo_hw 0xff (idle demo_hw 0 s)))))) NAND_CTRL_NONE_RB"
    using assms(1) by (simp add: tables_same_def)
  then obtain t where "controller_quene_rb demo_hw c (idle demo_hw 0 (idle demo_hw 10 (cle demo_hw 0xff (idle demo_hw 0 s)))) = Some (0, t)"
    using demo_quene_rb [OF _ assms(2)] by blast
  then show ?thesis
    by (simp add: nand_reset_def Let_def split_beta demo_read_byte has_def c_consts)
qed

lemma demo_read_id:
  assumes "has (ctl_option (controller s)) NAND_CTRL_NONE_RB" "c < 4" "b \<noteq> NULL"
  shows "\<exists>t m. read_id demo_hw c a b s = Some (0, t) \<and> mem t = memset b 0xe0 8 m \<and> tables_same s t"
proof -
  obtain u where u: "controller_select_chip demo_hw c s = Some (0, u)"
    using assms(2) by (simp add: controller_select_chip_def Let_def)
  then have "tables_same s u"
    using tables.R_select [OF tables.refl, of s demo_hw c] by (simp add: framed_def)
  then have "has (ctl_option (controller u)) NAND_CTRL_NONE_RB"
    using assms(1) by (simp add: tables_same_def)
  then obtain t where "nand_reset demo_hw c u = Some (0, t)"
    using demo_reset [OF _ assms(2)] by blast
  then have "\<exists>t m. read_id demo_hw c a b s = Some (0, t) \<and> mem t = memset b 0xe0 8 m"
    using u assms(3) by (auto simp: read_id_def Let_def demo_read_bytes)
  then show ?thesis
    using tables.R_read_id [OF tables.refl, of s demo_hw c a b] by (auto simp: framed_def)
qed

text \<open>
  C28.  The search for further chips numbers them without gaps: the count it
  returns is the number of lines that answered, and the entry of the select
  table for the k-th chip is the pad of the k-th line that answered, so that
  the chip numbers the rest of the driver uses address exactly the chips found.
\<close>

theorem chips_numbered:
  assumes "scan_chips hw b [1..<MAX_CHIP_NUM] 1 1 s = Some ((n, m), t)"
    and "ce_enable (controller s) = map (pad_select CE_PAD_DEFAULT) [0..<MAX_CHIP_NUM]"
  shows "n = length (filter (bit m) [0..<MAX_CHIP_NUM])
    \<and> take n (ce_enable (controller t)) = map (pad_select CE_PAD_DEFAULT) (filter (bit m) [0..<MAX_CHIP_NUM])"
proof -
  have "n = 1 + length (filter (bit m) [1..<MAX_CHIP_NUM]) \<and> (\<forall>j. j \<notin> set [1..<MAX_CHIP_NUM] \<longrightarrow> bit m j = bit (1 :: u8) j)
    \<and> take n (ce_enable (controller t)) = map (pad_select CE_PAD_DEFAULT) ([0] @ filter (bit m) [1..<MAX_CHIP_NUM])"
    by (rule scan_chips_numbers [OF assms(1)]) (auto simp: assms(2) upt_rec)
  moreover from this have "filter (bit m) [0..<MAX_CHIP_NUM] = 0 # filter (bit m) [1..<MAX_CHIP_NUM]"
    by (simp add: upt_rec)
  ultimately show ?thesis
    by (metis (no_types, lifting) append_Cons append_Nil length_Cons plus_1_eq_Suc)
qed

lemma demo_scan:
  assumes "has (ctl_option (controller s)) NAND_CTRL_NONE_RB" "list_all (\<lambda>i. i < 4) is" "b \<noteq> NULL"
    and "flash_type (controller s) = 0" "fl_id (flash s) ! 1 = 0xe0"
  shows "\<exists>t. scan_chips demo_hw b is n m s = Some ((n + length is, foldl (\<lambda>m i. m OR push_bit i 1) m is), t)"
  using assms
proof (induction "is" arbitrary: n m s)
  case (Cons i "is")
  let ?s = "s\<lparr>mem := memset b 0 8 (mem s)\<rparr>"
  have i: "(of_nat i :: u8) < 4"
    using Cons.prems(2) by (simp add: word_less_nat_alt unat_of_nat)
  obtain u m' where u: "read_id demo_hw (of_nat i) 0 b ?s = Some (0, u)" "mem u = memset b 0xe0 8 m'" "tables_same ?s u"
    using demo_read_id [of ?s "of_nat i" b 0] i Cons.prems(1,3) by auto
  have "pads_same ?s u"
    using pads.R_read_id [OF pads.refl, of ?s demo_hw "of_nat i" 0 b] u(1) by (simp add: framed_def)
  then have "same_flash b u"
    using Cons.prems(4,5) u(2,3) by (simp add: same_flash_def pads_same_def tables_same_def memset_def)
  moreover obtain t where "scan_chips demo_hw b is (n + 1) (m OR push_bit i 1) (note_chip i n u)
      = Some ((n + 1 + length is, foldl (\<lambda>m i. m OR push_bit i 1) (m OR push_bit i 1) is), t)"
    using Cons.IH [of "note_chip i n u" "n + 1" "m OR push_bit i 1"] Cons.prems u(3) \<open>pads_same ?s u\<close>
    by (auto simp: note_chip_def tables_same_def pads_same_def)
  ultimately show ?case
    using u(1) by simp
qed simp

definition probe_nand :: nand where
  "probe_nand = demo_nand\<lparr>controller := demo_ctl\<lparr>ce_enable := map (pad_select CE_PAD_DEFAULT) [0..<MAX_CHIP_NUM]\<rparr>,
     flash := demo_flash\<lparr>fl_id := replicate 8 0xe0\<rparr>\<rparr>"

theorem chips_numbered_witness:
  "\<exists>t. scan_chips demo_hw 5000 [1..<4] 1 1 probe_nand = Some ((4, 15), t)
     \<and> take 4 (ce_enable (controller t)) = map (pad_select CE_PAD_DEFAULT) [0, 1, 2, 3]"
proof -
  have "\<exists>t. scan_chips demo_hw 5000 [1..<4] 1 1 probe_nand
      = Some ((1 + length [1..<4], foldl (\<lambda>m i. m OR push_bit i 1) 1 [1..<4]), t)"
    by (rule demo_scan) (simp_all add: probe_nand_def demo_nand_def demo_ctl_def has_def c_consts upt_rec)
  then obtain t where t: "scan_chips demo_hw 5000 [1..<4] 1 1 probe_nand = Some ((4, 15), t)"
    by (auto simp: upt_rec)
  have "filter (bit (15 :: u8)) [0..<4] = [0, 1, 2, 3]"
    by (simp add: upt_rec bit_numeral_rec)
  then show ?thesis
    using chips_numbered [OF t] t by (simp add: probe_nand_def)
qed

end
