(* ===== verification/EnvDev.thy ===== *)
theory EnvDev
  imports InfoStore
begin

text \<open>
  \<open>dev/amlnf_env.c\<close>: the boot loader environment as a character device.  The
  environment is one record of the store (\<open>nenv\<close>, 32 KiB).  A read or write
  call loads the whole record, copies the part at the file position from or to
  the caller, and a write saves the record again.  The addresses the
  allocators return are parameters (\<open>NULL\<close> for a failure); so are the answers
  of the kernel when the device is registered.  Byte lists stand for the
  caller's buffer.
\<close>

section \<open>Loading and saving\<close>

definition CONFIG_ENV_SIZE :: nat where "CONFIG_ENV_SIZE = 0x8000"

definition amlnf_env_save :: "chip_operation \<Rightarrow> ptr \<Rightarrow> ptr \<Rightarrow> nat \<Rightarrow> nand \<Rightarrow> (int \<times> nand) option" where
  "amlnf_env_save ct env_buf buf len s =
     (if CONFIG_ENV_SIZE < len then Some (- EFAULT, s)
      else if env_buf = NULL then Some (- 1, s)
      else do {
        let s = s\<lparr>mem := memcpy env_buf buf len (memset env_buf 0 CONFIG_ENV_SIZE (mem s))\<rparr>;
        (ret, s) \<leftarrow> amlnand_save_info_by_name ct EnvInfo env_buf ''nenv'' (of_nat CONFIG_ENV_SIZE) s;
        Some (if ret \<noteq> 0 then - EFAULT else 0, s)
      })"

definition amlnf_env_read :: "chip_operation \<Rightarrow> ptr \<Rightarrow> ptr \<Rightarrow> nat \<Rightarrow> nand \<Rightarrow> (int \<times> nand) option" where
  "amlnf_env_read ct env_buf buf len s =
     (if CONFIG_ENV_SIZE < len then Some (- EFAULT, s)
      else if arg_valid (uboot_env s) = 0 then Some (0, s\<lparr>mem := memset buf 0 len (mem s)\<rparr>)
      else if env_buf = NULL then Some (- 1, s)
      else do {
        (ret, s) \<leftarrow> amlnand_read_info_by_name ct EnvInfo env_buf ''nenv'' (of_nat CONFIG_ENV_SIZE)
          (s\<lparr>mem := memset env_buf 0 CONFIG_ENV_SIZE (mem s)\<rparr>);
        if ret \<noteq> 0 then Some (- EFAULT, s) else Some (0, s\<lparr>mem := memcpy buf env_buf len (mem s)\<rparr>)
      })"

definition aml_nand_update_ubootenv :: "chip_operation \<Rightarrow> ptr \<Rightarrow> nand \<Rightarrow> (int \<times> nand) option" where
  "aml_nand_update_ubootenv ct env_buf s =
     (if env_buf = NULL then Some (- ENOMEM, s)
      else do {
        (ret, s) \<leftarrow> amlnand_read_info_by_name ct EnvInfo env_buf ''nenv'' (of_nat CONFIG_ENV_SIZE)
          (s\<lparr>mem := memset env_buf 0 CONFIG_ENV_SIZE (mem s)\<rparr>);
        if ret \<noteq> 0 then Some (0, s)
        else do {
          (_, s) \<leftarrow> amlnand_save_info_by_name ct EnvInfo env_buf ''nenv'' (of_nat CONFIG_ENV_SIZE) s;
          Some (0, s)
        }
      })"

section \<open>The file operations\<close>

text \<open>
  The first two parameters of a call are the buffers it allocates: one for the
  whole environment and, for the routines above, one more each.
\<close>

record env_bufs =
  eb_env :: ptr
  eb_read :: ptr
  eb_save :: ptr

definition clip :: "int \<Rightarrow> nat \<Rightarrow> int" where
  "clip pos count = (if int CONFIG_ENV_SIZE < pos + int count then int CONFIG_ENV_SIZE - pos else int count)"

definition uboot_env_read ::
  "chip_operation \<Rightarrow> env_bufs \<Rightarrow> int \<Rightarrow> nat \<Rightarrow> nand \<Rightarrow> ((int \<times> int \<times> u8 list) \<times> nand) option" where
  "uboot_env_read ct b pos count s =
     (if pos = int CONFIG_ENV_SIZE then Some ((0, pos, []), s)
      else if int CONFIG_ENV_SIZE \<le> pos then Some ((- EFAULT, pos, []), s)
      else if eb_env b = NULL then Some ((- ENOMEM, pos, []), s)
      else do {
        s \<leftarrow> amlnand_get_device ct CHIP_READING s;
        (ret, s) \<leftarrow> amlnf_env_read ct (eb_read b) (eb_env b) CONFIG_ENV_SIZE s;
        if ret \<noteq> 0 then Some ((0, pos, []), amlnand_release_device s)
        else let n = clip pos count
             in Some ((n, pos + n, mem_bytes (mem s) (nat (int (eb_env b) + pos)) (nat n)), amlnand_release_device s)
      })"

definition uboot_env_write ::
  "chip_operation \<Rightarrow> env_bufs \<Rightarrow> int \<Rightarrow> u8 list \<Rightarrow> nand \<Rightarrow> ((int \<times> int) \<times> nand) option" where
  "uboot_env_write ct b pos data s =
     (if pos = int CONFIG_ENV_SIZE then Some ((0, pos), s)
      else if int CONFIG_ENV_SIZE \<le> pos then Some ((- EFAULT, pos), s)
      else if eb_env b = NULL then Some ((- ENOMEM, pos), s)
      else do {
        s \<leftarrow> amlnand_get_device ct CHIP_WRITING s;
        (ret, s) \<leftarrow> amlnf_env_read ct (eb_read b) (eb_env b) CONFIG_ENV_SIZE s;
        if ret \<noteq> 0 then Some ((0, pos), amlnand_release_device s)
        else do {
          let n = clip pos (length data);
          let s = s\<lparr>mem := store_bytes (nat (int (eb_env b) + pos)) (take (nat n) data) (mem s)\<rparr>;
          (ret, s) \<leftarrow> amlnf_env_save ct (eb_save b) (eb_env b) CONFIG_ENV_SIZE s;
          Some ((n, if ret \<noteq> 0 then pos else pos + n), amlnand_release_device s)
        }
      })"

section \<open>Start\<close>

record env_answers =
  ea_buf :: ptr
  ea_region :: int
  ea_cdev :: int
  ea_class :: bool
  ea_device :: bool

datatype env_res = Region | Cdev | Class | Device

definition register_env :: "env_answers \<Rightarrow> int \<times> env_res list" where
  "register_env a =
     (if ea_region a < 0 then (- 1, [])
      else if ea_cdev a \<noteq> 0 then (- 1, removeAll Region [Region])
      else if \<not> ea_class a then (- 1, removeAll Region (removeAll Cdev [Region, Cdev]))
      else if \<not> ea_device a then (- 1, removeAll Region (removeAll Cdev (removeAll Class [Region, Cdev, Class])))
      else (ea_cdev a, [Region, Cdev, Class, Device]))"

definition aml_ubootenv_init :: "chip_operation \<Rightarrow> env_answers \<Rightarrow> nand \<Rightarrow> ((int \<times> env_res list) \<times> nand) option" where
  "aml_ubootenv_init ct a s =
     (if ea_buf a = NULL then Some ((- 1, []), s)
      else do {
        (ret, s) \<leftarrow> amlnand_info_init ct EnvInfo (ea_buf a) ''nenv'' (of_nat CONFIG_ENV_SIZE)
          (s\<lparr>mem := memset (ea_buf a) 0 CONFIG_ENV_SIZE (mem s)\<rparr>);
        if ret < 0 then Some ((- 1, []), s) else Some (register_env a, s)
      })"

end
