(* ===== verification/Start.thy ===== *)
theory Start
  imports ChipId Vendor DevInit EnvDev
begin

text \<open>
  Bringing the driver up: loading what the flash stores about itself
  (\<open>amlnand_get_dev_configs\<close> and its helpers, \<open>phy/chipenv.c\<close>;
  \<open>aml_sys_info_init\<close>, \<open>dev/amlnf_ctrl.c\<close>) and \<open>amlnf_phy_init\<close>
  (\<open>phy/amlnand_init.c\<close>), which composes controller set-up, identification,
  configuration and device creation; and taking the devices through shutdown,
  suspend and resume (\<open>dev/amlnf_dev.c\<close>, \<open>dev/amlnf_ctrl.c\<close>, \<open>dev/phydev.c\<close>).
  The key and secure storage are not built in (\<open>CONFIG_AML_NAND_KEY\<close> and
  \<open>CONFIG_SECURE_NAND\<close> unset).  \<open>None\<close> is a call that does not return or a
  kernel fault.
\<close>

section \<open>Buffers\<close>

record config_answers =
  ca_oob :: ptr
  ca_page :: ptr
  ca_status :: ptr
  ca_shipped :: ptr
  ca_config :: ptr

definition free_config :: "nand \<Rightarrow> nand" where
  "free_config s =
     s\<lparr>block_status := NULL, shipped_bbt_ptr := NULL, config_ptr := NULL, user_oob_buf := NULL, user_page_buf := NULL\<rparr>"

definition amlnand_config_buf_malloc :: "config_answers \<Rightarrow> nand \<Rightarrow> int \<times> nand" where
  "amlnand_config_buf_malloc a s =
     (let f = flash s; fail = (\<lambda>s. (- NAND_MALLOC_FAILURE, free_config s));
          s = s\<lparr>user_oob_buf := ca_oob a\<rparr>
      in if user_oob_buf s = NULL then fail s
         else let s = s\<lparr>mem := memset (user_oob_buf s) 0 (unat (buf_scale s (oobsize f))) (mem s), user_page_buf := ca_page a\<rparr>
         in if user_page_buf s = NULL then fail s
         else let s = s\<lparr>mem := memset (user_page_buf s) 0 (unat (buf_scale s (pagesize f + oobsize f))) (mem s), block_status := ca_status a\<rparr>
         in if block_status s = NULL then fail s
         else let s = s\<lparr>mem := memset (block_status s) 0 block_status_size (mem s), shipped_bbt_ptr := ca_shipped a\<rparr>
         in if shipped_bbt_ptr s = NULL then fail s
         else let s = s\<lparr>mem := memset (shipped_bbt_ptr s) 0 shipped_bbt_size (mem s), config_ptr := ca_config a\<rparr>
         in if config_ptr s = NULL then fail s
         else (0, s\<lparr>mem := memset (config_ptr s) 0 nand_config_size (mem s)\<rparr>))"

definition amlnand_set_config_attribute :: "nand \<Rightarrow> nand" where
  "amlnand_set_config_attribute s =
     s\<lparr>nand_bbtinfo := (nand_bbtinfo s)\<lparr>arg_type := FULL_BLK\<rparr>,
       shipped_bbtinfo := (shipped_bbtinfo s)\<lparr>arg_type := FULL_BLK\<rparr>,
       config_msg := (config_msg s)\<lparr>arg_type := FULL_BLK\<rparr>,
       nand_secure := (nand_secure s)\<lparr>arg_type := FULL_PAGE\<rparr>,
       nand_key := (nand_key s)\<lparr>arg_type := FULL_PAGE\<rparr>,
       uboot_env := (uboot_env s)\<lparr>arg_type := FULL_PAGE\<rparr>\<rparr>"

section \<open>Loading the configuration\<close>

definition CONFIG_SECURE_SIZE :: nat where "CONFIG_SECURE_SIZE = 0x20000"

text \<open>
  The buffer is only used for the key and secure records; a failed allocation
  is reported, and the buffer is then cleared all the same.
\<close>

definition aml_sys_info_init :: "chip_operation \<Rightarrow> int \<Rightarrow> ptr \<Rightarrow> env_answers \<Rightarrow> nand \<Rightarrow> (int \<times> nand) option" where
  "aml_sys_info_init ct boot_device_flag buf a s =
     (if buf = NULL then None
      else let s = s\<lparr>mem := memset buf 0 CONFIG_SECURE_SIZE (mem s)\<rparr>
      in if arg_valid (uboot_env s) = 0 \<and> boot_device_flag = 1
         then do { ((ret, _), s) \<leftarrow> aml_ubootenv_init ct a s; Some (ret, s) }
         else Some (0, s))"

definition aml_sys_info_error_handle :: "chip_operation \<Rightarrow> ptr \<Rightarrow> nand \<Rightarrow> (int \<times> nand) option" where
  "aml_sys_info_error_handle ct env_buf s =
     (if arg_valid (uboot_env s) = 1 \<and> update_flag (uboot_env s) \<noteq> 0
      then do {
        (_, s) \<leftarrow> aml_nand_update_ubootenv ct env_buf s;
        Some (0, s\<lparr>uboot_env := (uboot_env s)\<lparr>update_flag := 0\<rparr>\<rparr>)
      }
      else Some (0, s))"

text \<open>The stored position of the shipped table; \<open>fbbt_blk_addr\<close> lies at the end of the record.\<close>

definition fbbt_blk_addr :: "nand \<Rightarrow> u16" where
  "fbbt_blk_addr s = ld16 (mem s) (config_ptr s + 2734)"

definition note_shipped :: "nand \<Rightarrow> nand" where
  "note_shipped s =
     (if arg_valid (config_msg s) = 1
      then reserve_blk (ucast (fbbt_blk_addr s))
             (s\<lparr>shipped_bbtinfo := (shipped_bbtinfo s)\<lparr>valid_blk_addr := fbbt_blk_addr s\<rparr>\<rparr>)
      else s)"

record start_answers =
  sa_config :: config_answers
  sa_sysbuf :: ptr
  sa_env :: env_answers
  sa_kmalloc :: "u32 \<Rightarrow> ptr"

definition amlnand_get_dev_configs :: "nfc \<Rightarrow> chip_operation \<Rightarrow> int \<Rightarrow> start_answers \<Rightarrow> nand \<Rightarrow> (int \<times> nand) option" where
  "amlnand_get_dev_configs hw ct boot_device_flag a s =
     (let fail = (\<lambda>ret s. Some (ret, free_config s)); (ret, s) = amlnand_config_buf_malloc (sa_config a) s
      in if ret < 0 then fail ret s
         else do {
           (ret, s) \<leftarrow> (if new_type (flash s) \<noteq> 0 then amlnand_set_readretry_slc_para hw ct s else Some (ret, s));
           if ret < 0 then fail ret s
           else do {
             let s = amlnand_set_config_attribute s;
             (_, s) \<leftarrow> amlnand_info_init ct BbtInfo (block_status s) ''nbbt'' (of_nat block_status_size) s;
             if arg_valid (nand_bbtinfo s) = 0 then fail (- NAND_READ_FAILED) s
             else do {
               (ret, s) \<leftarrow> amlnand_info_init ct ConfigInfo (config_ptr s) ''ncnf'' (of_nat nand_config_size) s;
               if ret < 0 then fail ret s
               else do {
                 (ret, s) \<leftarrow> aml_sys_info_init ct boot_device_flag (sa_sysbuf a) (sa_env a) (note_shipped s);
                 if ret < 0 then fail ret s
                 else do {
                   s \<leftarrow> amlnand_info_error_handle ct s;
                   (_, s) \<leftarrow> repair_reserved_bad_block ct (sa_kmalloc a) s;
                   Some (ret, s)
                 }
               }
             }
           }
         })"

section \<open>The physical layer\<close>

definition zero_arg :: nand_arg_info where
  "zero_arg = \<lparr>arg_type = 0, valid_blk_addr = 0, valid_page_addr = 0, free_blk_addr = 0, arg_valid = 0, timestamp = 0, update_flag = 0\<rparr>"

definition zero_ctl :: hw_controller where
  "zero_ctl = \<lparr>chip_selected = 0, rb_received = 0, ce_enable = replicate 4 0, rb_enable = replicate 4 0, chip_num = 0, flash_type = 0,
     mfr_type = 0, onfi_mode = 0, max_bch = 0, ecc_unit = 0, ecc_bytes = 0, ecc_steps = 0, oobtail = 0, bch_mode = 0, user_mode = 0,
     ran_mode = 0, oobavail = 0, oob_mod = 0, oob_fill_data = 0, oob_fill_boot = 0, ecc_cnt_limit = 0, ecc_cnt_cur = 0, ecc_max = 0,
     page_shift = 0, block_shift = 0, internal_page_nums = 0, zero_cnt = 0, page_addr = 0, ctl_option = 0, data_buf = NULL,
     user_buf = NULL, page_buf = NULL, oob_buf = NULL,
     slc_info = \<lparr>slc_flag = 0, pagelist = [], slc_reg_cnt = 0, slc_reg_addr = replicate 8 0, slc_def_val = replicate 4 (replicate 8 0),
       slc_offs_val = replicate 8 0\<rparr>,
     retry_info = \<lparr>rr_flag = 0, default_flag = 0, info_save_blk = 0, reg_cnt_lp = 0, reg_cnt_up = 0, retry_cnt_lp = 0, retry_cnt_up = 0,
       cur_cnt_lp = replicate 4 0, cur_cnt_up = replicate 4 0, reg_addr_lp = replicate 8 0,
       reg_addr_up = replicate 8 0, rr_def_val = replicate 4 (replicate 8 0),
       reg_offs_val_lp = replicate 4 (replicate 30 (replicate 8 0)), reg_offs_val_up = replicate 4 (replicate 30 (replicate 8 0))\<rparr>,
     data_dma_addr = 0, info_dma_addr = 0, bch_descs = []\<rparr>"

text \<open>
  The structure as \<open>memset\<close> leaves it; the lock flags, the module's parameters,
  memory and the bus are not part of it and stay.
\<close>

definition new_chip :: "nand \<Rightarrow> nand" where
  "new_chip s = s\<lparr>state := CHIP_READY, nand_status := 0, controller := zero_ctl, ops_para := ops_zero,
     flash := flash_id (replicate 8 0) 0 0 0 0 0 0 0 0 0 0, block_status := NULL, nand_bbtinfo := zero_arg,
     shipped_bbtinfo := zero_arg, config_msg := zero_arg, nand_key := zero_arg, nand_secure := zero_arg, uboot_env := zero_arg,
     shipped_bbt_ptr := NULL, config_ptr := NULL, reserved_blk := replicate RESERVED_BLOCK_CNT 0xff, max_ecc_per_page := 0,
     user_page_buf := NULL, user_oob_buf := NULL, debug_flag := 0\<rparr>"

text \<open>
  Answers of the kernel to \<open>amlnf_phy_init\<close>: whether the structure can be
  allocated, the pin controller and its state, the buffers, the device
  structures; and the devices the configuration record describes.
\<close>

record phy_answers =
  ph_chip :: bool
  ph_pinctrl :: int
  ph_pinstate :: int
  ph_pins :: "nand \<Rightarrow> int"
  ph_kmalloc :: "u32 \<Rightarrow> ptr"
  ph_scan :: scan_bufs
  ph_bufs :: buf_answers
  ph_start :: start_answers
  ph_bad_blk :: bool
  ph_dev :: "nat \<Rightarrow> bool"
  ph_config :: "nand \<Rightarrow> dev_para list"

text \<open>
  The result: the error, whether the structure has been given back (the global
  \<open>aml_nand_chip\<close> still points to it), and the devices.  \<open>n\<close> bounds how deep
  writing the bad block table may find bad blocks of its own.
\<close>

definition amlnf_phy_init ::
  "nfc \<Rightarrow> nat \<Rightarrow> int \<Rightarrow> phy_answers \<Rightarrow> nand \<Rightarrow> ((int \<times> bool \<times> amlnand_phydev list) \<times> nand) option" where
  "amlnf_phy_init hw n boot_device_flag a s =
     (if \<not> ph_chip a then Some ((- NAND_MALLOC_FAILURE, True, []), s)
      else let s = new_chip s
      in if ph_pinctrl a < 0 then Some ((ph_pinctrl a, False, []), s)
      else if ph_pinstate a < 0 then Some ((ph_pinstate a, False, []), s)
      else let (ret, s) = amlnand_hwcontroller_init hw s
      in if ret < 0 then Some ((- NAND_FAILED, True, []), s)
         else do {
           ((ret, _), s) \<leftarrow> amlnand_chip_init hw (vendor_hooks hw (ph_pins a) (ph_kmalloc a) 0) (ph_scan a) (ph_bufs a) s;
           if ret < 0 then Some ((- NAND_FAILED, True, []), s)
           else do {
             let hk = vendor_hooks hw (ph_pins a) (ph_kmalloc a) (new_type (flash s));
             let ct = chip_table hw hk (bbt_writer hw hk n);
             (ret, s) \<leftarrow> amlnand_get_dev_configs hw ct boot_device_flag (ph_start a) s;
             if ret < 0 then Some ((- NAND_READ_FAILED, False, []), s)
             else do {
               ((ret, devs), s) \<leftarrow> amlnand_phydev_init ct (ph_bad_blk a) (ph_dev a) (ph_config a s) s;
               Some ((if ret < 0 then - NAND_READ_FAILED else ret, False, devs), s)
             }
           }
         })"

section \<open>Shutdown, suspend, resume\<close>

fun amlnf_shutdown :: "chip_operation \<Rightarrow> amlnand_phydev list \<Rightarrow> nand \<Rightarrow> (amlnand_phydev list \<times> nand) option" where
  "amlnf_shutdown ct [] s = Some ([], s)"
| "amlnf_shutdown ct (p # ps) s = do {
     s \<leftarrow> amlnand_get_device ct CHIP_SHUTDOWN s;
     let p = p\<lparr>pd_option := pd_option p OR NAND_SHUT_DOWN\<rparr>;
     (ps, s) \<leftarrow> amlnf_shutdown ct ps (amlnand_release_device s);
     Some (p # ps, s)
   }"

definition phydev_suspend :: "amlnand_phydev \<Rightarrow> nand \<Rightarrow> int \<times> nand" where
  "phydev_suspend p s = (0, if is_boot (pd_name p) then s else set_chip_state CHIP_PM_SUSPENDED s)"

fun reset_chips :: "nfc \<Rightarrow> nat list \<Rightarrow> nand \<Rightarrow> nand option" where
  "reset_chips hw [] s = Some s"
| "reset_chips hw (i # is) s = do {
     (_, s) \<leftarrow> controller_select_chip hw (of_nat i) s;
     (_, s) \<leftarrow> nand_reset hw (of_nat i) s;
     reset_chips hw is s
   }"

definition amlchip_resume :: "nfc \<Rightarrow> nand_hooks \<Rightarrow> scan_bufs \<Rightarrow> amlnand_phydev \<Rightarrow> nand \<Rightarrow> nand option" where
  "amlchip_resume hw hk b p s =
     (if take 6 (pd_name p) \<noteq> ''nfcode'' then Some s
      else do {
        s \<leftarrow> nand_get_chip hk (s\<lparr>mem := memset (sb_onfi_features b) 0 4 (mem s)\<rparr>);
        s \<leftarrow> reset_chips hw [0..<unat (chip_num (controller s))] s;
        s \<leftarrow> set_onfi_timing hw b s;
        Some (amlnand_release_device s)
      })"

end
