(* ===== verification/StartProps.thy ===== *)
theory StartProps
  imports BootProps ProbeProps Start
begin

text \<open>
  Bringing the driver up writes nothing to the flash while the guard is up,
  whatever the flash holds and answers and whichever step fails.
\<close>

section \<open>What loading the configuration preserves\<close>

context nand_frame
begin

lemma R_get_regs: "R s t \<Longrightarrow> R s (snd (get_regs hw as t))"
  by (induction as arbitrary: t) (simp_all add: Let_def split_beta R_idle R_ale R_read_byte)

end

lemma framed_opt: "(\<And>a. x = Some a \<Longrightarrow> framed R s (f a)) \<Longrightarrow> framed R s (x \<bind> f)"
  by (cases x) (simp_all add: framed_None)

locale start_frame = boot_frame +
  assumes up_same: "bus t = bus s \<Longrightarrow> controller t = controller s \<Longrightarrow> amlnf t = amlnf s \<Longrightarrow> R s t"
    and vn_sandisk: "R s (init_sandisk_chips hw k s)"
    and vn_get_reg: "framed R s (get_reg_value_hynix hw as n c s)"
begin

lemma S_same: "R s t \<Longrightarrow> bus u = bus t \<Longrightarrow> controller u = controller t \<Longrightarrow> amlnf u = amlnf t \<Longrightarrow> R s u"
  using trans up_same by blast

lemma S_tables: "R s t \<Longrightarrow> R s (upd_retry f t)" "R s t \<Longrightarrow> R s (upd_slc g t)"
  by (auto simp: upd_retry_def upd_slc_def intro!: B_ctl)

lemma S_reserve: "R s t \<Longrightarrow> R s (reserve_blk b t)"
  unfolding reserve_blk_def by (rule I_resv)

lemma S_flash: "R s t \<Longrightarrow> R s (t\<lparr>flash := f\<rparr>)"
  by (erule S_same) simp_all

lemma S_plain:
  assumes "\<And>t. R s t \<Longrightarrow> framed R s (f t)" "R s t"
  shows "framed R s (as_plain_type f t)"
  unfolding as_plain_type_def Let_def
  by (rule framed_bind [OF assms(1)]) (auto intro!: framed_Some S_flash assms(2))

lemma S_isbad: "R s t \<Longrightarrow> framed R s (ct_block_isbad ct t)"
  by (rule framed_call [OF _ ct_isbad])

lemma S_hynix_pages: "R s t \<Longrightarrow> framed R s (hynix_pages ct blk is ret t)"
proof (induction "is" arbitrary: ret t)
  case (Cons i "is")
  have bufs: "R s u \<Longrightarrow> R s (hynix_bufs u)" for u
    by (erule S_same) (simp_all add: hynix_bufs_def)
  have info: "R s u \<Longrightarrow> R s (take_hynix_info u)" for u
    by (simp add: take_hynix_info_def Let_def S_tables)
  show ?case
    unfolding hynix_pages.simps
    by (rule framed_bind1 [OF I_select [OF Cons.prems]])
      (auto intro!: framed_bind [OF S_plain [OF I_page_op(2)]] bufs framed_if Cons.IH framed_Some info)
qed (simp add: framed_Some)

lemma S_hynix_blocks: "R s t \<Longrightarrow> framed R s (hynix_blocks ct n bs ret t)"
proof (induction bs arbitrary: ret t)
  case (Cons b bs)
  show ?case
    unfolding hynix_blocks.simps
    by (rule framed_bind1 [OF I_at_block [OF Cons.prems]])
      (auto intro!: framed_bind [OF S_plain [OF S_isbad]] framed_if framed_bind [OF S_hynix_pages] framed_Some Cons.IH)
qed (simp add: framed_Some)

lemma S_scan_hynix: "R s t \<Longrightarrow> framed R s (aml_nand_scan_hynix_info ct t)"
  unfolding aml_nand_scan_hynix_info_def Let_def
  by (auto intro!: framed_if framed_Some framed_bind [OF S_hynix_blocks] S_tables I_slc D_ops S_reserve split: option.splits)

lemma S_enslc_init_chips: "R s t \<Longrightarrow> framed R s (enslc_init_chips hw cs ret t)"
  by (induction cs arbitrary: ret t)
    (auto simp: framed_Some Let_def intro!: framed_bind [OF framed_call [OF _ vn_get_reg]] S_tables)

lemma S_enslc_init: "R s t \<Longrightarrow> framed R s (enslc_init_hynix hw ct t)"
  unfolding enslc_init_hynix_def
  by (auto intro!: framed_if framed_Some framed_bind1 [OF D_get_chip] framed_bind [OF S_enslc_init_chips] D_release_chip)

lemma S_fail_or_ok: "framed R s x \<Longrightarrow> framed R s (fail_or_ok x)"
  unfolding fail_or_ok_def by (auto intro!: framed_bind [where x = x] framed_Some)

lemma S_sandisk: "R s t \<Longrightarrow> R s (snd (readretry_init_sandisk hw t))"
  unfolding readretry_init_sandisk_def using trans vn_sandisk by auto

lemma S_init_hynix: "R s t \<Longrightarrow> framed R s (readretry_init_hynix ct t)"
  unfolding readretry_init_hynix_def by (auto intro!: framed_bind [OF S_scan_hynix] framed_Some)

lemma S_retry_para: "R s t \<Longrightarrow> framed R s (amlnand_set_readretry_slc_para hw ct t)"
  unfolding amlnand_set_readretry_slc_para_def Let_def
  by (auto intro!: framed_if framed_Some framed_case_prod [where R = R] S_tables S_sandisk
      framed_bind [OF S_enslc_init] S_fail_or_ok S_init_hynix split: option.splits)

lemma S_malloc: "R s t \<Longrightarrow> R s (snd (amlnand_config_buf_malloc a t))"
  by (erule S_same) (simp_all add: amlnand_config_buf_malloc_def free_config_def Let_def)

lemma S_free: "R s t \<Longrightarrow> R s (free_config t)"
  by (erule S_same) (simp_all add: free_config_def)

lemma S_attr: "R s t \<Longrightarrow> R s (amlnand_set_config_attribute t)"
  by (erule S_same) (simp_all add: amlnand_set_config_attribute_def)

lemma S_shipped: "R s t \<Longrightarrow> R s (note_shipped t)"
  by (erule S_same) (simp_all add: note_shipped_def reserve_blk_def)

lemma S_env_init: "R s t \<Longrightarrow> framed R s (aml_ubootenv_init ct a t)"
  unfolding aml_ubootenv_init_def
  by (auto intro!: framed_if framed_Some framed_bind [OF I_info_init] I_mem)

lemma S_sys_info: "R s t \<Longrightarrow> framed R s (aml_sys_info_init ct fl b a t)"
  unfolding aml_sys_info_init_def Let_def
  by (auto intro!: framed_if framed_None framed_Some framed_bind [OF S_env_init] I_mem)

lemma S_flags:
  "R s t \<Longrightarrow> R s (t\<lparr>nand_bbtinfo := x\<rparr>)" "R s t \<Longrightarrow> R s (t\<lparr>config_msg := x\<rparr>)" "R s t \<Longrightarrow> R s (t\<lparr>uboot_env := x\<rparr>)"
  by (erule S_same; simp)+

lemma S_error_handle: "R s t \<Longrightarrow> framed1 R s (amlnand_info_error_handle ct t)"
  unfolding amlnand_info_error_handle_def Let_def
  by (auto intro!: framed1_bind [where R = R] framed_if framed_Some framed_bind [OF I_update_bbt] framed1_if framed1_Some
      I_update_bbt I_save_info I_mem S_flags)

lemma used_bad_R: "used_bad ct n b bad t = Some x \<Longrightarrow> R t (snd x)"
proof -
  have "used_bad ct' n b bad t = Some x \<Longrightarrow> ct' = ct \<longrightarrow> R t (snd x)" for ct' x
  proof (erule used_bad.raw_induct [rotated], intro impI, goal_cases)
    case (1 self ct' n b bad t x)
    have self: "framed R t (self ct n b bad u)" if "R t u" for n b bad u
      using 1(1) that trans by (fastforce simp: framed_def)
    have "framed R t (Some x)"
      unfolding 1(2) [symmetric] 1(3)
      by (auto intro!: framed_if framed_Some framed_bind1 [OF I_at_block] framed_bind [OF S_isbad] self refl)
    then show ?case
      by (cases x) (simp add: framed_def)
  qed
  then show "used_bad ct n b bad t = Some x \<Longrightarrow> R t (snd x)"
    by blast
qed

lemma S_used_bad: "R s t \<Longrightarrow> framed R s (used_bad ct n b bad t)"
  using used_bad_R trans by (fastforce simp: framed_def)

lemma S_pass:
  assumes "\<And>u. R s u \<Longrightarrow> framed R s (f u)" "R s t"
  shows "framed R s (repair_pass f bad dat oob n t)"
  using assms(2)
  by (induction n arbitrary: t) (auto simp: framed_Some Let_def intro!: framed_bind [OF assms(1)] framed_if I_mem D_set_page)

lemma S_calls:
  "R s t \<Longrightarrow> framed R s (ct_erase_block ct t)" "R s t \<Longrightarrow> framed R s (ct_read_page ct t)"
  "R s t \<Longrightarrow> framed R s (ct_blk_modify_bbt ct v t)"
  by (erule framed_call, rule ct_erase ct_read ct_modify)+

lemma S_repair_block: "R s t \<Longrightarrow> framed1 R s (repair_block ct dat oob b t)"
  unfolding repair_block_def repair_at_def Let_def
  by (auto intro!: framed1_bind1 [OF I_at_block] framed1_bind [OF S_calls(1)] framed1_bind [OF S_calls(3)]
      framed1_bind [OF S_pass [OF B_write]] framed1_bind [OF S_pass [OF S_calls(2)]] framed1_if framed1_Some D_set_page D_ops)

lemma S_repair_blocks: "R s t \<Longrightarrow> framed1 R s (repair_blocks ct dat oob bs t)"
  by (induction bs arbitrary: t) (auto simp: framed1_Some intro!: framed1_bind1 [OF S_repair_block])

lemma S_repair: "R s t \<Longrightarrow> framed R s (repair_reserved_bad_block ct m t)"
  unfolding repair_reserved_bad_block_def Let_def
  by (auto intro!: framed_if framed_Some framed_bind [OF S_used_bad] framed_bind1 [where R = R] framed1_if framed1_Some
      framed1_bind1 [OF D_get_chip] framed1_bind1 [OF S_repair_blocks] framed1_bind [OF I_update_bbt] I_mem D_ops D_release_chip)

lemma S_get_dev_configs: "R s t \<Longrightarrow> framed R s (amlnand_get_dev_configs hw ct fl a t)"
  unfolding amlnand_get_dev_configs_def Let_def
  by (rule framed_case_prod [where R = R, OF S_malloc], assumption)
    (auto intro!: framed_if framed_Some S_free framed_bind [where R = R] S_retry_para framed_bind [OF I_info_init]
      framed_bind [OF S_sys_info] framed_bind1 [OF S_error_handle] framed_bind [OF S_repair] S_attr S_shipped)

section \<open>What creating the devices preserves\<close>

lemma good_scan_R: "(\<And>a u. R u (place a u)) \<Longrightarrow> good_scan ct place step tot n off t = Some x \<Longrightarrow> R t (snd x)"
proof -
  assume place: "\<And>a u. R u (place a u)"
  have "good_scan ct' place' step tot n off t = Some x \<Longrightarrow> ct' = ct \<and> place' = place \<longrightarrow> R t (snd x)" for ct' place' x
  proof (erule good_scan.raw_induct [rotated], intro impI, elim conjE, goal_cases)
    case (1 self ct' place' step tot n off t x)
    have self: "framed R t (self ct place step tot n off u)" if "R t u" for n off u
      using 1(1) that trans by (fastforce simp: framed_def)
    have "framed R t (Some x)"
      unfolding 1(2) [symmetric] 1(3,4) Let_def
      by (rule framed_bind [OF S_isbad]) (auto intro!: framed_if framed_Some self place)
    then show ?case
      by (cases x) (simp add: framed_def)
  qed
  then show "good_scan ct place step tot n off t = Some x \<Longrightarrow> R t (snd x)"
    by blast
qed

lemma S_good_scan: "(\<And>a u. R u (place a u)) \<Longrightarrow> R s t \<Longrightarrow> framed R s (good_scan ct place step tot n off t)"
  unfolding framed_def using good_scan_R trans by (metis snd_conv)

lemma S_reserve_area: "R s t \<Longrightarrow> framed R s (reserve_area ct b t)"
  unfolding reserve_area_def
  by (rule framed_bind [OF S_good_scan]) (auto simp: resv_place_def Let_def intro!: framed_Some D_ops refl)

lemma S_dev_length: "R s t \<Longrightarrow> framed R s (dev_length ct p sz start t)"
  unfolding dev_length_def Let_def
  by (rule framed_bind [OF S_good_scan]) (auto intro!: framed_Some D_ops D_set_page refl)

lemma S_dev_start: "R s t \<Longrightarrow> framed R s (dev_start ct fl i b pre p t)"
  unfolding dev_start_def
  by (auto intro!: framed_bind [OF S_reserve_area] framed_if framed_Some split: option.splits)

lemma S_plain_dev: "R s t \<Longrightarrow> framed R s (plain_dev ct fl i final b pre dp sz t)"
  unfolding plain_dev_def Let_def
  by (auto intro!: S_dev_start framed_bind [where R = R] framed_if framed_Some S_dev_length)

lemma S_init_devs: "R s t \<Longrightarrow> framed R s (init_devs ct m fl i b ds dps t)"
proof (induction dps arbitrary: fl i b ds t)
  case (Cons dp dps)
  show ?case
    unfolding init_devs.simps Let_def
    using Cons.prems
    by (auto intro!: framed_if framed_Some framed_opt [where x = "wanted_size x y z w" for x y z w] framed_bind [OF S_plain_dev] Cons.IH)
qed (simp add: framed_Some)

lemma count_used_bad_R: "count_used_bad ct off n d = Some x \<Longrightarrow> R (snd d) (snd (snd x))"
proof -
  have "count_used_bad ct' off n d = Some x \<Longrightarrow> ct' = ct \<longrightarrow> R (snd d) (snd (snd x))" for ct' x
  proof (erule count_used_bad.raw_induct [rotated], intro impI, goal_cases)
    case (1 self ct' off n d x)
    have self: "framed2 R (snd d) (self ct off n e)" if "R (snd d) (snd e)" for off n e
      using 1(1) that trans by (fastforce simp: framed2_def)
    have bad: "framed2 R (snd d) (nand_block_isbad ct (apfst (bad_request off) d))"
      using D_block_ops(1) [OF refl] by (cases d) simp
    have "framed2 R (snd d) (Some x)"
      unfolding 1(2) [symmetric] 1(3) Let_def
      by (rule framed2_bind2 [OF bad]) (auto intro!: framed2_if framed2_Some self)
    then show ?case
      by (cases x) (auto simp: framed2_def)
  qed
  then show "count_used_bad ct off n d = Some x \<Longrightarrow> R (snd d) (snd (snd x))"
    by blast
qed

lemma S_check_devs: "R s t \<Longrightarrow> framed R s (check_devs ct ps t)"
proof (induction ps arbitrary: t)
  case (Cons p ps)
  have "framed2 R s (count_used_bad ct 0 0 (p, t))"
    using count_used_bad_R [of 0 0 "(p, t)"] Cons.prems trans by (fastforce simp: framed2_def)
  then show ?case
    using Cons.IH by (fastforce simp: framed_def framed2_def bind_eq_Some_conv)
qed (simp add: framed_Some)

lemma S_phydev_init: "R s t \<Longrightarrow> framed R s (amlnand_phydev_init ct b m c t)"
  unfolding amlnand_phydev_init_def
  by (auto intro!: framed_if framed_Some framed_bind [OF S_init_devs] framed_bind [OF S_check_devs])

end

section \<open>The guard during the start\<close>

lemma get_reg_safe: "bus_safe s t \<Longrightarrow> framed bus_safe s (get_reg_value_hynix hw as n c t)"
  unfolding get_reg_value_hynix_def Let_def
  by (auto intro!: framed_if framed_Some framed_bind [OF plain.R_quene_rb] framed_case_prod [where R = bus_safe]
      plain.R_get_regs plain.R_cle vendor_opcodes)

sublocale guarded_table \<subseteq> start: start_frame guarded "chip_table hw hk ub" hw
proof unfold_locales
  fix s t :: nand and k as n c
  show "bus t = bus s \<Longrightarrow> controller t = controller s \<Longrightarrow> amlnf t = amlnf s \<Longrightarrow> guarded s t"
    by (auto simp: guarded_def bus_safe_def ce_ok_def)
  show "guarded s (init_sandisk_chips hw k s)"
    using plain.R_init_sandisk [OF bus_safe_refl] by (simp add: guarded_def)
  show "framed guarded s (get_reg_value_hynix hw as n c s)"
    by (rule guarded_framed) (rule get_reg_safe [OF bus_safe_refl])
qed

context guarded_table
begin

lemma configs_guarded: "amlnand_get_dev_configs hw (chip_table hw hk ub) fl a s = Some (r, t) \<Longrightarrow> guarded s t"
  using start.S_get_dev_configs [OF guarded_refl] by (simp add: framed_def)

lemma devices_guarded: "amlnand_phydev_init (chip_table hw hk ub) b m c s = Some (r, t) \<Longrightarrow> guarded s t"
  using start.S_phydev_init [OF guarded_refl] by (cases r) (simp add: framed_def)

end

interpretation vendor_start: guarded_table hw "vendor_hooks hw pins alloc ty" "bbt_writer hw (vendor_hooks hw pins alloc ty) n"
  for hw pins alloc ty n
  by unfold_locales (rule bbt_writer_guarded [OF vendor_hooks_safe])

lemma hwcontroller_init_guard: "amlnf (snd (amlnand_hwcontroller_init hw s)) = amlnf s"
  by (simp add: amlnand_hwcontroller_init_def controller_hw_init_def NFC_SET_TIMING_ASYC_def aml_set_reg32_bits_def Let_def
      split_beta NFC_SEND_CMD_def aml_write_reg32_def aml_read_reg32_def nfc_event_def)

definition quiet :: "nand \<Rightarrow> nand \<Rightarrow> bool" where
  "quiet s t \<longleftrightarrow> amlnf_readonly (amlnf t) = amlnf_readonly (amlnf s) \<and> (\<exists>evs. bus t = evs @ bus s \<and> list_all safe_ev evs)"

lemma quiet_trans: "quiet s t \<Longrightarrow> quiet t u \<Longrightarrow> quiet s u"
  by (auto simp: quiet_def)

lemma quiet_safe: "bus_safe s t \<Longrightarrow> ce_ok s \<Longrightarrow> quiet s t \<and> ce_ok t"
  by (auto simp: bus_safe_def quiet_def)

lemma quiet_guarded: "guarded s t \<Longrightarrow> ce_ok s \<Longrightarrow> amlnf_readonly (amlnf s) \<noteq> 0 \<Longrightarrow> quiet s t \<and> ce_ok t"
  using quiet_safe by (simp add: guarded_def)

lemma new_chip_quiet: "quiet s (new_chip s)" "chip_selected (controller (new_chip s)) = 0"
  by (simp_all add: quiet_def new_chip_def zero_ctl_def)

lemma controller_start_quiet:
  assumes "amlnand_hwcontroller_init hw (new_chip s) = (r, t)"
  shows "quiet s t \<and> ce_ok t"
proof -
  have "amlnf t = amlnf (new_chip s)"
    using hwcontroller_init_guard [of hw "new_chip s"] assms by simp
  then have "quiet (new_chip s) t" "ce_ok t"
    using hwcontroller_init_ce [OF new_chip_quiet(2) assms] by (auto simp: quiet_def)
  then show ?thesis
    using quiet_trans [OF new_chip_quiet(1)] by blast
qed

lemma configs_quiet:
  assumes "amlnf_readonly (amlnf s) \<noteq> 0" "quiet s t" "ce_ok t" "hk = vendor_hooks hw pins alloc ty"
    and "amlnand_get_dev_configs hw (chip_table hw hk (bbt_writer hw hk n)) fl a t = Some (r, u)"
  shows "quiet s u \<and> ce_ok u"
  using quiet_guarded [OF vendor_start.configs_guarded [OF assms(5) [unfolded assms(4)]] assms(3)] assms(1,2) quiet_trans
  by (metis quiet_def)

lemma devices_quiet:
  assumes "amlnf_readonly (amlnf s) \<noteq> 0" "quiet s t" "ce_ok t" "hk = vendor_hooks hw pins alloc ty"
    and "amlnand_phydev_init (chip_table hw hk (bbt_writer hw hk n)) b m c t = Some (r, u)"
  shows "quiet s u \<and> ce_ok u"
  using quiet_guarded [OF vendor_start.devices_guarded [OF assms(5) [unfolded assms(4)]] assms(3)] assms(1,2) quiet_trans
  by (metis quiet_def)

lemma after_chip_init:
  assumes "amlnf_readonly (amlnf s) \<noteq> 0" "quiet s v" "ce_ok v"
    and "(let hk = vendor_hooks hw pins alloc ty; ct = chip_table hw hk (bbt_writer hw hk n)
       in amlnand_get_dev_configs hw ct fl a v \<bind> (\<lambda>(ret, s). if ret < 0 then Some ((- NAND_READ_FAILED, False, []), s)
         else amlnand_phydev_init ct b m (c s) s \<bind> (\<lambda>((ret, devs), s).
           Some ((if ret < 0 then - NAND_READ_FAILED else ret, False, devs), s)))) = Some ((r, x), u)"
  shows "quiet s u \<and> ce_ok u"
proof -
  let ?hk = "vendor_hooks hw pins alloc ty"
  let ?ct = "chip_table hw ?hk (bbt_writer hw ?hk n)"
  obtain r1 t where t: "amlnand_get_dev_configs hw ?ct fl a v = Some (r1, t)"
    using assms(4) by (auto simp: Let_def bind_eq_Some_conv)
  note q = configs_quiet [OF assms(1-3) refl t]
  show ?thesis
  proof (cases "r1 < 0")
    case True
    then show ?thesis
      using assms(4) t q by (simp add: Let_def)
  next
    case False
    then obtain y w where "amlnand_phydev_init ?ct b m (c t) t = Some (y, w)" "u = w"
      using assms(4) t by (auto simp: Let_def bind_eq_Some_conv)
    then show ?thesis
      using devices_quiet [OF assms(1) conjunct1 [OF q] conjunct2 [OF q] refl] by blast
  qed
qed

text \<open>
  The whole of \<open>amlnf_phy_init\<close>: quiet on every path, and with valid select
  lines when it succeeds.
\<close>

lemma phy_init_quiet:
  assumes "amlnf_readonly (amlnf s) \<noteq> 0" "amlnf_phy_init hw n fl a s = Some ((r, x), u)"
  shows "quiet s u \<and> (r = 0 \<longrightarrow> ce_ok u)"
proof -
  obtain r0 t where t: "amlnand_hwcontroller_init hw (new_chip s) = (r0, t)"
    by (cases "amlnand_hwcontroller_init hw (new_chip s)")
  note qt = controller_start_quiet [OF t]
  show ?thesis
  proof (cases "ph_chip a \<and> 0 \<le> ph_pinctrl a \<and> 0 \<le> ph_pinstate a \<and> 0 \<le> r0")
    case False
    then show ?thesis
      using assms(2) t qt new_chip_quiet(1) by (auto simp: amlnf_phy_init_def Let_def quiet_def c_consts split: if_splits)
  next
    case True
    then obtain r1 fr v where v: "amlnand_chip_init hw (vendor_hooks hw (ph_pins a) (ph_kmalloc a) 0) (ph_scan a) (ph_bufs a) t = Some ((r1, fr), v)"
      using assms(2) t by (auto simp: amlnf_phy_init_def Let_def bind_eq_Some_conv)
    then have qv: "quiet s v" "ce_ok v"
      using quiet_safe [of t v] chip_init_safe [OF bus_safe_refl, of t] qt quiet_trans by (auto simp: framed_def)
    show ?thesis
      using after_chip_init [OF assms(1) qv] assms(2) t v True qv(1)
      by (auto simp: amlnf_phy_init_def Let_def c_consts split: if_splits)
  qed
qed

text \<open>The demonstration flash answers no known id, so the start stops there.\<close>

definition demo_scan_bufs :: scan_bufs where
  "demo_scan_bufs = \<lparr>sb_dev_id = 5000, sb_onfi_mode = 5100, sb_onfi_features = 5200\<rparr>"

definition demo_phy :: phy_answers where
  "demo_phy = \<lparr>ph_chip = True, ph_pinctrl = 0, ph_pinstate = 0, ph_pins = (\<lambda>_. 0), ph_kmalloc = (\<lambda>_. 950000),
     ph_scan = demo_scan_bufs,
     ph_bufs = \<lparr>ba_data = 100000, ba_data_dma = 0, ba_user = 4000, ba_user_dma = 0, ba_page = (\<lambda>_. 200000), ba_oob = (\<lambda>_. 300000)\<rparr>,
     ph_start = \<lparr>sa_config = \<lparr>ca_oob = 800000, ca_page = 700000, ca_status = 600000, ca_shipped = 1000000, ca_config = 900000\<rparr>,
       sa_sysbuf = 1100000, sa_env = \<lparr>ea_buf = 1300000, ea_region = 0, ea_cdev = 0, ea_class = True, ea_device = True\<rparr>,
       sa_kmalloc = (\<lambda>_. 950000)\<rparr>,
     ph_bad_blk = True, ph_dev = (\<lambda>_. True), ph_config = (\<lambda>_. [])\<rparr>"

lemma demo_unknown_flash: "find_flash (replicate 8 0xe0) = None"
  by code_simp

lemma memset_bytes: "mem_bytes (memset b v n m) b n = replicate n v"
  by (auto simp: mem_bytes_def memset_def intro: nth_equalityI)

lemma demo_chip_init:
  assumes "has (ctl_option (controller s)) NAND_CTRL_NONE_RB" "\<not> spi_nand_mutex s" "\<And>u. 0 \<le> pin_select hk u"
  shows "\<exists>u. amlnand_chip_init demo_hw hk demo_scan_bufs a s = Some ((- NAND_ID_FAILURE, []), u)"
proof -
  let ?s = "s\<lparr>spi_nand_mutex := True, nand_idleflag := True\<rparr>"
  let ?t = "?s\<lparr>mem := memset 5000 0 8 (mem ?s)\<rparr>"
  obtain t m where t: "read_id demo_hw 0 0 5000 ?t = Some (0, t)" "mem t = memset 5000 0xe0 8 m"
    using demo_read_id [of ?t 0 5000 0] assms(1) by auto
  have "get_flash_type demo_hw 5000 ?s = Some (- NAND_ID_FAILURE, t)"
    using t by (simp add: get_flash_type_def memset_bytes demo_unknown_flash)
  moreover have "nand_get_chip hk s = Some ?s"
    using assms(2,3) by (simp add: nand_get_chip_def Let_def not_less)
  ultimately have "amlnand_chip_scan demo_hw hk demo_scan_bufs s = Some ((- NAND_ID_FAILURE, 0), nand_release_chip t)"
    by (simp add: amlnand_chip_scan_def demo_scan_bufs_def NAND_ID_FAILURE_def)
  then show ?thesis
    by (simp add: amlnand_chip_init_def NAND_ID_FAILURE_def)
qed

lemma demo_controller_init:
  "\<exists>t. amlnand_hwcontroller_init demo_hw (new_chip demo_nand) = (0, t) \<and> has (ctl_option (controller t)) NAND_CTRL_NONE_RB
     \<and> \<not> spi_nand_mutex t"
  by (simp add: amlnand_hwcontroller_init_def controller_hw_init_def NFC_SET_TIMING_ASYC_def aml_set_reg32_bits_def Let_def
      split_beta NFC_SEND_CMD_def aml_write_reg32_def aml_read_reg32_def nfc_event_def new_chip_def demo_nand_def
      zero_ctl_def has_def c_consts)

lemma demo_start: "\<exists>u. amlnf_phy_init demo_hw 3 1 demo_phy demo_nand = Some ((- NAND_FAILED, True, []), u)"
proof -
  obtain t where t: "amlnand_hwcontroller_init demo_hw (new_chip demo_nand) = (0, t)"
    "has (ctl_option (controller t)) NAND_CTRL_NONE_RB" "\<not> spi_nand_mutex t"
    using demo_controller_init by blast
  obtain u where u: "amlnand_chip_init demo_hw (vendor_hooks demo_hw (\<lambda>_. 0) (\<lambda>_. 950000) 0) demo_scan_bufs (ph_bufs demo_phy) t
      = Some ((- NAND_ID_FAILURE, []), u)"
    using demo_chip_init [OF t(2,3), of "vendor_hooks demo_hw (\<lambda>_. 0) (\<lambda>_. 950000) 0"] by (auto simp: vendor_hooks_def)
  have "ph_chip demo_phy" "ph_pinctrl demo_phy = 0" "ph_pinstate demo_phy = 0" "ph_pins demo_phy = (\<lambda>_. 0)"
    "ph_kmalloc demo_phy = (\<lambda>_. 950000)" "ph_scan demo_phy = demo_scan_bufs"
    by (simp_all add: demo_phy_def)
  then show ?thesis
    using t(1) u by (simp add: amlnf_phy_init_def Let_def NAND_ID_FAILURE_def)
qed

end
