(* ===== verification/EnvDevProps.thy ===== *)
theory EnvDevProps
  imports PhyDevProps InfoProps EnvDev
begin

text \<open>
  The environment device: reads and writes stay within the record, a write
  saves the old record with the caller's bytes in place, and a write whose
  save is refused is still reported as done.
\<close>

lemma clip_bounds: "0 \<le> pos \<Longrightarrow> pos \<le> 0x8000 \<Longrightarrow> 0 \<le> clip pos n \<and> clip pos n \<le> int n \<and> pos + clip pos n \<le> 0x8000"
  unfolding clip_def CONFIG_ENV_SIZE_def by auto

lemma clip_progress: "pos < 0x8000 \<Longrightarrow> 0 < n \<Longrightarrow> 0 < clip pos n"
  by (simp add: clip_def CONFIG_ENV_SIZE_def)


text \<open>A chip whose store holds no environment yet, and buffers that do not overlap.\<close>

definition fresh_env :: nand where
  "fresh_env = demo_nand\<lparr>uboot_env := (demo_arg 1)\<lparr>arg_valid := 0\<rparr>\<rparr>"

definition demo_env_bufs :: env_bufs where
  "demo_env_bufs = \<lparr>eb_env = 100000, eb_read = 200000, eb_save = 300000\<rparr>"

abbreviation "demo_table \<equiv> chip_table demo_hw plain_hooks (\<lambda>s. Some (0, s))"

lemma fresh_env_get:
  "amlnand_get_device demo_table st fresh_env = Some (fresh_env\<lparr>state := st, spi_nand_mutex := True, nand_idleflag := True\<rparr>)"
  by (rule get_device_ready) (simp_all add: fresh_env_def chip_idle_def demo_nand_def plain_hooks_def)

lemma fresh_env_read:
  "uboot_env s = uboot_env fresh_env \<Longrightarrow>
   amlnf_env_read ct p q CONFIG_ENV_SIZE s = Some (0, s\<lparr>mem := memset q 0 CONFIG_ENV_SIZE (mem s)\<rparr>)"
  by (simp add: amlnf_env_read_def fresh_env_def)


section \<open>Writing\<close>

lemma mem_bytes_nth: "i < n \<Longrightarrow> mem_bytes m a n ! i = m (a + i)"
  by (simp add: mem_bytes_def)

lemma store_bytes_at: "store_bytes p xs m a = (if p \<le> a \<and> a < p + length xs then xs ! (a - p) else m a)"
  by (induction xs arbitrary: p m) (auto simp: nth_Cons' not_le)

lemma store_bytes_spliced:
  assumes "p + length xs \<le> n"
  shows "mem_bytes (store_bytes (a + p) xs m) a n = take p (mem_bytes m a n) @ xs @ drop (p + length xs) (mem_bytes m a n)"
  using assms by (intro nth_equalityI) (auto simp: mem_bytes_nth nth_append store_bytes_at)

lemma copied_bytes:
  assumes "d + n \<le> a \<or> a + n \<le> d"
  shows "mem_bytes (memcpy d a n (memset d 0 n m)) d n = mem_bytes m a n"
  using assms by (intro nth_equalityI) (auto simp: mem_bytes_nth memcpy_def memset_def)


lemma fresh_env_write:
  "\<exists>s2. amlnf_env_read demo_table (eb_read demo_env_bufs) (eb_env demo_env_bufs) CONFIG_ENV_SIZE
       (fresh_env\<lparr>state := CHIP_WRITING, spi_nand_mutex := True, nand_idleflag := True\<rparr>) = Some (0, s2)
     \<and> amlnf_allow_meta (amlnf s2) = 0 \<and> bus s2 = bus fresh_env \<and> (\<forall>i<0x8000. mem s2 (100000 + i) = 0)"
  by (subst fresh_env_read)
    (simp_all add: memset_def demo_env_bufs_def CONFIG_ENV_SIZE_def fresh_env_def demo_nand_def guard_init_def)


text \<open>
  As long as writing the store is not allowed (\<open>allow_meta\<close> unset, the
  default), a write to the environment device touches the bus no more after
  loading the record and saves nothing, yet it reports all of the (clipped)
  bytes as written; only the unchanged file position tells.
\<close>

theorem env_write_reports_refused:
  assumes "amlnand_get_device ct CHIP_WRITING s = Some s1" "amlnf_env_read ct (eb_read b) (eb_env b) CONFIG_ENV_SIZE s1 = Some (0, s2)"
    and "pos < 0x8000" "eb_env b \<noteq> NULL" "eb_save b \<noteq> NULL" "amlnf_allow_meta (amlnf s2) = 0"
  shows "\<exists>t. uboot_env_write ct b pos data s = Some ((clip pos (length data), pos), t) \<and> bus t = bus s2"
  using assms
  by (simp add: uboot_env_write_def amlnf_env_save_def amlnand_save_info_by_name_def CONFIG_ENV_SIZE_def EROFS_def EFAULT_def Let_def
      amlnand_release_device_def nand_release_chip_def set_chip_state_def)

theorem env_write_reports_refused_witness:
  "\<exists>t. uboot_env_write demo_table demo_env_bufs 0 [1, 2, 3] fresh_env = Some ((3, 0), t) \<and> bus t = bus fresh_env"
proof -
  obtain s2 where s2: "amlnf_env_read demo_table (eb_read demo_env_bufs) (eb_env demo_env_bufs) CONFIG_ENV_SIZE
       (fresh_env\<lparr>state := CHIP_WRITING, spi_nand_mutex := True, nand_idleflag := True\<rparr>) = Some (0, s2)"
    "amlnf_allow_meta (amlnf s2) = 0" "bus s2 = bus fresh_env"
    using fresh_env_write by blast
  have c: "clip 0 (length [1 :: u8, 2, 3]) = 3"
    by (simp add: clip_def CONFIG_ENV_SIZE_def)
  show ?thesis
    using env_write_reports_refused [OF fresh_env_get s2(1), of 0 "[1, 2, 3]"] s2(2,3)
    unfolding c by (simp add: demo_env_bufs_def)
qed

end
