(* ===== verification/DevDebug.thy ===== *)
theory DevDebug
  imports DevFrame
begin

text \<open>
  The debugging routines of \<open>dev/phydev.c\<close> that read or write one page of a
  device: \<open>nand_page_read\<close>, \<open>nand_page_write\<close>, \<open>dump_nand_page\<close>, and the switch
  \<open>verify_nand_page\<close>.  The number a text gives and the address the allocator
  returns are parameters; the output is not modelled.  The result is the pointer
  that is given back at the end.
\<close>

section \<open>One page\<close>

definition debug_request :: "oob_modes \<Rightarrow> u64 \<Rightarrow> ptr \<Rightarrow> amlnand_phydev \<Rightarrow> amlnand_phydev" where
  "debug_request m off buf p =
     p\<lparr>pd_ops := \<lparr>do_mode = m, do_addr = off, do_len = ucast (writesize p), do_retlen = 0, do_ooblen = 0,
         do_datbuf = buf, do_oobbuf = NULL\<rparr>\<rparr>"

definition advance_addr :: "u32 \<Rightarrow> dev \<Rightarrow> dev" where
  "advance_addr n d = (let (p, s) = d in (p\<lparr>pd_ops := (pd_ops p)\<lparr>do_addr := do_addr (pd_ops p) + ucast n\<rparr>\<rparr>, s))"

text \<open>
  The answer of \<open>block_isbad\<close> is kept in an unsigned variable, so an error also
  counts as a bad block.
\<close>

definition debug_bad :: "chip_operation \<Rightarrow> dev \<Rightarrow> (bool \<times> dev) option" where
  "debug_bad ct d =
     (if erasesize (fst d) = 0 then None
      else if ucast (do_addr (pd_ops (fst d))) mod erasesize (fst d) \<noteq> 0 then Some (False, d)
      else do { (ret, d) \<leftarrow> nand_block_isbad ct d; Some (ret \<noteq> 0, d) })"

partial_function (option) debug_loop ::
  "(dev \<Rightarrow> (int \<times> dev) option) \<Rightarrow> chip_operation \<Rightarrow> u64 \<Rightarrow> ptr \<Rightarrow> dev \<Rightarrow> (ptr \<times> dev) option" where
  "debug_loop rw ct fin buf d = do {
     (bad, d) \<leftarrow> debug_bad ct d;
     (buf, d) \<leftarrow> (if bad then Some (buf, advance_addr (erasesize (fst d)) d)
       else do { (_, d) \<leftarrow> rw d; Some (buf + unat (writesize (fst d)), advance_addr (writesize (fst d)) d) });
     if do_addr (pd_ops (fst d)) < fin then debug_loop rw ct fin buf d else Some (buf, d)
   }"

declare debug_loop.simps [code]

definition debug_page ::
  "(dev \<Rightarrow> (int \<times> dev) option) \<Rightarrow> chip_operation \<Rightarrow> u8 \<Rightarrow> oob_modes \<Rightarrow> u64 \<Rightarrow> ptr \<Rightarrow> dev \<Rightarrow> (ptr \<times> dev) option" where
  "debug_page rw ct fill m off buf d =
     (let (p, s) = d
      in if buf = NULL then Some (NULL, d)
         else debug_loop rw ct (off + ucast (writesize p)) buf
           (debug_request m off buf p, s\<lparr>mem := memset buf fill (unat (2 * writesize p)) (mem s)\<rparr>))"

definition nand_page_read :: "chip_operation \<Rightarrow> ptr \<Rightarrow> dev \<Rightarrow> (ptr \<times> dev) option" where
  "nand_page_read ct buf d = debug_page (nand_read ct) ct 0 NAND_HW_ECC 0 buf d"

definition nand_page_write :: "chip_operation \<Rightarrow> (u32 \<Rightarrow> ptr) \<Rightarrow> ptr \<Rightarrow> dev \<Rightarrow> (ptr \<times> dev) option" where
  "nand_page_write ct malloc buf d = debug_page (nand_write ct malloc) ct 0xa5 NAND_HW_ECC 0 buf d"

definition dump_nand_page :: "chip_operation \<Rightarrow> u64 \<Rightarrow> ptr \<Rightarrow> dev \<Rightarrow> (ptr \<times> dev) option" where
  "dump_nand_page ct off buf d = debug_page (nand_read ct) ct 0 NAND_SOFT_ECC off buf d"

definition verify_nand_page :: "u32 \<Rightarrow> nand \<Rightarrow> nand" where
  "verify_nand_page off s = s\<lparr>debug_flag := ucast off\<rparr>"

section \<open>What they do\<close>

text \<open>
  One access and no more when the block is not bad, as long as the end of the
  page does not wrap; and then the pointer given back is not the one allocated
  but one page further on.
\<close>

lemma debug_page_once:
  assumes "debug_bad ct (debug_request m off buf p, s\<lparr>mem := memset buf fill (unat (2 * writesize p)) (mem s)\<rparr>) = Some (False, d1)"
    and "rw d1 = Some (r, q, t)" "writesize q = writesize p" "do_addr (pd_ops q) = off" "buf \<noteq> NULL"
  shows "debug_page rw ct fill m off buf (p, s) = Some (buf + unat (writesize p), advance_addr (writesize p) (q, t))"
  using assms by (simp add: debug_page_def debug_loop.simps [of rw] advance_addr_def)

end
