(* ===== verification/DriverRun.thy ===== *)
theory DriverRun
  imports StartProps EnvDevProps DevDebug
begin

text \<open>
  Histories of the running driver: every way in which the rest of the kernel
  and user space reach the flash (the physical devices, the record store, the
  environment and \<open>bootloader\<close> devices, the debugging routines, suspend, resume
  and shutdown), in any order.
\<close>

inductive driver_run :: "nfc \<Rightarrow> nand_hooks \<Rightarrow> chip_operation \<Rightarrow> (u32 \<Rightarrow> ptr) \<Rightarrow> nand \<Rightarrow> nand \<Rightarrow> bool" for hw hk ct malloc where
  begins: "driver_run hw hk ct malloc s s"
| on_device: "driver_run hw hk ct malloc s t \<Longrightarrow> dev_call ct malloc req (p, t) = Some (r, p', u) \<Longrightarrow> driver_run hw hk ct malloc s u"
| on_store: "driver_run hw hk ct malloc s t \<Longrightarrow> info_call ct ireq t = Some (r, u) \<Longrightarrow> driver_run hw hk ct malloc s u"
| repairs: "driver_run hw hk ct malloc s t \<Longrightarrow> repair_reserved_bad_block ct malloc t = Some (r, u) \<Longrightarrow> driver_run hw hk ct malloc s u"
| updates_env: "driver_run hw hk ct malloc s t \<Longrightarrow> aml_sys_info_error_handle ct buf t = Some (r, u) \<Longrightarrow> driver_run hw hk ct malloc s u"
| reads_env: "driver_run hw hk ct malloc s t \<Longrightarrow> uboot_env_read ct eb pos cnt t = Some (er, u) \<Longrightarrow> driver_run hw hk ct malloc s u"
| writes_env: "driver_run hw hk ct malloc s t \<Longrightarrow> uboot_env_write ct eb pos data t = Some (ew, u) \<Longrightarrow> driver_run hw hk ct malloc s u"
| writes_boot: "driver_run hw hk ct malloc s t \<Longrightarrow> uboot_write hw ct bb buf data (p, t) = Some (n, p', u) \<Longrightarrow> driver_run hw hk ct malloc s u"
| suspends: "driver_run hw hk ct malloc s t \<Longrightarrow> driver_run hw hk ct malloc s (snd (phydev_suspend p t))"
| resumes: "driver_run hw hk ct malloc s t \<Longrightarrow> amlchip_resume hw hk sb p t = Some u \<Longrightarrow> driver_run hw hk ct malloc s u"
| debugs: "driver_run hw hk ct malloc s t \<Longrightarrow> rw \<in> {nand_read ct, nand_write ct malloc} \<Longrightarrow>
    debug_page rw ct fill m off buf (p, t) = Some (b, p', u) \<Longrightarrow> driver_run hw hk ct malloc s u"
| sets_debug: "driver_run hw hk ct malloc s t \<Longrightarrow> driver_run hw hk ct malloc s (verify_nand_page v t)"
| shuts_down: "driver_run hw hk ct malloc s t \<Longrightarrow> amlnf_shutdown ct ps t = Some (qs, u) \<Longrightarrow> driver_run hw hk ct malloc s u"

context start_frame
begin

lemma E_read: "R s t \<Longrightarrow> framed R s (amlnf_env_read ct p b n t)"
  unfolding amlnf_env_read_def by (auto intro!: framed_if framed_Some framed_bind [OF I_read_info] I_mem)

lemma E_save: "R s t \<Longrightarrow> framed R s (amlnf_env_save ct p b n t)"
  unfolding amlnf_env_save_def Let_def by (auto intro!: framed_if framed_Some framed_bind [OF I_save_info] I_mem)

lemma E_env_read: "R s t \<Longrightarrow> framed R s (uboot_env_read ct b pos n t)"
  unfolding uboot_env_read_def Let_def
  by (auto intro!: framed_if framed_Some framed_bind1 [OF D_get_device] framed_bind [OF E_read] D_release_device)

lemma E_env_write: "R s t \<Longrightarrow> framed R s (uboot_env_write ct b pos data t)"
  unfolding uboot_env_write_def Let_def
  by (auto intro!: framed_if framed_Some framed_bind1 [OF D_get_device] framed_bind [OF E_read] framed_bind [OF E_save]
      D_release_device I_mem)

lemma E_update: "R s t \<Longrightarrow> framed R s (aml_nand_update_ubootenv ct b t)"
  unfolding aml_nand_update_ubootenv_def
  by (auto intro!: framed_if framed_Some framed_bind [OF I_read_info] framed_bind [OF I_save_info] I_mem)

lemma E_sys_error: "R s t \<Longrightarrow> framed R s (aml_sys_info_error_handle ct b t)"
  unfolding aml_sys_info_error_handle_def by (auto intro!: framed_if framed_Some framed_bind [OF E_update] S_flags)

lemma E_suspend: "R s t \<Longrightarrow> R s (snd (phydev_suspend p t))"
  unfolding phydev_suspend_def set_chip_state_def by (auto intro: S_same)

lemma E_shutdown: "R s t \<Longrightarrow> framed R s (amlnf_shutdown ct ps t)"
  by (induction ps arbitrary: t)
    (auto simp: framed_Some Let_def intro!: framed_bind1 [OF D_get_device] framed_bind [where R = R] D_release_device)

lemma E_boot: "uboot_write hw ct b buf data (p, s) = Some (n, q, t) \<Longrightarrow> R s t"
  using B_uboot_write [OF refl] by (fastforce simp: framed2_def)

lemma E_debug_bad: "R s (snd d) \<Longrightarrow> framed2 R s (debug_bad ct d)"
  unfolding debug_bad_def
  using D_block_ops(1) [of s "snd d" "fst d"]
  by (auto simp: framed2_def bind_eq_Some_conv)

lemma E_debug_loop:
  assumes rw: "\<And>s d. R s (snd d) \<Longrightarrow> framed2 R s (rw d)"
  shows "debug_loop rw ct fin buf d = Some (b, e) \<Longrightarrow> R (snd d) (snd e)"
proof -
  have "debug_loop rw' ct' fin buf d = Some x \<Longrightarrow> rw' = rw \<and> ct' = ct \<longrightarrow> R (snd d) (snd (snd x))" for rw' ct' x
  proof (erule debug_loop.raw_induct [rotated], intro impI, goal_cases)
    case (1 self rw' ct' fin buf d x)
    have self: "framed2 R (snd d) (self rw ct fin buf e)" if "R (snd d) (snd e)" for buf e
      using 1(1) that trans by (fastforce simp: framed2_def)
    have "framed2 R (snd d) (Some x)"
      unfolding 1(2) [symmetric] conjunct1 [OF 1(3)] conjunct2 [OF 1(3)]
      by (rule framed2_bind2 [OF E_debug_bad [OF refl]])
        (auto intro!: framed2_bind2 [OF rw] framed2_if framed2_Some self simp: advance_addr_def split_beta)
    then show ?case
      by (cases x) (auto simp: framed2_def)
  qed
  then show "debug_loop rw ct fin buf d = Some (b, e) \<Longrightarrow> R (snd d) (snd e)"
    by fastforce
qed

lemma E_debug_page:
  assumes "\<And>s d. R s (snd d) \<Longrightarrow> framed2 R s (rw d)" "debug_page rw ct fill m off buf (p, s) = Some (b, e)"
  shows "R s (snd e)"
proof (cases "buf = NULL")
  case True
  then show ?thesis
    using assms(2) by (auto simp: debug_page_def intro: refl)
next
  case False
  then have "debug_loop rw ct (off + ucast (writesize p)) buf
      (debug_request m off buf p, s\<lparr>mem := memset buf fill (unat (2 * writesize p)) (mem s)\<rparr>) = Some (b, e)"
    using assms(2) by (simp add: debug_page_def)
  from E_debug_loop [OF assms(1) this]
  have "R (s\<lparr>mem := memset buf fill (unat (2 * writesize p)) (mem s)\<rparr>) (snd e)"
    by simp
  then show ?thesis
    by (rule trans [OF I_mem [OF refl]])
qed

lemma E_debugs: "rw \<in> {nand_read ct, nand_write ct malloc} \<Longrightarrow> debug_page rw ct fill m off buf (p, s) = Some (b, q, t) \<Longrightarrow> R s t"
  using E_debug_page [of rw fill m off buf p s b "(q, t)"] D_nand_read D_nand_write [of _ _ malloc] by fastforce

lemma E_sets_debug: "R s t \<Longrightarrow> R s (verify_nand_page v t)"
  unfolding verify_nand_page_def by (auto intro: S_same)

lemma E_run:
  assumes "\<And>sb p s t. amlchip_resume hw hk sb p s = Some t \<Longrightarrow> R s t"
  shows "driver_run hw hk ct malloc s t \<Longrightarrow> R s t"
proof (induction rule: driver_run.induct)
  case (reads_env s t eb pos cnt er u)
  then show ?case
    using E_env_read [of s t eb pos cnt] by (cases er) (auto simp: framed_def)
next
  case (writes_env s t eb pos data ew u)
  then show ?case
    using E_env_write [of s t eb pos data] by (cases ew) (auto simp: framed_def)
next
  case (shuts_down s t ps qs u)
  then show ?case
    using E_shutdown [of s t ps] by (simp add: framed_def)
next
  case (repairs s t r u)
  then show ?case
    using S_repair [of s t malloc] by (simp add: framed_def)
next
  case (updates_env s t buf r u)
  then show ?case
    using E_sys_error [of s t buf] by (simp add: framed_def)
next
  case (debugs s t rw fill m off buf p b p' u)
  then show ?case
    using E_debugs trans by blast
next
  case (sets_debug s t v)
  then show ?case
    by (simp add: E_sets_debug)
qed (auto intro: refl trans D_call I_call E_boot E_suspend assms)

end

section \<open>The guard\<close>

lemma reset_chips_safe: "bus_safe s t \<Longrightarrow> framed1 bus_safe s (reset_chips hw cs t)"
  by (induction cs arbitrary: t) (auto simp: framed1_Some intro!: framed1_bind [OF plain.R_select] framed1_bind [OF plain.R_reset])

lemma release_safe: "bus_safe s t \<Longrightarrow> bus_safe s (amlnand_release_device t)"
  by (erule bus_safe_trans) (simp add: amlnand_release_device_def nand_release_chip_def set_chip_state_def bus_safe_def ce_ok_def)

lemma resume_safe: "amlchip_resume hw hk b p s = Some t \<Longrightarrow> bus_safe s t"
proof -
  have "framed1 bus_safe s (amlchip_resume hw hk b p s)"
    unfolding amlchip_resume_def
    by (auto intro!: framed1_if framed1_Some framed1_bind1 [OF get_chip_safe] framed1_bind1 [OF reset_chips_safe]
        framed1_bind1 [OF onfi_timing_safe] release_safe mem_safe bus_safe_refl)
  then show "amlchip_resume hw hk b p s = Some t \<Longrightarrow> bus_safe s t"
    by (simp add: framed1_def)
qed

context guarded_table
begin

lemma driver_guarded: "driver_run hw hk (chip_table hw hk ub) malloc s t \<Longrightarrow> guarded s t"
  by (rule start.E_run) (auto simp: guarded_def dest: resume_safe)

end

end
