(* ===== verification/Module.thy ===== *)
theory Module
  imports Start BootOp Ntd Nftl Guard
begin

text \<open>
  \<open>dev/amlnf_dev.c\<close>: the module's probe routine, which maps the registers, brings
  the physical layer up, makes partitions of the physical devices, registers
  them and starts the FTL block layer.  Each step works on its own part of the
  state; what the kernel answers is a parameter.
\<close>

section \<open>Logical devices\<close>

record part_answers =
  pa_kzalloc :: ptr
  pa_strdup :: bool
  pa_master :: ptr

fun amlnf_logic_init ::
  "chip_operation \<Rightarrow> ntd_env \<Rightarrow> boot_answers \<Rightarrow> (part_answers \<times> amlnand_phydev) list \<Rightarrow> int \<Rightarrow> nand \<Rightarrow> ntd_sys
     \<Rightarrow> ((int \<times> amlnand_phydev list) \<times> nand \<times> ntd_sys) option" where
  "amlnf_logic_init ct env b [] ret s t = Some ((ret, []), s, t)"
| "amlnf_logic_init ct env b ((a, p) # ps) _ s t = do {
     (ret, (p, s), t) \<leftarrow> (if is_boot (pd_name p) then Some (fst (boot_device_register b p), (p, s), t)
       else add_ntd_partitions ct env (pa_kzalloc a) (pa_strdup a) (pa_master a) (p, s) t);
     if ret < 0 then Some ((ret, p # map snd ps), s, t)
     else do {
       ((ret, qs), s, t) \<leftarrow> amlnf_logic_init ct env b ps ret s t;
       Some ((ret, p # qs), s, t)
     }
   }"

section \<open>Registering the physical devices\<close>

text \<open>
  A device that cannot be registered is freed although it stays in the list;
  a class that cannot be registered leaves the device registered.
\<close>

datatype pdev_state = PdevFreed | PdevRegistered | PdevComplete

definition amlnf_pdev_register :: "int \<Rightarrow> int \<Rightarrow> int \<times> pdev_state" where
  "amlnf_pdev_register device_register class_register =
     (if device_register \<noteq> 0 then (device_register, PdevFreed)
      else if class_register \<noteq> 0 then (class_register, PdevRegistered)
      else (0, PdevComplete))"

fun pdev_registers :: "(int \<times> int) list \<Rightarrow> amlnand_phydev list \<Rightarrow> int \<times> (string \<times> pdev_state) list" where
  "pdev_registers as [] = (0, [])"
| "pdev_registers as (p # ps) =
     (if is_boot (pd_name p) then pdev_registers as ps
      else let (d, c) = (if as = [] then (0, 0) else hd as); (ret, st) = amlnf_pdev_register d c
           in if ret < 0 then (ret, [(pd_name p, st)])
              else let (ret, sts) = pdev_registers (tl as) ps in (ret, (pd_name p, st) # sts))"

definition amlnf_dev_init :: "(int \<times> int) list \<Rightarrow> bool \<Rightarrow> amlnand_phydev list \<Rightarrow> int \<times> (string \<times> pdev_state) list" where
  "amlnf_dev_init as class_create ps =
     (let (ret, sts) = pdev_registers as ps
      in if ret < 0 then (ret, sts) else (if class_create then 0 else - 1, sts))"

section \<open>Probe\<close>

definition check_storage_device :: "int \<times> int" where
  "check_storage_device = (0, 1)"

record module_answers =
  mo_platform :: platform
  mo_nest :: nat
  mo_phy :: phy_answers
  mo_ntd :: ntd_env
  mo_part :: "amlnand_phydev \<Rightarrow> part_answers"
  mo_boot :: boot_answers
  mo_register :: "(int \<times> int) list"
  mo_class :: bool
  mo_blkdev :: int

record 'f module_state =
  ms_map :: nfc_map
  ms_nand :: nand
  ms_devs :: "amlnand_phydev list"
  ms_ntd :: ntd_sys
  ms_nftl :: "'f nftl_sys"

text \<open>
  Whatever fails after the registers are mapped, the probe reports success.
  \<open>add_ntd\<close> is the FTL block layer's reaction to a partition
  (\<open>aml_nftl_add_ntd\<close>).
\<close>

definition amlnf_init ::
  "nfc \<Rightarrow> module_answers \<Rightarrow> (ptr \<Rightarrow> 'f nftl_sys \<Rightarrow> 'f nftl_sys) \<Rightarrow> 'f module_state \<Rightarrow> (int \<times> 'f module_state) option" where
  "amlnf_init hw a add_ntd w =
     (let (ret, boot_device_flag) = check_storage_device
      in if ret < 0 then Some (0, w)
         else let (ret, nm) = amlnf_map_nfc (mo_platform a) (ms_map w); w = w\<lparr>ms_map := nm, ms_devs := []\<rparr>
         in if ret \<noteq> 0 then Some (ret, w)
         else do {
           ((ret, _, devs), s) \<leftarrow> amlnf_phy_init hw (mo_nest a) boot_device_flag (mo_phy a) (ms_nand w);
           let w = w\<lparr>ms_nand := s, ms_devs := devs\<rparr>;
           if ret \<noteq> 0 then Some (0, w)
           else do {
             let hk = vendor_hooks hw (ph_pins (mo_phy a)) (ph_kmalloc (mo_phy a)) (new_type (flash s));
             let ct = chip_table hw hk (bbt_writer hw hk (mo_nest a));
             ((ret, devs), s, t) \<leftarrow> amlnf_logic_init ct (mo_ntd a) (mo_boot a) (map (\<lambda>p. (mo_part a p, p)) devs) 0 s (ms_ntd w);
             let w = w\<lparr>ms_nand := s, ms_devs := devs, ms_ntd := t\<rparr>;
             if ret < 0 then Some (0, w)
             else if fst (amlnf_dev_init (mo_register a) (mo_class a) devs) < 0 then Some (0, w)
             else Some (0, w\<lparr>ms_nftl := snd (init_aml_nftl 0 (mo_blkdev a) add_ntd (ms_ntd w) (ms_nftl w))\<rparr>)
           }
         })"

section \<open>Suspending and resuming partitions\<close>

definition part_suspend :: "amlnand_phydev option \<Rightarrow> nand \<Rightarrow> int \<times> nand" where
  "part_suspend phy s = (case phy of None \<Rightarrow> (0, s) | Some p \<Rightarrow> phydev_suspend p s)"

definition part_resume :: "nfc \<Rightarrow> nand_hooks \<Rightarrow> scan_bufs \<Rightarrow> amlnand_phydev option \<Rightarrow> nand \<Rightarrow> nand option" where
  "part_resume hw hk b phy s = (case phy of None \<Rightarrow> Some s | Some p \<Rightarrow> amlchip_resume hw hk b p s)"

end
