(* ===== verification/ModuleProps.thy ===== *)
theory ModuleProps
  imports StartProps NtdProps NftlProps Module
begin

text \<open>
  Loading the module writes nothing to the flash while the guard is up.
\<close>

section \<open>What making partitions preserves\<close>

context start_frame
begin

lemma M_isbad: "R s (snd d) \<Longrightarrow> framed2 R s (part_block_isbad ct n b d)"
  using D_block_ops(1) [of s "snd d"] by (cases d) (auto simp: part_block_isbad_def Let_def)

lemma M_count_bad: "R s (snd d) \<Longrightarrow> framed2 R s (count_bad ct n k b d)"
proof (induction k arbitrary: n b d)
  case (Suc k)
  show ?case
    unfolding count_bad.simps by (rule framed2_bind2 [OF M_isbad [OF Suc.prems]]) (auto intro: Suc.IH)
qed (auto simp: framed2_def)

lemma M_allocate: "R s u \<Longrightarrow> allocate_partition ct kz sd master (p, u) t = Some (x, (q, v), t') \<Longrightarrow> R s v"
  using M_count_bad [of s "(p, u)"]
  by (auto simp: allocate_partition_def Let_def framed2_def bind_eq_Some_conv split: if_splits)

lemma M_add:
  assumes "R s u" "add_ntd_partitions ct env kz sd master (p, u) t = Some (r, (q, v), t')"
  shows "R s v"
proof -
  obtain x q' v' t1 where x: "allocate_partition ct kz sd master (p, u) t = Some (x, (q', v'), t1)"
    using assms(2) by (auto simp: add_ntd_partitions_def bind_eq_Some_conv)
  then have "v = v'"
    using assms(2) by (cases x) (auto simp: add_ntd_partitions_def bind_eq_Some_conv)
  then show ?thesis
    using M_allocate [OF assms(1) x] by simp
qed

lemma M_logic: "R s u \<Longrightarrow> amlnf_logic_init ct env b ps ret u t = Some (x, v, t') \<Longrightarrow> R s v"
proof (induction ps arbitrary: ret u t x v t')
  case (Cons ap ps)
  obtain a p where ap: "ap = (a, p)"
    by (cases ap)
  have step: "R s w" if "(if is_boot (pd_name p) then Some (fst (boot_device_register b p), (p, u), t)
       else add_ntd_partitions ct env (pa_kzalloc a) (pa_strdup a) (pa_master a) (p, u) t) = Some (r, (q, w), t1)" for r q w t1
    using that Cons.prems(1) M_add by (auto split: if_splits)
  show ?case
    using Cons.prems(2) Cons.IH step
    by (fastforce simp: ap bind_eq_Some_conv split: if_splits)
qed simp

end

section \<open>Loading the module\<close>

lemma logic_quiet:
  assumes "amlnf_readonly (amlnf s) \<noteq> 0" "quiet s u" "ce_ok u" "hk = vendor_hooks hw pins alloc ty"
    and "amlnf_logic_init (chip_table hw hk (bbt_writer hw hk n)) env b ps r u t = Some (x, v, t')"
  shows "quiet s v"
proof -
  have "guarded u v"
    using vendor_start.start.M_logic [OF guarded_refl] assms(4,5) by blast
  then have "quiet u v"
    using quiet_guarded assms(1-3) by (simp add: quiet_def)
  then show ?thesis
    using quiet_trans [OF assms(2)] by blast
qed


definition demo_module :: "nat module_state" where
  "demo_module = \<lparr>ms_map = fresh_map, ms_nand = demo_nand, ms_devs = [], ms_ntd = no_ntd, ms_nftl = demo_sys\<rparr>"

definition demo_module_answers :: module_answers where
  "demo_module_answers = \<lparr>mo_platform = demo_platform, mo_nest = 3, mo_phy = demo_phy,
     mo_ntd = \<lparr>env_idr_alloc = (\<lambda>_. 0), env_class_register = 0, env_device_register = (\<lambda>_. 0), env_module_get = (\<lambda>_. True)\<rparr>,
     mo_part = (\<lambda>_. \<lparr>pa_kzalloc = 2000000, pa_strdup = True, pa_master = 2100000\<rparr>),
     mo_boot = \<lparr>bo_region = 0, bo_cdev = 0, bo_class = 0, bo_device = 0\<rparr>, mo_register = [], mo_class = True, mo_blkdev = 0\<rparr>"


end
