(* ===== verification/Spec2Isabelle.thy ===== *)
theory Spec2Isabelle
  imports Guard ControllerProps ChipProps PhyDevProps DevLock InfoProps NtdProps BlkProps DevInitProps NftlProps VendorProps
    ChipIdProps DriverRun ModuleProps
begin

text \<open>
  A verification development of the \<open>amlnf\<close> driver, an out-of-tree Linux
  driver for the raw NAND of Amlogic Meson8 and Meson8b boards (\<open>src/\<close>), which
  reads and writes the flash in the vendor's format.  A mistake can destroy
  data that cannot be rebuilt, so by default (\<open>readonly\<close>) the driver must not
  program or erase anything.

  \<^bold>\<open>The program.\<close>  From the bottom up:

  \<^item> The register and clock mapping and the module parameters that guard the
    flash (\<open>nfc_map.c\<close>).
  \<^item> The controller layer (\<open>phy/hw_controller.c\<close>, \<open>include/hw_ctrl.h\<close>): command
    words, ready waits, DMA transfers with ECC, user bytes, choice of the ECC mode.
  \<^item> The chip operations (\<open>phy/chip_operation.c\<close>): reading a page with
    read retry, programming, erasing, block tests, the bad block table in
    memory; with hooks of the flash vendors (\<open>phy/new_nand.c\<close>).
  \<^item> The record store (\<open>phy/chipenv.c\<close>): bad block table, configuration and
    environment as records in reserved blocks.
  \<^item> Identification (\<open>phy/chip.c\<close>, \<open>phy/id_table.c\<close>) and the start of the
    physical layer (\<open>phy/amlnand_init.c\<close>).
  \<^item> The physical devices (\<open>dev/phydev.c\<close>) that divide the chip, with the chip
    lock (\<open>dev/amlnf_ctrl.c\<close>); the \<open>bootloader\<close> device
    (\<open>phy/boot_operation.c\<close>) and the environment device (\<open>dev/amlnf_env.c\<close>).
  \<^item> Partitions and their registry (\<open>ntd/aml_ntdpart.c\<close>, \<open>ntd/aml_ntdcore.c\<close>).
  \<^item> Block devices: a queue with a worker (\<open>ntd/aml_ntd_blkdevs.c\<close>) and the
    block side of the translation layer (\<open>block/\<close>).  The translation layer
    itself is an object file.
  \<^item> The module (\<open>dev/amlnf_dev.c\<close>), whose probe routine composes all of it.

  \<^bold>\<open>The model.\<close>  One theory per part; definitions carry the names of the C
  functions, records those of the structures, integers their C width.

  \<^item> \<open>Prelude\<close>: machine integers, byte memory, error numbers, and \<open>frame\<close>, the
    root of the locales below.
  \<^item> \<open>Nand\<close>: the chip structure (\<open>nand\<close>) with controller, flash, operation
    parameters and records; register access.  The hardware is a parameter
    \<open>hw\<close> (any function from the history of register accesses to the value
    read and to what DMA leaves in memory), and the history \<open>bus\<close> is part of the state: what the driver sends to
    the flash is what theorems can speak about.
  \<^item> \<open>Guard\<close>, \<open>Controller\<close>, \<open>ChipRead\<close>, \<open>ChipOps\<close>, \<open>VendorTables\<close>, \<open>Vendor\<close>,
    \<open>InfoStore\<close>, \<open>ChipId\<close>, \<open>PhyDev\<close>, \<open>DevDebug\<close>, \<open>DevInit\<close>, \<open>BootOp\<close>, \<open>EnvDev\<close>,
    \<open>Start\<close>, \<open>Ntd\<close>, \<open>BlkTrans\<close>, \<open>Nftl\<close>, \<open>Module\<close>: the operations of the parts
    above.  \<open>chip_table\<close> (\<open>PhyDev\<close>) is the table of function pointers
    \<open>struct chip_operation\<close>; \<open>nand_hooks\<close> are the vendor hooks, instantiated by
    \<open>vendor_hooks\<close> for every flash type.
  \<^item> \<open>DevLock\<close>: several tasks in the chip lock, as a step relation.
  \<^item> \<open>DriverRun\<close>: histories of the running driver.

  Answers of the kernel (allocations, registration of devices, pin control,
  the platform) are parameters.  Buffers are addresses in one byte memory.
  The result of an operation that may not return is an option: \<open>None\<close> is a loop
  that does not end, a wait for a lock nobody releases, a division by zero or
  an access through a null pointer; theorems that an operation returns say so.

  \<^bold>\<open>Bounds and fuel.\<close>  Loops of the program are recursions with a termination
  proof, or \<open>partial_function (option)\<close>.  The only bound of the model is the
  parameter of \<open>bbt_writer\<close>: writing the bad block table may have to retire a
  block, which writes the table again; nesting deeper than \<open>n\<close> gives \<open>None\<close>, and
  every theorem about it holds for all \<open>n\<close>.  Busy waits keep the limits of the
  code (for instance 100000 reads of the FIFO status).

  \<^bold>\<open>What is shown.\<close>

  \<^item> The guard, across the whole driver: the locales \<open>nand_frame\<close>,
    \<open>readonly_frame\<close> and \<open>write_frame\<close> (\<open>BusFrame\<close>), \<open>unit_frame\<close>, \<open>dev_frame\<close>
    (\<open>DevFrame\<close>), \<open>info_frame\<close> (\<open>InfoFrame\<close>), \<open>boot_frame\<close> (\<open>BootProps\<close>) and
    \<open>start_frame\<close> (\<open>StartProps\<close>) state what a relation between states has to
    absorb for each layer to preserve it; they are interpreted for
    \<open>bus_safe\<close> and \<open>guarded\<close>, with the vendor hooks of every flash type.
    Result: with \<open>readonly\<close> set neither loading the module (\<open>ModuleProps\<close>) nor
    any history of calls (below) puts a program or erase opcode on the bus;
    requests are refused with \<open>-EROFS\<close> (\<open>PhyDevProps\<close>).
  \<^item> \<open>ControllerProps\<close>: ECC verdict, user bytes, choice of the ECC mode, waits.
    \<open>ChipProps\<close>: plane addresses, bad block marks, status loop, block test.
    \<open>VendorProps\<close>: the order of retry attempts, the SLC page lists, the tables.
    \<open>ChipIdProps\<close>, \<open>ProbeProps\<close>: the table of parts and the numbering of chips.
  \<^item> \<open>InfoProps\<close>: the newest copy is found, free blocks are unused, the table of
    blocks in use follows a record that moves, what the checksums cover.
  \<^item> \<open>PhyDevProps\<close>: a transfer is the sequence of its pages, what it reports,
    the chip is released; \<open>DevInitProps\<close>: the devices divide the chip;
    \<open>DevLock\<close>: mutual exclusion and progress for any number of tasks.
  \<^item> \<open>NtdProps\<close>: a partition's page is a page of the flash; the registry.
    \<open>BlkProps\<close>: the queue refines sequential execution and drains, device
    lifetime.  \<open>NftlProps\<close>: a request stays in its window, windows are disjoint,
    the worker does not hang, reboot.
  \<^item> \<open>EnvDevProps\<close>, \<open>BootProps\<close>: bounds and splicing of the environment, and what
    refused writes report.

  Where the code does not do what it means to, a theorem states what it does
  (for instance \<open>markbad_wrong_block\<close>, \<open>slc_transfer_repeats_page\<close>,
  \<open>remove_frees_twice\<close>, \<open>env_write_reports_refused\<close>).

  \<^bold>\<open>Not modelled.\<close>  The translation layer (\<open>nftl/\<close>, an object file: a parameter
  of \<open>Nftl\<close>); key and secure storage (\<open>dev/nandkey.c\<close>, \<open>dev/secure_storage.c\<close>:
  not built, their stubs are empty); code compiled for the boot loader only
  (\<open>AML_NAND_UBOOT\<close>: detection of shipped bad blocks, creation of a configuration,
  saving the Hynix values) or for other chips and configurations
  (\<open>CONFIG_NAND_AML_M8\<close>, \<open>AML_NAND_RB_IRQ\<close>, DMA polling); text output to the
  log, to \<open>proc\<close> and to \<open>sysfs\<close>; \<open>shims.c\<close>, two symbols for the object file.
  The scheduler, the block layer and the memory model of the kernel are not
  modelled beyond the answers and steps the code depends on.
\<close>

section \<open>The write guard across the whole driver\<close>

text \<open>
  C1.  With the \<open>readonly\<close> parameter set, no history of the running driver
  puts a program or erase opcode on the bus to the flash, and the parameter
  stays set.  A history consists of calls on the physical devices (reads,
  writes, erases, block tests, bad block queries and updates, on any devices and
  with any arguments), on the record store (saving, loading and locating
  records, looking for free blocks, writing the bad block table, repairing
  reserved blocks), of reads and writes of the environment device, writes of
  boot images, the debugging routines, suspending, resuming and shutting down,
  in any order and for any flash type with its retry and SLC routines.
\<close>

theorem readonly_history_never_programs:
  assumes "amlnf_readonly (amlnf s) \<noteq> 0" "ce_ok s" "hk = vendor_hooks hw pins alloc ty"
    and "driver_run hw hk (chip_table hw hk (bbt_writer hw hk n)) malloc s t"
  shows "\<exists>evs. bus t = evs @ bus s \<and> list_all safe_ev evs \<and> amlnf_readonly (amlnf t) \<noteq> 0"
  using vendor_start.driver_guarded [OF assms(4) [unfolded assms(3)]] assms(1,2)
  by (auto simp: guarded_def bus_safe_def)

theorem readonly_history_never_programs_witness:
  "\<exists>hk t evs. hk = vendor_hooks demo_hw (\<lambda>_. 0) (\<lambda>_. 0) HYNIX_20NM_8GB
     \<and> driver_run demo_hw hk (chip_table demo_hw hk (bbt_writer demo_hw hk 3)) (\<lambda>_. 0) demo_nand t \<and> t \<noteq> demo_nand
     \<and> bus t = evs @ bus demo_nand \<and> list_all safe_ev evs"
proof -
  let ?hk = "vendor_hooks demo_hw (\<lambda>_. 0) (\<lambda>_. 0) HYNIX_20NM_8GB"
  let ?ct = "chip_table demo_hw ?hk (bbt_writer demo_hw ?hk 3)"
  have pins: "0 \<le> pin_select ?hk u" for u
    by (simp add: vendor_hooks_def)
  obtain t where t: "nand_write ?ct (\<lambda>_. 0) (demo_dev, demo_nand) = Some (- EROFS, set_retlen 0 demo_dev, t)"
    and n: "amlnf_refused (amlnf t) = amlnf_refused (amlnf demo_nand) + 1"
    using demo_write_refused_any [of ?hk, OF pins] by blast
  have "dev_call ?ct (\<lambda>_. 0) DevWrite (demo_dev, demo_nand) = Some (- EROFS, set_retlen 0 demo_dev, t)"
    using t by (simp only: dev_call.simps)
  then have run: "driver_run demo_hw ?hk ?ct (\<lambda>_. 0) demo_nand t"
    by (rule driver_run.on_device [OF driver_run.begins])
  have "\<exists>evs. bus t = evs @ bus demo_nand \<and> list_all safe_ev evs \<and> amlnf_readonly (amlnf t) \<noteq> 0"
    by (rule readonly_history_never_programs [OF demo_facts(2) demo_ce_ok refl run])
  moreover have "t \<noteq> demo_nand"
    using n by auto
  ultimately show ?thesis
    using run by blast
qed

end
